(* ===== verification/Js_Prelude.thy ===== *)
theory Js_Prelude
  imports Main
begin

section \<open>Effects, exceptions and shared lemmas\<close>

text \<open>
  What the components share. An asynchronous function of the program is modelled as an
  action: it is given the log of the observable events so far (requests sent, business
  events, clicks, ...) and returns the extended log together with its result, which is a
  value or a thrown exception. \<open>await\<close> of a call is \<open>act_bind\<close>; \<open>try/catch\<close> is
  \<open>act_try\<close>. Console output and log lines are not events.
\<close>

datatype js_exn =
    JsError string      \<comment> \<open>\<open>throw new Error(message)\<close>\<close>
  | JsThrown string     \<comment> \<open>\<open>throw message\<close>: a bare string is thrown\<close>
  | TypeError | RangeError | SyntaxError
  | NetworkError        \<comment> \<open>\<open>fetch\<close> rejected\<close>
  | AbortError          \<comment> \<open>\<open>fetch\<close> aborted through its signal\<close>

type_synonym ('ev, 'a) act = "'ev list \<Rightarrow> (js_exn + 'a) \<times> 'ev list"

named_theorems act_simps \<open>evaluation of actions\<close>

definition act_return :: "'a \<Rightarrow> ('ev, 'a) act" where
  "act_return x = (\<lambda>l. (Inr x, l))"

definition act_throw :: "js_exn \<Rightarrow> ('ev, 'a) act" where
  "act_throw e = (\<lambda>l. (Inl e, l))"

definition act_emit :: "'ev \<Rightarrow> ('ev, unit) act" where
  "act_emit v = (\<lambda>l. (Inr (), l @ [v]))"

text \<open>A step whose outcome is already known: a value or an exception.\<close>

definition act_of :: "js_exn + 'a \<Rightarrow> ('ev, 'a) act" where
  "act_of r = (\<lambda>l. (r, l))"

definition act_bind :: "('ev, 'a) act \<Rightarrow> ('a \<Rightarrow> ('ev, 'b) act) \<Rightarrow> ('ev, 'b) act" where
  "act_bind m f = (\<lambda>l. case m l of (Inl e, l') \<Rightarrow> (Inl e, l') | (Inr x, l') \<Rightarrow> f x l')"

abbreviation act_then :: "('ev, 'a) act \<Rightarrow> ('ev, 'b) act \<Rightarrow> ('ev, 'b) act" where
  "act_then m n \<equiv> act_bind m (\<lambda>_. n)"

definition act_try :: "('ev, 'a) act \<Rightarrow> (js_exn \<Rightarrow> ('ev, 'a) act) \<Rightarrow> ('ev, 'a) act" where
  "act_try m h = (\<lambda>l. case m l of (Inl e, l') \<Rightarrow> h e l' | (Inr x, l') \<Rightarrow> (Inr x, l'))"

lemma act_return_apply [act_simps]: "act_return x l = (Inr x, l)"
  by (simp add: act_return_def)

lemma act_throw_apply [act_simps]: "act_throw e l = (Inl e, l)"
  by (simp add: act_throw_def)

lemma act_emit_apply [act_simps]: "act_emit v l = (Inr (), l @ [v])"
  by (simp add: act_emit_def)

lemma act_of_apply [act_simps]: "act_of r l = (r, l)"
  by (simp add: act_of_def)

lemma act_bind_apply [act_simps]:
  "act_bind m f l = (case m l of (Inl e, l') \<Rightarrow> (Inl e, l') | (Inr x, l') \<Rightarrow> f x l')"
  by (simp add: act_bind_def)

lemma act_try_apply [act_simps]:
  "act_try m h l = (case m l of (Inl e, l') \<Rightarrow> h e l' | (Inr x, l') \<Rightarrow> (Inr x, l'))"
  by (simp add: act_try_def)

text \<open>Actions only ever extend the log, by events that do not depend on it.\<close>

definition logs_only :: "('ev, 'a) act \<Rightarrow> bool" where
  "logs_only m \<longleftrightarrow> (\<exists>r es. \<forall>l. m l = (r, l @ es))"

lemma logs_onlyI: "(\<And>l. m l = (r, l @ es)) \<Longrightarrow> logs_only m"
  by (auto simp: logs_only_def)

lemma logs_only_return [intro!, simp]: "logs_only (act_return x)"
  by (rule logs_onlyI [where es = "[]"]) (simp add: act_simps)

lemma logs_only_throw [intro!, simp]: "logs_only (act_throw e)"
  by (rule logs_onlyI [where es = "[]"]) (simp add: act_simps)

lemma logs_only_of [intro!, simp]: "logs_only (act_of r)"
  by (rule logs_onlyI [where es = "[]"]) (simp add: act_simps)

lemma logs_only_emit [intro!, simp]: "logs_only (act_emit v)"
  by (rule logs_onlyI) (simp add: act_simps)

lemma logs_only_bind [intro]:
  assumes "logs_only m" "\<And>x. logs_only (f x)"
  shows "logs_only (act_bind m f)"
proof -
  obtain r es where m: "\<And>l. m l = (r, l @ es)" using assms(1) by (auto simp: logs_only_def)
  show ?thesis
  proof (cases r)
    case (Inl e)
    with m show ?thesis by (intro logs_onlyI) (simp add: act_simps)
  next
    case (Inr x)
    obtain r' es' where "\<And>l. f x l = (r', l @ es')"
      using assms(2) [of x] unfolding logs_only_def by blast
    with m Inr show ?thesis
      by (intro logs_onlyI [where es = "es @ es'"]) (simp add: act_simps)
  qed
qed

lemma logs_only_try [intro]:
  assumes "logs_only m" "\<And>e. logs_only (h e)"
  shows "logs_only (act_try m h)"
proof -
  obtain r es where m: "\<And>l. m l = (r, l @ es)" using assms(1) by (auto simp: logs_only_def)
  show ?thesis
  proof (cases r)
    case (Inr x)
    with m show ?thesis by (intro logs_onlyI) (simp add: act_simps)
  next
    case (Inl e)
    obtain r' es' where "\<And>l. h e l = (r', l @ es')"
      using assms(2) [of e] unfolding logs_only_def by blast
    with m Inl show ?thesis
      by (intro logs_onlyI [where es = "es @ es'"]) (simp add: act_simps)
  qed
qed

text \<open>Synchronous code that may throw: the next step runs on the value of the last.\<close>

definition attempt :: "js_exn + 'a \<Rightarrow> ('a \<Rightarrow> js_exn + 'b) \<Rightarrow> js_exn + 'b" where
  "attempt r f = (case r of Inl e \<Rightarrow> Inl e | Inr x \<Rightarrow> f x)"

lemma attempt_simps [simp]: "attempt (Inr x) f = f x" "attempt (Inl e) f = Inl e"
  by (simp_all add: attempt_def)

text \<open>\<open>x ?? d\<close> on a value that may be \<open>undefined\<close>.\<close>

definition nullish :: "'a option \<Rightarrow> 'a \<Rightarrow> 'a" where
  "nullish v d = (case v of None \<Rightarrow> d | Some x \<Rightarrow> x)"

lemma nullish_simps [simp]: "nullish None d = d" "nullish (Some x) d = x"
  by (simp_all add: nullish_def)

text \<open>\<open>Array.prototype.find\<close>: the first element that satisfies the test, or \<open>undefined\<close>.\<close>

lemma find_Some_mem: "List.find P xs = Some x \<Longrightarrow> x \<in> set xs \<and> P x"
  by (auto simp: find_Some_iff)

end
