(* ===== verification/Js_Number.thy ===== *)
theory Js_Number
  imports Complex_Main
begin

section \<open>JavaScript numbers\<close>

text \<open>
  The number type of the language the program is written in: IEEE 754 double precision
  values. A finite value is the rational number it denotes; the arithmetic operators
  compute exactly and then round to the nearest double, ties to even, with gradual
  underflow below \<open>2 powi -1022\<close> and overflow to an infinity. The two zeros are one
  value (no operation of the modelled code divides by a negative zero).
\<close>

subsection \<open>Rounding to double precision\<close>

function bit_length :: "int \<Rightarrow> int" where
  "bit_length n = (if n \<le> 0 then 0 else 1 + bit_length (n div 2))"
  by pat_completeness auto
termination
  by (relation "measure nat") auto

declare bit_length.simps [simp del]

definition ilog2 :: "rat \<Rightarrow> int" where
  "ilog2 x =
     (let (p, q) = quotient_of x; k = bit_length p - bit_length q
      in if 2 powi k \<le> x then k else k - 1)"

definition quantum_exp :: "rat \<Rightarrow> int" where
  "quantum_exp x = max (-1074) (ilog2 \<bar>x\<bar> - 52)"

definition round_even :: "rat \<Rightarrow> int" where
  "round_even x =
     (let f = \<lfloor>x\<rfloor>; d = x - of_int f
      in if d < 1/2 then f else if 1/2 < d then f + 1 else if even f then f else f + 1)"

definition dbl :: "rat \<Rightarrow> rat" where
  "dbl x = (if x = 0 then 0
            else of_int (round_even (x / 2 powi quantum_exp x)) * 2 powi quantum_exp x)"

lemma bit_length_nonneg: "0 \<le> bit_length n"
proof (induction n rule: bit_length.induct)
  case (1 n)
  then show ?case by (cases "n \<le> 0") (simp_all add: bit_length.simps [of n])
qed

lemma bit_length_bounds:
  "0 < n \<Longrightarrow> 2 powi (bit_length n - 1) \<le> (of_int n :: rat) \<and> (of_int n :: rat) < 2 powi bit_length n"
proof (induction n rule: bit_length.induct)
  case (1 n)
  show ?case
  proof (cases "n = 1")
    case True
    have "bit_length 1 = 1" by (simp add: bit_length.simps [of 1] bit_length.simps [of 0])
    with True show ?thesis by simp
  next
    case False
    with "1.prems" have n: "\<not> n \<le> 0" "0 < n div 2" by auto
    define l where "l = bit_length (n div 2)"
    have ih: "2 powi (l - 1) \<le> (of_int (n div 2) :: rat)" "(of_int (n div 2) :: rat) < 2 powi l"
      using "1.IH" [OF n] by (auto simp: l_def)
    have l: "bit_length n = l + 1" using n by (simp add: bit_length.simps [of n] l_def)
    have "1 \<le> l" using n by (simp add: l_def bit_length.simps [of "n div 2"] bit_length_nonneg)
    then have pl: "(2::rat) powi l = of_int (2 ^ nat l)" by (simp add: power_int_def)
    have "n div 2 < 2 ^ nat l" using ih(2) by (simp only: pl of_int_less_iff)
    then have "n < 2 * 2 ^ nat l" by linarith
    then have "(of_int n :: rat) < of_int (2 * 2 ^ nat l)" by (simp only: of_int_less_iff)
    then have hi: "(of_int n :: rat) < 2 powi (l + 1)" by (simp add: power_int_add pl)
    have "2 * 2 powi (l - 1) \<le> (2 * of_int (n div 2) :: rat)" using ih(1) by simp
    also have "\<dots> = of_int (2 * (n div 2))" by simp
    also have "\<dots> \<le> of_int n" by simp
    finally have "2 powi l \<le> (of_int n :: rat)" by (simp add: power_int_diff)
    with hi l show ?thesis by simp
  qed
qed

lemma ilog2_bounds:
  assumes "0 < x"
  shows "2 powi ilog2 x \<le> x" and "x < 2 powi (ilog2 x + 1)"
proof -
  obtain p q where pq: "quotient_of x = (p, q)" by (cases "quotient_of x")
  then have q: "0 < q" and x: "x = of_int p / of_int q"
    by (auto simp: quotient_of_denom_pos quotient_of_div)
  with assms have p: "0 < p" by (simp add: zero_less_divide_iff)
  define a where "a = bit_length p"
  define b where "b = bit_length q"
  have pa: "2 powi (a - 1) \<le> (of_int p :: rat)" "(of_int p :: rat) < 2 powi a"
    using bit_length_bounds [OF p] by (auto simp: a_def)
  have qb: "2 powi (b - 1) \<le> (of_int q :: rat)" "(of_int q :: rat) < 2 powi b"
    using bit_length_bounds [OF q] by (auto simp: b_def)
  have up: "x < 2 powi (a - b + 1)"
  proof -
    have "x < 2 powi a / of_int q" using pa(2) q x by (simp add: divide_strict_right_mono)
    also have "\<dots> \<le> 2 powi a / 2 powi (b - 1)"
      using qb(1) q by (intro divide_left_mono) auto
    also have "\<dots> = 2 powi (a - (b - 1))" by (simp add: power_int_diff)
    finally show ?thesis by (simp add: algebra_simps)
  qed
  have lo: "2 powi (a - b - 1) \<le> x"
  proof -
    have "2 powi (a - b - 1) = (2::rat) powi (a - 1) / 2 powi b"
      by (simp add: power_int_diff)
    also have "\<dots> \<le> of_int p / 2 powi b" using pa(1) by (simp add: divide_right_mono)
    also have "\<dots> \<le> x" unfolding x using qb(2) q p by (intro divide_left_mono) auto
    finally show ?thesis .
  qed
  have il: "ilog2 x = (if 2 powi (a - b) \<le> x then a - b else a - b - 1)"
    by (simp add: ilog2_def pq a_def b_def)
  show "2 powi ilog2 x \<le> x" using lo by (simp add: il)
  show "x < 2 powi (ilog2 x + 1)" using up by (simp add: il)
qed

lemma powi_less_iff [simp]: "((2::rat) powi a < 2 powi b) \<longleftrightarrow> a < b"
  by (metis linorder_not_less one_less_numeral_iff power_int_increasing power_int_strict_increasing
      one_le_numeral semiring_norm(76))

lemma powi_le_iff [simp]: "((2::rat) powi a \<le> 2 powi b) \<longleftrightarrow> a \<le> b"
  by (meson linorder_not_less powi_less_iff)

lemma ilog2_unique:
  assumes "2 powi k \<le> x" "x < 2 powi (k + 1)"
  shows "ilog2 x = k"
proof -
  have "0 < x" using assms(1) by (meson less_le_trans zero_less_power_int zero_less_numeral)
  note b = ilog2_bounds [OF this]
  have "(2::rat) powi ilog2 x < 2 powi (k + 1)" using b(1) assms(2) by (rule le_less_trans)
  then have "ilog2 x < k + 1" by (simp only: powi_less_iff)
  moreover have "(2::rat) powi k < 2 powi (ilog2 x + 1)" using assms(1) b(2) by (rule le_less_trans)
  then have "k < ilog2 x + 1" by (simp only: powi_less_iff)
  ultimately show ?thesis by simp
qed

lemma ilog2_mono: "0 < x \<Longrightarrow> x \<le> y \<Longrightarrow> ilog2 x \<le> ilog2 y"
proof -
  assume "0 < x" "x \<le> y"
  then have "(2::rat) powi ilog2 x < 2 powi (ilog2 y + 1)"
    using ilog2_bounds [of x] ilog2_bounds [of y] by (meson le_less_trans order_trans less_le_trans)
  then show ?thesis by (simp only: powi_less_iff)
qed

lemma round_even_bounds: "of_int (round_even x) - 1/2 \<le> x" "x \<le> of_int (round_even x) + 1/2"
  unfolding round_even_def Let_def by (auto; linarith)+

lemma round_even_int [simp]: "round_even (of_int n) = n"
  by (simp add: round_even_def)

lemma round_even_mono: "x \<le> y \<Longrightarrow> round_even x \<le> round_even y"
proof (cases "\<lfloor>x\<rfloor> = \<lfloor>y\<rfloor>")
  case True
  assume "x \<le> y"
  with True show ?thesis unfolding round_even_def Let_def by auto
next
  case False
  assume "x \<le> y"
  with False have "\<lfloor>x\<rfloor> + 1 \<le> \<lfloor>y\<rfloor>" by (meson floor_mono order_le_imp_less_or_eq zless_imp_add1_zle)
  moreover have "round_even x \<le> \<lfloor>x\<rfloor> + 1" "\<lfloor>y\<rfloor> \<le> round_even y"
    unfolding round_even_def Let_def by auto
  ultimately show ?thesis by linarith
qed

lemma round_even_minus: "round_even (- x) = - round_even x"
proof (cases "of_int \<lfloor>x\<rfloor> = x")
  case True
  then show ?thesis by (metis of_int_minus round_even_int)
next
  case False
  then have f: "\<lfloor>- x\<rfloor> = - \<lfloor>x\<rfloor> - 1" by linarith
  show ?thesis unfolding round_even_def Let_def f by (auto simp: algebra_simps)
qed

lemma quantum_exp_minus [simp]: "quantum_exp (- x) = quantum_exp x"
  by (simp add: quantum_exp_def)

lemma dbl_0 [simp]: "dbl 0 = 0"
  by (simp add: dbl_def)

lemma dbl_minus: "dbl (- x) = - dbl x"
  using round_even_minus [of "x / 2 powi quantum_exp x"] by (simp add: dbl_def)

lemma dbl_error_quantum: "\<bar>dbl x - x\<bar> \<le> 2 powi quantum_exp x / 2"
proof (cases "x = 0")
  case False
  define q :: rat where "q = 2 powi quantum_exp x"
  have q: "0 < q" by (simp add: q_def)
  have d: "dbl x - x = (of_int (round_even (x / q)) - x / q) * q"
    using False q by (simp add: dbl_def q_def [symmetric] left_diff_distrib)
  have "\<bar>of_int (round_even (x / q)) - x / q\<bar> \<le> 1 / 2"
    using round_even_bounds [of "x / q"] by linarith
  then have "\<bar>of_int (round_even (x / q)) - x / q\<bar> * q \<le> 1 / 2 * q"
    using q by (intro mult_right_mono) auto
  then show ?thesis using q by (simp add: d abs_mult q_def)
qed simp

lemma dbl_error:
  assumes "2 powi -1022 \<le> \<bar>x\<bar>"
  shows "\<bar>dbl x - x\<bar> \<le> \<bar>x\<bar> * 2 powi -53"
proof -
  have pos: "0 < \<bar>x\<bar>" using assms by (meson less_le_trans zero_less_numeral zero_less_power_int)
  note b = ilog2_bounds [OF pos]
  have "(2::rat) powi -1022 < 2 powi (ilog2 \<bar>x\<bar> + 1)" using assms b(2) by (rule le_less_trans)
  then have q: "quantum_exp x = ilog2 \<bar>x\<bar> - 52"
    by (simp only: powi_less_iff quantum_exp_def)
  have "(2::rat) powi (ilog2 \<bar>x\<bar> - 52) / 2 = 2 powi ilog2 \<bar>x\<bar> * 2 powi -53"
    by (simp add: power_int_diff power_int_minus)
  also have "\<dots> \<le> \<bar>x\<bar> * 2 powi -53" using b(1) by (intro mult_right_mono) auto
  finally show ?thesis using dbl_error_quantum [of x] q by simp
qed

lemma dbl_mono_pos:
  assumes "0 < x" "x \<le> y"
  shows "dbl x \<le> dbl y"
proof -
  have y: "0 < y" using assms by simp
  let ?a = "quantum_exp x" and ?b = "quantum_exp y"
  have ab: "?a \<le> ?b" using ilog2_mono [OF assms] assms y by (simp add: quantum_exp_def)
  show ?thesis
  proof (cases "?a = ?b")
    case True
    have "round_even (x / 2 powi ?b) \<le> round_even (y / 2 powi ?b)"
      using assms(2) by (intro round_even_mono divide_right_mono) auto
    then show ?thesis using assms(1) y True by (simp add: dbl_def)
  next
    case False
    with ab have less: "?a < ?b" by simp
    then have b: "?b = ilog2 y - 52" using y by (auto simp: quantum_exp_def max_def split: if_splits)
    have "(2::rat) ^ 52 = 2 powi (?b + 52) / 2 powi ?b" by (simp add: power_int_add)
    also have "\<dots> \<le> y / 2 powi ?b"
      using ilog2_bounds(1) [OF y] b by (intro divide_right_mono) auto
    finally have "round_even (of_int (2 ^ 52)) \<le> round_even (y / 2 powi ?b)"
      by (intro round_even_mono) simp
    then have hi: "(2::rat) ^ 52 \<le> of_int (round_even (y / 2 powi ?b))"
      by (metis round_even_int of_int_le_iff of_int_numeral of_int_power)
    have "ilog2 x + 1 \<le> ?a + 53" using assms(1) by (simp add: quantum_exp_def)
    then have "(2::rat) powi (ilog2 x + 1) \<le> 2 powi (?a + 53)" by (simp only: powi_le_iff)
    then have "x \<le> 2 powi (?a + 53)" using ilog2_bounds(2) [OF assms(1)] by linarith
    then have "x / 2 powi ?a \<le> 2 powi (?a + 53) / 2 powi ?a" by (intro divide_right_mono) auto
    also have "\<dots> = 2 ^ 53" by (simp add: power_int_add)
    finally have "round_even (x / 2 powi ?a) \<le> round_even (of_int (2 ^ 53))"
      by (intro round_even_mono) simp
    then have lo: "of_int (round_even (x / 2 powi ?a)) \<le> (2::rat) ^ 53"
      by (metis round_even_int of_int_le_iff of_int_numeral of_int_power)
    have "dbl x \<le> 2 ^ 53 * 2 powi ?a"
      using lo assms(1) unfolding dbl_def by (simp add: mult_right_mono)
    also have "\<dots> = 2 ^ 52 * 2 powi (?a + 1)" by (simp add: power_int_add)
    also have "\<dots> \<le> 2 ^ 52 * 2 powi ?b"
      using less by (intro mult_left_mono) (auto simp del: power_int_add)
    also have "\<dots> \<le> dbl y" using hi y unfolding dbl_def by (simp add: mult_right_mono)
    finally show ?thesis .
  qed
qed

lemma dbl_nonneg: "0 \<le> x \<Longrightarrow> 0 \<le> dbl x"
proof (cases "x = 0")
  case False
  assume "0 \<le> x"
  then have "round_even 0 \<le> round_even (x / 2 powi quantum_exp x)"
    by (intro round_even_mono) simp
  then show ?thesis using round_even_int [of 0] by (simp add: dbl_def)
qed simp

theorem dbl_mono: "x \<le> y \<Longrightarrow> dbl x \<le> dbl y"
proof -
  assume xy: "x \<le> y"
  consider "0 < x" | "x \<le> 0" "0 \<le> y" | "y < 0" by linarith
  then show ?thesis
  proof cases
    case 1
    then show ?thesis using xy by (rule dbl_mono_pos)
  next
    case 2
    then show ?thesis using dbl_nonneg [of y] dbl_nonneg [of "- x"] by (simp add: dbl_minus)
  next
    case 3
    then show ?thesis using xy dbl_mono_pos [of "- y" "- x"] by (simp add: dbl_minus)
  qed
qed

lemma powi_nat: "0 \<le> k \<Longrightarrow> (2::rat) powi k = of_int (2 ^ nat k)"
  by (simp add: power_int_def)

lemma dbl_of_int:
  assumes "\<bar>n\<bar> \<le> 2 ^ 53"
  shows "dbl (of_int n) = of_int n"
proof (cases "n = 0")
  case False
  let ?x = "of_int n :: rat" let ?e = "quantum_exp ?x"
  have "\<exists>m. ?x / 2 powi ?e = of_int m"
  proof (cases "?e \<le> 0")
    case True
    then have "?x / 2 powi ?e = of_int (n * 2 ^ nat (- ?e))"
      using powi_nat [of "- ?e"] by (simp add: power_int_minus field_simps)
    then show ?thesis by blast
  next
    case e: False
    have pos: "0 < \<bar>?x\<bar>" using False by simp
    have "52 < ilog2 \<bar>?x\<bar>" using e by (simp add: quantum_exp_def)
    then have "(2::rat) powi 53 \<le> 2 powi ilog2 \<bar>?x\<bar>" by (simp only: powi_le_iff)
    then have ge: "(2::rat) powi 53 \<le> \<bar>?x\<bar>"
      using ilog2_bounds(1) [OF pos] by (rule order_trans)
    have le: "\<bar>?x\<bar> \<le> 2 ^ 53"
      using assms by (metis of_int_abs of_int_le_iff of_int_numeral of_int_power)
    with ge have x: "\<bar>?x\<bar> = 2 ^ 53" by simp
    then have "ilog2 \<bar>?x\<bar> = 53" by (intro ilog2_unique) auto
    then have e1: "?e = 1" by (simp add: quantum_exp_def)
    have "\<bar>n\<bar> = 2 ^ 53" using x by (metis of_int_abs of_int_eq_iff of_int_numeral of_int_power)
    then have "n = 2 * 2 ^ 52 \<or> n = 2 * - (2 ^ 52)" by (simp add: abs_if split: if_splits)
    then obtain m where "n = 2 * m" by blast
    then have "?x / 2 = of_int m" by simp
    moreover have "?x / 2 powi ?e = ?x / 2" unfolding e1 by simp
    ultimately show ?thesis by auto
  qed
  then obtain m where m: "?x / 2 powi ?e = of_int m" by blast
  then have "?x = of_int m * 2 powi ?e" by (simp add: field_simps)
  then show ?thesis using False m by (simp add: dbl_def)
qed simp

subsection \<open>The number type and its operators\<close>

datatype jsnum = NaN | PInf | NInf | Fin rat

definition to_js :: "rat \<Rightarrow> jsnum" where
  "to_js x = (let r = dbl x in if 2 ^ 1024 \<le> r then PInf else if r \<le> - (2 ^ 1024) then NInf else Fin r)"

text \<open>The doubles among the finite values, and literals of integers.\<close>

definition is_double :: "rat \<Rightarrow> bool" where
  "is_double x \<longleftrightarrow> dbl x = x \<and> \<bar>x\<bar> < 2 ^ 1024"

abbreviation js_int :: "int \<Rightarrow> jsnum" where
  "js_int n \<equiv> Fin (of_int n)"

fun js_mul :: "jsnum \<Rightarrow> jsnum \<Rightarrow> jsnum" where
  "js_mul (Fin x) (Fin y) = to_js (x * y)"
| "js_mul NaN _ = NaN"
| "js_mul _ NaN = NaN"
| "js_mul (Fin x) PInf = (if x = 0 then NaN else if 0 < x then PInf else NInf)"
| "js_mul (Fin x) NInf = (if x = 0 then NaN else if 0 < x then NInf else PInf)"
| "js_mul PInf (Fin y) = (if y = 0 then NaN else if 0 < y then PInf else NInf)"
| "js_mul NInf (Fin y) = (if y = 0 then NaN else if 0 < y then NInf else PInf)"
| "js_mul PInf PInf = PInf"
| "js_mul NInf NInf = PInf"
| "js_mul PInf NInf = NInf"
| "js_mul NInf PInf = NInf"

fun js_add :: "jsnum \<Rightarrow> jsnum \<Rightarrow> jsnum" where
  "js_add (Fin x) (Fin y) = to_js (x + y)"
| "js_add NaN _ = NaN"
| "js_add _ NaN = NaN"
| "js_add PInf NInf = NaN"
| "js_add NInf PInf = NaN"
| "js_add PInf _ = PInf"
| "js_add _ PInf = PInf"
| "js_add NInf _ = NInf"
| "js_add _ NInf = NInf"

fun js_neg :: "jsnum \<Rightarrow> jsnum" where
  "js_neg NaN = NaN"
| "js_neg PInf = NInf"
| "js_neg NInf = PInf"
| "js_neg (Fin x) = Fin (- x)"

definition js_sub :: "jsnum \<Rightarrow> jsnum \<Rightarrow> jsnum" where
  "js_sub a b = js_add a (js_neg b)"

fun js_div :: "jsnum \<Rightarrow> jsnum \<Rightarrow> jsnum" where
  "js_div (Fin x) (Fin y) =
     (if y = 0 then (if x = 0 then NaN else if 0 < x then PInf else NInf) else to_js (x / y))"
| "js_div NaN _ = NaN"
| "js_div _ NaN = NaN"
| "js_div (Fin x) _ = Fin 0"
| "js_div PInf (Fin y) = (if y < 0 then NInf else PInf)"
| "js_div NInf (Fin y) = (if y < 0 then PInf else NInf)"
| "js_div _ _ = NaN"

text \<open>Comparisons with \<open>NaN\<close> are false, whichever way they are written.\<close>

fun js_le :: "jsnum \<Rightarrow> jsnum \<Rightarrow> bool" where
  "js_le (Fin x) (Fin y) = (x \<le> y)"
| "js_le NaN _ = False"
| "js_le _ NaN = False"
| "js_le NInf _ = True"
| "js_le _ PInf = True"
| "js_le PInf _ = False"
| "js_le _ NInf = False"

definition js_lt :: "jsnum \<Rightarrow> jsnum \<Rightarrow> bool" where
  "js_lt a b \<longleftrightarrow> js_le a b \<and> \<not> js_le b a"

text \<open>\<open>a === b\<close> on numbers.\<close>

definition js_num_eq :: "jsnum \<Rightarrow> jsnum \<Rightarrow> bool" where
  "js_num_eq a b \<longleftrightarrow> a = b \<and> a \<noteq> NaN"

fun js_floor :: "jsnum \<Rightarrow> jsnum" where
  "js_floor (Fin x) = js_int \<lfloor>x\<rfloor>"
| "js_floor a = a"

fun js_ceil :: "jsnum \<Rightarrow> jsnum" where
  "js_ceil (Fin x) = js_int \<lceil>x\<rceil>"
| "js_ceil a = a"

text \<open>\<open>Math.max\<close> and \<open>Math.min\<close> of two numbers: \<open>NaN\<close> if either is.\<close>

definition js_max :: "jsnum \<Rightarrow> jsnum \<Rightarrow> jsnum" where
  "js_max a b = (if a = NaN \<or> b = NaN then NaN else if js_le a b then b else a)"

definition js_min :: "jsnum \<Rightarrow> jsnum \<Rightarrow> jsnum" where
  "js_min a b = (if a = NaN \<or> b = NaN then NaN else if js_le a b then a else b)"

lemma js_le_refl: "a \<noteq> NaN \<Longrightarrow> js_le a a"
  by (cases a) auto

lemma js_le_trans: "js_le a b \<Longrightarrow> js_le b c \<Longrightarrow> js_le a c"
  by (cases a; cases b; cases c) auto

lemma js_le_total: "a \<noteq> NaN \<Longrightarrow> b \<noteq> NaN \<Longrightarrow> js_le a b \<or> js_le b a"
  by (cases a; cases b) auto

lemma js_le_NaN [simp]: "\<not> js_le NaN a" "\<not> js_le a NaN"
  by (cases a; simp)+

lemma js_lt_NaN [simp]: "\<not> js_lt NaN a" "\<not> js_lt a NaN"
  by (simp_all add: js_lt_def)

lemma js_lt_Fin [simp]: "js_lt (Fin x) (Fin y) \<longleftrightarrow> x < y"
  by (auto simp: js_lt_def)

lemma to_js_double [simp]: "is_double x \<Longrightarrow> to_js x = Fin x"
  by (auto simp: is_double_def to_js_def Let_def abs_less_iff)

lemma is_double_0 [simp]: "is_double 0"
  by (simp add: is_double_def)

lemma is_double_of_int: "\<bar>n\<bar> \<le> 2 ^ 53 \<Longrightarrow> is_double (of_int n)"
proof -
  assume n: "\<bar>n\<bar> \<le> 2 ^ 53"
  have "\<bar>of_int n :: rat\<bar> \<le> 2 ^ 53"
    using n by (metis of_int_abs of_int_le_iff of_int_numeral of_int_power)
  also have "(2::rat) ^ 53 < 2 ^ 1024" by (intro power_strict_increasing) auto
  finally show ?thesis using n by (simp add: is_double_def dbl_of_int)
qed

lemma to_js_of_int: "\<bar>n\<bar> \<le> 2 ^ 53 \<Longrightarrow> to_js (of_int n) = js_int n"
  by (simp add: is_double_of_int)

lemma to_js_NaN [simp]: "to_js x \<noteq> NaN"
  by (simp add: to_js_def Let_def)

text \<open>Rounding keeps the order of the exact results, so \<open>js_le\<close> may be read off them.\<close>

lemma to_js_mono: "x \<le> y \<Longrightarrow> js_le (to_js x) (to_js y)"
  using dbl_mono [of x y] by (auto simp: to_js_def Let_def)

lemma to_js_le_double: "is_double y \<Longrightarrow> x \<le> y \<Longrightarrow> js_le (to_js x) (Fin y)"
  using to_js_mono [of x y] by simp

lemma to_js_ge_double: "is_double x \<Longrightarrow> x \<le> y \<Longrightarrow> js_le (Fin x) (to_js y)"
  using to_js_mono [of x y] by simp

text \<open>The relative error of a rounded result.\<close>

lemma to_js_rel:
  assumes "2 powi -1022 \<le> x" "x \<le> 2 ^ 1023"
  obtains y where "to_js x = Fin y" "x * (1 - 2 powi -53) \<le> y" "y \<le> x * (1 + 2 powi -53)"
proof -
  have x: "0 < x" using assms(1) by (rule less_le_trans [rotated]) simp
  have e: "\<bar>dbl x - x\<bar> \<le> x * 2 powi -53" using dbl_error [of x] assms x by simp
  then have lo: "x * (1 - 2 powi -53) \<le> dbl x" and hi: "dbl x \<le> x * (1 + 2 powi -53)"
    by (simp_all only: distrib_left right_diff_distrib abs_le_iff) linarith+
  have "x * (1 + 2 powi -53) \<le> 2 ^ 1023 * (1 + 2 powi -53)"
    using assms(2) by (intro mult_right_mono) simp_all
  also have "\<dots> < 2 ^ 1024" by (simp add: power_int_minus)
  finally have "dbl x < 2 ^ 1024" using hi by simp
  moreover have "- (2 ^ 1024) < dbl x" using dbl_nonneg [of x] x by (simp add: less_le_trans [rotated])
  ultimately have "to_js x = Fin (dbl x)" by (simp add: to_js_def Let_def)
  with lo hi show thesis by (intro that)
qed

text \<open>The same with a round error bound, on the magnitudes that prices have.\<close>

lemma to_js_near:
  assumes "1 / 10 ^ 6 \<le> x" "x \<le> 10 ^ 18"
  obtains y where "to_js x = Fin y" "x * (1 - 1 / 10 ^ 6) \<le> y" "y \<le> x * (1 + 1 / 10 ^ 6)"
proof -
  have "(2::rat) powi -1022 \<le> 2 powi -20" by (simp only: powi_le_iff)
  also have "\<dots> \<le> 1 / 10 ^ 6" by (simp add: power_int_minus)
  finally have "2 powi -1022 \<le> x" using assms(1) by simp
  moreover have "x \<le> 2 ^ 1023" using assms(2) by (rule order_trans) simp
  ultimately obtain y where y: "to_js x = Fin y" "x * (1 - 2 powi -53) \<le> y" "y \<le> x * (1 + 2 powi -53)"
    by (rule to_js_rel)
  have x: "0 \<le> x" using assms(1) by (rule order_trans [rotated]) simp
  have "(2::rat) powi -53 \<le> 1 / 10 ^ 6" by (simp add: power_int_minus)
  then have "x * (1 - 1 / 10 ^ 6) \<le> x * (1 - 2 powi -53)" "x * (1 + 2 powi -53) \<le> x * (1 + 1 / 10 ^ 6)"
    using x by (intro mult_left_mono; simp)+
  with y show thesis by (intro that [of y]) linarith+
qed

subsection \<open>Random indices\<close>

text \<open>
  What \<open>Math.random()\<close> may return: a double that is at least 0 and less than 1. The idiom
  \<open>Math.floor(Math.random() * n)\<close> is then an index below \<open>n\<close>: no product rounds up to
  \<open>n\<close> itself.
\<close>

definition unit_double :: "rat \<Rightarrow> bool" where
  "unit_double r \<longleftrightarrow> is_double r \<and> 0 \<le> r \<and> r < 1"

definition rand_index :: "rat \<Rightarrow> nat \<Rightarrow> nat" where
  "rand_index r n = nat \<lfloor>dbl (r * of_nat n)\<rfloor>"

lemma unit_double_le: "unit_double r \<Longrightarrow> r \<le> 1 - 2 powi -53"
proof (rule ccontr)
  assume r: "unit_double r" and "\<not> r \<le> 1 - 2 powi -53"
  then have lo: "1 - 2 powi -53 < r" and hi: "r < 1" by (auto simp: unit_double_def)
  have half: "(2::rat) powi -1 \<le> 1 - 2 powi -53" by (simp add: power_int_minus)
  then have "0 < r" using lo by (simp add: power_int_minus)
  have "ilog2 r = -1" using half lo hi by (intro ilog2_unique) auto
  then have q: "quantum_exp r = -53" using \<open>0 < r\<close> by (simp add: quantum_exp_def)
  define m where "m = round_even (r / 2 powi -53)"
  have "r = of_int m * 2 powi -53"
    using r \<open>0 < r\<close> q by (simp add: unit_double_def is_double_def dbl_def m_def)
  then have m: "of_int m = r * 2 ^ 53" by (simp add: power_int_minus field_simps)
  have "(1 - 2 powi -53) * 2 ^ 53 = (2::rat) ^ 53 - 1" by (simp add: power_int_minus field_simps)
  moreover have "(1 - 2 powi -53) * 2 ^ 53 < (of_int m :: rat)" using lo m by simp
  ultimately have "of_int (2 ^ 53 - 1) < (of_int m :: rat)" by simp
  moreover have "(of_int m :: rat) < of_int (2 ^ 53)" using hi m by simp
  ultimately show False by (simp only: of_int_less_iff)
qed

lemma rand_index_less:
  assumes "unit_double r" "0 < n" "n \<le> 2 ^ 53"
  shows "rand_index r n < n"
proof -
  define x :: rat where "x = of_nat n - of_nat n * 2 powi -53"
  have n1: "(1::rat) \<le> of_nat n" using assms(2) by simp
  have u: "(2::rat) powi -53 \<le> 1 / 2" by (simp add: power_int_minus)
  have xn: "x < of_nat n" using n1 by (simp add: x_def)
  have "1 / 2 * (of_nat n :: rat) \<le> x"
    using mult_left_mono [OF u, of "of_nat n :: rat"] n1 by (simp add: x_def algebra_simps)
  then have x: "1 / 2 \<le> x" using n1 by linarith
  then have pos: "0 < x" by simp
  have rx: "r * of_nat n \<le> x"
    using mult_right_mono [OF unit_double_le [OF assms(1)], of "of_nat n"] by (simp add: x_def algebra_simps)
  have "(2::rat) powi -1 < 2 powi (ilog2 x + 1)"
    using x ilog2_bounds(2) [OF pos] by (simp add: power_int_minus)
  then have "-1 < ilog2 x + 1" by (simp only: powi_less_iff)
  then have q: "quantum_exp x = ilog2 x - 52" using pos by (simp add: quantum_exp_def)
  have half: "(2::rat) powi quantum_exp x / 2 = 2 powi ilog2 x * 2 powi -53"
    by (simp add: q power_int_diff power_int_minus)
  have "dbl x < of_nat n"
  proof (rule ccontr)
    assume "\<not> dbl x < of_nat n"
    then have "of_nat n * 2 powi -53 \<le> dbl x - x" by (simp add: x_def)
    also have "\<dots> \<le> 2 powi ilog2 x * 2 powi -53"
      using order_trans [OF abs_ge_self dbl_error_quantum [of x]] by (simp only: half)
    finally have "of_nat n \<le> (2::rat) powi ilog2 x" by simp
    then show False using ilog2_bounds(1) [OF pos] xn by simp
  qed
  then have "dbl (r * of_nat n) < of_nat n" using dbl_mono [OF rx] by simp
  then have "\<lfloor>dbl (r * of_nat n)\<rfloor> < int n" by (simp add: floor_less_iff)
  then show ?thesis using assms(2) by (simp add: rand_index_def nat_less_iff)
qed

lemma unit_double_simps [simp]: "unit_double 0" "unit_double (1/2)"
proof -
  have "ilog2 (1/2) = -1" by (rule ilog2_unique) (simp_all add: power_int_minus)
  moreover have "round_even (4503599627370496 :: rat) = 4503599627370496"
    using round_even_int [of 4503599627370496] by simp
  ultimately show "unit_double (1/2)"
    by (simp add: unit_double_def is_double_def dbl_def quantum_exp_def power_int_minus)
qed (simp add: unit_double_def)

end
