(* ===== verification/Js_Text.thy ===== *)
theory Js_Text
  imports Js_Prelude Js_Number "HOL-Library.Sublist"
begin

section \<open>JavaScript strings\<close>

text \<open>
  The string operations the program uses, on lists of characters: decimal printing of
  integers, \<open>Number(s)\<close> on decimal literals, \<open>includes\<close>, \<open>indexOf\<close>,
  \<open>toLowerCase\<close>, \<open>toUpperCase\<close>, \<open>split\<close> on one character and \<open>join\<close>.
  Letters are ASCII letters.
\<close>

subsection \<open>Printing integers\<close>

definition digit_char :: "nat \<Rightarrow> char" where
  "digit_char d = char_of (48 + d)"

fun nat_str :: "nat \<Rightarrow> string" where
  "nat_str n = (if n < 10 then [digit_char n] else nat_str (n div 10) @ [digit_char (n mod 10)])"

declare nat_str.simps [simp del]

text \<open>\<open>n.toString()\<close> and \<open>`${n}`\<close> for an integer below \<open>10 ^ 21\<close>.\<close>

definition int_str :: "int \<Rightarrow> string" where
  "int_str n = (if n < 0 then CHR ''-'' # nat_str (nat (- n)) else nat_str (nat n))"

definition is_digit :: "char \<Rightarrow> bool" where
  "is_digit c \<longleftrightarrow> 48 \<le> (of_char c :: nat) \<and> (of_char c :: nat) \<le> 57"

definition digit_val :: "char \<Rightarrow> nat" where
  "digit_val c = of_char c - 48"

definition digits_val :: "string \<Rightarrow> nat" where
  "digits_val s = foldl (\<lambda>a c. 10 * a + digit_val c) 0 s"

lemma digit_char_simps [simp]:
  "d < 10 \<Longrightarrow> is_digit (digit_char d)" "d < 10 \<Longrightarrow> digit_val (digit_char d) = d"
  by (simp_all add: is_digit_def digit_char_def digit_val_def)

lemma digits_val_snoc [simp]: "digits_val (s @ [c]) = 10 * digits_val s + digit_val c"
  by (simp add: digits_val_def)

lemma digits_val_Nil [simp]: "digits_val [] = 0"
  by (simp add: digits_val_def)

lemma nat_str_nonempty [simp]: "nat_str n \<noteq> []"
  by (subst nat_str.simps) simp

lemma nat_str_digits: "list_all is_digit (nat_str n)"
proof (induction n rule: nat_str.induct)
  case (1 n)
  then show ?case by (cases "n < 10") (simp_all add: nat_str.simps [of n])
qed

lemma digits_val_nat_str: "digits_val (nat_str n) = n"
proof (induction n rule: nat_str.induct)
  case (1 n)
  show ?case
  proof (cases "n < 10")
    case True
    then show ?thesis using digits_val_snoc [of "[]"] by (simp add: nat_str.simps [of n])
  next
    case False
    then have "digits_val (nat_str n) = 10 * (n div 10) + n mod 10"
      by (simp add: nat_str.simps [of n] "1")
    then show ?thesis by simp
  qed
qed

lemma nat_str_inj: "nat_str m = nat_str n \<Longrightarrow> m = n"
  by (metis digits_val_nat_str)

subsection \<open>Reading numbers\<close>

text \<open>
  \<open>Number(s)\<close>: white space around the literal is dropped, the empty string is 0, a
  signed decimal literal with optional fraction and exponent is its value rounded to a
  double, \<open>Infinity\<close> is read, unsigned literals in base 16, 8 and 2 are read, and
  everything else is \<open>NaN\<close>.
\<close>

definition is_space :: "char \<Rightarrow> bool" where
  "is_space c \<longleftrightarrow> (of_char c :: nat) \<in> {9, 10, 11, 12, 13, 32}"

definition trim :: "string \<Rightarrow> string" where
  "trim s = rev (dropWhile is_space (rev (dropWhile is_space s)))"

definition all_digits :: "string \<Rightarrow> bool" where
  "all_digits s \<longleftrightarrow> s \<noteq> [] \<and> list_all is_digit s"

definition read_exponent :: "string \<Rightarrow> int option" where
  "read_exponent s =
     (case s of
        [] \<Rightarrow> Some 0
      | c # t \<Rightarrow>
          if c \<in> {CHR ''e'', CHR ''E''} then
            (case t of
               [] \<Rightarrow> None
             | d # u \<Rightarrow>
                 if d = CHR ''-'' then (if all_digits u then Some (- int (digits_val u)) else None)
                 else if d = CHR ''+'' then (if all_digits u then Some (int (digits_val u)) else None)
                 else if all_digits t then Some (int (digits_val t)) else None)
          else None)"

text \<open>The value of an unsigned decimal literal, before rounding.\<close>

definition read_decimal :: "string \<Rightarrow> rat option" where
  "read_decimal s =
     (let ip = takeWhile is_digit s; r = dropWhile is_digit s;
          (fp, r') = (case r of
              c # t \<Rightarrow> if c = CHR ''.'' then (takeWhile is_digit t, dropWhile is_digit t) else ([], r)
            | [] \<Rightarrow> ([], []))
      in if ip = [] \<and> fp = [] then None
         else map_option (\<lambda>e. of_nat (digits_val (ip @ fp)) * 10 powi (e - int (length fp)))
                (read_exponent r'))"

definition hex_val :: "char \<Rightarrow> nat option" where
  "hex_val c =
     (let n = of_char c in
      if 48 \<le> n \<and> n \<le> 57 then Some (n - 48)
      else if 97 \<le> n \<and> n \<le> 102 then Some (n - 87)
      else if 65 \<le> n \<and> n \<le> 70 then Some (n - 55) else None)"

fun read_base :: "nat \<Rightarrow> nat \<Rightarrow> string \<Rightarrow> nat option" where
  "read_base b acc [] = Some acc"
| "read_base b acc (c # s) =
     (case hex_val c of
        None \<Rightarrow> None
      | Some d \<Rightarrow> if d < b then read_base b (b * acc + d) s else None)"

definition read_unsigned :: "string \<Rightarrow> jsnum" where
  "read_unsigned s =
     (if s = ''Infinity'' then PInf
      else case read_decimal s of None \<Rightarrow> NaN | Some x \<Rightarrow> to_js x)"

definition js_Number :: "string \<Rightarrow> jsnum" where
  "js_Number str =
     (let s = trim str in
      case s of
        [] \<Rightarrow> Fin 0
      | c # t \<Rightarrow>
          if c = CHR ''-'' then js_neg (read_unsigned t)
          else if c = CHR ''+'' then read_unsigned t
          else if c = CHR ''0'' \<and> 2 \<le> length t \<and> hd t \<in> set ''xXoObB'' then
            (let b = (if hd t \<in> set ''xX'' then 16 else if hd t \<in> set ''oO'' then 8 else 2)
             in case read_base b 0 (tl t) of None \<Rightarrow> NaN | Some n \<Rightarrow> to_js (of_nat n))
          else read_unsigned s)"

lemma is_digit_not_space: "is_digit c \<Longrightarrow> \<not> is_space c"
  by (auto simp: is_digit_def is_space_def)

lemma trim_id: "list_all (\<lambda>c. \<not> is_space c) s \<Longrightarrow> trim s = s"
proof -
  assume a: "list_all (\<lambda>c. \<not> is_space c) s"
  have drop: "dropWhile is_space t = t" if "list_all (\<lambda>c. \<not> is_space c) t" for t
    using that by (cases t) auto
  show ?thesis using drop [OF a] drop [of "rev s"] a by (simp add: trim_def)
qed

lemma list_all_digit_takeWhile:
  "list_all is_digit s \<Longrightarrow> takeWhile is_digit s = s \<and> dropWhile is_digit s = []"
  by (induction s) auto

lemma read_decimal_digits:
  "all_digits s \<Longrightarrow> read_decimal s = Some (of_nat (digits_val s))"
  by (simp add: read_decimal_def all_digits_def list_all_digit_takeWhile read_exponent_def)

lemma all_digits_nat_str [simp]: "all_digits (nat_str n)"
  by (simp add: all_digits_def nat_str_digits)

lemma read_unsigned_digits: "all_digits s \<Longrightarrow> read_unsigned s = to_js (of_nat (digits_val s))"
proof -
  assume s: "all_digits s"
  moreover have "\<not> list_all is_digit ''Infinity''" by (simp add: is_digit_def)
  ultimately have "s \<noteq> ''Infinity''" by (auto simp: all_digits_def)
  with s show ?thesis by (simp add: read_unsigned_def read_decimal_digits)
qed

lemma read_unsigned_nat_str: "read_unsigned (nat_str n) = to_js (of_nat n)"
  by (simp add: read_unsigned_digits digits_val_nat_str)

lemma digits_no_prefix:
  assumes "list_all is_digit s"
  shows "\<not> (2 \<le> length s \<and> hd (tl s) \<in> set ''xXoObB'')"
proof
  assume a: "2 \<le> length s \<and> hd (tl s) \<in> set ''xXoObB''"
  then obtain c d t where "s = c # d # t" by (cases s; cases "tl s") auto
  with assms a show False by (auto simp: is_digit_def)
qed

lemma js_Number_digits:
  assumes "all_digits s"
  shows "js_Number s = to_js (of_nat (digits_val s))"
proof -
  have d: "list_all is_digit s" using assms by (simp add: all_digits_def)
  then have t: "trim s = s"
    by (intro trim_id) (auto simp: list_all_iff is_digit_not_space)
  obtain c u where cu: "s = c # u" using assms by (cases s) (auto simp: all_digits_def)
  with d have c: "is_digit c" by simp
  have "c \<noteq> CHR ''-''" "c \<noteq> CHR ''+''" using c by (auto simp: is_digit_def)
  moreover have "\<not> (2 \<le> length u \<and> hd u \<in> set ''xXoObB'')"
    using digits_no_prefix [OF d] cu by (cases u) auto
  ultimately show ?thesis
    using read_unsigned_digits [OF assms] t unfolding cu by (auto simp: js_Number_def Let_def)
qed

lemma js_Number_nat_str: "js_Number (nat_str n) = to_js (of_nat n)"
  by (simp add: js_Number_digits digits_val_nat_str)

text \<open>
  An integer that a double holds exactly survives being printed and read back. The program
  does this with every account and instrument id: \<open>id.toString()\<close> when it is loaded and
  \<open>Number(id)\<close> when it is sent again.
\<close>

theorem js_Number_int_str:
  assumes "\<bar>n\<bar> \<le> 2 ^ 53"
  shows "js_Number (int_str n) = js_int n"
proof (cases "n < 0")
  case False
  then show ?thesis
    using to_js_of_int [OF assms] by (simp add: int_str_def js_Number_nat_str)
next
  case True
  define k where "k = nat (- n)"
  have nk: "n = - int k" using True by (simp add: k_def)
  have "list_all (\<lambda>c. \<not> is_space c) (nat_str k)"
    using nat_str_digits [of k] by (auto simp: list_all_iff is_digit_not_space)
  then have "trim (CHR ''-'' # nat_str k) = CHR ''-'' # nat_str k"
    by (intro trim_id) (simp add: is_space_def)
  moreover have "to_js (of_nat k) = js_int (int k)" using to_js_of_int [of "int k"] assms nk by simp
  ultimately show ?thesis
    using True by (simp add: int_str_def js_Number_def read_unsigned_nat_str nk)
qed

lemma int_str_inj: "\<bar>m\<bar> \<le> 2 ^ 53 \<Longrightarrow> \<bar>n\<bar> \<le> 2 ^ 53 \<Longrightarrow> int_str m = int_str n \<Longrightarrow> m = n"
  by (metis js_Number_int_str jsnum.inject of_int_eq_iff)

text \<open>
  \<open>parseInt(s)\<close> and \<open>parseFloat(s)\<close> read the longest prefix that is a literal and are
  \<open>NaN\<close> when there is none.
\<close>

definition signed :: "(string \<Rightarrow> jsnum) \<Rightarrow> string \<Rightarrow> jsnum" where
  "signed rd str =
     (case dropWhile is_space str of
        [] \<Rightarrow> rd []
      | c # t \<Rightarrow> if c = CHR ''-'' then js_neg (rd t) else if c = CHR ''+'' then rd t else rd (c # t))"

definition is_hex :: "char \<Rightarrow> bool" where
  "is_hex c \<longleftrightarrow> hex_val c \<noteq> None"

definition read_int_prefix :: "string \<Rightarrow> jsnum" where
  "read_int_prefix s =
     (if take 2 s \<in> {''0x'', ''0X''} then
        (case takeWhile is_hex (drop 2 s) of
           [] \<Rightarrow> NaN
         | ds \<Rightarrow> (case read_base 16 0 ds of None \<Rightarrow> NaN | Some n \<Rightarrow> to_js (of_nat n)))
      else (case takeWhile is_digit s of [] \<Rightarrow> NaN | ds \<Rightarrow> to_js (of_nat (digits_val ds))))"

definition js_parseInt :: "string \<Rightarrow> jsnum" where
  "js_parseInt = signed read_int_prefix"

text \<open>An exponent is part of the prefix only when digits follow it.\<close>

definition exponent_prefix :: "string \<Rightarrow> string" where
  "exponent_prefix s =
     (case s of
        c # t \<Rightarrow>
          if c \<in> {CHR ''e'', CHR ''E''} then
            (case t of
               d # u \<Rightarrow> if d \<in> {CHR ''+'', CHR ''-''}
                         then (if takeWhile is_digit u = [] then [] else c # d # takeWhile is_digit u)
                         else (if takeWhile is_digit t = [] then [] else c # takeWhile is_digit t)
             | [] \<Rightarrow> [])
          else []
      | [] \<Rightarrow> [])"

definition read_float_prefix :: "string \<Rightarrow> jsnum" where
  "read_float_prefix s =
     (if prefix ''Infinity'' s then PInf
      else let ip = takeWhile is_digit s; r = dropWhile is_digit s;
               fp = (case r of c # t \<Rightarrow> if c = CHR ''.'' then c # takeWhile is_digit t else [] | [] \<Rightarrow> []);
               ep = exponent_prefix (drop (length fp) r)
           in if ip = [] \<and> length fp \<le> 1 then NaN
              else (case read_decimal (ip @ fp @ ep) of None \<Rightarrow> NaN | Some x \<Rightarrow> to_js x))"

definition js_parseFloat :: "string \<Rightarrow> jsnum" where
  "js_parseFloat = signed read_float_prefix"

lemma js_parseInt_nat_str: "js_parseInt (nat_str n) = to_js (of_nat n)"
proof -
  have d: "list_all is_digit (nat_str n)" by (rule nat_str_digits)
  obtain c t where ct: "nat_str n = c # t" by (cases "nat_str n") auto
  with d have c: "is_digit c" "list_all is_digit (c # t)" by simp_all
  have np: "take 2 (c # t) \<notin> {''0x'', ''0X''}"
  proof
    assume "take 2 (c # t) \<in> {''0x'', ''0X''}"
    then have "\<exists>x u. t = x # u \<and> x \<in> {CHR ''x'', CHR ''X''}" by (cases t) auto
    with c(2) show False by (auto simp: is_digit_def)
  qed
  have tw: "takeWhile is_digit (c # t) = c # t" using list_all_digit_takeWhile [OF c(2)] by simp
  have "read_int_prefix (c # t) = to_js (of_nat (digits_val (c # t)))"
    unfolding read_int_prefix_def if_not_P [OF np] tw by simp
  then have "read_int_prefix (c # t) = to_js (of_nat n)"
    using digits_val_nat_str [of n] by (simp only: ct)
  moreover have "c \<noteq> CHR ''-''" "c \<noteq> CHR ''+''" using c by (auto simp: is_digit_def)
  ultimately show ?thesis
    using is_digit_not_space [OF c(1)] by (simp add: js_parseInt_def signed_def ct)
qed

subsection \<open>Searching, case, splitting and joining\<close>

definition js_includes :: "string \<Rightarrow> string \<Rightarrow> bool" where
  "js_includes s pat \<longleftrightarrow> sublist pat s"

text \<open>\<open>s.indexOf(pat)\<close>: the first position of \<open>pat\<close> in \<open>s\<close>, or \<open>-1\<close>.\<close>

fun index_of :: "string \<Rightarrow> string \<Rightarrow> int" where
  "index_of [] pat = (if pat = [] then 0 else -1)"
| "index_of (c # s) pat =
     (if prefix pat (c # s) then 0
      else let i = index_of s pat in if i < 0 then -1 else i + 1)"

definition lower_char :: "char \<Rightarrow> char" where
  "lower_char c = (let n = of_char c :: nat in if 65 \<le> n \<and> n \<le> 90 then char_of (n + 32) else c)"

definition upper_char :: "char \<Rightarrow> char" where
  "upper_char c = (let n = of_char c :: nat in if 97 \<le> n \<and> n \<le> 122 then char_of (n - 32) else c)"

definition to_lower :: "string \<Rightarrow> string" where
  "to_lower = map lower_char"

definition to_upper :: "string \<Rightarrow> string" where
  "to_upper = map upper_char"

fun split_on :: "char \<Rightarrow> string \<Rightarrow> string list" where
  "split_on d [] = [[]]"
| "split_on d (c # s) =
     (if c = d then [] # split_on d s
      else case split_on d s of [] \<Rightarrow> [[c]] | w # ws \<Rightarrow> (c # w) # ws)"

fun js_join :: "string \<Rightarrow> string list \<Rightarrow> string" where
  "js_join sep [] = []"
| "js_join sep [x] = x"
| "js_join sep (x # xs) = x @ sep @ js_join sep xs"

lemma index_of_range: "-1 \<le> index_of s pat"
  by (induction s) (auto simp: Let_def)

lemma index_of_nonneg_iff: "0 \<le> index_of s pat \<longleftrightarrow> js_includes s pat"
  by (induction s) (auto simp: Let_def js_includes_def sublist_Cons_right)

lemma index_of_0_iff: "index_of s pat = 0 \<longleftrightarrow> prefix pat s"
  using index_of_range [of "tl s" pat] by (cases s) (auto simp: Let_def)

text \<open>\<open>s.indexOf(pat) > 0\<close>: \<open>pat\<close> occurs in \<open>s\<close>, but not at its start.\<close>

lemma index_of_pos_iff: "0 < index_of s pat \<longleftrightarrow> js_includes s pat \<and> \<not> prefix pat s"
  using index_of_nonneg_iff [of s pat] index_of_0_iff [of s pat] by linarith

lemma split_on_nonempty [simp]: "split_on d s \<noteq> []"
  by (induction s) (auto split: list.splits)

lemma join_split: "js_join [d] (split_on d s) = s"
proof (induction s)
  case (Cons c s)
  obtain w ws where "split_on d s = w # ws" by (cases "split_on d s") auto
  with Cons show ?case by (cases ws) auto
qed simp

end
