(* ===== verification/Js_Json.thy ===== *)
theory Js_Json
  imports Js_Text
begin

section \<open>JSON values and number printing\<close>

text \<open>
  Dynamically typed values as they come out of \<open>JSON.parse\<close>, and the conversion of
  numbers and leaf values to strings that template literals apply to them. Objects keep
  their entries in insertion order, as \<open>Object.entries\<close> lists them.
\<close>

datatype json =
    JNull
  | JBool bool
  | JNum jsnum
  | JStr string
  | JArr "json list"
  | JObj "(string \<times> json) list"

subsection \<open>Number to string\<close>

text \<open>The decimal exponent of a positive rational: \<open>10 powi (n - 1) \<le> x < 10 powi n\<close>.\<close>

definition dec_exp :: "rat \<Rightarrow> int" where
  "dec_exp x =
     (let n = (ilog2 x * 30103) div 100000 in
      if 10 powi (n + 1) \<le> x then n + 2 else if 10 powi n \<le> x then n + 1 else n)"

text \<open>
  The shortest decimal that rounds to \<open>x\<close>: with \<open>k\<close> digits for increasing \<open>k\<close>.
  Seventeen digits identify every double.
\<close>

fun shortest_digits :: "nat \<Rightarrow> rat \<Rightarrow> int \<Rightarrow> int \<Rightarrow> int \<times> int" where
  "shortest_digits 0 x n k = (round (x / 10 powi (n - k)), n - k)"
| "shortest_digits (Suc f) x n k =
     (let s = round (x / 10 powi (n - k)) in
      if dbl (of_int s * 10 powi (n - k)) = x then (s, n - k)
      else shortest_digits f x n (k + 1))"

definition strip_zeros :: "string \<Rightarrow> string" where
  "strip_zeros s = rev (dropWhile (\<lambda>c. c = CHR ''0'') (rev s))"

definition format_decimal :: "string \<Rightarrow> int \<Rightarrow> string" where
  "format_decimal ds n =
     (let k = int (length ds); zeros = (\<lambda>m. replicate (nat m) (CHR ''0'')) in
      if k \<le> n \<and> n \<le> 21 then ds @ zeros (n - k)
      else if 0 < n \<and> n \<le> 21 then take (nat n) ds @ ''.'' @ drop (nat n) ds
      else if -6 < n \<and> n \<le> 0 then ''0.'' @ zeros (- n) @ ds
      else take 1 ds @ (if k = 1 then [] else CHR ''.'' # drop 1 ds) @ ''e''
           @ (if n - 1 < 0 then ''-'' else ''+'') @ int_str \<bar>n - 1\<bar>)"

definition pos_str :: "rat \<Rightarrow> string" where
  "pos_str x =
     (let (s, e) = shortest_digits 16 x (dec_exp x) 1; d = nat_str (nat s); ds = strip_zeros d
      in format_decimal ds (e + int (length d)))"

text \<open>\<open>String(n)\<close>.\<close>

fun num_str :: "jsnum \<Rightarrow> string" where
  "num_str NaN = ''NaN''"
| "num_str PInf = ''Infinity''"
| "num_str NInf = ''-Infinity''"
| "num_str (Fin x) =
     (if x = of_int \<lfloor>x\<rfloor> \<and> \<bar>x\<bar> \<le> 2 ^ 53 then int_str \<lfloor>x\<rfloor>
      else if x < 0 then CHR ''-'' # pos_str (- x) else pos_str x)"

lemma num_str_int: "\<bar>n\<bar> \<le> 2 ^ 53 \<Longrightarrow> num_str (js_int n) = int_str n"
proof -
  assume "\<bar>n\<bar> \<le> 2 ^ 53"
  then have "\<bar>of_int n :: rat\<bar> \<le> 2 ^ 53"
    by (metis of_int_abs of_int_le_iff of_int_numeral of_int_power)
  then show ?thesis by simp
qed

text \<open>The characters a printed number is made of.\<close>

definition num_char :: "char \<Rightarrow> bool" where
  "num_char c \<longleftrightarrow> is_digit c \<or> c \<in> set ''+-.eNaInfity''"

lemma nat_str_num_char: "list_all num_char (nat_str n)"
  using nat_str_digits [of n] by (auto simp: list_all_iff num_char_def)

lemma int_str_num_char: "list_all num_char (int_str n)"
  using nat_str_num_char by (simp add: int_str_def num_char_def)

lemma num_char_lits [simp]:
  "num_char (CHR ''0'')" "num_char (CHR ''.'')" "num_char (CHR ''e'')"
  "num_char (CHR ''-'')" "num_char (CHR ''+'')"
  by (simp_all add: num_char_def is_digit_def)

lemma list_all_take_drop [simp]:
  "list_all P xs \<Longrightarrow> list_all P (take n xs)" "list_all P xs \<Longrightarrow> list_all P (drop n xs)"
  by (auto simp: list_all_iff dest: in_set_takeD in_set_dropD)

lemma list_all_replicateI [simp]: "P x \<Longrightarrow> list_all P (replicate n x)"
  by (simp add: list_all_iff)

lemma format_decimal_num_char:
  "list_all num_char ds \<Longrightarrow> list_all num_char (format_decimal ds n)"
  by (simp add: format_decimal_def Let_def int_str_num_char)

lemma pos_str_num_char: "list_all num_char (pos_str x)"
proof -
  have "list_all num_char (strip_zeros (nat_str m))" for m
    using nat_str_num_char [of m] by (auto simp: strip_zeros_def list_all_iff dest: set_dropWhileD)
  then show ?thesis
    by (auto simp: pos_str_def Let_def split: prod.splits intro: format_decimal_num_char)
qed

lemma num_str_num_char: "list_all num_char (num_str a)"
  using int_str_num_char pos_str_num_char by (cases a) (auto simp: num_char_def)

end
