(* ===== verification/Offer_Utils.thy ===== *)
theory Offer_Utils
  imports Js_Json "HOL-Library.Multiset"
begin

section \<open>Offer service: sampling and XML\<close>

text \<open>
  \<open>offerservice/src/utils.ts\<close>: \<open>sampleArray\<close>, a Fisher-Yates shuffle followed by a
  truncation, and \<open>toXml\<close>, which prints a JSON value as XML elements. The shuffle is shown
  to permute its input whatever \<open>Math.random\<close> returns; the XML is shown to be read back
  by a parser when no tag or leaf holds an angle bracket.
\<close>

subsection \<open>sampleArray\<close>

definition swap :: "'a list \<Rightarrow> nat \<Rightarrow> nat \<Rightarrow> 'a list" where
  "swap xs i j = (let tmp = xs ! j in xs[j := xs ! i, i := tmp])"

text \<open>
  The loop \<open>for (let i = n - 1; i >= 1; i--)\<close>: iteration \<open>i\<close> draws \<open>rnd i\<close> and swaps
  element \<open>i\<close> with one at or before it.
\<close>

fun shuffle :: "(nat \<Rightarrow> rat) \<Rightarrow> nat \<Rightarrow> 'a list \<Rightarrow> 'a list" where
  "shuffle rnd 0 xs = xs"
| "shuffle rnd (Suc i) xs =
     shuffle rnd i (swap xs (Suc i) (rand_index (rnd (Suc i)) (Suc i + 1)))"

text \<open>
  \<open>array.length = n\<close>: cuts the array or extends it with holes, which read as
  \<open>undefined\<close>; a length that is negative or does not fit in 32 bits is a \<open>RangeError\<close>.
\<close>

definition set_length :: "'a list \<Rightarrow> int \<Rightarrow> js_exn + 'a option list" where
  "set_length xs n =
     (if n < 0 \<or> 2 ^ 32 \<le> n then Inl RangeError
      else Inr (take (nat n) (map Some xs) @ replicate (nat n - length xs) None))"

definition sampleArray :: "(nat \<Rightarrow> rat) \<Rightarrow> 'a list \<Rightarrow> int \<Rightarrow> js_exn + 'a option list" where
  "sampleArray rnd array n = set_length (shuffle rnd (length array - 1) array) n"

lemma length_swap [simp]: "length (swap xs i j) = length xs"
  by (simp add: swap_def Let_def)

lemma mset_swap_in: "i < length xs \<Longrightarrow> j < length xs \<Longrightarrow> mset (swap xs i j) = mset xs"
  using mset_swap [of i xs j] by (simp add: swap_def Let_def)

lemma length_shuffle [simp]: "length (shuffle rnd i xs) = length xs"
  by (induction i arbitrary: xs) simp_all

lemma mset_shuffle:
  assumes "\<And>i. unit_double (rnd i)" "k < length xs" "length xs \<le> 2 ^ 53"
  shows "mset (shuffle rnd k xs) = mset xs"
  using assms(2,3)
proof (induction k arbitrary: xs)
  case (Suc i)
  let ?j = "rand_index (rnd (Suc i)) (Suc i + 1)"
  have "?j < Suc i + 1" using Suc.prems assms(1) by (intro rand_index_less) auto
  then have "mset (swap xs (Suc i) ?j) = mset xs" using Suc.prems by (intro mset_swap_in) auto
  with Suc show ?case by simp
qed simp

lemma sampleArray_within:
  assumes "\<And>i. unit_double (rnd i)" "length array \<le> 2 ^ 53" "n \<le> length array" "n < 2 ^ 32"
  obtains ys where "sampleArray rnd array (int n) = Inr (map Some ys)"
    and "length ys = n" and "mset ys \<subseteq># mset array"
proof -
  define s where "s = shuffle rnd (length array - 1) array"
  have m: "mset s = mset array"
    using mset_shuffle [OF assms(1), of "length array - 1" array] assms(2)
    by (cases array) (auto simp: s_def)
  have "mset s = mset (take n s) + mset (drop n s)" by (metis append_take_drop_id mset_append)
  then have "mset (take n s) \<subseteq># mset array" using m by simp
  moreover have "sampleArray rnd array (int n) = Inr (map Some (take n s))"
    using assms(3,4) by (simp add: sampleArray_def set_length_def s_def [symmetric] take_map)
       (simp add: s_def)
  ultimately show thesis using that [of "take n s"] assms(3) by (simp add: s_def)
qed

lemma mset_subset_distinct: "distinct xs \<Longrightarrow> mset ys \<subseteq># mset xs \<Longrightarrow> distinct ys \<and> set ys \<subseteq> set xs"
  by (metis distinct_append ex_mset mset_append mset_eq_imp_distinct_iff mset_subset_eqD
      mset_subset_eq_exists_conv set_mset_mset subsetI)

subsection \<open>toXml\<close>

definition xml_wrap :: "string \<Rightarrow> string \<Rightarrow> string" where
  "xml_wrap tag inner = ''<'' @ tag @ ''>'' @ inner @ ''</'' @ tag @ ''>''"

text \<open>\<open>`${value}`\<close> for a value that is neither an array nor an object.\<close>

fun leaf_str :: "json \<Rightarrow> string" where
  "leaf_str JNull = ''null''"
| "leaf_str (JBool b) = (if b then ''true'' else ''false'')"
| "leaf_str (JNum n) = num_str n"
| "leaf_str (JStr s) = s"
| "leaf_str _ = []"

fun toXml :: "string \<Rightarrow> json \<Rightarrow> string" where
  "toXml tag (JArr vs) = concat (map (toXml tag) vs)"
| "toXml tag (JObj es) = xml_wrap tag (concat (map (\<lambda>(k, v). toXml k v) es))"
| "toXml tag v = xml_wrap tag (leaf_str v)"

text \<open>
  A reader for such text: \<open>xml_tokens\<close> cuts it at the angle brackets, \<open>xml_run\<close> is a
  stack machine over the tokens. The stack holds the elements that are still open,
  innermost first, each with the children and the text read so far.
\<close>

datatype xml = Elem string "xml list" string

datatype xml_token = OpenTag string | CloseTag string | TextTok string

definition plain :: "string \<Rightarrow> bool" where
  "plain s \<longleftrightarrow> CHR ''<'' \<notin> set s \<and> CHR ''>'' \<notin> set s"

definition tag_name :: "string \<Rightarrow> bool" where
  "tag_name s \<longleftrightarrow> plain s \<and> s \<noteq> [] \<and> hd s \<noteq> CHR ''/''"

fun text_tok :: "string \<Rightarrow> xml_token list" where
  "text_tok [] = []"
| "text_tok s = [TextTok s]"

fun tag_tok :: "string \<Rightarrow> xml_token" where
  "tag_tok [] = OpenTag []"
| "tag_tok (c # s) = (if c = CHR ''/'' then CloseTag s else OpenTag (c # s))"

text \<open>\<open>scan inside acc s\<close>: \<open>acc\<close> is the text since the last bracket, reversed.\<close>

fun scan :: "bool \<Rightarrow> string \<Rightarrow> string \<Rightarrow> xml_token list" where
  "scan inside acc [] = (if inside then [] else text_tok (rev acc))"
| "scan inside acc (c # s) =
     (if \<not> inside \<and> c = CHR ''<'' then text_tok (rev acc) @ scan True [] s
      else if inside \<and> c = CHR ''>'' then tag_tok (rev acc) # scan False [] s
      else scan inside (c # acc) s)"

definition xml_tokens :: "string \<Rightarrow> xml_token list" where
  "xml_tokens s = scan False [] s"

type_synonym xml_frame = "string \<times> xml list \<times> string"

fun add_child :: "xml \<Rightarrow> xml_frame list \<Rightarrow> xml list \<Rightarrow> xml_frame list \<times> xml list" where
  "add_child e [] out = ([], out @ [e])"
| "add_child e ((t, cs, tx) # st) out = ((t, cs @ [e], tx) # st, out)"

fun xml_run :: "xml_token list \<Rightarrow> xml_frame list \<Rightarrow> xml list \<Rightarrow> xml list option" where
  "xml_run [] st out = (if st = [] then Some out else None)"
| "xml_run (OpenTag t # ts) st out = xml_run ts ((t, [], []) # st) out"
| "xml_run (TextTok x # ts) st out =
     (case st of [] \<Rightarrow> None | (t, cs, tx) # st' \<Rightarrow> xml_run ts ((t, cs, tx @ x) # st') out)"
| "xml_run (CloseTag t # ts) st out =
     (case st of
        [] \<Rightarrow> None
      | (u, cs, tx) # st' \<Rightarrow>
          if t = u then (let (st'', out') = add_child (Elem u cs tx) st' out in xml_run ts st'' out')
          else None)"

definition parse_xml :: "string \<Rightarrow> xml list option" where
  "parse_xml s = xml_run (xml_tokens s) [] []"

text \<open>The elements a value stands for, and the values whose text is safe to print.\<close>

fun xml_of :: "string \<Rightarrow> json \<Rightarrow> xml list" where
  "xml_of tag (JArr vs) = concat (map (xml_of tag) vs)"
| "xml_of tag (JObj es) = [Elem tag (concat (map (\<lambda>(k, v). xml_of k v) es)) []]"
| "xml_of tag v = [Elem tag [] (leaf_str v)]"

fun xml_safe :: "json \<Rightarrow> bool" where
  "xml_safe (JArr vs) = list_all xml_safe vs"
| "xml_safe (JObj es) = list_all (\<lambda>(k, v). tag_name k \<and> xml_safe v) es"
| "xml_safe (JStr s) = plain s"
| "xml_safe _ = True"

lemma num_str_plain [simp]: "plain (num_str a)"
proof -
  have "\<not> num_char (CHR ''<'')" "\<not> num_char (CHR ''>'')" by (simp_all add: num_char_def is_digit_def)
  with num_str_num_char [of a] show ?thesis by (auto simp: plain_def list_all_iff)
qed

lemma plain_literals [simp]: "plain ''null''" "plain ''true''" "plain ''false''"
  by (simp_all add: plain_def)

lemma scan_text: "plain s \<Longrightarrow> scan False acc (s @ CHR ''<'' # r) = text_tok (rev acc @ s) @ scan True [] r"
  by (induction s arbitrary: acc) (auto simp: plain_def)

lemma scan_tag: "plain s \<Longrightarrow> scan True acc (s @ CHR ''>'' # r) = tag_tok (rev acc @ s) # scan False [] r"
  by (induction s arbitrary: acc) (auto simp: plain_def)

lemma tag_tok_name: "tag_name s \<Longrightarrow> tag_tok s = OpenTag s"
  by (cases s) (auto simp: tag_name_def)

lemma scan_open:
  "tag_name t \<Longrightarrow> scan False [] (''<'' @ t @ ''>'' @ r) = OpenTag t # scan False [] r"
  using scan_tag [of t "[]" r] by (simp add: tag_tok_name tag_name_def)

lemma scan_close:
  "tag_name t \<Longrightarrow> scan False [] (''</'' @ t @ ''>'' @ r) = CloseTag t # scan False [] r"
  using scan_tag [of "CHR ''/'' # t" "[]" r] by (simp add: tag_name_def plain_def)

lemma scan_leaf:
  assumes "tag_name t" "plain s"
  shows "scan False [] (xml_wrap t s @ r) = OpenTag t # text_tok s @ CloseTag t # scan False [] r"
proof -
  have "scan False [] (s @ ''</'' @ t @ ''>'' @ r) = text_tok s @ CloseTag t # scan False [] r"
    using scan_text [OF assms(2), of "[]" "CHR ''/'' # t @ CHR ''>'' # r"]
      scan_tag [of "CHR ''/'' # t" "[]" r] assms(1) by (simp add: tag_name_def plain_def)
  then show ?thesis using scan_open [OF assms(1), of "s @ ''</'' @ t @ ''>'' @ r"] by (simp add: xml_wrap_def)
qed

fun add_children :: "xml list \<Rightarrow> xml_frame list \<Rightarrow> xml list \<Rightarrow> xml_frame list \<times> xml list" where
  "add_children es [] out = ([], out @ es)"
| "add_children es ((t, cs, tx) # st) out = ((t, cs @ es, tx) # st, out)"

lemma add_children_simps:
  "add_children [] st out = (st, out)"
  "add_children [e] st out = add_child e st out"
  "add_children (xs @ ys) st out = (case add_children xs st out of (st', out') \<Rightarrow> add_children ys st' out')"
  by (cases st; auto)+

definition reads :: "string \<Rightarrow> xml list \<Rightarrow> bool" where
  "reads s es \<longleftrightarrow> (\<forall>r st out. xml_run (scan False [] (s @ r)) st out =
     (case add_children es st out of (st', out') \<Rightarrow> xml_run (scan False [] r) st' out'))"

lemma reads_append: "reads s es \<Longrightarrow> reads t fs \<Longrightarrow> reads (s @ t) (es @ fs)"
  unfolding reads_def by (simp add: add_children_simps split: prod.splits)

lemma reads_Nil: "reads [] []"
  by (simp add: reads_def add_children_simps)

lemma reads_concat: "(\<And>x. x \<in> set xs \<Longrightarrow> reads (f x) (g x)) \<Longrightarrow> reads (concat (map f xs)) (concat (map g xs))"
  by (induction xs) (auto intro: reads_append reads_Nil)

lemma reads_leaf: "tag_name t \<Longrightarrow> plain s \<Longrightarrow> reads (xml_wrap t s) [Elem t [] s]"
  unfolding reads_def by (cases s) (simp_all add: scan_leaf add_children_simps split: prod.splits)

lemma reads_elem:
  assumes t: "tag_name t" and "reads s es"
  shows "reads (xml_wrap t s) [Elem t es []]"
  unfolding reads_def
proof (intro allI)
  fix r st out
  have "scan False [] (xml_wrap t s @ r) = OpenTag t # scan False [] (s @ ''</'' @ t @ ''>'' @ r)"
    using scan_open [OF t, of "s @ ''</'' @ t @ ''>'' @ r"] by (simp add: xml_wrap_def)
  then show "xml_run (scan False [] (xml_wrap t s @ r)) st out =
     (case add_children [Elem t es []] st out of (st', out') \<Rightarrow> xml_run (scan False [] r) st' out')"
    using assms(2) scan_close [OF t, of r]
    by (simp add: reads_def add_children_simps split: prod.splits)
qed

lemma reads_toXml: "tag_name tag \<Longrightarrow> xml_safe v \<Longrightarrow> reads (toXml tag v) (xml_of tag v)"
proof (induction tag v rule: toXml.induct)
  case (1 tag vs)
  then show ?case by (simp add: list_all_iff) (blast intro: reads_concat)
next
  case (2 tag es)
  have "reads (case e of (k, v) \<Rightarrow> toXml k v) (case e of (k, v) \<Rightarrow> xml_of k v)" if "e \<in> set es" for e
    using 2 that by (cases e) (fastforce simp: list_all_iff)
  then have "reads (concat (map (\<lambda>(k, v). toXml k v) es)) (concat (map (\<lambda>(k, v). xml_of k v) es))"
    by (rule reads_concat)
  with 2 show ?case by (simp add: reads_elem)
qed (auto intro!: reads_leaf)

subsection \<open>Properties\<close>

text \<open>
  C20: \<open>sampleArray(array, n)\<close> with \<open>n\<close> at most the array's length returns \<open>n\<close> elements,
  none of them a hole, that occur in the array, each at most as often as in the array,
  whatever numbers \<open>Math.random\<close> returned.
\<close>

theorem sampleArray_samples:
  assumes "\<forall>i. unit_double (rnd i)" and "length array < 2 ^ 32" and "n \<le> length array"
  shows "\<exists>ys. sampleArray rnd array (int n) = Inr (map Some ys) \<and> length ys = n
           \<and> mset ys \<subseteq># mset array"
proof -
  have "length array \<le> 2 ^ 53" "n < 2 ^ 32" using assms(2,3) by auto
  with assms show ?thesis using sampleArray_within [of rnd array n] by metis
qed

theorem sampleArray_samples_witness:
  "\<exists>ys. sampleArray (\<lambda>_. 1/2) ''abcde'' 2 = Inr (map Some ys) \<and> length ys = 2
      \<and> mset ys \<subseteq># mset ''abcde''"
  using sampleArray_samples [of "\<lambda>_. 1/2" "''abcde''" 2] by simp



end
