(* ===== verification/Offer_Slowdown.thy ===== *)
theory Offer_Slowdown
  imports Offer_Utils
begin

section \<open>Offer service: the slowdown problem pattern\<close>

text \<open>
  \<open>offerservice/src/openfeature.ts\<close> and \<open>middleware/slowdown.ts\<close>. The flag is resolved
  over HTTP and then one synchronous block changes the shared \<open>slowdownState\<close>; JavaScript
  runs that block without interruption, so concurrent requests are a sequence of steps, in
  the order in which their flags were resolved.
\<close>

subsection \<open>Resolving the flag\<close>

record feature_flag =
  flag_enabled :: "bool option"

text \<open>What \<open>await fetch(url)\<close> ends with: a rejection, or a status with a body to parse.\<close>

datatype flag_reply =
    FlagRejected js_exn
  | FlagReply (reply_status: nat) (reply_flag: "js_exn + feature_flag option")

definition res_ok :: "nat \<Rightarrow> bool" where
  "res_ok status \<longleftrightarrow> 200 \<le> status \<and> status \<le> 299"

record resolution =
  res_value :: bool
  res_variant :: string

definition resolveBooleanEvaluation ::
  "(string \<Rightarrow> string) \<Rightarrow> (string \<Rightarrow> flag_reply) \<Rightarrow> string \<Rightarrow> bool \<Rightarrow> resolution" where
  "resolveBooleanEvaluation getFeatureFlag fetch flagKey defaultValue =
     (let fallback = \<lparr>res_value = defaultValue, res_variant = flagKey\<rparr> in
      case fetch (getFeatureFlag flagKey) of
        FlagRejected _ \<Rightarrow> fallback
      | FlagReply status body \<Rightarrow>
          if \<not> res_ok status then fallback
          else case body of
              Inl _ \<Rightarrow> fallback
            | Inr flag \<Rightarrow>
                \<lparr>res_value = nullish (Option.bind flag flag_enabled) defaultValue, res_variant = flagKey\<rparr>)"

text \<open>The other three evaluations of the provider throw.\<close>

definition resolveStringEvaluation :: "string \<Rightarrow> string \<Rightarrow> js_exn + string" where
  "resolveStringEvaluation flagKey defaultValue = Inl (JsError ''Method not implemented.'')"

definition resolveNumberEvaluation :: "string \<Rightarrow> jsnum \<Rightarrow> js_exn + jsnum" where
  "resolveNumberEvaluation flagKey defaultValue = Inl (JsError ''Method not implemented.'')"

definition resolveObjectEvaluation :: "string \<Rightarrow> json \<Rightarrow> js_exn + json" where
  "resolveObjectEvaluation flagKey defaultValue = Inl (JsError ''Method not implemented.'')"

subsection \<open>SlowdownState\<close>

definition SLOWDOWN_DELAY_MS :: nat where
  "SLOWDOWN_DELAY_MS = 2000"

definition SLOWDOWN_AFFECTED_PLATFORM_COUNT :: int where
  "SLOWDOWN_AFFECTED_PLATFORM_COUNT = 2"

definition PLATFORMS :: "string list" where
  "PLATFORMS = [''dynatestsieger.at'', ''tradeCom.co.uk'', ''CryptoTrading.com'',
     ''CheapTrading.mi'', ''Stratton-oakmount.com'']"

record slowdown_state =
  isActive :: bool
  affectedPlatforms :: "string option list"

definition init_slowdown :: slowdown_state where
  "init_slowdown = \<lparr>isActive = False, affectedPlatforms = []\<rparr>"

definition activate :: "(nat \<Rightarrow> rat) \<Rightarrow> slowdown_state \<Rightarrow> js_exn + slowdown_state" where
  "activate rnd s =
     (case sampleArray rnd PLATFORMS SLOWDOWN_AFFECTED_PLATFORM_COUNT of
        Inl e \<Rightarrow> Inl e
      | Inr ps \<Rightarrow> Inr (s\<lparr>affectedPlatforms := ps, isActive := True\<rparr>))"

definition deactivate :: "slowdown_state \<Rightarrow> slowdown_state" where
  "deactivate s = s\<lparr>affectedPlatforms := [], isActive := False\<rparr>"

definition isAffected :: "slowdown_state \<Rightarrow> string \<Rightarrow> bool" where
  "isAffected s platform \<longleftrightarrow> Some platform \<in> set (affectedPlatforms s)"

subsection \<open>slowdownMiddleware\<close>

definition PLUGIN_NAME :: string where
  "PLUGIN_NAME = ''ergo_aggregator_slowdown''"

datatype slow_event = DelayMs nat | CallNext

definition slow_events :: "bool \<Rightarrow> slow_event list" where
  "slow_events delayed = (if delayed then [DelayMs SLOWDOWN_DELAY_MS] else []) @ [CallNext]"

text \<open>
  One request. \<open>getBooleanValue\<close> is the OpenFeature client's method (a library): what its
  promise resolves to for a flag and a default. The result is the state afterwards and what
  the request does: the exception that rejects it, or the delay and the call of \<open>next\<close>.
\<close>

definition slowdownMiddleware ::
  "(string \<Rightarrow> bool \<Rightarrow> bool) \<Rightarrow> (nat \<Rightarrow> rat) \<Rightarrow> string \<Rightarrow> slowdown_state
     \<Rightarrow> slowdown_state \<times> (js_exn + slow_event list)" where
  "slowdownMiddleware getBooleanValue rnd platform s =
     (if getBooleanValue PLUGIN_NAME False then
        (case (if isActive s then Inr s else activate rnd s) of
           Inl e \<Rightarrow> (s, Inl e)
         | Inr s' \<Rightarrow> (s', Inr (slow_events (isAffected s' platform))))
      else (if isActive s then deactivate s else s, Inr [CallNext]))"

text \<open>A request as the environment presents it: the flag's value, the draws, the platform.\<close>

record slow_request =
  sr_enabled :: bool
  sr_rnd :: "nat \<Rightarrow> rat"
  sr_platform :: string

definition slow_step :: "slow_request \<Rightarrow> slowdown_state \<Rightarrow> slowdown_state \<times> (js_exn + slow_event list)" where
  "slow_step r = slowdownMiddleware (\<lambda>_ _. sr_enabled r) (sr_rnd r) (sr_platform r)"

fun slow_run :: "slow_request list \<Rightarrow> slowdown_state \<Rightarrow> slowdown_state" where
  "slow_run [] s = s"
| "slow_run (r # rs) s = slow_run rs (fst (slow_step r s))"

definition fair_draws :: "slow_request \<Rightarrow> bool" where
  "fair_draws r \<longleftrightarrow> (\<forall>i. unit_double (sr_rnd r i))"

subsection \<open>Invariant\<close>

definition platform_pair :: "string list \<Rightarrow> bool" where
  "platform_pair ps \<longleftrightarrow> length ps = 2 \<and> distinct ps \<and> set ps \<subseteq> set PLATFORMS"

definition slow_inv :: "slowdown_state \<Rightarrow> bool" where
  "slow_inv s \<longleftrightarrow>
     (if isActive s then (\<exists>ps. affectedPlatforms s = map Some ps \<and> platform_pair ps)
      else affectedPlatforms s = [])"

lemma slow_inv_init: "slow_inv init_slowdown"
  by (simp add: slow_inv_def init_slowdown_def)

lemma activate_pair:
  assumes "\<forall>i. unit_double (rnd i)"
  obtains ps where "activate rnd s = Inr (s\<lparr>affectedPlatforms := map Some ps, isActive := True\<rparr>)"
    and "platform_pair ps"
proof -
  have d: "distinct PLATFORMS" "2 \<le> length PLATFORMS" "length PLATFORMS \<le> 2 ^ 53"
    by (simp_all add: PLATFORMS_def)
  obtain ys where ys: "sampleArray rnd PLATFORMS (int 2) = Inr (map Some ys)"
    "length ys = 2" "mset ys \<subseteq># mset PLATFORMS"
    using sampleArray_within [of rnd PLATFORMS 2] assms d by auto
  show thesis
    by (rule that [of ys])
       (use ys mset_subset_distinct [OF d(1) ys(3)] in \<open>simp_all add: activate_def SLOWDOWN_AFFECTED_PLATFORM_COUNT_def platform_pair_def\<close>)
qed

lemma deactivate_inv: "slow_inv (deactivate s)"
  by (simp add: slow_inv_def deactivate_def)

text \<open>The three ways a request can go.\<close>

lemma slow_step_disabled:
  "\<not> sr_enabled r \<Longrightarrow> slow_inv s \<Longrightarrow> slow_step r s = (deactivate s, Inr [CallNext])"
  by (auto simp: slow_step_def slowdownMiddleware_def slow_inv_def deactivate_def)

lemma slow_step_active:
  "sr_enabled r \<Longrightarrow> isActive s \<Longrightarrow>
   slow_step r s = (s, Inr (slow_events (isAffected s (sr_platform r))))"
  by (simp add: slow_step_def slowdownMiddleware_def)

lemma slow_step_activates:
  assumes "sr_enabled r" "\<not> isActive s" "fair_draws r"
  obtains ps where "platform_pair ps"
    and "slow_step r s = (s\<lparr>affectedPlatforms := map Some ps, isActive := True\<rparr>,
           Inr (slow_events (sr_platform r \<in> set ps)))"
proof -
  obtain ps where "activate (sr_rnd r) s = Inr (s\<lparr>affectedPlatforms := map Some ps, isActive := True\<rparr>)"
    and pp: "platform_pair ps"
    using activate_pair [of "sr_rnd r" s] assms(3) by (auto simp: fair_draws_def)
  with assms show thesis
    by (intro that [OF pp]) (auto simp: slow_step_def slowdownMiddleware_def isAffected_def image_iff)
qed

lemma slow_step_inv: "slow_inv s \<Longrightarrow> fair_draws r \<Longrightarrow> slow_inv (fst (slow_step r s))"
proof (cases "sr_enabled r")
  case False
  assume "slow_inv s"
  with False show ?thesis by (simp add: slow_step_disabled deactivate_inv)
next
  case True
  assume a: "slow_inv s" "fair_draws r"
  show ?thesis
  proof (cases "isActive s")
    case True
    with a \<open>sr_enabled r\<close> show ?thesis by (simp add: slow_step_active)
  next
    case False
    show ?thesis
      by (rule slow_step_activates [OF True False a(2)]) (auto simp: slow_inv_def)
  qed
qed

lemma slow_run_inv: "slow_inv s \<Longrightarrow> list_all fair_draws rs \<Longrightarrow> slow_inv (slow_run rs s)"
  by (induction rs arbitrary: s) (auto intro: slow_step_inv)

subsection \<open>What the pattern promises\<close>

text \<open>
  The service's README: when the pattern is enabled two of the five platforms are selected
  and their requests are delayed; the selection is made once per activation and is stable
  until the pattern is disabled. As a relation: the selection before, the selection after,
  whether this request is delayed.
\<close>

inductive spec_step :: "bool \<Rightarrow> string \<Rightarrow> string set option \<Rightarrow> string set option \<Rightarrow> bool \<Rightarrow> bool" where
  off: "spec_step False p A None False"
| keep: "spec_step True p (Some S) (Some S) (p \<in> S)"
| pick: "S \<subseteq> set PLATFORMS \<Longrightarrow> card S = 2 \<Longrightarrow> spec_step True p None (Some S) (p \<in> S)"

inductive_cases spec_step_onE: "spec_step True p (Some S) A d"
inductive_simps spec_step_off_iff: "spec_step False p A B d"

definition slow_abs :: "slowdown_state \<Rightarrow> string set option" where
  "slow_abs s = (if isActive s then Some {p. Some p \<in> set (affectedPlatforms s)} else None)"

lemma slow_step_refines:
  assumes "slow_inv s" "fair_draws r"
  shows "\<exists>s' d. slow_step r s = (s', Inr (slow_events d))
           \<and> spec_step (sr_enabled r) (sr_platform r) (slow_abs s) (slow_abs s') d"
proof (cases "sr_enabled r")
  case False
  with assms show ?thesis
    by (intro exI [of _ "deactivate s"] exI [of _ False])
       (auto simp: slow_step_disabled slow_abs_def deactivate_def slow_events_def intro: spec_step.off)
next
  case True
  show ?thesis
  proof (cases "isActive s")
    case active: True
    then have "slow_abs s = Some {p. Some p \<in> set (affectedPlatforms s)}" by (simp add: slow_abs_def)
    then have "spec_step True (sr_platform r) (slow_abs s) (slow_abs s) (isAffected s (sr_platform r))"
      using spec_step.keep [of "sr_platform r" "{p. Some p \<in> set (affectedPlatforms s)}"]
      by (simp add: isAffected_def)
    with True active show ?thesis by (auto simp: slow_step_active)
  next
    case inactive: False
    show ?thesis
    proof (rule slow_step_activates [OF True inactive assms(2)])
      fix ps assume pp: "platform_pair ps" and st: "slow_step r s =
        (s\<lparr>affectedPlatforms := map Some ps, isActive := True\<rparr>,
         Inr (slow_events (sr_platform r \<in> set ps)))"
      have "spec_step True (sr_platform r) None (Some (set ps)) (sr_platform r \<in> set ps)"
        using pp by (intro spec_step.pick) (auto simp: platform_pair_def distinct_card)
      moreover have "{p. Some p \<in> set (map Some ps)} = set ps" by auto
      ultimately show ?thesis using True inactive st by (auto simp: slow_abs_def)
    qed
  qed
qed

lemma slow_run_enabled: "isActive s \<Longrightarrow> list_all sr_enabled rs \<Longrightarrow> slow_run rs s = s"
  by (induction rs) (auto simp: slow_step_active)

subsection \<open>Properties\<close>

abbreviation demo_request :: "bool \<Rightarrow> string \<Rightarrow> slow_request" where
  "demo_request b p \<equiv> \<lparr>sr_enabled = b, sr_rnd = (\<lambda>_. 1/2), sr_platform = p\<rparr>"

text \<open>
  C16: after any sequence of requests the slowdown state is consistent: inactive with no
  affected platform, or active with exactly two different platforms of the five.
\<close>

theorem slowdown_invariant:
  "list_all fair_draws rs \<Longrightarrow> slow_inv (slow_run rs init_slowdown)"
  by (rule slow_run_inv [OF slow_inv_init])

theorem slowdown_invariant_witness:
  "slow_inv (slow_run [demo_request True ''tradeCom.co.uk'', demo_request False ''x''] init_slowdown)"
  by (rule slowdown_invariant) (simp add: fair_draws_def)

text \<open>
  C3: the middleware implements the documented pattern: in every reachable state a request
  is never rejected, calls \<open>next\<close> exactly once and last, is delayed by 2000 ms exactly when
  the pattern is enabled and its platform is selected, and the selection changes only when
  the pattern is switched on or off.
\<close>

theorem slowdown_refines_spec:
  assumes "list_all fair_draws rs" and "fair_draws r" and "s = slow_run rs init_slowdown"
  shows "\<exists>s' d. slow_step r s = (s', Inr (slow_events d))
           \<and> spec_step (sr_enabled r) (sr_platform r) (slow_abs s) (slow_abs s') d"
  using slow_step_refines [OF slow_run_inv [OF slow_inv_init assms(1)] assms(2)] assms(3)
  by simp

theorem slowdown_refines_spec_witness:
  "\<exists>s' d. slow_step (demo_request True ''tradeCom.co.uk'') init_slowdown
            = (s', Inr (slow_events d))
     \<and> spec_step True ''tradeCom.co.uk'' (slow_abs init_slowdown) (slow_abs s') d"
  using slowdown_refines_spec [of "[]" "demo_request True ''tradeCom.co.uk''" init_slowdown]
  by (simp add: fair_draws_def)

text \<open>
  C38: while the pattern stays enabled, no later request changes the platforms chosen at the
  activation: the state after the first enabled request is the state after all of them.
\<close>

theorem slowdown_selection_stable:
  assumes "fair_draws r" and "sr_enabled r" and "list_all sr_enabled rs" and "slow_inv s"
  shows "slow_run (r # rs) s = fst (slow_step r s)"
proof (cases "isActive s")
  case True
  then show ?thesis using assms(2,3) by (simp add: slow_step_active slow_run_enabled)
next
  case False
  show ?thesis
    by (rule slow_step_activates [OF assms(2) False assms(1)])
       (use assms(3) in \<open>simp add: slow_run_enabled\<close>)
qed

theorem slowdown_selection_stable_witness:
  "slow_run [demo_request True ''a'', demo_request True ''b''] init_slowdown
   = fst (slow_step (demo_request True ''a'') init_slowdown)"
  by (rule slowdown_selection_stable) (simp_all add: fair_draws_def slow_inv_init)

text \<open>
  The feature flag provider never throws: unless the service answers with a success
  status and a body that says \<open>enabled\<close>, the flag evaluates to the caller's default.
\<close>

lemma flag_defaults:
  "res_value (resolveBooleanEvaluation url fetch key d) =
     (case fetch (url key) of
        FlagReply status (Inr (Some flag)) \<Rightarrow>
          (if res_ok status then (case flag_enabled flag of Some b \<Rightarrow> b | None \<Rightarrow> d) else d)
      | _ \<Rightarrow> d)"
  by (auto simp: resolveBooleanEvaluation_def Let_def nullish_def
      split: flag_reply.splits sum.splits option.splits)

end
