(* ===== verification/Js_JsonText.thy ===== *)
theory Js_JsonText
  imports Js_Json
begin

section \<open>JSON text\<close>

text \<open>
  \<open>JSON.parse\<close> as a parser with fuel (the length of the text is always enough, since every
  nested value consumes a character) and \<open>JSON.stringify\<close> of strings. Strings are lists of
  characters below 256, so a \<open>\u\<close> escape above \<open>00ff\<close> is outside the model and is
  refused by it.
\<close>

definition js_ws :: "char \<Rightarrow> bool" where
  "js_ws c \<longleftrightarrow> (of_char c :: nat) \<in> {9, 10, 13, 32}"

definition skip_ws :: "string \<Rightarrow> string" where
  "skip_ws = dropWhile js_ws"

subsection \<open>Strings\<close>

definition unescape :: "char \<Rightarrow> char option" where
  "unescape e =
     (if e \<in> {CHR ''\"'', CHR 0x5C, CHR ''/''} then Some e
      else if e = CHR ''b'' then Some (char_of (8::nat))
      else if e = CHR ''f'' then Some (char_of (12::nat))
      else if e = CHR ''n'' then Some (char_of (10::nat))
      else if e = CHR ''r'' then Some (char_of (13::nat))
      else if e = CHR ''t'' then Some (char_of (9::nat)) else None)"

definition hex4 :: "char \<Rightarrow> char \<Rightarrow> char \<Rightarrow> char \<Rightarrow> char option" where
  "hex4 a b c d =
     (case read_base 16 0 [a, b, c, d] of
        None \<Rightarrow> None | Some n \<Rightarrow> if n < 256 then Some (char_of n) else None)"

text \<open>The rest of a string literal after its opening quote.\<close>

fun parse_str :: "string \<Rightarrow> (string \<times> string) option" where
  "parse_str [] = None"
| "parse_str (c # s) =
     (if c = CHR ''\"'' then Some ([], s)
      else if c = CHR 0x5C then
        (case s of
           [] \<Rightarrow> None
         | e # t \<Rightarrow>
             if e = CHR ''u'' then
               (case t of
                  w # x # y # z # u \<Rightarrow>
                    (case hex4 w x y z of
                       None \<Rightarrow> None | Some d \<Rightarrow> map_option (apfst ((#) d)) (parse_str u))
                | _ \<Rightarrow> None)
             else (case unescape e of
                     None \<Rightarrow> None | Some d \<Rightarrow> map_option (apfst ((#) d)) (parse_str t)))
      else if (of_char c :: nat) < 32 then None
      else map_option (apfst ((#) c)) (parse_str s))"

definition hex_digit :: "nat \<Rightarrow> char" where
  "hex_digit d = (if d < 10 then char_of (48 + d) else char_of (87 + d))"

definition escape_char :: "char \<Rightarrow> string" where
  "escape_char c =
     (let n = of_char c :: nat in
      if c = CHR ''\"'' \<or> c = CHR 0x5C then [CHR 0x5C, c]
      else if n = 8 then [CHR 0x5C, CHR ''b''] else if n = 12 then [CHR 0x5C, CHR ''f'']
      else if n = 10 then [CHR 0x5C, CHR ''n''] else if n = 13 then [CHR 0x5C, CHR ''r'']
      else if n = 9 then [CHR 0x5C, CHR ''t'']
      else if n < 32 then [CHR 0x5C, CHR ''u'', CHR ''0'', CHR ''0'', hex_digit (n div 16), hex_digit (n mod 16)]
      else [c])"

text \<open>\<open>JSON.stringify(s)\<close> of a string.\<close>

definition stringify_str :: "string \<Rightarrow> string" where
  "stringify_str s = ''\"'' @ concat (map escape_char s) @ ''\"''"

lemma hex_val_hex_digit: "d < 16 \<Longrightarrow> hex_val (hex_digit d) = Some d"
  by (simp add: hex_val_def hex_digit_def Let_def)

lemma hex4_low:
  assumes "n < 32"
  shows "hex4 (CHR ''0'') (CHR ''0'') (hex_digit (n div 16)) (hex_digit (n mod 16)) = Some (char_of n)"
proof -
  have "hex_val (CHR ''0'') = Some 0" by (simp add: hex_val_def)
  then show ?thesis using assms by (simp add: hex4_def hex_val_hex_digit)
qed

lemma parse_str_plain:
  "c \<noteq> CHR ''\"'' \<Longrightarrow> c \<noteq> CHR 0x5C \<Longrightarrow> \<not> (of_char c :: nat) < 32 \<Longrightarrow>
   parse_str (c # s) = map_option (apfst ((#) c)) (parse_str s)"
  by simp

lemma of_char_eqD: "(of_char c :: nat) = n \<Longrightarrow> char_of n = c"
  by auto

lemma parse_str_escape_char:
  "parse_str (escape_char c @ s) = map_option (apfst ((#) c)) (parse_str s)"
proof -
  let ?n = "of_char c :: nat"
  consider "c = CHR ''\"'' \<or> c = CHR 0x5C" | "c \<noteq> CHR ''\"''" "c \<noteq> CHR 0x5C" "?n \<in> {8, 12, 10, 13, 9}"
    | "c \<noteq> CHR ''\"''" "c \<noteq> CHR 0x5C" "?n \<notin> {8, 12, 10, 13, 9}" "?n < 32"
    | "c \<noteq> CHR ''\"''" "c \<noteq> CHR 0x5C" "?n \<notin> {8, 12, 10, 13, 9}" "\<not> ?n < 32" by blast
  then show ?thesis
  proof cases
    case 1
    then show ?thesis by (auto simp: escape_char_def unescape_def)
  next
    case 2
    then show ?thesis
      by (auto simp: escape_char_def unescape_def dest!: of_char_eqD)
  next
    case 3
    then have "escape_char c = [CHR 0x5C, CHR ''u'', CHR ''0'', CHR ''0'', hex_digit (?n div 16), hex_digit (?n mod 16)]"
      by (simp add: escape_char_def Let_def)
    then show ?thesis using hex4_low [OF 3(4)] by simp
  next
    case 4
    then have "escape_char c = [c]" by (simp add: escape_char_def Let_def)
    then show ?thesis using 4 parse_str_plain [of c s] by simp
  qed
qed

lemma parse_str_stringify: "parse_str (concat (map escape_char s) @ CHR ''\"'' # r) = Some (s, r)"
  by (induction s) (simp_all add: parse_str_escape_char)

subsection \<open>Values\<close>

definition parse_digits :: "string \<Rightarrow> (string \<times> string) option" where
  "parse_digits s = (if takeWhile is_digit s = [] then None else Some (takeWhile is_digit s, dropWhile is_digit s))"

definition parse_frac :: "string \<Rightarrow> (string \<times> string) option" where
  "parse_frac s =
     (case s of
        c # t \<Rightarrow> if c = CHR ''.'' then map_option (apfst ((#) c)) (parse_digits t) else Some ([], s)
      | [] \<Rightarrow> Some ([], []))"

definition parse_exp :: "string \<Rightarrow> (string \<times> string) option" where
  "parse_exp s =
     (case s of
        c # t \<Rightarrow>
          if c \<in> {CHR ''e'', CHR ''E''} then
            (case t of
               d # u \<Rightarrow> if d \<in> {CHR ''+'', CHR ''-''}
                         then map_option (apfst (\<lambda>x. c # d # x)) (parse_digits u)
                         else map_option (apfst ((#) c)) (parse_digits t)
             | [] \<Rightarrow> None)
          else Some ([], s)
      | [] \<Rightarrow> Some ([], []))"

definition parse_int :: "string \<Rightarrow> (string \<times> string) option" where
  "parse_int s =
     (case s of
        c # t \<Rightarrow> if c = CHR ''0'' then Some ([c], t) else parse_digits s
      | [] \<Rightarrow> None)"

definition parse_number :: "string \<Rightarrow> (json \<times> string) option" where
  "parse_number s =
     (let (sg, s1) = (case s of c # t \<Rightarrow> if c = CHR ''-'' then ([c], t) else ([], s) | [] \<Rightarrow> ([], [])) in
      Option.bind (parse_int s1) (\<lambda>(ip, s2).
      Option.bind (parse_frac s2) (\<lambda>(fp, s3).
      Option.bind (parse_exp s3) (\<lambda>(ep, s4). Some (JNum (js_Number (sg @ ip @ fp @ ep)), s4)))))"

definition strip_prefix :: "string \<Rightarrow> string \<Rightarrow> string option" where
  "strip_prefix p s = (if take (length p) s = p then Some (drop (length p) s) else None)"

text \<open>
  An object keeps one entry per key, at the position of the first occurrence and with the
  last value, as an assignment to a property does.
\<close>

fun obj_set :: "string \<Rightarrow> json \<Rightarrow> (string \<times> json) list \<Rightarrow> (string \<times> json) list" where
  "obj_set k v [] = [(k, v)]"
| "obj_set k v ((k', v') # es) = (if k = k' then (k, v) # es else (k', v') # obj_set k v es)"

fun parse_value :: "nat \<Rightarrow> string \<Rightarrow> (json \<times> string) option"
  and parse_elems :: "nat \<Rightarrow> json list \<Rightarrow> string \<Rightarrow> (json \<times> string) option"
  and parse_members :: "nat \<Rightarrow> (string \<times> json) list \<Rightarrow> string \<Rightarrow> (json \<times> string) option" where
  "parse_value 0 s = None"
| "parse_value (Suc n) s =
     (case skip_ws s of
        [] \<Rightarrow> None
      | c # t \<Rightarrow>
          if c = CHR ''\"'' then map_option (apfst JStr) (parse_str t)
          else if c = CHR ''['' then
            (case skip_ws t of
               d # u \<Rightarrow> if d = CHR '']'' then Some (JArr [], u) else parse_elems n [] t
             | [] \<Rightarrow> None)
          else if c = CHR ''{'' then
            (case skip_ws t of
               d # u \<Rightarrow> if d = CHR ''}'' then Some (JObj [], u) else parse_members n [] t
             | [] \<Rightarrow> None)
          else if strip_prefix ''null'' (c # t) \<noteq> None then Some (JNull, drop 3 t)
          else if strip_prefix ''true'' (c # t) \<noteq> None then Some (JBool True, drop 3 t)
          else if strip_prefix ''false'' (c # t) \<noteq> None then Some (JBool False, drop 4 t)
          else parse_number (c # t))"
| "parse_elems 0 acc s = None"
| "parse_elems (Suc n) acc s =
     (case parse_value n s of
        None \<Rightarrow> None
      | Some (v, s') \<Rightarrow>
          (case skip_ws s' of
             c # t \<Rightarrow> if c = CHR '','' then parse_elems n (acc @ [v]) t
                       else if c = CHR '']'' then Some (JArr (acc @ [v]), t) else None
           | [] \<Rightarrow> None))"
| "parse_members 0 acc s = None"
| "parse_members (Suc n) acc s =
     (case skip_ws s of
        [] \<Rightarrow> None
      | q # s0 \<Rightarrow>
          if q \<noteq> CHR ''\"'' then None
          else (case parse_str s0 of
             None \<Rightarrow> None
           | Some (k, s1) \<Rightarrow>
               (case skip_ws s1 of
                  [] \<Rightarrow> None
                | c # s2 \<Rightarrow>
                    if c \<noteq> CHR '':'' then None
                    else (case parse_value n s2 of
                       None \<Rightarrow> None
                     | Some (v, s3) \<Rightarrow>
                         (case skip_ws s3 of
                            d # t \<Rightarrow> if d = CHR '','' then parse_members n (obj_set k v acc) t
                                      else if d = CHR ''}'' then Some (JObj (obj_set k v acc), t) else None
                          | [] \<Rightarrow> None)))))"

definition JSON_parse :: "string \<Rightarrow> js_exn + json" where
  "JSON_parse s =
     (case parse_value (3 * length s + 1) s of
        Some (v, r) \<Rightarrow> if skip_ws r = [] then Inr v else Inl SyntaxError
      | None \<Rightarrow> Inl SyntaxError)"

text \<open>A string that was stringified is parsed back to itself.\<close>

lemma JSON_parse_stringify: "JSON_parse (stringify_str s) = Inr (JStr s)"
proof -
  have "skip_ws (stringify_str s) = CHR ''\"'' # concat (map escape_char s) @ ''\"''"
    by (simp add: skip_ws_def stringify_str_def js_ws_def)
  then have "parse_value (Suc n) (stringify_str s) = Some (JStr s, [])" for n
    using parse_str_stringify [of s "[]"] by simp
  then show ?thesis by (simp add: JSON_parse_def skip_ws_def)
qed

text \<open>So is a natural number, and \<open>null\<close>.\<close>

lemma digit_zero: "digit_char 0 = CHR ''0''"
  by (simp add: digit_char_def) code_simp

lemma nat_str_lead: "nat_str n = CHR ''0'' # t \<Longrightarrow> n = 0"
proof (induction n arbitrary: t rule: nat_str.induct)
  case (1 n)
  show ?case
  proof (cases "n < 10")
    case True
    with 1(2) have "digit_char n = CHR ''0''" by (simp add: nat_str.simps [of n])
    then have "digit_val (digit_char n) = digit_val (digit_char 0)" by (simp only: digit_zero)
    with True show ?thesis by simp
  next
    case False
    obtain c u where "nat_str (n div 10) = c # u" by (cases "nat_str (n div 10)") auto
    with 1(2) False have "nat_str (n div 10) = CHR ''0'' # u" by (simp add: nat_str.simps [of n])
    with 1(1) False show ?thesis by fastforce
  qed
qed

lemma parse_int_nat_str: "parse_int (nat_str n) = Some (nat_str n, [])"
proof (cases "n = 0")
  case True
  then show ?thesis by (simp add: parse_int_def nat_str.simps digit_zero)
next
  case False
  obtain c t where ct: "nat_str n = c # t" by (cases "nat_str n") auto
  with False have "c \<noteq> CHR ''0''" using nat_str_lead by blast
  moreover have "takeWhile is_digit (nat_str n) = nat_str n" "dropWhile is_digit (nat_str n) = []"
    using nat_str_digits [of n] by (simp_all add: takeWhile_eq_all_conv dropWhile_eq_Nil_conv list_all_iff)
  ultimately show ?thesis using ct by (simp add: parse_int_def parse_digits_def)
qed

lemma JSON_parse_nat_str: "JSON_parse (nat_str n) = Inr (JNum (to_js (of_nat n)))"
proof -
  obtain c t where ct: "nat_str n = c # t" by (cases "nat_str n") auto
  then have d: "is_digit c" using nat_str_digits [of n] by simp
  then have ne: "c \<notin> {CHR ''\"'', CHR ''['', CHR ''{'', CHR ''n'', CHR ''t'', CHR ''f'', CHR ''-''}" "\<not> js_ws c"
    by (auto simp: is_digit_def js_ws_def)
  have "parse_number (c # t) = Some (JNum (js_Number (nat_str n)), [])"
    using parse_int_nat_str [of n] ne(1) ct by (simp add: parse_number_def parse_frac_def parse_exp_def)
  then have "parse_value (Suc k) (nat_str n) = Some (JNum (js_Number (nat_str n)), [])" for k
    using ne ct by (simp add: skip_ws_def strip_prefix_def)
  then show ?thesis by (simp add: JSON_parse_def skip_ws_def js_Number_nat_str)
qed

lemma JSON_parse_null: "JSON_parse ''null'' = Inr JNull"
  by code_simp

end
