(* ===== verification/Offer_Service.thy ===== *)
theory Offer_Service
  imports Offer_Slowdown Js_JsonText
begin

section \<open>Offer service: configuration and handlers\<close>

text \<open>
  \<open>offerservice/src/config.ts\<close>, \<open>controllers/\<close> and \<open>middleware/index.ts\<close>. The network
  is a parameter: a function that says what a request of the handler ends with. The log of
  an action is the requests it sends and the response it gives.
\<close>

subsection \<open>Configuration\<close>

record service_config =
  appPort :: jsnum
  managerUrl :: string
  loginServiceUrl :: string
  featureFlagServiceUrl :: string

definition env :: "(string \<Rightarrow> string option) \<Rightarrow> string \<Rightarrow> string \<Rightarrow> string" where
  "env process_env name defaultValue =
     (case process_env name of None \<Rightarrow> defaultValue | Some v \<Rightarrow> v)"

definition service_url :: "(string \<Rightarrow> string option) \<Rightarrow> string \<Rightarrow> string \<Rightarrow> string" where
  "service_url pe service port =
     env pe (service @ ''_PROTOCOL'') ''http'' @ ''://'' @
     env pe (service @ ''_BASE_URL'') ''localhost'' @ '':'' @
     env pe (service @ ''_PORT'') port"

definition offer_config :: "(string \<Rightarrow> string option) \<Rightarrow> service_config" where
  "offer_config pe =
     \<lparr>appPort = js_parseInt (env pe ''APP_PORT'' ''8080''),
      managerUrl = service_url pe ''MANAGER'' ''8081'',
      loginServiceUrl = service_url pe ''LOGIN_SERVICE'' ''8081'',
      featureFlagServiceUrl = service_url pe ''FEATURE_FLAG_SERVICE'' ''80''\<rparr>"

definition url_getPackages :: "service_config \<Rightarrow> string" where
  "url_getPackages c = managerUrl c @ ''/api/Packages/GetPackages''"

definition url_getProducts :: "service_config \<Rightarrow> string" where
  "url_getProducts c = managerUrl c @ ''/api/Products/GetProducts''"

definition url_createAccount :: "service_config \<Rightarrow> string" where
  "url_createAccount c = loginServiceUrl c @ ''/api/Accounts/CreateNewAccount''"

definition url_getFeatureFlag :: "service_config \<Rightarrow> string \<Rightarrow> string" where
  "url_getFeatureFlag c flagId = featureFlagServiceUrl c @ ''/v1/flags/'' @ flagId"

subsection \<open>Offers: fetching and filtering\<close>

record package =
  pkg_id :: jsnum
  pkg_name :: string
  pkg_price :: jsnum
  pkg_support :: string

record product =
  prod_id :: jsnum
  prod_name :: string
  prod_ppt :: jsnum
  prod_currency :: string

datatype body = XmlBody string | JsonBody json | TextBody string | UnexpectedBody js_exn

datatype offer_event =
    Get string
  | PostJson string json
  | Respond nat string body   \<comment> \<open>status, content type, body\<close>

text \<open>
  \<open>await fetch(url)\<close> followed by \<open>await res.json()\<close>: each may fail; the status of the
  answer is not looked at.
\<close>

type_synonym 'a fetched = "js_exn + (js_exn + 'a)"

definition fetch_json :: "(string \<Rightarrow> 'a fetched) \<Rightarrow> string \<Rightarrow> (offer_event, 'a) act" where
  "fetch_json net url =
     act_then (act_emit (Get url)) (act_bind (act_of (net url)) act_of)"

definition getPackages ::
  "(string \<Rightarrow> package list fetched) \<Rightarrow> service_config \<Rightarrow> jsnum option \<Rightarrow> (offer_event, package list) act" where
  "getPackages net c maxYearlyFee =
     act_try
       (act_bind (fetch_json net (url_getPackages c)) (\<lambda>data.
          act_return (case maxYearlyFee of
              None \<Rightarrow> data
            | Some m \<Rightarrow> filter (\<lambda>p. js_le (pkg_price p) m) data)))
       (\<lambda>_. act_return [])"

text \<open>
  \<open>productNames.includes(name)\<close> on what \<open>JSON.parse\<close> made of the query: membership for
  an array, substring search for a string, and a \<open>TypeError\<close> for anything else.
\<close>

fun json_includes :: "json \<Rightarrow> string \<Rightarrow> js_exn + bool" where
  "json_includes (JArr vs) s = Inr (JStr s \<in> set vs)"
| "json_includes (JStr t) s = Inr (js_includes t s)"
| "json_includes _ s = Inl TypeError"

fun filter_products :: "json \<Rightarrow> product list \<Rightarrow> js_exn + product list" where
  "filter_products names [] = Inr []"
| "filter_products names (p # ps) =
     (case json_includes names (prod_name p) of
        Inl e \<Rightarrow> Inl e
      | Inr b \<Rightarrow> (case filter_products names ps of
            Inl e \<Rightarrow> Inl e
          | Inr qs \<Rightarrow> Inr (if b then p # qs else qs)))"

definition getProducts ::
  "(string \<Rightarrow> product list fetched) \<Rightarrow> service_config \<Rightarrow> json option \<Rightarrow> (offer_event, product list) act" where
  "getProducts net c productNames =
     act_try
       (act_bind (fetch_json net (url_getProducts c)) (\<lambda>data.
          act_of (case productNames of None \<Rightarrow> Inr data | Some names \<Rightarrow> filter_products names data)))
       (\<lambda>_. act_return [])"

subsection \<open>Offers: the handler\<close>

record offers_request =
  oreq_platform :: string
  maxYearlyFeeFilter :: "string option"
  productFilter :: "string option"
  oreq_accept :: "string option"

definition json_of_package :: "package \<Rightarrow> json" where
  "json_of_package p =
     JObj [(''id'', JNum (pkg_id p)), (''name'', JStr (pkg_name p)),
           (''price'', JNum (pkg_price p)), (''support'', JStr (pkg_support p))]"

definition json_of_product :: "product \<Rightarrow> json" where
  "json_of_product p =
     JObj [(''id'', JNum (prod_id p)), (''name'', JStr (prod_name p)),
           (''ppt'', JNum (prod_ppt p)), (''currency'', JStr (prod_currency p))]"

definition offer_data :: "string \<Rightarrow> package list \<Rightarrow> product list \<Rightarrow> json" where
  "offer_data platform packages products =
     JObj [(''platform'', JStr ''EasyTrade''), (''quoteFor'', JStr platform),
           (''packages'', JArr (map json_of_package packages)),
           (''products'', JArr (map json_of_product products))]"

definition xmlMimeTypes :: "string list" where
  "xmlMimeTypes = [''application/xml'', ''text/xml'']"

definition offer_response :: "string option \<Rightarrow> json \<Rightarrow> offer_event" where
  "offer_response accept data =
     (case accept of
        Some h \<Rightarrow> if h \<in> set xmlMimeTypes
                   then Respond 200 (hd xmlMimeTypes) (XmlBody (toXml ''offer'' data))
                   else Respond 200 ''application/json'' (JsonBody data)
      | None \<Rightarrow> Respond 200 ''application/json'' (JsonBody data))"

definition getOffers ::
  "(string \<Rightarrow> package list fetched) \<Rightarrow> (string \<Rightarrow> product list fetched) \<Rightarrow> service_config
     \<Rightarrow> offers_request \<Rightarrow> (offer_event, unit) act" where
  "getOffers pnet qnet c req =
     (let maxYearlyFee = map_option js_Number (maxYearlyFeeFilter req) in
      act_bind
        (case productFilter req of
           None \<Rightarrow> act_return None
         | Some q \<Rightarrow> act_bind (act_of (JSON_parse q)) (\<lambda>v. act_return (Some v)))
        (\<lambda>productNames.
      act_bind (getPackages pnet c maxYearlyFee) (\<lambda>packages.
      act_bind (getProducts qnet c productNames) (\<lambda>products.
        act_emit (offer_response (oreq_accept req)
                    (offer_data (oreq_platform req) packages products))))))"

subsection \<open>Sign up\<close>

text \<open>What the login service answers: a status and a body that is read as text or as JSON.\<close>

record upstream =
  up_status :: nat
  up_text :: "js_exn + string"
  up_json :: "js_exn + json"

definition signUpNewUser ::
  "(string \<Rightarrow> json \<Rightarrow> js_exn + upstream) \<Rightarrow> service_config \<Rightarrow> json \<Rightarrow> (offer_event, unit) act" where
  "signUpNewUser net c body =
     act_try
       (let url = url_createAccount c in
        act_then (act_emit (PostJson url body))
        (act_bind (act_of (net url body)) (\<lambda>up.
           if \<not> res_ok (up_status up) then
             act_bind (act_of (up_text up)) (\<lambda>text.
               act_emit (Respond (up_status up) ''text/html'' (TextBody text)))
           else
             act_bind (act_of (up_json up)) (\<lambda>data.
               act_emit (Respond 201 ''application/json'' (JsonBody data))))))
       (\<lambda>err. act_emit (Respond 500 ''application/json'' (UnexpectedBody err)))"

subsection \<open>Version\<close>

record version =
  buildVersion :: string
  buildDate :: string
  buildCommit :: string

definition getVersionString :: "version \<Rightarrow> string" where
  "getVersionString v =
     ''EasyTrade Offer Service Version: '' @ buildVersion v @ [CHR 0x0A, CHR 0x0A] @
     ''Build date: '' @ buildDate v @ '', git commit: '' @ buildCommit v"

definition json_of_version :: "version \<Rightarrow> json" where
  "json_of_version v =
     JObj [(''buildVersion'', JStr (buildVersion v)), (''buildDate'', JStr (buildDate v)),
           (''buildCommit'', JStr (buildCommit v))]"

definition getVersion :: "version \<Rightarrow> string option \<Rightarrow> (offer_event, unit) act" where
  "getVersion v accept =
     (if accept = Some ''application/json''
      then act_emit (Respond 200 ''application/json'' (JsonBody (json_of_version v)))
      else act_emit (Respond 200 ''text/plain'' (TextBody (getVersionString v))))"

subsection \<open>The application\<close>

definition corsMiddleware :: "(string \<times> string) list" where
  "corsMiddleware =
     [(''Access-Control-Allow-Origin'', ''*''),
      (''Access-Control-Allow-Methods'', ''OPTIONS, GET, POST, PUT, PATCH, DELETE''),
      (''Access-Control-Allow-Headers'', ''Content-Type, Authorization'')]"

datatype middleware = Urlencoded | JsonBodyParser | Cors | RequestLogging | SlowdownAt string

definition setupMiddleware :: "middleware list" where
  "setupMiddleware = [Urlencoded, JsonBodyParser, Cors, RequestLogging, SlowdownAt ''/api/offers/:platform'']"

datatype handler = GetOffers | SignUpNewUser | GetVersion

definition setupControllers :: "(string \<times> string \<times> handler) list" where
  "setupControllers =
     [(''GET'', ''/api/offers/:platform'', GetOffers),
      (''POST'', ''/api/signup'', SignUpNewUser),
      (''GET'', ''/api/version'', GetVersion)]"

text \<open>
  \<open>app.ts\<close> and \<open>logger.ts\<close>: the application is set up in this order before it listens. Log lines are
  not events of the model; what decides about them is.
\<close>

datatype start_step = UseMiddleware middleware | AddRoute "string \<times> string \<times> handler" | Listen jsnum

definition app_start :: "service_config \<Rightarrow> start_step list" where
  "app_start c = map UseMiddleware setupMiddleware @ map AddRoute setupControllers @ [Listen (appPort c)]"

definition supressLogs :: "(string \<Rightarrow> string option) \<Rightarrow> bool" where
  "supressLogs process_env \<longleftrightarrow> trim (nullish (process_env ''NODE_ENV'') []) = ''test''"

definition log_line :: "string \<Rightarrow> string \<Rightarrow> string \<Rightarrow> string option \<Rightarrow> string" where
  "log_line timestamp level message stack =
     ''['' @ timestamp @ ''] ['' @ to_upper level @ '']: '' @ nullish stack message"

definition addMetadata :: "(string \<rightharpoonup> json) \<Rightarrow> (string \<rightharpoonup> json) \<Rightarrow> (string \<rightharpoonup> json)" where
  "addMetadata metadata defaultMeta = defaultMeta ++ metadata"

definition disableLogs :: "bool list \<Rightarrow> bool list" where
  "disableLogs silent = map (\<lambda>_. True) silent"

text \<open>Every route is added after the middleware that has to run before it.\<close>

lemma app_start_order:
  "takeWhile (\<lambda>s. \<not> (\<exists>r. s = AddRoute r)) (app_start c) = map UseMiddleware setupMiddleware"
  by (auto simp: app_start_def setupMiddleware_def setupControllers_def)

text \<open>
  An offers request as a whole: the slowdown middleware and then, when it calls \<open>next\<close>,
  the handler.
\<close>

definition offers_pipeline ::
  "(string \<Rightarrow> bool \<Rightarrow> bool) \<Rightarrow> (nat \<Rightarrow> rat) \<Rightarrow> (string \<Rightarrow> package list fetched)
     \<Rightarrow> (string \<Rightarrow> product list fetched) \<Rightarrow> service_config \<Rightarrow> offers_request \<Rightarrow> slowdown_state
     \<Rightarrow> slowdown_state \<times> slow_event list \<times> (js_exn + unit) \<times> offer_event list" where
  "offers_pipeline getBooleanValue rnd pnet qnet c req s =
     (case slowdownMiddleware getBooleanValue rnd (oreq_platform req) s of
        (s', Inl e) \<Rightarrow> (s', [], Inl e, [])
      | (s', Inr evs) \<Rightarrow>
          (s', evs, if CallNext \<in> set evs then getOffers pnet qnet c req [] else (Inr (), [])))"

subsection \<open>Behaviour of the handlers\<close>

text \<open>What a handler has in hand after a request: nothing, unless the request succeeded.\<close>

definition fetched_list :: "'a list fetched \<Rightarrow> 'a list" where
  "fetched_list r = (case r of Inr (Inr xs) \<Rightarrow> xs | _ \<Rightarrow> [])"

definition offered_packages :: "package list fetched \<Rightarrow> string option \<Rightarrow> package list" where
  "offered_packages r fee =
     (case fee of
        None \<Rightarrow> fetched_list r
      | Some f \<Rightarrow> filter (\<lambda>p. js_le (pkg_price p) (js_Number f)) (fetched_list r))"

definition offered_products :: "product list fetched \<Rightarrow> json option \<Rightarrow> product list" where
  "offered_products r names =
     (case names of
        None \<Rightarrow> fetched_list r
      | Some v \<Rightarrow> (case filter_products v (fetched_list r) of Inl _ \<Rightarrow> [] | Inr ps \<Rightarrow> ps))"

definition parsed_filter :: "string option \<Rightarrow> js_exn + json option" where
  "parsed_filter f =
     (case f of None \<Rightarrow> Inr None
      | Some q \<Rightarrow> (case JSON_parse q of Inl e \<Rightarrow> Inl e | Inr v \<Rightarrow> Inr (Some v)))"

lemma fetch_json_run [act_simps]:
  "fetch_json net url l = ((case net url of Inl e \<Rightarrow> Inl e | Inr b \<Rightarrow> b), l @ [Get url])"
  by (simp add: fetch_json_def act_simps split: sum.splits)

lemma getPackages_run [act_simps]:
  "getPackages net c (map_option js_Number fee) l =
     (Inr (offered_packages (net (url_getPackages c)) fee), l @ [Get (url_getPackages c)])"
  by (simp add: getPackages_def act_simps offered_packages_def fetched_list_def
      split: sum.splits option.splits)

lemma getProducts_run [act_simps]:
  "getProducts net c names l =
     (Inr (offered_products (net (url_getProducts c)) names), l @ [Get (url_getProducts c)])"
  by (simp add: getProducts_def act_simps offered_products_def fetched_list_def
      split: sum.splits option.splits)

lemma getOffers_run:
  "getOffers pnet qnet c req l =
     (case parsed_filter (productFilter req) of
        Inl e \<Rightarrow> (Inl e, l)
      | Inr names \<Rightarrow>
          (Inr (), l @ [Get (url_getPackages c), Get (url_getProducts c),
             offer_response (oreq_accept req) (offer_data (oreq_platform req)
               (offered_packages (pnet (url_getPackages c)) (maxYearlyFeeFilter req))
               (offered_products (qnet (url_getProducts c)) names))]))"
  by (simp add: getOffers_def parsed_filter_def act_simps split: option.splits sum.splits)

lemma filter_products_array:
  "filter_products (JArr vs) ps = Inr (filter (\<lambda>p. JStr (prod_name p) \<in> set vs) ps)"
  by (induction ps) auto

lemma filter_products_string:
  "filter_products (JStr t) ps = Inr (filter (\<lambda>p. js_includes t (prod_name p)) ps)"
  by (induction ps) auto

subsection \<open>Properties\<close>

text \<open>
  C25: an offers request whose \<open>productFilter\<close> is absent or valid JSON is always answered,
  once, with status 200, after one request for the packages and one for the products;
  whatever fails behind it only empties its list. The body is XML exactly for the two XML
  media types.
\<close>

theorem getOffers_answers:
  assumes "parsed_filter (productFilter req) = Inr names"
  shows "getOffers pnet qnet c req [] =
     (Inr (), [Get (managerUrl c @ ''/api/Packages/GetPackages''),
               Get (managerUrl c @ ''/api/Products/GetProducts''),
               (let data = offer_data (oreq_platform req)
                     (offered_packages (pnet (url_getPackages c)) (maxYearlyFeeFilter req))
                     (offered_products (qnet (url_getProducts c)) names)
                in if oreq_accept req \<in> {Some ''application/xml'', Some ''text/xml''}
                   then Respond 200 ''application/xml'' (XmlBody (toXml ''offer'' data))
                   else Respond 200 ''application/json'' (JsonBody data))])"
  using assms
  by (auto simp: getOffers_run offer_response_def xmlMimeTypes_def url_getPackages_def
      url_getProducts_def Let_def split: option.splits)

theorem getOffers_answers_witness:
  "snd (getOffers (\<lambda>_. Inl NetworkError) (\<lambda>_. Inl NetworkError) (offer_config (\<lambda>_. None))
     \<lparr>oreq_platform = ''x'', maxYearlyFeeFilter = None, productFilter = None, oreq_accept = None\<rparr> [])
   = [Get ''http://localhost:8081/api/Packages/GetPackages'',
      Get ''http://localhost:8081/api/Products/GetProducts'',
      Respond 200 ''application/json'' (JsonBody (offer_data ''x'' [] []))]"
  using getOffers_answers [of "\<lparr>oreq_platform = ''x'', maxYearlyFeeFilter = None, productFilter = None,
      oreq_accept = None\<rparr>" None "\<lambda>_. Inl NetworkError" "\<lambda>_. Inl NetworkError" "offer_config (\<lambda>_. None)"]
  by (simp add: parsed_filter_def offer_config_def service_url_def env_def offered_packages_def
      offered_products_def fetched_list_def)

text \<open>
  A \<open>productFilter\<close> that is not JSON is not caught by the handler: it rejects with the
  \<open>SyntaxError\<close> before it sends any request or any response.
\<close>

lemma getOffers_bad_filter:
  assumes "productFilter req = Some q" and "JSON_parse q = Inl e"
  shows "getOffers pnet qnet c req [] = (Inl e, [])"
  using assms by (simp add: getOffers_run parsed_filter_def)

text \<open>
  The yearly fee filter: a number written in decimal selects exactly the packages whose
  price is at most that number, in the order the manager service lists them.
\<close>

lemma fee_filter_decimal:
  "getPackages net c (Some (js_Number (nat_str n))) [] =
     (Inr (filter (\<lambda>p. js_le (pkg_price p) (to_js (of_nat n))) (fetched_list (net (url_getPackages c)))),
      [Get (url_getPackages c)])"
  using getPackages_run [of net c "Some (nat_str n)" "[]"]
  by (simp add: offered_packages_def js_Number_nat_str)

text \<open>
  A product filter that is an array selects exactly the products it names, in the order
  the manager service lists them, and one that is a string those whose name is part of it;
  \<open>null\<close>, a boolean, a number or an object empties the list instead of failing the request.
\<close>

lemma product_filter:
  "getProducts net c (Some v) [] =
     (Inr (case v of
        JArr vs \<Rightarrow> filter (\<lambda>p. JStr (prod_name p) \<in> set vs) (fetched_list (net (url_getProducts c)))
      | JStr t \<Rightarrow> filter (\<lambda>p. js_includes t (prod_name p)) (fetched_list (net (url_getProducts c)))
      | _ \<Rightarrow> []), [Get (url_getProducts c)])"
  by (cases "fetched_list (net (url_getProducts c))")
     (auto simp: act_simps offered_products_def filter_products_array filter_products_string
       split: json.splits)

text \<open>
  C26: signing up sends one request and always ends with exactly one response: the login
  service's status and text when it refuses, 201 with its JSON when it accepts, and 500
  when the network or the body fails.
\<close>

theorem signUp_responds:
  "signUpNewUser net c b [] =
     (Inr (), [PostJson (loginServiceUrl c @ ''/api/Accounts/CreateNewAccount'') b,
        (case net (url_createAccount c) b of
           Inl e \<Rightarrow> Respond 500 ''application/json'' (UnexpectedBody e)
         | Inr up \<Rightarrow>
             if res_ok (up_status up) then
               (case up_json up of Inl e \<Rightarrow> Respond 500 ''application/json'' (UnexpectedBody e)
                                 | Inr d \<Rightarrow> Respond 201 ''application/json'' (JsonBody d))
             else
               (case up_text up of Inl e \<Rightarrow> Respond 500 ''application/json'' (UnexpectedBody e)
                                 | Inr t \<Rightarrow> Respond (up_status up) ''text/html'' (TextBody t)))])"
  by (auto simp: signUpNewUser_def Let_def act_simps url_createAccount_def split: sum.splits)

end
