(* ===== verification/Js_Traces.thy ===== *)
theory Js_Traces
  imports Js_Prelude
begin

section \<open>Traces of actions\<close>

text \<open>
  Trace languages for actions against an environment that may answer, or fail, differently
  at every step. \<open>traces T m\<close> says that whatever \<open>m\<close> adds to the log is a word of \<open>T\<close> when
  it returns and a prefix of one when it throws; \<open>returns m\<close> says that it returns. Both go
  through \<open>await\<close> compositionally.
\<close>

definition seq :: "'ev list set \<Rightarrow> 'ev list set \<Rightarrow> 'ev list set" where
  "seq A B = {a @ b |a b. a \<in> A \<and> b \<in> B}"

lemma seqI: "a \<in> A \<Longrightarrow> b \<in> B \<Longrightarrow> a @ b \<in> seq A B"
  by (auto simp: seq_def)

lemma seqE:
  assumes "w \<in> seq A B"
  obtains a b where "w = a @ b" "a \<in> A" "b \<in> B"
  using assms by (auto simp: seq_def)

lemma seq_empty_iff [simp]: "seq A B = {} \<longleftrightarrow> A = {} \<or> B = {}"
  by (auto simp: seq_def)

lemma seq_assoc: "seq (seq A B) C = seq A (seq B C)"
proof (intro set_eqI iffI)
  fix w assume "w \<in> seq (seq A B) C"
  then obtain a b c where "w = (a @ b) @ c" "a \<in> A" "b \<in> B" "c \<in> C" by (auto simp: seq_def)
  then show "w \<in> seq A (seq B C)" using seqI [of a A "b @ c"] by (simp add: seqI)
next
  fix w assume "w \<in> seq A (seq B C)"
  then obtain a b c where "w = a @ (b @ c)" "a \<in> A" "b \<in> B" "c \<in> C" by (auto simp: seq_def)
  then show "w \<in> seq (seq A B) C" using seqI [of "a @ b" "seq A B" c C] by (simp add: seqI)
qed

lemma seq_singletons [simp]: "seq {a} {b} = {a @ b}"
  by (auto simp: seq_def)

lemma seq_Nil [simp]: "seq {[]} B = B" "seq A {[]} = A"
  by (auto simp: seq_def)

definition traces :: "'ev list set \<Rightarrow> ('ev, 'a) act \<Rightarrow> bool" where
  "traces T m \<longleftrightarrow> (\<forall>l. \<exists>es. snd (m l) = l @ es \<and>
     (case fst (m l) of Inl _ \<Rightarrow> \<exists>fs. es @ fs \<in> T | Inr _ \<Rightarrow> es \<in> T))"

lemma tracesE:
  assumes "traces T m"
  obtains (ret) x es where "m l = (Inr x, l @ es)" "es \<in> T"
  | (exn) e es fs where "m l = (Inl e, l @ es)" "es @ fs \<in> T"
proof -
  obtain es where es: "snd (m l) = l @ es"
    "case fst (m l) of Inl _ \<Rightarrow> \<exists>fs. es @ fs \<in> T | Inr _ \<Rightarrow> es \<in> T"
    using assms by (auto simp: traces_def)
  show thesis
  proof (cases "fst (m l)")
    case (Inl e)
    with es obtain fs where "es @ fs \<in> T" by auto
    with Inl es(1) show thesis by (intro exn [of e es fs]) (auto simp: prod_eq_iff)
  next
    case (Inr x)
    with es show thesis by (intro ret [of x es]) (auto simp: prod_eq_iff)
  qed
qed

lemma traces_bind [intro]:
  assumes "traces A m" "\<And>x. traces B (f x)" "B \<noteq> {}"
  shows "traces (seq A B) (act_bind m f)"
  unfolding traces_def
proof
  fix l
  consider (ret) x es where "m l = (Inr x, l @ es)" "es \<in> A"
    | (exn) e es fs where "m l = (Inl e, l @ es)" "es @ fs \<in> A"
    by (rule tracesE [OF assms(1), of l]) blast+
  then show "\<exists>es. snd (act_bind m f l) = l @ es \<and> (case fst (act_bind m f l) of
     Inl _ \<Rightarrow> \<exists>fs. es @ fs \<in> seq A B | Inr _ \<Rightarrow> es \<in> seq A B)"
  proof cases
    case (ret x es)
    consider (ret') y es' where "f x (l @ es) = (Inr y, (l @ es) @ es')" "es' \<in> B"
      | (exn') e es' fs' where "f x (l @ es) = (Inl e, (l @ es) @ es')" "es' @ fs' \<in> B"
      by (rule tracesE [OF assms(2) [of x], of "l @ es"]) blast+
    then show ?thesis
    proof cases
      case (ret' y es')
      with ret show ?thesis by (intro exI [of _ "es @ es'"]) (simp add: act_simps seqI)
    next
      case (exn' e es' fs')
      then have "es @ es' @ fs' \<in> seq A B" using ret(2) by (simp add: seqI)
      with ret exn' show ?thesis by (intro exI [of _ "es @ es'"]) (auto simp: act_simps)
    qed
  next
    case (exn e es fs)
    obtain b where "b \<in> B" using assms(3) by blast
    with exn have "es @ (fs @ b) \<in> seq A B" using seqI [of "es @ fs" A b B] by simp
    with exn show ?thesis by (intro exI [of _ es]) (auto simp: act_simps)
  qed
qed

lemma traces_mono: "traces A m \<Longrightarrow> A \<subseteq> B \<Longrightarrow> traces B m"
  unfolding traces_def by (fastforce split: sum.splits)

lemma traces_return [intro]: "traces {[]} (act_return x)"
  by (simp add: traces_def act_simps)

lemma traces_throw [intro]: "T \<noteq> {} \<Longrightarrow> traces T (act_throw e)"
  by (auto simp: traces_def act_simps)

lemma traces_emit [intro]: "traces {[v]} (act_emit v)"
  by (simp add: traces_def act_simps)

lemma traces_if:
  "traces A m \<Longrightarrow> traces B n \<Longrightarrow> traces (A \<union> B) (if c then m else n)"
  by (auto elim: traces_mono)

text \<open>The log after an action that returned.\<close>

lemma traces_returned: "traces T m \<Longrightarrow> m l = (Inr x, l') \<Longrightarrow> \<exists>es\<in>T. l' = l @ es"
  by (erule tracesE [where l = l]) auto

lemma traces_failed: "traces T m \<Longrightarrow> m l = (Inl e, l') \<Longrightarrow> \<exists>es fs. l' = l @ es \<and> es @ fs \<in> T"
  by (erule tracesE [where l = l]) auto

definition returns :: "('ev, 'a) act \<Rightarrow> bool" where
  "returns m \<longleftrightarrow> (\<forall>l. \<exists>x l'. m l = (Inr x, l'))"

lemma returns_bind [intro]: "returns m \<Longrightarrow> (\<And>x. returns (f x)) \<Longrightarrow> returns (act_bind m f)"
  unfolding returns_def by (metis (no_types, lifting) act_bind_apply case_prod_conv old.sum.simps(6))

lemma returns_return [intro!]: "returns (act_return x)"
  by (simp add: returns_def act_simps)

lemma returns_emit [intro!]: "returns (act_emit x)"
  by (simp add: returns_def act_simps)

lemma returnsD: "returns m \<Longrightarrow> \<exists>x l'. m l = (Inr x, l')"
  by (simp add: returns_def)

end
