(* ===== verification/Loadgen_Page.thy ===== *)
theory Loadgen_Page
  imports Js_Traces Js_Json
begin

section \<open>Load generator: pages, selectors and helpers\<close>

text \<open>
  \<open>loadgen/src/selectors.ts\<close>, \<open>const.ts\<close>, \<open>utils.ts\<close>, \<open>user/\<close> and \<open>helpers/\<close>. The page
  actions of the load generator library drive a browser: they are a parameter, a record of
  functions that decide, from everything done so far, whether a step fails and what a read
  finds. Every step that changes the page is an event of the log.
\<close>

subsection \<open>Selectors\<close>

datatype selector = XpathSelector string string

definition common_currentBalance :: selector where
  "common_currentBalance = XpathSelector ''current-balance'' ''//input[@id=\"currentBalance\"]''"

definition loginPage_username :: selector where
  "loginPage_username = XpathSelector ''username-input'' ''//input[@id=\"login\"]''"

definition loginPage_password :: selector where
  "loginPage_password = XpathSelector ''password-input'' ''//input[@id=\"password\"]''"

definition loginPage_loginButton :: selector where
  "loginPage_loginButton = XpathSelector ''login-button'' ''//button[@id=\"submitButton\"]''"

definition navigation_sidebarToggler :: selector where
  "navigation_sidebarToggler = XpathSelector ''sidebar-toggler'' ''//button[@id=\"navigationToggler\"]''"

definition navigation_depositPage :: selector where
  "navigation_depositPage = XpathSelector ''deposit-page-nav'' ''//a[contains(@href, \"deposit\")]''"

definition navigation_homePage :: selector where
  "navigation_homePage = XpathSelector ''home-page-nav'' ''//a[contains(@href, \"home\")]''"

definition navigation_withdrawPage :: selector where
  "navigation_withdrawPage = XpathSelector ''withdraw-page-nav'' ''//a[contains(@href, \"withdraw\")]''"

definition navigation_instrumentsPage :: selector where
  "navigation_instrumentsPage = XpathSelector ''instruments-page-nav'' ''//a[contains(@href, \"instruments\")]''"

definition navigation_dropdownToggler :: selector where
  "navigation_dropdownToggler = XpathSelector ''dropdown-toggler'' ''//button[@id=\"profileToggler\"]''"

definition navigation_creditCardPage :: selector where
  "navigation_creditCardPage = XpathSelector ''credit-card-page-nav'' ''//a[contains(@href, \"credit-card\")]''"

definition navigation_logout :: selector where
  "navigation_logout = XpathSelector ''logout-button'' ''//li[@id=\"logoutItem\"]''"

definition depositPage_submit :: selector where
  "depositPage_submit = XpathSelector ''deposit-button'' ''//form//button[@type=\"submit\"]''"

definition depositPage_cardholderName :: selector where
  "depositPage_cardholderName = XpathSelector ''name-input'' ''//input[@id=\"cardholderName\"]''"

definition depositPage_cardType :: selector where
  "depositPage_cardType = XpathSelector ''credit-card-select'' ''//div[@id=\"cardType\"]''"

definition depositPage_cardType_provider :: "string \<Rightarrow> selector" where
  "depositPage_cardType_provider v = XpathSelector ''credit-card-provider'' (''//*[@id=\"menu-cardType\"]//li[contains(text(), \"'' @ v @ ''\")]'')"

definition depositPage_address :: selector where
  "depositPage_address = XpathSelector ''address-input'' ''//input[@id=\"address\"]''"

definition depositPage_email :: selector where
  "depositPage_email = XpathSelector ''email-input'' ''//input[@id=\"email\"]''"

definition depositPage_cardNumber :: selector where
  "depositPage_cardNumber = XpathSelector ''card-number-input'' ''//input[@id=\"cardNumber\"]''"

definition depositPage_cardCvv :: selector where
  "depositPage_cardCvv = XpathSelector ''card-cvv-input'' ''//input[@id=\"cvv\"]''"

definition depositPage_amount :: selector where
  "depositPage_amount = XpathSelector ''deposit-amount-input'' ''//input[@id=\"amount\"]''"

definition depositPage_acceptTerms :: selector where
  "depositPage_acceptTerms = XpathSelector ''accept-terms-check'' ''//input[@id=\"agreement\"]''"

definition instrumentsPage_instrumentCard :: selector where
  "instrumentsPage_instrumentCard = XpathSelector ''instrument-card'' ''//div[contains(@class, \"instrument-card\")]/a[contains(@href, \"instruments\")]''"

definition instrumentsPage_ownedInstrument :: selector where
  "instrumentsPage_ownedInstrument = XpathSelector ''owned-instrument-card'' ''//div[contains(@class, \"owned-instrument\")]/a[contains(@href, \"instruments\")]''"

definition instrumentPage_quickBuyForm :: selector where
  "instrumentPage_quickBuyForm = XpathSelector ''quick-buy-nav'' ''//button[text()=\"Quick Buy\"]''"

definition instrumentPage_quickSellForm :: selector where
  "instrumentPage_quickSellForm = XpathSelector ''quick-sell-nav'' ''//button[text()=\"Quick Sell\"]''"

definition instrumentPage_buyForm :: selector where
  "instrumentPage_buyForm = XpathSelector ''long-buy-nav'' ''//button[text()=\"Buy\"]''"

definition instrumentPage_sellForm :: selector where
  "instrumentPage_sellForm = XpathSelector ''long-sell-nav'' ''//button[text()=\"Sell\"]''"

definition instrumentPage_instrumentPrice :: selector where
  "instrumentPage_instrumentPrice = XpathSelector ''instrument-price-view'' ''//h5[@id=\"instrumentPrice\"]''"

definition instrumentPage_instrumentName :: selector where
  "instrumentPage_instrumentName = XpathSelector ''instrument-name-view'' ''//*[@id=\"instrumentName\"]''"

definition instrumentPage_amountInput :: selector where
  "instrumentPage_amountInput = XpathSelector ''amount-input'' ''//input[@id=\"amount\"]''"

definition instrumentPage_possessedAmount :: selector where
  "instrumentPage_possessedAmount = XpathSelector ''owned-amount-view'' ''//input[@id=\"posessedAmount\"]''"

definition instrumentPage_priceInput :: selector where
  "instrumentPage_priceInput = XpathSelector ''price-input'' ''//input[@id=\"price\"]''"

definition instrumentPage_timeInput :: selector where
  "instrumentPage_timeInput = XpathSelector ''duration-input'' ''//input[@id=\"time\"]''"

definition instrumentPage_submitButton :: selector where
  "instrumentPage_submitButton = XpathSelector ''submit-transaction-button'' ''//button[@id=\"submitButton\"]''"

definition creditCardPage_nameInput :: selector where
  "creditCardPage_nameInput = XpathSelector ''name-input'' ''//input[@id=\"name\"]''"

definition creditCardPage_addressInput :: selector where
  "creditCardPage_addressInput = XpathSelector ''address-input'' ''//input[@id=\"address\"]''"

definition creditCardPage_emailInput :: selector where
  "creditCardPage_emailInput = XpathSelector ''email'' ''//input[@id=\"email\"]''"

definition creditCardPage_cardTypeInput :: selector where
  "creditCardPage_cardTypeInput = XpathSelector ''card-type-select'' ''//div[@id=\"type\"]''"

definition creditCardPage_cardType_type :: "string \<Rightarrow> selector" where
  "creditCardPage_cardType_type v = XpathSelector ''credit-card-provider'' (''//*[@id=\"menu-type\"]//li[contains(text(), \"'' @ v @ ''\")]'')"

definition creditCardPage_orderCardButton :: selector where
  "creditCardPage_orderCardButton = XpathSelector ''order-card-button'' ''//button[@id=\"submitButton\"]''"

definition creditCardPage_acceptTerms :: selector where
  "creditCardPage_acceptTerms = XpathSelector ''accept-terms-check'' ''//input[@id=\"agreement\"]''"

definition creditCardPage_revokeCard :: selector where
  "creditCardPage_revokeCard = XpathSelector ''revoke-card-button'' ''//button[@id=\"revoke-card\"]''"

definition creditCardPage_orderIdDisplay :: selector where
  "creditCardPage_orderIdDisplay = XpathSelector ''order-id-view'' ''//p[@id=\"order-id\"]''"

subsection \<open>Users, constants and random elements\<close>

datatype card_provider = visaDebit | visaCredit | mastercard | americanExpress

fun CREDIT_CARD_MAPPING :: "card_provider \<Rightarrow> string" where
  "CREDIT_CARD_MAPPING visaDebit = ''Visa Debit''"
| "CREDIT_CARD_MAPPING visaCredit = ''Visa Credit''"
| "CREDIT_CARD_MAPPING mastercard = ''Mastercard''"
| "CREDIT_CARD_MAPPING americanExpress = ''American Express''"

definition EASYTRADE_CREDIT_CARD_TYPES :: "string list" where
  "EASYTRADE_CREDIT_CARD_TYPES = [''Silver'', ''Gold'', ''Platinum'']"

record lg_user =
  first_name :: string
  last_name :: string
  username :: string
  email :: string
  password :: string
  user_agent :: string
  ip4 :: string
  address :: string
  credit_card_number :: string
  credit_card_cvv :: string
  credit_card_provider :: card_provider
  visitor_id :: string

record url =
  url_href :: string
  url_hostname :: string

definition arrayRandom :: "rat \<Rightarrow> 'a list \<Rightarrow> 'a option" where
  "arrayRandom r arr = (if length arr = 0 then None else Some (arr ! rand_index r (length arr)))"

definition getRandomUser :: "rat \<Rightarrow> lg_user list \<Rightarrow> lg_user option" where
  "getRandomUser r users = arrayRandom r users"

subsection \<open>Page actions\<close>

datatype page_event =
    SetUserAgent string
  | SetExtraHTTPHeaders "(string \<times> string) list"
  | SetCookie string string string string   \<comment> \<open>name, value, domain, path\<close>
  | GotoPage string
  | Click selector
  | Input selector string
  | Navigate selector
  | ClickHandle nat
  | NavigateHandle nat
  | ShortDelay
  | StandardDelay
  | EndDtSession

record browser =
  b_fails :: "page_event list \<Rightarrow> page_event \<Rightarrow> js_exn option"
  b_present :: "page_event list \<Rightarrow> selector \<Rightarrow> js_exn + bool"
  b_handle :: "page_event list \<Rightarrow> selector \<Rightarrow> js_exn + nat"
  b_handles :: "page_event list \<Rightarrow> selector \<Rightarrow> js_exn + nat list"
  b_text :: "page_event list \<Rightarrow> selector \<Rightarrow> js_exn + string"
  b_property :: "page_event list \<Rightarrow> selector \<Rightarrow> string \<Rightarrow> js_exn + string"

type_synonym 'a page_act = "(page_event, 'a) act"

definition pa_do :: "browser \<Rightarrow> page_event \<Rightarrow> unit page_act" where
  "pa_do b v = (\<lambda>l. case b_fails b l v of None \<Rightarrow> (Inr (), l @ [v]) | Some e \<Rightarrow> (Inl e, l))"

definition pa_read :: "(page_event list \<Rightarrow> js_exn + 'a) \<Rightarrow> 'a page_act" where
  "pa_read q = (\<lambda>l. (q l, l))"

definition isSelectorPresent :: "browser \<Rightarrow> selector \<Rightarrow> bool page_act" where
  "isSelectorPresent b s = pa_read (\<lambda>l. b_present b l s)"

definition getHandle :: "browser \<Rightarrow> selector \<Rightarrow> nat page_act" where
  "getHandle b s = pa_read (\<lambda>l. b_handle b l s)"

definition getAllHandles :: "browser \<Rightarrow> selector \<Rightarrow> nat list page_act" where
  "getAllHandles b s = pa_read (\<lambda>l. b_handles b l s)"

definition getInnerText :: "browser \<Rightarrow> selector \<Rightarrow> string page_act" where
  "getInnerText b s = pa_read (\<lambda>l. b_text b l s)"

definition getProperty :: "browser \<Rightarrow> selector \<Rightarrow> string \<Rightarrow> string page_act" where
  "getProperty b s name = pa_read (\<lambda>l. b_property b l s name)"

subsection \<open>helpers/common.ts, login.ts, logout.ts\<close>

definition pageSetup :: "browser \<Rightarrow> lg_user \<Rightarrow> url \<Rightarrow> unit page_act" where
  "pageSetup b user appUrl =
     act_then (pa_do b (SetUserAgent (user_agent user)))
     (act_then (pa_do b (SetExtraHTTPHeaders [(''x-forwarded-for'', ip4 user)]))
       (pa_do b (SetCookie ''rxVisitor'' (visitor_id user) (url_hostname appUrl) ''/'')))"

definition selectCardProvider :: "browser \<Rightarrow> selector \<Rightarrow> string \<Rightarrow> unit page_act" where
  "selectCardProvider b cardProviderSelector cardProvider =
     act_then (pa_do b (Click cardProviderSelector))
     (act_bind (getHandle b (depositPage_cardType_provider cardProvider)) (\<lambda>providerHandle.
      act_then (pa_do b ShortDelay)
        (pa_do b (ClickHandle providerHandle))))"

definition showNavbar :: "browser \<Rightarrow> unit page_act" where
  "showNavbar b =
     act_then (pa_do b StandardDelay)
     (act_bind (isSelectorPresent b navigation_homePage) (\<lambda>navBarOpen.
        if navBarOpen then act_return ()
        else act_then (pa_do b (Click navigation_sidebarToggler)) (pa_do b ShortDelay)))"

definition hideNavbar :: "browser \<Rightarrow> unit page_act" where
  "hideNavbar b =
     act_then (pa_do b StandardDelay)
     (act_bind (isSelectorPresent b navigation_homePage) (\<lambda>navBarOpen.
        if \<not> navBarOpen then act_return ()
        else act_then (pa_do b (Click navigation_sidebarToggler)) (pa_do b ShortDelay)))"

definition gotoPageWithNavBar :: "browser \<Rightarrow> selector \<Rightarrow> unit page_act" where
  "gotoPageWithNavBar b navBarSelector =
     act_then (showNavbar b)
     (act_then (pa_do b (Navigate navBarSelector))
       (pa_do b StandardDelay))"

definition login :: "browser \<Rightarrow> lg_user \<Rightarrow> unit page_act" where
  "login b user =
     act_then (pa_do b (Input loginPage_username (username user)))
     (act_then (pa_do b ShortDelay)
     (act_then (pa_do b (Input loginPage_password (password user)))
     (act_then (pa_do b ShortDelay)
       (pa_do b (Navigate loginPage_loginButton)))))"

definition logout :: "browser \<Rightarrow> unit page_act" where
  "logout b =
     act_then (pa_do b (Click navigation_dropdownToggler))
     (act_then (pa_do b ShortDelay)
       (pa_do b (Navigate navigation_logout)))"

subsection \<open>helpers/deposit.ts and withdraw.ts\<close>

definition fullName :: "lg_user \<Rightarrow> string" where
  "fullName user = first_name user @ '' '' @ last_name user"

definition fillUserDepositData :: "browser \<Rightarrow> lg_user \<Rightarrow> unit page_act" where
  "fillUserDepositData b user =
     act_then (pa_do b (Input depositPage_cardholderName (fullName user)))
     (act_then (pa_do b StandardDelay)
     (act_then (pa_do b (Input depositPage_address (address user)))
     (act_then (pa_do b StandardDelay)
     (act_then (pa_do b (Input depositPage_email (email user)))
     (act_then (pa_do b StandardDelay)
     (act_then (pa_do b (Input depositPage_cardNumber (credit_card_number user)))
     (act_then (pa_do b StandardDelay)
     (act_then (selectCardProvider b depositPage_cardType (CREDIT_CARD_MAPPING (credit_card_provider user)))
     (act_then (pa_do b ShortDelay)
     (act_then (pa_do b (Input depositPage_cardCvv (credit_card_cvv user)))
       (pa_do b StandardDelay)))))))))))"

definition deposit :: "browser \<Rightarrow> lg_user \<Rightarrow> jsnum \<Rightarrow> unit page_act" where
  "deposit b user v =
     act_then (pa_do b (Input depositPage_amount (num_str v)))
     (act_then (pa_do b StandardDelay)
     (act_then (fillUserDepositData b user)
     (act_then (pa_do b (Click depositPage_acceptTerms))
     (act_then (pa_do b ShortDelay)
       (pa_do b (Click depositPage_submit))))))"

definition gotoDepositPage :: "browser \<Rightarrow> unit page_act" where
  "gotoDepositPage b = gotoPageWithNavBar b navigation_depositPage"

definition fillUserWithdrawData :: "browser \<Rightarrow> lg_user \<Rightarrow> unit page_act" where
  "fillUserWithdrawData b user =
     act_then (pa_do b (Input depositPage_cardholderName (fullName user)))
     (act_then (pa_do b StandardDelay)
     (act_then (pa_do b (Input depositPage_address (address user)))
     (act_then (pa_do b StandardDelay)
     (act_then (pa_do b (Input depositPage_email (email user)))
     (act_then (pa_do b StandardDelay)
     (act_then (pa_do b (Input depositPage_cardNumber (credit_card_number user)))
     (act_then (pa_do b StandardDelay)
     (act_then (selectCardProvider b depositPage_cardType (CREDIT_CARD_MAPPING (credit_card_provider user)))
       (pa_do b StandardDelay)))))))))"

definition withdraw :: "browser \<Rightarrow> lg_user \<Rightarrow> jsnum \<Rightarrow> unit page_act" where
  "withdraw b user v =
     act_then (pa_do b (Input depositPage_amount (num_str v)))
     (act_then (pa_do b StandardDelay)
     (act_then (fillUserWithdrawData b user)
     (act_then (pa_do b (Click depositPage_acceptTerms))
     (act_then (pa_do b ShortDelay)
       (pa_do b (Click depositPage_submit))))))"

definition gotoWithdrawPage :: "browser \<Rightarrow> unit page_act" where
  "gotoWithdrawPage b = gotoPageWithNavBar b navigation_withdrawPage"

subsection \<open>helpers/creditCard.ts\<close>

definition gotoCreditCardPage :: "browser \<Rightarrow> unit page_act" where
  "gotoCreditCardPage b = gotoPageWithNavBar b navigation_creditCardPage"

definition orderCard :: "browser \<Rightarrow> lg_user \<Rightarrow> string \<Rightarrow> unit page_act" where
  "orderCard b user cardType =
     act_then (pa_do b (Input creditCardPage_nameInput (first_name user @ '' '' @ last_name user)))
     (act_then (pa_do b StandardDelay)
     (act_then (pa_do b (Input creditCardPage_addressInput (address user)))
     (act_then (pa_do b StandardDelay)
     (act_then (pa_do b (Input creditCardPage_emailInput (email user)))
     (act_then (pa_do b StandardDelay)
     (act_then (pa_do b (Click creditCardPage_cardTypeInput))
     (act_bind (getHandle b (creditCardPage_cardType_type cardType)) (\<lambda>typeHandle.
      act_then (pa_do b ShortDelay)
     (act_then (pa_do b (ClickHandle typeHandle))
     (act_then (pa_do b StandardDelay)
     (act_then (pa_do b (Click creditCardPage_acceptTerms))
     (act_then (pa_do b StandardDelay)
       (pa_do b (Click creditCardPage_orderCardButton))))))))))))))"

definition revokeCard :: "browser \<Rightarrow> unit page_act" where
  "revokeCard b = pa_do b (Navigate creditCardPage_revokeCard)"

definition checkIfCardActive :: "browser \<Rightarrow> bool page_act" where
  "checkIfCardActive b = isSelectorPresent b creditCardPage_revokeCard"

definition checkIfOrderPending :: "browser \<Rightarrow> bool page_act" where
  "checkIfOrderPending b = isSelectorPresent b creditCardPage_orderIdDisplay"

subsection \<open>helpers/instruments.ts\<close>

definition gotoInstrumentsPage :: "browser \<Rightarrow> unit page_act" where
  "gotoInstrumentsPage b = gotoPageWithNavBar b navigation_instrumentsPage"

definition gotoInstrumentPage :: "browser \<Rightarrow> nat \<Rightarrow> unit page_act" where
  "gotoInstrumentPage b instrumentHandle = pa_do b (NavigateHandle instrumentHandle)"

definition waitForInstruments :: "browser \<Rightarrow> unit page_act" where
  "waitForInstruments b =
     act_then (getHandle b instrumentsPage_instrumentCard) (act_return ())"

definition getRandomInstrument :: "browser \<Rightarrow> rat \<Rightarrow> nat option page_act" where
  "getRandomInstrument b r =
     act_then (waitForInstruments b)
     (act_bind (getAllHandles b instrumentsPage_instrumentCard) (\<lambda>instrumentCards.
        act_return (arrayRandom r instrumentCards)))"

definition getRandomOwnedInstrument :: "browser \<Rightarrow> rat \<Rightarrow> nat option page_act" where
  "getRandomOwnedInstrument b r =
     act_then (waitForInstruments b)
     (act_bind (getAllHandles b instrumentsPage_ownedInstrument) (\<lambda>instrumentCards.
        act_return (arrayRandom r instrumentCards)))"

definition gotoRandomInstrument :: "browser \<Rightarrow> rat \<Rightarrow> unit page_act" where
  "gotoRandomInstrument b r =
     act_then (gotoInstrumentsPage b)
     (act_bind (getRandomInstrument b r) (\<lambda>instrumentCard.
        case instrumentCard of
          None \<Rightarrow> act_throw (JsError ''No instruments available'')
        | Some handle \<Rightarrow> gotoInstrumentPage b handle))"

definition gotoRandomOwnedInstrument :: "browser \<Rightarrow> rat \<Rightarrow> unit page_act" where
  "gotoRandomOwnedInstrument b r =
     act_then (gotoInstrumentsPage b)
     (act_bind (getRandomOwnedInstrument b r) (\<lambda>instrumentCard.
        case instrumentCard of
          None \<Rightarrow> act_throw (JsError ''No owned instruments available'')
        | Some handle \<Rightarrow> gotoInstrumentPage b handle))"

definition selectQuickBuy :: "browser \<Rightarrow> unit page_act" where
  "selectQuickBuy b = pa_do b (Click instrumentPage_quickBuyForm)"

definition selectQuickSell :: "browser \<Rightarrow> unit page_act" where
  "selectQuickSell b = pa_do b (Click instrumentPage_quickSellForm)"

definition selectBuy :: "browser \<Rightarrow> unit page_act" where
  "selectBuy b = pa_do b (Click instrumentPage_buyForm)"

definition selectSell :: "browser \<Rightarrow> unit page_act" where
  "selectSell b = pa_do b (Click instrumentPage_sellForm)"

definition getInstrumentName :: "browser \<Rightarrow> string page_act" where
  "getInstrumentName b = getInnerText b instrumentPage_instrumentName"

definition getInstrumentPrice :: "browser \<Rightarrow> jsnum page_act" where
  "getInstrumentPrice b =
     act_bind (getProperty b instrumentPage_priceInput ''value'') (\<lambda>priceString.
       act_return (js_parseFloat priceString))"

definition getCurrentBalance :: "browser \<Rightarrow> jsnum page_act" where
  "getCurrentBalance b =
     act_bind (getProperty b common_currentBalance ''value'') (\<lambda>balanceString.
       act_return (js_parseFloat balanceString))"

definition getInstrumentPossessedAmount :: "browser \<Rightarrow> jsnum page_act" where
  "getInstrumentPossessedAmount b =
     act_bind (getProperty b instrumentPage_possessedAmount ''value'') (\<lambda>amountString.
       act_return (js_parseInt amountString))"

definition scheduleTransaction :: "browser \<Rightarrow> jsnum \<Rightarrow> jsnum \<Rightarrow> jsnum \<Rightarrow> unit page_act" where
  "scheduleTransaction b price duration amount =
     act_then (pa_do b (Input instrumentPage_amountInput (num_str amount)))
     (act_then (pa_do b StandardDelay)
     (act_then (pa_do b (Input instrumentPage_priceInput (num_str price)))
     (act_then (pa_do b StandardDelay)
     (act_then (pa_do b (Input instrumentPage_timeInput (num_str duration)))
     (act_then (pa_do b StandardDelay)
       (pa_do b (Click instrumentPage_submitButton)))))))"

definition trade :: "browser \<Rightarrow> jsnum \<Rightarrow> unit page_act" where
  "trade b amount =
     act_then (pa_do b (Input instrumentPage_amountInput (num_str amount)))
     (act_then (pa_do b StandardDelay)
       (pa_do b (Click instrumentPage_submitButton)))"

subsection \<open>What the helpers do to a page\<close>

text \<open>
  Trace languages of the helpers, for any browser: what a completed helper has done, and
  (as prefixes) how far an interrupted one can have come.
\<close>

named_theorems page_traces \<open>trace languages of page helpers\<close>

lemma traces_do [page_traces]: "traces {[v]} (pa_do b v)"
  by (auto simp: traces_def pa_do_def split: option.splits)

lemma traces_read [page_traces]: "traces {[]} (pa_read q)"
  by (auto simp: traces_def pa_read_def split: sum.splits)

lemma traces_reads [page_traces]:
  "traces {[]} (isSelectorPresent b s)" "traces {[]} (getHandle b s)"
  "traces {[]} (getAllHandles b s)" "traces {[]} (getInnerText b s)"
  "traces {[]} (getProperty b s n)"
  by (simp_all add: isSelectorPresent_def getHandle_def getAllHandles_def getInnerText_def
      getProperty_def traces_read)

definition showL :: "page_event list set" where
  "showL = {[StandardDelay], [StandardDelay, Click navigation_sidebarToggler, ShortDelay]}"

definition navL :: "selector \<Rightarrow> page_event list set" where
  "navL s = seq showL {[Navigate s, StandardDelay]}"

definition login_trace :: "lg_user \<Rightarrow> page_event list" where
  "login_trace u = [Input loginPage_username (username u), ShortDelay,
     Input loginPage_password (password u), ShortDelay, Navigate loginPage_loginButton]"

definition logout_trace :: "page_event list" where
  "logout_trace = [Click navigation_dropdownToggler, ShortDelay, Navigate navigation_logout]"

text \<open>The money forms: everything typed is the user's data; only the provider's list item is found on the page.\<close>

definition money_form :: "lg_user \<Rightarrow> jsnum \<Rightarrow> nat \<Rightarrow> page_event list \<Rightarrow> page_event list" where
  "money_form u v h tail =
     [Input depositPage_amount (num_str v), StandardDelay,
      Input depositPage_cardholderName (fullName u), StandardDelay,
      Input depositPage_address (address u), StandardDelay,
      Input depositPage_email (email u), StandardDelay,
      Input depositPage_cardNumber (credit_card_number u), StandardDelay,
      Click depositPage_cardType, ShortDelay, ClickHandle h] @ tail @
     [Click depositPage_acceptTerms, ShortDelay, Click depositPage_submit]"

definition depositL :: "lg_user \<Rightarrow> jsnum \<Rightarrow> page_event list set" where
  "depositL u v =
     range (\<lambda>h. money_form u v h [ShortDelay, Input depositPage_cardCvv (credit_card_cvv u), StandardDelay])"

definition withdrawL :: "lg_user \<Rightarrow> jsnum \<Rightarrow> page_event list set" where
  "withdrawL u v = range (\<lambda>h. money_form u v h [StandardDelay])"

definition orderL :: "lg_user \<Rightarrow> string \<Rightarrow> page_event list set" where
  "orderL u cardType = range (\<lambda>h.
     [Input creditCardPage_nameInput (fullName u), StandardDelay,
      Input creditCardPage_addressInput (address u), StandardDelay,
      Input creditCardPage_emailInput (email u), StandardDelay,
      Click creditCardPage_cardTypeInput, ShortDelay, ClickHandle h, StandardDelay,
      Click creditCardPage_acceptTerms, StandardDelay, Click creditCardPage_orderCardButton])"

definition pickL :: "page_event list set" where
  "pickL = seq (navL navigation_instrumentsPage) (range (\<lambda>h. [NavigateHandle h]))"

definition schedule_trace :: "jsnum \<Rightarrow> jsnum \<Rightarrow> jsnum \<Rightarrow> page_event list" where
  "schedule_trace price duration amount =
     [Input instrumentPage_amountInput (num_str amount), StandardDelay,
      Input instrumentPage_priceInput (num_str price), StandardDelay,
      Input instrumentPage_timeInput (num_str duration), StandardDelay,
      Click instrumentPage_submitButton]"

definition trade_trace :: "jsnum \<Rightarrow> page_event list" where
  "trade_trace amount =
     [Input instrumentPage_amountInput (num_str amount), StandardDelay, Click instrumentPage_submitButton]"

lemma langs_nonempty [simp]:
  "showL \<noteq> {}" "navL s \<noteq> {}" "depositL u v \<noteq> {}" "withdrawL u v \<noteq> {}" "orderL u t \<noteq> {}" "pickL \<noteq> {}"
  by (simp_all add: showL_def navL_def depositL_def withdrawL_def orderL_def pickL_def)

text \<open>A language that holds one word for every item of a list found on the page.\<close>

lemma traces_handle [page_traces]:
  assumes "\<And>h. traces {f h} (m h)"
  shows "traces (range f) (act_bind (getHandle b s) m)"
proof -
  have "traces (seq {[]} (range f)) (act_bind (getHandle b s) m)"
    by (intro traces_bind traces_reads traces_mono [OF assms]) auto
  then show ?thesis by simp
qed

lemma showNavbar_traces [page_traces]: "traces showL (showNavbar b)"
proof -
  have "traces (seq {[StandardDelay]} (seq {[]} ({[]} \<union> seq {[Click navigation_sidebarToggler]} {[ShortDelay]}))) (showNavbar b)"
    unfolding showNavbar_def
    by (intro traces_bind traces_if traces_return page_traces) simp_all
  then show ?thesis by (rule traces_mono) (auto simp: showL_def seq_def)
qed

lemma hideNavbar_traces: "traces showL (hideNavbar b)"
proof -
  have "traces (seq {[StandardDelay]} (seq {[]} ({[]} \<union> seq {[Click navigation_sidebarToggler]} {[ShortDelay]}))) (hideNavbar b)"
    unfolding hideNavbar_def
    by (intro traces_bind traces_if traces_return page_traces) simp_all
  then show ?thesis by (rule traces_mono) (auto simp: showL_def seq_def)
qed

lemma gotoPageWithNavBar_traces [page_traces]: "traces (navL s) (gotoPageWithNavBar b s)"
  unfolding gotoPageWithNavBar_def navL_def
  by (rule traces_mono, (rule traces_bind page_traces | simp)+)

lemma login_traces [page_traces]: "traces {login_trace u} (login b u)"
  unfolding login_def by (rule traces_mono, (rule traces_bind page_traces | simp add: login_trace_def)+)

lemma logout_traces [page_traces]: "traces {logout_trace} (logout b)"
  unfolding logout_def by (rule traces_mono, (rule traces_bind page_traces | simp add: logout_trace_def)+)

lemma scheduleTransaction_traces [page_traces]:
  "traces {schedule_trace p d a} (scheduleTransaction b p d a)"
  unfolding scheduleTransaction_def
  by (rule traces_mono, (rule traces_bind page_traces | simp add: schedule_trace_def)+)

lemma trade_traces [page_traces]: "traces {trade_trace a} (trade b a)"
  unfolding trade_def by (rule traces_mono, (rule traces_bind page_traces | simp add: trade_trace_def)+)

lemma seq_range [simp]:
  "seq {a} (range f) = range (\<lambda>h. a @ f h)" "seq (range f) {b} = range (\<lambda>h. f h @ b)"
  by (auto simp: seq_def)

lemma traces_do_then:
  assumes "traces {w} m"
  shows "traces {v # w} (act_then (pa_do b v) m)"
proof -
  have "traces (seq {[v]} {w}) (act_then (pa_do b v) m)"
    by (intro traces_bind traces_do assms) simp
  then show ?thesis by simp
qed

lemma selectCardProvider_traces [page_traces]:
  "traces (range (\<lambda>h. [Click s, ShortDelay, ClickHandle h])) (selectCardProvider b s p)"
proof -
  have "traces (seq {[Click s]} (range (\<lambda>h. [ShortDelay, ClickHandle h]))) (selectCardProvider b s p)"
    unfolding selectCardProvider_def
    by (intro traces_bind traces_handle traces_do_then page_traces) simp_all
  then show ?thesis by simp
qed

lemma fillUserDepositData_traces [page_traces]:
  "traces (range (\<lambda>h. [Input depositPage_cardholderName (fullName u), StandardDelay,
      Input depositPage_address (address u), StandardDelay,
      Input depositPage_email (email u), StandardDelay,
      Input depositPage_cardNumber (credit_card_number u), StandardDelay,
      Click depositPage_cardType, ShortDelay, ClickHandle h,
      ShortDelay, Input depositPage_cardCvv (credit_card_cvv u), StandardDelay]))
     (fillUserDepositData b u)"
  unfolding fillUserDepositData_def
  by (rule traces_mono, (rule traces_bind page_traces | simp)+)

lemma fillUserWithdrawData_traces [page_traces]:
  "traces (range (\<lambda>h. [Input depositPage_cardholderName (fullName u), StandardDelay,
      Input depositPage_address (address u), StandardDelay,
      Input depositPage_email (email u), StandardDelay,
      Input depositPage_cardNumber (credit_card_number u), StandardDelay,
      Click depositPage_cardType, ShortDelay, ClickHandle h, StandardDelay]))
     (fillUserWithdrawData b u)"
  unfolding fillUserWithdrawData_def
  by (rule traces_mono, (rule traces_bind page_traces | simp)+)

lemma deposit_traces [page_traces]: "traces (depositL u v) (deposit b u v)"
  unfolding deposit_def
  by (rule traces_mono, (rule traces_bind page_traces | simp add: depositL_def money_form_def)+)

lemma withdraw_traces [page_traces]: "traces (withdrawL u v) (withdraw b u v)"
  unfolding withdraw_def
  by (rule traces_mono, (rule traces_bind page_traces | simp add: withdrawL_def money_form_def)+)

lemma order_tail_traces:
  "traces {[ShortDelay, ClickHandle h, StandardDelay, Click creditCardPage_acceptTerms,
      StandardDelay, Click creditCardPage_orderCardButton]}
     (act_then (pa_do b ShortDelay) (act_then (pa_do b (ClickHandle h)) (act_then (pa_do b StandardDelay)
       (act_then (pa_do b (Click creditCardPage_acceptTerms)) (act_then (pa_do b StandardDelay)
         (pa_do b (Click creditCardPage_orderCardButton)))))))"
  by (intro traces_do_then traces_do)

lemma orderCard_traces [page_traces]: "traces (orderL u t) (orderCard b u t)"
  unfolding orderCard_def
  by (rule traces_mono, (rule traces_bind order_tail_traces page_traces | simp add: orderL_def fullName_def)+)

lemma instrument_reads_traces [page_traces]:
  "traces {[]} (getInstrumentName b)" "traces {[]} (getInstrumentPrice b)"
  "traces {[]} (getCurrentBalance b)" "traces {[]} (getInstrumentPossessedAmount b)"
  "traces {[]} (checkIfCardActive b)" "traces {[]} (checkIfOrderPending b)"
  "traces {[]} (waitForInstruments b)"
  unfolding getInstrumentName_def getInstrumentPrice_def getCurrentBalance_def waitForInstruments_def
    getInstrumentPossessedAmount_def checkIfCardActive_def checkIfOrderPending_def
  by (rule page_traces traces_mono, (rule traces_bind page_traces traces_return | simp)+)+

lemma page_nav_traces [page_traces]:
  "traces (navL navigation_depositPage) (gotoDepositPage b)"
  "traces (navL navigation_withdrawPage) (gotoWithdrawPage b)"
  "traces (navL navigation_creditCardPage) (gotoCreditCardPage b)"
  "traces (navL navigation_instrumentsPage) (gotoInstrumentsPage b)"
  "traces {[Click instrumentPage_quickBuyForm]} (selectQuickBuy b)"
  "traces {[Click instrumentPage_quickSellForm]} (selectQuickSell b)"
  "traces {[Click instrumentPage_buyForm]} (selectBuy b)"
  "traces {[Click instrumentPage_sellForm]} (selectSell b)"
  "traces {[Navigate creditCardPage_revokeCard]} (revokeCard b)"
  by (simp_all add: gotoDepositPage_def gotoWithdrawPage_def gotoCreditCardPage_def
      gotoInstrumentsPage_def selectQuickBuy_def selectQuickSell_def selectBuy_def selectSell_def
      revokeCard_def page_traces)

lemma random_traces [page_traces]:
  "traces {[]} (getRandomInstrument b r)" "traces {[]} (getRandomOwnedInstrument b r)"
  unfolding getRandomInstrument_def getRandomOwnedInstrument_def
  by (rule traces_mono, (rule traces_bind page_traces traces_return | simp)+)+

lemma goto_card_traces:
  "traces (range (\<lambda>h. [NavigateHandle h]))
     (case c of None \<Rightarrow> act_throw e | Some h \<Rightarrow> gotoInstrumentPage b h)"
  by (cases c) (auto simp: gotoInstrumentPage_def intro: traces_mono [OF traces_do])

lemma goto_random_traces [page_traces]:
  "traces pickL (gotoRandomInstrument b r)" "traces pickL (gotoRandomOwnedInstrument b r)"
  unfolding gotoRandomInstrument_def gotoRandomOwnedInstrument_def pickL_def
  by (rule traces_mono, (rule traces_bind page_traces goto_card_traces | simp)+)+

subsection \<open>A browser that plays along\<close>

text \<open>
  No step fails, every read finds something and the instruments page shows at least one card
  of each kind: the situation the visits are written for. Under it every helper returns.
\<close>

definition cooperative :: "browser \<Rightarrow> bool" where
  "cooperative b \<longleftrightarrow>
     (\<forall>l v. b_fails b l v = None) \<and> (\<forall>l s. \<exists>x. b_present b l s = Inr x) \<and>
     (\<forall>l s. \<exists>h. b_handle b l s = Inr h) \<and> (\<forall>l s. \<exists>t. b_text b l s = Inr t) \<and>
     (\<forall>l s n. \<exists>t. b_property b l s n = Inr t) \<and> (\<forall>l s. \<exists>hs. b_handles b l s = Inr hs \<and> hs \<noteq> [])"

named_theorems page_returns \<open>helpers that return on a cooperative browser\<close>

lemma returns_do [page_returns]: "cooperative b \<Longrightarrow> returns (pa_do b v)"
  by (simp add: returns_def pa_do_def cooperative_def)

lemma returns_read: "(\<And>l. \<exists>x. q l = Inr x) \<Longrightarrow> returns (pa_read q)"
  by (simp add: returns_def pa_read_def)

lemma returns_reads [page_returns]:
  "cooperative b \<Longrightarrow> returns (isSelectorPresent b s)" "cooperative b \<Longrightarrow> returns (getHandle b s)"
  "cooperative b \<Longrightarrow> returns (getInnerText b s)" "cooperative b \<Longrightarrow> returns (getProperty b s n)"
  unfolding isSelectorPresent_def getHandle_def getInnerText_def getProperty_def
  by (rule returns_read; simp add: cooperative_def)+

lemma returns_if [page_returns]: "returns m \<Longrightarrow> returns n \<Longrightarrow> returns (if c then m else n)"
  by simp

lemma page_helpers_return [page_returns]:
  assumes "cooperative b"
  shows "returns (showNavbar b)" "returns (gotoPageWithNavBar b s)" "returns (login b u)"
    "returns (logout b)" "returns (selectCardProvider b s p)" "returns (orderCard b u t)"
    "returns (scheduleTransaction b p' d a)" "returns (trade b a)"
    "returns (waitForInstruments b)" "returns (revokeCard b)"
  unfolding showNavbar_def gotoPageWithNavBar_def login_def logout_def selectCardProvider_def
    orderCard_def scheduleTransaction_def trade_def waitForInstruments_def revokeCard_def
  by (intro returns_bind returns_return page_returns assms)+

lemma page_reads_return [page_returns]:
  assumes "cooperative b"
  shows "returns (getInstrumentName b)" "returns (getInstrumentPrice b)" "returns (getCurrentBalance b)"
    "returns (getInstrumentPossessedAmount b)" "returns (checkIfCardActive b)" "returns (checkIfOrderPending b)"
  unfolding getInstrumentName_def getInstrumentPrice_def getCurrentBalance_def
    getInstrumentPossessedAmount_def checkIfCardActive_def checkIfOrderPending_def
  by (intro returns_bind returns_return page_returns assms)+

lemma page_forms_return [page_returns]:
  assumes "cooperative b"
  shows "returns (deposit b u v)" "returns (withdraw b u v)" "returns (gotoDepositPage b)"
    "returns (gotoWithdrawPage b)" "returns (gotoCreditCardPage b)" "returns (gotoInstrumentsPage b)"
    "returns (selectQuickBuy b)" "returns (selectQuickSell b)" "returns (selectBuy b)" "returns (selectSell b)"
  unfolding deposit_def withdraw_def fillUserDepositData_def fillUserWithdrawData_def gotoDepositPage_def
    gotoWithdrawPage_def gotoCreditCardPage_def gotoInstrumentsPage_def selectQuickBuy_def
    selectQuickSell_def selectBuy_def selectSell_def
  by (intro returns_bind returns_return page_returns assms)+

lemma returns_goto_card:
  assumes b: "cooperative b"
  shows "returns (act_bind (getAllHandles b s) (\<lambda>cs. case arrayRandom r cs of
     None \<Rightarrow> act_throw e | Some h \<Rightarrow> gotoInstrumentPage b h))"
  unfolding returns_def
proof
  fix l
  obtain hs where hs: "b_handles b l s = Inr hs" "hs \<noteq> []" using b unfolding cooperative_def by blast
  then show "\<exists>x l'. act_bind (getAllHandles b s) (\<lambda>cs. case arrayRandom r cs of
     None \<Rightarrow> act_throw e | Some h \<Rightarrow> gotoInstrumentPage b h) l = (Inr x, l')"
    using returns_do [OF b]
    by (simp add: act_simps getAllHandles_def pa_read_def arrayRandom_def gotoInstrumentPage_def returns_def)
qed

lemma act_bind_assoc: "act_bind (act_bind m f) g = act_bind m (\<lambda>x. act_bind (f x) g)"
  by (rule ext) (simp add: act_simps split: prod.splits sum.splits)

lemma act_bind_return: "act_bind (act_return x) f = f x"
  by (rule ext) (simp add: act_simps)

lemma goto_random_return [page_returns]:
  assumes b: "cooperative b"
  shows "returns (gotoRandomInstrument b r)" "returns (gotoRandomOwnedInstrument b r)"
  unfolding gotoRandomInstrument_def gotoRandomOwnedInstrument_def getRandomInstrument_def
    getRandomOwnedInstrument_def act_bind_assoc act_bind_return
  by (intro returns_bind returns_goto_card page_returns b)+

end
