(* ===== verification/Loadgen_Calc.thy ===== *)
theory Loadgen_Calc
  imports Js_Number
begin

section \<open>Load generator: what a visit trades\<close>

text \<open>
  The buy and sell calculators of \<open>loadgen/src/visits/depositAndLongBuy.ts\<close> and
  \<open>longSell.ts\<close>, in double precision. \<open>randomBetween\<close> belongs to the load generator
  library and is a parameter; the literals of the source are the doubles next to them.
\<close>

record buy_options =
  bo_balance :: jsnum
  bo_askPrice :: jsnum
  bo_maxCost :: jsnum

record trade_result =
  tr_price :: jsnum
  tr_amount :: jsnum

record sell_options =
  so_askPrice :: jsnum
  so_ownedAmount :: jsnum
  so_ratio :: jsnum

type_synonym random_fun = "jsnum \<Rightarrow> jsnum \<Rightarrow> jsnum"

definition successBuyCalculator :: "random_fun \<Rightarrow> buy_options \<Rightarrow> trade_result" where
  "successBuyCalculator randomBetween opts =
     (let price = js_mul (bo_askPrice opts) (to_js (11/10));
          amount = js_floor (randomBetween (js_int 1) (js_div (bo_maxCost opts) price))
      in \<lparr>tr_price = price, tr_amount = amount\<rparr>)"

definition timeoutBuyCalculator :: "random_fun \<Rightarrow> buy_options \<Rightarrow> trade_result" where
  "timeoutBuyCalculator randomBetween opts =
     (let price = js_mul (bo_askPrice opts) (to_js (1/100));
          amount = js_floor (randomBetween (js_int 1) (js_div (bo_maxCost opts) price))
      in \<lparr>tr_price = price, tr_amount = amount\<rparr>)"

definition errorBuyCalculator :: "random_fun \<Rightarrow> buy_options \<Rightarrow> trade_result" where
  "errorBuyCalculator randomBetween opts =
     (let proportion = to_js (3/10);
          price = js_mul (js_max (bo_balance opts) (bo_askPrice opts)) proportion;
          amount = js_ceil (js_div (js_int 2) proportion)
      in \<lparr>tr_price = price, tr_amount = amount\<rparr>)"

definition successSellCalculator :: "random_fun \<Rightarrow> sell_options \<Rightarrow> trade_result" where
  "successSellCalculator randomBetween opts =
     \<lparr>tr_price = js_mul (so_askPrice opts) (to_js (9/10)),
      tr_amount = js_floor (randomBetween (js_int 1) (js_mul (so_ownedAmount opts) (so_ratio opts)))\<rparr>"

definition timeoutSellCalculator :: "random_fun \<Rightarrow> sell_options \<Rightarrow> trade_result" where
  "timeoutSellCalculator randomBetween opts =
     \<lparr>tr_price = js_mul (so_askPrice opts) (js_int 100),
      tr_amount = js_floor (randomBetween (js_int 1) (js_mul (so_ownedAmount opts) (so_ratio opts)))\<rparr>"

definition errorSellCalculator :: "random_fun \<Rightarrow> sell_options \<Rightarrow> trade_result" where
  "errorSellCalculator randomBetween opts =
     \<lparr>tr_price = js_mul (so_askPrice opts) (to_js (9/10)),
      tr_amount = js_mul (so_ownedAmount opts) (js_int 10)\<rparr>"

text \<open>What the name of \<open>randomBetween(min, max)\<close> says, for finite bounds in order.\<close>

definition random_between :: "random_fun \<Rightarrow> bool" where
  "random_between f \<longleftrightarrow>
     (\<forall>x y. x \<le> y \<longrightarrow> (\<exists>z. f (Fin x) (Fin y) = Fin z \<and> x \<le> z \<and> z \<le> y))"

subsection \<open>Rounding of the literals\<close>

text \<open>Scaling a price by a literal of the source.\<close>

lemma js_scale:
  assumes p: "1 / 100 \<le> p" "p \<le> 10 ^ 12" and c: "1 / 100 \<le> c" "c \<le> 100"
  obtains d y where "to_js c = Fin d" "js_mul (Fin p) (to_js c) = Fin y"
    "p * c * (1 - 1 / 10 ^ 5) \<le> y" "y \<le> p * c * (1 + 1 / 10 ^ 5)"
proof -
  obtain d where d: "to_js c = Fin d" "c * (1 - 1 / 10 ^ 6) \<le> d" "d \<le> c * (1 + 1 / 10 ^ 6)"
    using to_js_near [of c] c by (auto intro: order_trans [rotated])
  have p0: "0 \<le> p" using p(1) by linarith
  have pc: "p * c * (1 - 1 / 10 ^ 6) \<le> p * d" "p * d \<le> p * c * (1 + 1 / 10 ^ 6)"
    using mult_left_mono [OF d(2) p0] mult_left_mono [OF d(3) p0] by (simp_all add: mult.assoc)
  have lo: "1 / 10000 \<le> p * c" using mult_mono [OF p(1) c(1)] p0 by simp
  have hi: "p * c \<le> 10 ^ 14" using mult_mono [OF p(2) c(2)] p0 c(1) by simp
  have "1 / 10 ^ 6 \<le> p * c * (1 - 1 / 10 ^ 6)" "p * c * (1 + 1 / 10 ^ 6) \<le> 10 ^ 18"
    using lo hi by simp_all
  with pc have "1 / 10 ^ 6 \<le> p * d" "p * d \<le> 10 ^ 18" by linarith+
  then obtain y where y: "to_js (p * d) = Fin y" "p * d * (1 - 1 / 10 ^ 6) \<le> y" "y \<le> p * d * (1 + 1 / 10 ^ 6)"
    by (rule to_js_near)
  have "p * c * (1 - 1 / 10 ^ 6) * (1 - 1 / 10 ^ 6) \<le> p * d * (1 - 1 / 10 ^ 6)"
    "p * d * (1 + 1 / 10 ^ 6) \<le> p * c * (1 + 1 / 10 ^ 6) * (1 + 1 / 10 ^ 6)"
    using pc by (intro mult_right_mono; simp)+
  with y(2,3) lo have "p * c * (1 - 1 / 10 ^ 5) \<le> y" "y \<le> p * c * (1 + 1 / 10 ^ 5)"
    by (simp_all add: algebra_simps)
  with d(1) y(1) show thesis by (intro that [of d y]) auto
qed

lemma random_between_floor:
  assumes "random_between f" "1 \<le> y"
  obtains n where "js_floor (f (js_int 1) (Fin y)) = js_int n" "1 \<le> n" "of_int n \<le> y"
proof -
  obtain z where z: "f (js_int 1) (Fin y) = Fin z" "1 \<le> z" "z \<le> y"
    using assms by (auto simp: random_between_def)
  then have "js_floor (f (js_int 1) (Fin y)) = js_int \<lfloor>z\<rfloor>" "1 \<le> \<lfloor>z\<rfloor>" by (simp_all add: le_floor_iff)
  moreover have "of_int \<lfloor>z\<rfloor> \<le> y" using z(3) of_int_floor_le [of z] by linarith
  ultimately show thesis by (rule that)
qed

subsection \<open>Buying\<close>

text \<open>The amount the two random buy calculators choose, given the price.\<close>

lemma buy_amount:
  assumes f: "random_between f" and p: "1 / 10 ^ 4 \<le> p" "p \<le> m" and m: "m \<le> 10 ^ 12"
  obtains n where "js_floor (f (js_int 1) (js_div (Fin m) (Fin p))) = js_int n" "1 \<le> n"
    "of_int n * p \<le> m * (1 + 1 / 10 ^ 6)"
proof -
  have p0: "0 < p" using p(1) by (rule less_le_trans [rotated]) simp
  have q1: "1 \<le> m / p" using p p0 by simp
  have "m / p \<le> m / (1 / 10 ^ 4)" using p p0 by (intro divide_left_mono) auto
  also have "\<dots> \<le> 10 ^ 16" using m by simp
  finally have q2: "m / p \<le> 10 ^ 16" .
  have "1 / 10 ^ 6 \<le> m / p" "m / p \<le> 10 ^ 18"
    by (rule order_trans [OF _ q1], simp) (rule order_trans [OF q2], simp)
  then obtain y where y: "to_js (m / p) = Fin y" "y \<le> m / p * (1 + 1 / 10 ^ 6)"
    by (rule to_js_near)
  have "1 \<le> y" using to_js_ge_double [of 1 "m / p"] q1 y(1) is_double_of_int [of 1] by simp
  then obtain n where n: "js_floor (f (js_int 1) (Fin y)) = js_int n" "1 \<le> n" "of_int n \<le> y"
    by (rule random_between_floor [OF f])
  have "of_int n * p \<le> m / p * (1 + 1 / 10 ^ 6) * p" using n(3) y(2) p0 by (intro mult_right_mono) auto
  also have "\<dots> = m * (1 + 1 / 10 ^ 6)" using p0 by simp
  finally have "of_int n * p \<le> m * (1 + 1 / 10 ^ 6)" .
  with n y(1) p0 show thesis by (intro that [of n]) auto
qed

lemma timeout_buy:
  assumes "random_between f" "1 / 10 \<le> a" "a \<le> m" "m \<le> 10 ^ 12"
  shows "\<exists>p n. timeoutBuyCalculator f \<lparr>bo_balance = bal, bo_askPrice = Fin a, bo_maxCost = Fin m\<rparr>
           = \<lparr>tr_price = Fin p, tr_amount = js_int n\<rparr>
         \<and> a / 101 < p \<and> p < a / 50 \<and> 1 \<le> n \<and> of_int n * p \<le> m * (1 + 1 / 10 ^ 6)"
proof -
  obtain d y where y: "js_mul (Fin a) (to_js (1/100)) = Fin y"
    "a * (1/100) * (1 - 1 / 10 ^ 5) \<le> y" "y \<le> a * (1/100) * (1 + 1 / 10 ^ 5)"
    by (rule js_scale [of a "1/100"]) (use assms(2-4) in auto)
  have b: "1 / 10 ^ 4 \<le> y" "y \<le> m" "y < a / 50" "a / 101 < y" using y(2,3) assms(2,3) by auto
  obtain n where "js_floor (f (js_int 1) (js_div (Fin m) (Fin y))) = js_int n" "1 \<le> n"
    "of_int n * y \<le> m * (1 + 1 / 10 ^ 6)"
    by (rule buy_amount [OF assms(1) b(1,2) assms(4)])
  with y(1) b(3,4) show ?thesis by (auto simp: timeoutBuyCalculator_def Let_def)
qed

lemma success_buy_bounds:
  assumes "random_between f" "1 / 100 \<le> a" "a \<le> 10 ^ 10" "6 / 5 * a \<le> m" "m \<le> 10 ^ 12"
  shows "\<exists>p n. successBuyCalculator f \<lparr>bo_balance = bal, bo_askPrice = Fin a, bo_maxCost = Fin m\<rparr>
           = \<lparr>tr_price = Fin p, tr_amount = js_int n\<rparr>
         \<and> a < p \<and> p \<le> 6 / 5 * a \<and> 1 \<le> n \<and> of_int n * p \<le> m * (1 + 1 / 10 ^ 6)"
proof -
  obtain d y where y: "js_mul (Fin a) (to_js (11/10)) = Fin y"
    "a * (11/10) * (1 - 1 / 10 ^ 5) \<le> y" "y \<le> a * (11/10) * (1 + 1 / 10 ^ 5)"
    by (rule js_scale [of a "11/10"]) (use assms(2,3) in auto)
  have b: "1 / 10 ^ 4 \<le> y" "y \<le> m" "a < y" "y \<le> 6 / 5 * a" using y(2,3) assms(2,4) by auto
  obtain n where "js_floor (f (js_int 1) (js_div (Fin m) (Fin y))) = js_int n" "1 \<le> n"
    "of_int n * y \<le> m * (1 + 1 / 10 ^ 6)"
    by (rule buy_amount [OF assms(1) b(1,2) assms(5)])
  with y(1) b(3,4) show ?thesis by (auto simp: successBuyCalculator_def Let_def)
qed

text \<open>
  C36: the calculator for successful purchases: for prices between a cent and 10 billion and
  a budget that affords one piece, it bids above the asked price and by at most a fifth, for
  at least one piece, and the total stays within the budget up to the rounding of one part
  in a million.
\<close>

theorem success_buy:
  assumes "random_between f" "1 / 100 \<le> a" "a \<le> 10 ^ 10" "6 / 5 * a \<le> m" "m \<le> 10 ^ 12"
  shows "\<exists>p n. successBuyCalculator f \<lparr>bo_balance = bal, bo_askPrice = Fin a, bo_maxCost = Fin m\<rparr>
           = \<lparr>tr_price = Fin p, tr_amount = js_int n\<rparr>
         \<and> a < p \<and> p \<le> 6 / 5 * a \<and> 1 \<le> n \<and> of_int n * p \<le> m * (1 + 1 / 10 ^ 6)"
  by (rule success_buy_bounds [OF assms])

theorem success_buy_witness:
  "\<exists>p n. successBuyCalculator (\<lambda>x y. x) \<lparr>bo_balance = NaN, bo_askPrice = Fin 100, bo_maxCost = Fin 1000\<rparr>
     = \<lparr>tr_price = Fin p, tr_amount = js_int n\<rparr>
   \<and> 100 < p \<and> p \<le> 120 \<and> 1 \<le> n \<and> of_int n * p \<le> 1000 * (1 + 1 / 10 ^ 6)"
  using success_buy [of "\<lambda>x y. x" 100 1000 NaN] by (simp add: random_between_def)

lemma error_buy_bounds:
  assumes "1 / 100 \<le> max b a" "max b a \<le> 10 ^ 12"
  shows "\<exists>p. errorBuyCalculator f \<lparr>bo_balance = Fin b, bo_askPrice = Fin a, bo_maxCost = m\<rparr>
           = \<lparr>tr_price = Fin p, tr_amount = js_int 7\<rparr>
         \<and> 0 < p \<and> p \<le> max b a \<and> js_lt (Fin b) (js_mul (Fin p) (js_int 7))"
proof -
  let ?m = "max b a"
  obtain d y where d: "to_js (3/10) = Fin d" and y: "js_mul (Fin ?m) (to_js (3/10)) = Fin y"
    "?m * (3/10) * (1 - 1 / 10 ^ 5) \<le> y" "y \<le> ?m * (3/10) * (1 + 1 / 10 ^ 5)"
    by (rule js_scale [of ?m "3/10"]) (use assms in auto)
  obtain d' where "to_js (3/10) = Fin d'" "3/10 * (1 - 1 / 10 ^ 6) \<le> d'" "d' \<le> 3/10 * (1 + 1 / 10 ^ 6)"
    by (rule to_js_near [of "3/10"]) auto
  with d have db: "299/1000 \<le> d" "d \<le> 301/1000" by auto
  then have q: "13/2 \<le> 2 / d" "2 / d \<le> 67/10" by (auto simp: field_simps)
  obtain z where z: "to_js (2 / d) = Fin z" "2 / d * (1 - 1 / 10 ^ 6) \<le> z" "z \<le> 2 / d * (1 + 1 / 10 ^ 6)"
    by (rule to_js_near [of "2 / d"]) (use q in auto)
  have "64/10 \<le> w * (1 - 1 / 10 ^ 6)" "w * (1 + 1 / 10 ^ 6) \<le> 68/10"
    if "13/2 \<le> w" "w \<le> 67/10" for w :: rat using that by simp_all
  note this [OF q]
  with z have "6 < z" "z \<le> 7" by linarith+
  then have c: "\<lceil>z\<rceil> = 7" by (simp add: ceiling_eq_iff)
  obtain t where t: "to_js (y * 7) = Fin t" "y * 7 * (1 - 1 / 10 ^ 6) \<le> t"
    by (rule to_js_near [of "y * 7"]) (use y assms in auto)
  have "b \<le> ?m" by simp
  with y(2) t(2) assms(1) have "b < t" by (simp add: algebra_simps)
  moreover have "js_max (Fin b) (Fin a) = Fin ?m" by (auto simp: js_max_def)
  moreover have "0 < y" "y \<le> ?m" using y(2,3) assms(1) by (simp_all add: algebra_simps)
  ultimately show ?thesis
    using y(1) t(1) z(1) c d db(1) by (auto simp: errorBuyCalculator_def Let_def)
qed

text \<open>
  C37: the calculator for failing purchases: whatever the balance (up to a million million), the price and
  the amount of seven it chooses cost more than the balance, even after rounding.
\<close>

theorem error_buy:
  assumes "1 / 100 \<le> max b a" "max b a \<le> 10 ^ 12"
  shows "\<exists>p. errorBuyCalculator f \<lparr>bo_balance = Fin b, bo_askPrice = Fin a, bo_maxCost = m\<rparr>
           = \<lparr>tr_price = Fin p, tr_amount = js_int 7\<rparr> \<and> js_lt (Fin b) (js_mul (Fin p) (js_int 7))"
  using error_buy_bounds [OF assms] by blast

theorem error_buy_witness:
  "\<exists>p. errorBuyCalculator (\<lambda>x y. y) \<lparr>bo_balance = Fin 1000, bo_askPrice = Fin 5, bo_maxCost = NaN\<rparr>
     = \<lparr>tr_price = Fin p, tr_amount = js_int 7\<rparr> \<and> js_lt (Fin 1000) (js_mul (Fin p) (js_int 7))"
  using error_buy [of 1000 5 "\<lambda>x y. y" NaN] by simp

subsection \<open>Selling\<close>

lemma sell_amount:
  assumes "random_between f" "js_mul (js_int n) r = Fin y" "1 \<le> y"
  obtains k where "js_floor (f (js_int 1) (js_mul (js_int n) r)) = js_int k" "1 \<le> k" "of_int k \<le> y"
  using random_between_floor [OF assms(1,3)] assms(2) by auto

lemma sell_price:
  assumes "1 / 100 \<le> a" "a \<le> 10 ^ 10"
  obtains p where "js_mul (Fin a) (to_js (9/10)) = Fin p" "0 < p" "p < a"
proof -
  obtain d y where y: "js_mul (Fin a) (to_js (9/10)) = Fin y"
    "a * (9/10) * (1 - 1 / 10 ^ 5) \<le> y" "y \<le> a * (9/10) * (1 + 1 / 10 ^ 5)"
    by (rule js_scale [of a "9/10"]) (use assms in auto)
  with assms show thesis by (intro that [of y]) auto
qed

lemma timeout_sell:
  assumes f: "random_between f" and a: "1 / 100 \<le> a" "a \<le> 10 ^ 10"
    and own: "js_mul (js_int n) r = Fin y" "1 \<le> y"
  shows "\<exists>p k. timeoutSellCalculator f \<lparr>so_askPrice = Fin a, so_ownedAmount = js_int n, so_ratio = r\<rparr>
           = \<lparr>tr_price = Fin p, tr_amount = js_int k\<rparr> \<and> 50 * a < p \<and> p \<le> 101 * a \<and> 1 \<le> k \<and> of_int k \<le> y"
proof -
  obtain p where p: "js_mul (Fin a) (js_int 100) = Fin p" "a * 100 * (1 - 1 / 10 ^ 6) \<le> p"
      "p \<le> a * 100 * (1 + 1 / 10 ^ 6)"
    using to_js_near [of "a * 100"] a by auto
  obtain k where "js_floor (f (js_int 1) (js_mul (js_int n) r)) = js_int k" "1 \<le> k" "of_int k \<le> y"
    by (rule sell_amount [OF f own])
  with p a show ?thesis by (auto simp: timeoutSellCalculator_def)
qed

text \<open>
  The calculator for successful sales asks less than the current price and offers at
  least one piece and at most the configured share of what is owned, as soon as that share
  is a whole piece.
\<close>

lemma success_sell_bounds:
  assumes f: "random_between f" and a: "1 / 100 \<le> a" "a \<le> 10 ^ 10"
    and own: "js_mul (js_int n) r = Fin y" "1 \<le> y"
  shows "\<exists>p k. successSellCalculator f \<lparr>so_askPrice = Fin a, so_ownedAmount = js_int n, so_ratio = r\<rparr>
           = \<lparr>tr_price = Fin p, tr_amount = js_int k\<rparr> \<and> 0 < p \<and> p < a \<and> 1 \<le> k \<and> of_int k \<le> y"
proof -
  obtain p where p: "js_mul (Fin a) (to_js (9/10)) = Fin p" "0 < p" "p < a"
    by (rule sell_price [OF a])
  obtain k where "js_floor (f (js_int 1) (js_mul (js_int n) r)) = js_int k" "1 \<le> k" "of_int k \<le> y"
    by (rule sell_amount [OF f own])
  with p show ?thesis by (auto simp: successSellCalculator_def)
qed

text \<open>
  The calculator for failing sales offers, below the current price, ten times what is
  owned: more than is owned as soon as anything is.
\<close>

lemma error_sell:
  assumes a: "1 / 100 \<le> a" "a \<le> 10 ^ 10" and n: "1 \<le> n" "n \<le> 10 ^ 14"
  shows "\<exists>p. errorSellCalculator f \<lparr>so_askPrice = Fin a, so_ownedAmount = js_int n, so_ratio = r\<rparr>
           = \<lparr>tr_price = Fin p, tr_amount = js_int (10 * n)\<rparr> \<and> 0 < p \<and> p < a \<and> n < 10 * n"
proof -
  obtain p where p: "js_mul (Fin a) (to_js (9/10)) = Fin p" "0 < p" "p < a"
    by (rule sell_price [OF a])
  have "js_mul (js_int n) (js_int 10) = js_int (10 * n)"
    using to_js_of_int [of "10 * n"] n by (simp add: mult.commute)
  with p n show ?thesis by (auto simp: errorSellCalculator_def)
qed

end
