(* ===== verification/Loadgen_Visits.thy ===== *)
theory Loadgen_Visits
  imports Loadgen_Page Loadgen_Calc "HOL-Library.Sublist"
begin

section \<open>Load generator: the visits\<close>

text \<open>
  The five visit classes of \<open>loadgen/src/visits/\<close>. A visit runs against a browser with one
  random draw in [0, 1) for the choice of an instrument and the library's \<open>randomBetween\<close>.
  What the visits write to their logger is left out.
\<close>

subsection \<open>Classes\<close>

datatype VisitName =
    deposit_and_long_buy_success | deposit_and_long_buy_timeout | deposit_and_long_buy_error
  | long_sell_success | long_sell_timeout | long_sell_error
  | deposit_and_buy_success | sell_and_withdraw_success
  | order_credit_card

record DepositAndBuyVisit =
  dab_visitName :: VisitName
  dab_url :: url
  dab_user :: lg_user
  dab_depositValue :: jsnum

record DepositAndLongBuyVisit =
  dlb_visitName :: VisitName
  dlb_buyCalculator :: "random_fun \<Rightarrow> buy_options \<Rightarrow> trade_result"
  dlb_url :: url
  dlb_user :: lg_user
  dlb_depositValue :: jsnum
  dlb_transactionDuration :: jsnum

record LongSellVisit =
  ls_visitName :: VisitName
  ls_sellCalculator :: "random_fun \<Rightarrow> sell_options \<Rightarrow> trade_result"
  ls_url :: url
  ls_user :: lg_user
  ls_sellRatio :: jsnum
  ls_transactionDuration :: jsnum

record SellAndWithdrawVisit =
  saw_visitName :: VisitName
  saw_url :: url
  saw_user :: lg_user
  saw_sellRatio :: jsnum
  saw_withdrawMinValue :: jsnum

record OrderCreditCardVisit =
  occ_visitName :: VisitName
  occ_url :: url
  occ_user :: lg_user
  occ_cardType :: string

subsection \<open>Runs\<close>

definition run_DepositAndBuy ::
  "random_fun \<Rightarrow> rat \<Rightarrow> browser \<Rightarrow> DepositAndBuyVisit \<Rightarrow> unit page_act" where
  "run_DepositAndBuy randomBetween r b v =
     act_then (pa_do b (GotoPage (url_href (dab_url v))))
     (act_then (login b (dab_user v))
     (act_then (gotoDepositPage b)
     (act_then (deposit b (dab_user v) (dab_depositValue v))
     (act_then (gotoRandomInstrument b r)
     (act_then (selectQuickBuy b)
     (act_bind (getInstrumentPrice b) (\<lambda>instrumentPrice.
      act_bind (getCurrentBalance b) (\<lambda>currentBalance.
      act_bind (getInstrumentName b) (\<lambda>instrumentName.
      let buyAmount = js_floor (randomBetween (js_int 1) (js_div (dab_depositValue v) instrumentPrice)) in
      act_then (trade b buyAmount)
     (act_then (gotoCreditCardPage b)
     (act_then (logout b)
       (pa_do b EndDtSession))))))))))))"

definition run_DepositAndLongBuy ::
  "random_fun \<Rightarrow> rat \<Rightarrow> browser \<Rightarrow> DepositAndLongBuyVisit \<Rightarrow> unit page_act" where
  "run_DepositAndLongBuy randomBetween r b v =
     act_then (pa_do b (GotoPage (url_href (dlb_url v))))
     (act_then (login b (dlb_user v))
     (act_then (gotoDepositPage b)
     (act_then (deposit b (dlb_user v) (dlb_depositValue v))
     (act_then (gotoRandomInstrument b r)
     (act_bind (getCurrentBalance b) (\<lambda>currentBalance.
      act_then (selectBuy b)
     (act_bind (getInstrumentPrice b) (\<lambda>instrumentPrice.
      act_bind (getInstrumentName b) (\<lambda>instrumentName.
      let res = dlb_buyCalculator v randomBetween
            \<lparr>bo_balance = currentBalance, bo_askPrice = instrumentPrice, bo_maxCost = dlb_depositValue v\<rparr> in
      act_then (scheduleTransaction b (tr_price res) (dlb_transactionDuration v) (tr_amount res))
     (act_then (gotoCreditCardPage b)
     (act_then (logout b)
       (pa_do b EndDtSession))))))))))))"

definition run_LongSell ::
  "random_fun \<Rightarrow> rat \<Rightarrow> browser \<Rightarrow> LongSellVisit \<Rightarrow> unit page_act" where
  "run_LongSell randomBetween r b v =
     act_then (pa_do b (GotoPage (url_href (ls_url v))))
     (act_then (login b (ls_user v))
     (act_then (gotoRandomOwnedInstrument b r)
     (act_then (selectQuickSell b)
     (act_bind (getInstrumentPossessedAmount b) (\<lambda>instrumentAmount.
      act_then (selectSell b)
     (act_bind (getInstrumentPrice b) (\<lambda>instrumentPrice.
      act_bind (getInstrumentName b) (\<lambda>instrumentName.
      let res = ls_sellCalculator v randomBetween
            \<lparr>so_askPrice = instrumentPrice, so_ownedAmount = instrumentAmount, so_ratio = ls_sellRatio v\<rparr> in
      act_then (scheduleTransaction b (tr_price res) (ls_transactionDuration v) (tr_amount res))
     (act_then (gotoCreditCardPage b)
     (act_then (logout b)
       (pa_do b EndDtSession)))))))))))"

definition run_SellAndWithdraw ::
  "random_fun \<Rightarrow> rat \<Rightarrow> browser \<Rightarrow> SellAndWithdrawVisit \<Rightarrow> unit page_act" where
  "run_SellAndWithdraw randomBetween r b v =
     act_then (pa_do b (GotoPage (url_href (saw_url v))))
     (act_then (login b (saw_user v))
     (act_then (gotoRandomOwnedInstrument b r)
     (act_then (selectQuickSell b)
     (act_bind (getInstrumentPossessedAmount b) (\<lambda>instrumentAmount.
      act_bind (getInstrumentPrice b) (\<lambda>instrumentPrice.
      act_bind (getInstrumentName b) (\<lambda>instrumentName.
      let sellAmount = js_floor (randomBetween (js_int 1) (js_mul instrumentAmount (saw_sellRatio v))) in
      act_then (trade b sellAmount)
      (let withdrawAmount = js_max (saw_withdrawMinValue v) (js_mul instrumentPrice sellAmount) in
      act_then (gotoWithdrawPage b)
     (act_then (withdraw b (saw_user v) withdrawAmount)
     (act_then (gotoCreditCardPage b)
     (act_then (logout b)
       (pa_do b EndDtSession))))))))))))"

definition visit_orderCard :: "browser \<Rightarrow> OrderCreditCardVisit \<Rightarrow> unit page_act" where
  "visit_orderCard b v =
     act_bind (checkIfOrderPending b) (\<lambda>orderPending.
       if orderPending then act_return ()
       else
         act_bind (checkIfCardActive b) (\<lambda>cardRevoked.
         act_then (if cardRevoked then revokeCard b else act_return ())
           (orderCard b (occ_user v) (occ_cardType v))))"

definition run_OrderCreditCard :: "browser \<Rightarrow> OrderCreditCardVisit \<Rightarrow> unit page_act" where
  "run_OrderCreditCard b v =
     act_then (pa_do b (GotoPage (url_href (occ_url v))))
     (act_then (login b (occ_user v))
     (act_then (gotoCreditCardPage b)
     (act_then (visit_orderCard b v)
     (act_then (logout b)
       (pa_do b EndDtSession)))))"

subsection \<open>IVisit\<close>

datatype visit =
    V_DepositAndBuy DepositAndBuyVisit
  | V_DepositAndLongBuy DepositAndLongBuyVisit
  | V_LongSell LongSellVisit
  | V_SellAndWithdraw SellAndWithdrawVisit
  | V_OrderCreditCard OrderCreditCardVisit

fun getName :: "visit \<Rightarrow> VisitName" where
  "getName (V_DepositAndBuy v) = dab_visitName v"
| "getName (V_DepositAndLongBuy v) = dlb_visitName v"
| "getName (V_LongSell v) = ls_visitName v"
| "getName (V_SellAndWithdraw v) = saw_visitName v"
| "getName (V_OrderCreditCard v) = occ_visitName v"

fun visit_url :: "visit \<Rightarrow> url" where
  "visit_url (V_DepositAndBuy v) = dab_url v"
| "visit_url (V_DepositAndLongBuy v) = dlb_url v"
| "visit_url (V_LongSell v) = ls_url v"
| "visit_url (V_SellAndWithdraw v) = saw_url v"
| "visit_url (V_OrderCreditCard v) = occ_url v"

fun visit_user :: "visit \<Rightarrow> lg_user" where
  "visit_user (V_DepositAndBuy v) = dab_user v"
| "visit_user (V_DepositAndLongBuy v) = dlb_user v"
| "visit_user (V_LongSell v) = ls_user v"
| "visit_user (V_SellAndWithdraw v) = saw_user v"
| "visit_user (V_OrderCreditCard v) = occ_user v"

definition setup_visit :: "browser \<Rightarrow> visit \<Rightarrow> unit page_act" where
  "setup_visit b v = pageSetup b (visit_user v) (visit_url v)"

fun run :: "random_fun \<Rightarrow> rat \<Rightarrow> browser \<Rightarrow> visit \<Rightarrow> unit page_act" where
  "run f r b (V_DepositAndBuy v) = run_DepositAndBuy f r b v"
| "run f r b (V_DepositAndLongBuy v) = run_DepositAndLongBuy f r b v"
| "run f r b (V_LongSell v) = run_LongSell f r b v"
| "run f r b (V_SellAndWithdraw v) = run_SellAndWithdraw f r b v"
| "run f r b (V_OrderCreditCard v) = run_OrderCreditCard b v"

text \<open>Languages in which the monitoring session is not ended.\<close>

definition quiet :: "page_event list set \<Rightarrow> bool" where
  "quiet L \<longleftrightarrow> (\<forall>w\<in>L. EndDtSession \<notin> set w)"

lemma quiet_seq [intro]: "quiet A \<Longrightarrow> quiet B \<Longrightarrow> quiet (seq A B)"
  by (auto simp: quiet_def seq_def)

lemma quiet_single [simp]: "quiet {w} \<longleftrightarrow> EndDtSession \<notin> set w"
  by (simp add: quiet_def)

text \<open>An action that throws has not ended the monitoring session.\<close>

definition fails_clean :: "'a page_act \<Rightarrow> bool" where
  "fails_clean m \<longleftrightarrow> (\<forall>l. \<exists>es. snd (m l) = l @ es \<and>
     (case fst (m l) of Inl _ \<Rightarrow> EndDtSession \<notin> set es | Inr _ \<Rightarrow> True))"

lemma fails_cleanD: "fails_clean m \<Longrightarrow> m l = (Inl e, l') \<Longrightarrow> \<exists>es. l' = l @ es \<and> EndDtSession \<notin> set es"
  unfolding fails_clean_def by (metis (no_types, lifting) fst_conv snd_conv sum.simps(5))

lemma fails_clean_last: "fails_clean (pa_do b EndDtSession)"
  by (simp add: fails_clean_def pa_do_def split: option.splits)

lemma fails_clean_bind:
  assumes "traces A m" "quiet A" "\<And>x. fails_clean (f x)"
  shows "fails_clean (act_bind m f)"
  unfolding fails_clean_def
proof
  fix l
  consider (ret) x es where "m l = (Inr x, l @ es)" "es \<in> A"
    | (exn) e es fs where "m l = (Inl e, l @ es)" "es @ fs \<in> A"
    by (rule tracesE [OF assms(1), of l]) blast+
  then show "\<exists>es. snd (act_bind m f l) = l @ es \<and> (case fst (act_bind m f l) of
     Inl _ \<Rightarrow> EndDtSession \<notin> set es | Inr _ \<Rightarrow> True)"
  proof cases
    case (ret x es)
    obtain es' where "snd (f x (l @ es)) = (l @ es) @ es'"
      "case fst (f x (l @ es)) of Inl _ \<Rightarrow> EndDtSession \<notin> set es' | Inr _ \<Rightarrow> True"
      using assms(3) unfolding fails_clean_def by blast
    with ret assms(2) show ?thesis
      by (intro exI [of _ "es @ es'"]) (auto simp: act_simps quiet_def split: sum.splits)
  next
    case (exn e es fs)
    with assms(2) show ?thesis
      by (intro exI [of _ es]) (auto simp: act_simps quiet_def)
  qed
qed

subsection \<open>The contract of a visit\<close>

text \<open>
  What the load generator relies on: a visit is a session. It opens the application, logs
  in, does its business, logs out and ends the monitoring session; an interrupted visit is a
  prefix of that. \<open>midL\<close> is the language of the business part.
\<close>

definition sessionL :: "url \<Rightarrow> lg_user \<Rightarrow> page_event list set \<Rightarrow> page_event list set" where
  "sessionL u usr midL =
     seq {[GotoPage (url_href u)]} (seq {login_trace usr} (seq midL (seq {logout_trace} {[EndDtSession]})))"

lemma sessionL_iff:
  "w \<in> sessionL u usr midL \<longleftrightarrow>
     (\<exists>mid\<in>midL. w = GotoPage (url_href u) # login_trace usr @ mid @ logout_trace @ [EndDtSession])"
  by (auto simp: sessionL_def seq_def)

locale page_visit =
  fixes run_visit :: "browser \<Rightarrow> unit page_act"
    and vurl :: url
    and vuser :: lg_user
    and midL :: "page_event list set"
  assumes run_traces: "traces (sessionL vurl vuser midL) (run_visit b)"
    and run_fails_clean: "fails_clean (run_visit b)"
    and run_returns: "cooperative b \<Longrightarrow> returns (run_visit b)"
begin

lemma completed:
  assumes "run_visit b [] = (Inr x, w)"
  shows "\<exists>mid\<in>midL. w = GotoPage (url_href vurl) # login_trace vuser @ mid @ logout_trace @ [EndDtSession]"
  using traces_returned [OF run_traces assms] by (auto simp: sessionL_iff)

lemma interrupted:
  assumes "run_visit b [] = (Inl e, w)"
  shows "EndDtSession \<notin> set w"
    and "\<exists>mid\<in>midL. prefix w (GotoPage (url_href vurl) # login_trace vuser @ mid @ logout_trace)"
proof -
  show no_end: "EndDtSession \<notin> set w"
    using fails_cleanD [OF run_fails_clean assms] by simp
  obtain rest mid where mid: "mid \<in> midL"
    and eq: "w @ rest = (GotoPage (url_href vurl) # login_trace vuser @ mid @ logout_trace) @ [EndDtSession]"
    using traces_failed [OF run_traces assms] by (auto simp: sessionL_iff)
  have "rest \<noteq> []"
  proof
    assume "rest = []"
    with eq have "w = (GotoPage (url_href vurl) # login_trace vuser @ mid @ logout_trace) @ [EndDtSession]"
      by simp
    with no_end show False by simp
  qed
  then obtain rest' y where "rest = rest' @ [y]" by (cases rest rule: rev_cases) auto
  with eq have "w @ rest' = GotoPage (url_href vurl) # login_trace vuser @ mid @ logout_trace"
    by (metis append_assoc append1_eq_conv)
  with mid show "\<exists>mid\<in>midL. prefix w (GotoPage (url_href vurl) # login_trace vuser @ mid @ logout_trace)"
    by (metis prefixI)
qed

lemma completes:
  assumes "cooperative b"
  shows "\<exists>mid\<in>midL. run_visit b []
     = (Inr (), GotoPage (url_href vurl) # login_trace vuser @ mid @ logout_trace @ [EndDtSession])"
proof -
  obtain w where "run_visit b [] = (Inr (), w)"
    using returnsD [OF run_returns [OF assms]] by fastforce
  with completed [OF this] show ?thesis by auto
qed

end

subsection \<open>The business parts\<close>

definition scheduleL :: "jsnum \<Rightarrow> page_event list set" where
  "scheduleL d = {schedule_trace p d a |p a. True}"

definition tradeL :: "page_event list set" where
  "tradeL = range trade_trace"

definition ordersL :: "OrderCreditCardVisit \<Rightarrow> page_event list set" where
  "ordersL v = {[]} \<union> seq ({[Navigate creditCardPage_revokeCard]} \<union> {[]}) (orderL (occ_user v) (occ_cardType v))"

fun midL :: "visit \<Rightarrow> page_event list set" where
  "midL (V_DepositAndBuy v) =
     seq (navL navigation_depositPage) (seq (depositL (dab_user v) (dab_depositValue v)) (seq pickL
       (seq {[Click instrumentPage_quickBuyForm]} (seq tradeL (navL navigation_creditCardPage)))))"
| "midL (V_DepositAndLongBuy v) =
     seq (navL navigation_depositPage) (seq (depositL (dlb_user v) (dlb_depositValue v)) (seq pickL
       (seq {[Click instrumentPage_buyForm]} (seq (scheduleL (dlb_transactionDuration v))
         (navL navigation_creditCardPage)))))"
| "midL (V_LongSell v) =
     seq pickL (seq {[Click instrumentPage_quickSellForm]} (seq {[Click instrumentPage_sellForm]}
       (seq (scheduleL (ls_transactionDuration v)) (navL navigation_creditCardPage))))"
| "midL (V_SellAndWithdraw v) =
     seq pickL (seq {[Click instrumentPage_quickSellForm]} (seq tradeL (seq (navL navigation_withdrawPage)
       (seq (\<Union>x. withdrawL (saw_user v) x) (navL navigation_creditCardPage)))))"
| "midL (V_OrderCreditCard v) = seq (navL navigation_creditCardPage) (ordersL v)"

lemma mid_nonempty [simp]: "scheduleL d \<noteq> {}" "tradeL \<noteq> {}" "ordersL v \<noteq> {}" "(\<Union>x. withdrawL u x) \<noteq> {}"
  by (auto simp: scheduleL_def tradeL_def ordersL_def withdrawL_def)

lemma traces_read_bind: "traces {[]} m \<Longrightarrow> (\<And>x. traces B (f x)) \<Longrightarrow> B \<noteq> {} \<Longrightarrow> traces B (act_bind m f)"
  using traces_bind [of "{[]}" m B f] by simp

lemmas read_binds = traces_read_bind [OF instrument_reads_traces(1)]
  traces_read_bind [OF instrument_reads_traces(2)] traces_read_bind [OF instrument_reads_traces(3)]
  traces_read_bind [OF instrument_reads_traces(4)] traces_read_bind [OF instrument_reads_traces(5)]
  traces_read_bind [OF instrument_reads_traces(6)]

lemma business_traces:
  "traces (scheduleL d) (scheduleTransaction b p d a)" "traces tradeL (trade b a)"
  "traces (\<Union>x. withdrawL u x) (withdraw b u x)"
  by (rule traces_mono, rule page_traces, auto simp: scheduleL_def tradeL_def)+

lemma visit_orderCard_traces: "traces (ordersL v) (visit_orderCard b v)"
  unfolding visit_orderCard_def ordersL_def
  by (intro read_binds traces_if traces_bind traces_return page_traces) auto

lemmas run_traces = business_traces visit_orderCard_traces page_traces

lemma run_traces_visit: "traces (sessionL (visit_url v) (visit_user v) (midL v)) (run f r b v)"
  by (cases v)
     (simp_all add: sessionL_def seq_assoc run_DepositAndBuy_def run_DepositAndLongBuy_def run_LongSell_def
       run_SellAndWithdraw_def run_OrderCreditCard_def Let_def del: seq_singletons seq_range seq_Nil,
      (rule read_binds traces_bind run_traces | simp del: seq_singletons seq_range seq_Nil)+)

lemma quiet_pages:
  "quiet (navL s)" "quiet (depositL u v)" "quiet (withdrawL u v)" "quiet (orderL u t)" "quiet pickL"
  "quiet (scheduleL d)" "quiet tradeL" "quiet (\<Union>x. withdrawL u x)" "quiet (ordersL w)"
  by (auto simp: quiet_def navL_def showL_def seq_def depositL_def withdrawL_def money_form_def orderL_def
      pickL_def scheduleL_def schedule_trace_def tradeL_def trade_trace_def ordersL_def)

lemma quiet_sets:
  "quiet {login_trace u}" "quiet {logout_trace}" "quiet {schedule_trace p d a}" "quiet {trade_trace a}"
  by (simp_all add: login_trace_def logout_trace_def schedule_trace_def trade_trace_def)

lemma run_fails_clean_visit: "fails_clean (run f r b v)"
  by (cases v)
     (simp_all add: run_DepositAndBuy_def run_DepositAndLongBuy_def run_LongSell_def
       run_SellAndWithdraw_def run_OrderCreditCard_def Let_def,
      (rule fails_clean_last | rule fails_clean_bind, rule run_traces, (rule quiet_sets quiet_pages | simp))+)

lemma run_returns_visit:
  assumes b: "cooperative b"
  shows "returns (run f r b v)"
  by (cases v)
     (simp_all add: run_DepositAndBuy_def run_DepositAndLongBuy_def run_LongSell_def run_SellAndWithdraw_def
       run_OrderCreditCard_def visit_orderCard_def Let_def,
      (intro returns_bind returns_return returns_if page_returns b)+)

interpretation session: page_visit "\<lambda>b. run f r b v" "visit_url v" "visit_user v" "midL v" for f r v
  by unfold_locales (fact run_traces_visit, fact run_fails_clean_visit, rule run_returns_visit)

subsection \<open>A sample visit\<close>

definition sample_user :: lg_user where
  "sample_user = \<lparr>first_name = ''Ada'', last_name = ''Byron'', username = ''ada'', email = ''a@b.c'',
     password = ''pw'', user_agent = ''UA'', ip4 = ''10.0.0.1'', address = ''Street 1'',
     credit_card_number = ''4111'', credit_card_cvv = ''123'', credit_card_provider = visaDebit,
     visitor_id = ''v1''\<rparr>"

definition sample_visit :: visit where
  "sample_visit = V_OrderCreditCard \<lparr>occ_visitName = order_credit_card,
     occ_url = \<lparr>url_href = ''http://easytrade/'', url_hostname = ''easytrade''\<rparr>,
     occ_user = sample_user, occ_cardType = ''Gold''\<rparr>"

text \<open>A browser on which everything is found, and where the given steps fail.\<close>

definition sample_browser :: "(page_event \<Rightarrow> bool) \<Rightarrow> browser" where
  "sample_browser bad = \<lparr>b_fails = (\<lambda>l v. if bad v then Some NetworkError else None),
     b_present = (\<lambda>l s. Inr True), b_handle = (\<lambda>l s. Inr 0), b_handles = (\<lambda>l s. Inr [0]),
     b_text = (\<lambda>l s. Inr ''x''), b_property = (\<lambda>l s n. Inr ''10'')\<rparr>"

lemma sample_browser_cooperative: "cooperative (sample_browser (\<lambda>_. False))"
  by (auto simp: cooperative_def sample_browser_def)

lemmas sample_simps = sample_visit_def run_OrderCreditCard_def visit_orderCard_def checkIfOrderPending_def
  gotoCreditCardPage_def gotoPageWithNavBar_def showNavbar_def isSelectorPresent_def login_def logout_def
  pa_do_def pa_read_def sample_browser_def act_simps

subsection \<open>Properties\<close>

text \<open>
  C4: any of the five visits that completes, in any browser, is a session: it opens the
  application, logs its user in, does the business of its class, logs out, and ends the
  monitoring session last.
\<close>

theorem visit_completed:
  assumes "run f r b v [] = (Inr (), w)"
  shows "\<exists>mid\<in>midL v. w = [GotoPage (url_href (visit_url v))] @ login_trace (visit_user v)
           @ mid @ logout_trace @ [EndDtSession]"
  using session.completed [OF assms] by simp

theorem visit_completed_witness:
  "\<exists>w. run (\<lambda>x y. x) 0 (sample_browser (\<lambda>_. False)) sample_visit [] = (Inr (), w)
     \<and> (\<exists>mid\<in>midL sample_visit. w = [GotoPage (url_href (visit_url sample_visit))]
           @ login_trace (visit_user sample_visit) @ mid @ logout_trace @ [EndDtSession])"
proof -
  obtain w where w: "run (\<lambda>x y. x) 0 (sample_browser (\<lambda>_. False)) sample_visit [] = (Inr (), w)"
    by (simp add: sample_simps)
  from visit_completed [OF w] w show ?thesis by blast
qed

text \<open>
  C29: an interrupted visit never reaches the end of its monitoring session: what an error
  leaves behind is a prefix of such a session without its last step.
\<close>

theorem visit_interrupted:
  assumes "run f r b v [] = (Inl e, w)"
  shows "\<exists>mid\<in>midL v. prefix w ([GotoPage (url_href (visit_url v))] @ login_trace (visit_user v)
           @ mid @ logout_trace) \<and> EndDtSession \<notin> set w"
  using session.interrupted [OF assms] by simp

theorem visit_interrupted_witness:
  "\<exists>w. run (\<lambda>x y. x) 0 (sample_browser (\<lambda>v. v = Navigate loginPage_loginButton)) sample_visit []
       = (Inl NetworkError, w)
     \<and> (\<exists>mid\<in>midL sample_visit. prefix w ([GotoPage (url_href (visit_url sample_visit))]
           @ login_trace (visit_user sample_visit) @ mid @ logout_trace) \<and> EndDtSession \<notin> set w)"
proof -
  obtain w where w: "run (\<lambda>x y. x) 0 (sample_browser (\<lambda>v. v = Navigate loginPage_loginButton))
      sample_visit [] = (Inl NetworkError, w)"
    by (simp add: sample_simps)
  from visit_interrupted [OF w] w show ?thesis by blast
qed

text \<open>
  C30: on a browser where no step fails and some instrument is shown, every visit runs to
  its end.
\<close>

theorem visit_completes:
  assumes "cooperative b"
  shows "\<exists>mid\<in>midL v. run f r b v [] = (Inr (), [GotoPage (url_href (visit_url v))]
           @ login_trace (visit_user v) @ mid @ logout_trace @ [EndDtSession])"
  using session.completes [OF assms] by simp

theorem visit_completes_witness:
  "\<exists>mid\<in>midL sample_visit. run (\<lambda>x y. x) 0 (sample_browser (\<lambda>_. False)) sample_visit []
     = (Inr (), [GotoPage (url_href (visit_url sample_visit))]
           @ login_trace (visit_user sample_visit) @ mid @ logout_trace @ [EndDtSession])"
  by (rule visit_completes [OF sample_browser_cooperative])

end
