(* ===== verification/Loadgen_Config.thy ===== *)
theory Loadgen_Config
  imports Loadgen_Visits
begin

section \<open>Load generator: configuration and the visit provider\<close>

text \<open>
  \<open>loadgen/src/config/\<close> and \<open>provider/\<close>. \<open>EnvConfig\<close> of the load generator library reads
  the environment; it is a parameter, a record of its three methods, each of which may throw.
  The provider classes of the library are only constructed here, so they are the
  constructors of a datatype.
\<close>

subsection \<open>Configuration\<close>

record env_config =
  ensureNumber :: "string \<Rightarrow> jsnum \<Rightarrow> js_exn + jsnum"
  ensureEnum :: "string \<Rightarrow> string list \<Rightarrow> string \<Rightarrow> js_exn + string"
  ensureUrl :: "string \<Rightarrow> js_exn + url"

definition HEADLESS_MODES :: "string list" where
  "HEADLESS_MODES = [''headless'', ''headfull'']"

record VisitsConfig =
  depositMinValue :: jsnum
  depositMaxValue :: jsnum
  assetSellRatio :: jsnum
  withdrawMinValue :: jsnum
  transactionMinDuration :: jsnum
  transactionMaxDuration :: jsnum
  easytradeUrl :: url

datatype ProviderConfig =
    Constant
  | NYSE (offHoursLoadFactor: jsnum) (timeframeMinutes: jsnum) (learnTimeFactor: jsnum)

type_synonym weights = "(VisitName \<times> jsnum) list"

record Config =
  concurrent_visits :: jsnum
  concurrent_browsers :: jsnum
  browserTimeToLiveMinutes :: jsnum
  logLevel :: string
  rareVisitsIntervalMinutes :: jsnum
  headlessMode :: string
  visitsConfig :: VisitsConfig
  providerConfig :: "ProviderConfig option"   \<comment> \<open>\<open>None\<close> is \<open>undefined\<close>\<close>
  regularVisitsWeights :: weights

text \<open>The \<open>switch\<close> has no default: another load type leaves the provider undefined.\<close>

definition getProviderConfig :: "env_config \<Rightarrow> js_exn + ProviderConfig option" where
  "getProviderConfig e =
     attempt (ensureEnum e ''LOAD_TYPE'' [''constant'', ''NYSE''] ''NYSE'') (\<lambda>providerType.
       if providerType = ''constant'' then Inr (Some Constant)
       else if providerType = ''NYSE'' then
         attempt (ensureNumber e ''RATE_LIMIT_LEARN_TIME_FACTOR'' (js_int 2)) (\<lambda>learn.
         attempt (ensureNumber e ''NYSE_OFFHOURS_LOAD_FACTOR'' (to_js (7/10))) (\<lambda>off.
         attempt (ensureNumber e ''RATE_LIMIT_TIMEFRAME_MINUTES'' (js_int 5)) (\<lambda>tf.
           Inr (Some (NYSE off tf learn)))))
       else Inr None)"

definition getVisitsConfig :: "env_config \<Rightarrow> js_exn + VisitsConfig" where
  "getVisitsConfig e =
     attempt (ensureNumber e ''DEPOSIT_MIN_VALUE'' (js_int 500)) (\<lambda>dmin.
     attempt (ensureNumber e ''DEPOSIT_MAX_VALUE'' (js_int 1500)) (\<lambda>dmax.
     attempt (ensureNumber e ''ASSET_SELL_RATIO'' (to_js (1/10))) (\<lambda>ratio.
     attempt (ensureNumber e ''WITHDRAW_MIN_VALUE'' (js_int 500)) (\<lambda>wmin.
     attempt (ensureNumber e ''TRANSACTION_MIN_DURATION'' (js_int 1)) (\<lambda>tmin.
     attempt (ensureNumber e ''TRANSACTION_MAX_DURATION'' (js_int 24)) (\<lambda>tmax.
     attempt (ensureUrl e ''EASYTRADE_URL'') (\<lambda>u.
       Inr \<lparr>depositMinValue = dmin, depositMaxValue = dmax, assetSellRatio = ratio,
            withdrawMinValue = wmin, transactionMinDuration = tmin, transactionMaxDuration = tmax,
            easytradeUrl = u\<rparr>)))))))"

definition weight_vars :: "(VisitName \<times> string) list" where
  "weight_vars =
     [(deposit_and_buy_success, ''DEPOSIT_AND_BUY_SUCCESS_WEIGHT''),
      (deposit_and_long_buy_error, ''DEPOSIT_AND_LONG_BUY_ERROR_WEIGHT''),
      (deposit_and_long_buy_success, ''DEPOSIT_AND_LONG_BUY_SUCCESS_WEIGHT''),
      (deposit_and_long_buy_timeout, ''DEPOSIT_AND_LONG_BUY_TIMEOUT_WEIGHT''),
      (long_sell_error, ''LONG_SELL_ERROR_WEIGHT''),
      (long_sell_success, ''LONG_SELL_SUCCESS_WEIGHT''),
      (long_sell_timeout, ''LONG_SELL_TIMEOUT_WEIGHT''),
      (sell_and_withdraw_success, ''SELL_AND_WITHDRAW_SUCCESS_WEIGHT'')]"

fun getWeights :: "env_config \<Rightarrow> (VisitName \<times> string) list \<Rightarrow> js_exn + weights" where
  "getWeights e [] = Inr []"
| "getWeights e ((v, name) # vs) =
     attempt (ensureNumber e name (js_int 1)) (\<lambda>w.
     attempt (getWeights e vs) (\<lambda>ws. Inr ((v, w) # ws)))"

definition getConfig :: "env_config \<Rightarrow> js_exn + Config" where
  "getConfig e =
     attempt (ensureNumber e ''CONCURRENCY'' (js_int 5)) (\<lambda>conc.
     attempt (ensureNumber e ''BROWSERS'' (js_int 1)) (\<lambda>brs.
     attempt (ensureNumber e ''BROWSER_TTL_MINUTES'' (js_int 60)) (\<lambda>ttl.
     attempt (ensureEnum e ''LOG_LEVEL''
        [''silly'', ''debug'', ''verbose'', ''http'', ''info'', ''warn'', ''error''] ''info'') (\<lambda>lvl.
     attempt (ensureNumber e ''RARE_VISITS_INTERVAL_MINUTES'' (js_int 30)) (\<lambda>rare.
     attempt (ensureEnum e ''HEADLESS_MODE'' HEADLESS_MODES ''headless'') (\<lambda>hl.
     attempt (getVisitsConfig e) (\<lambda>vc.
     attempt (getProviderConfig e) (\<lambda>pc.
     attempt (getWeights e weight_vars) (\<lambda>ws.
       Inr \<lparr>concurrent_visits = conc, concurrent_browsers = brs,
            browserTimeToLiveMinutes = ttl, logLevel = lvl, rareVisitsIntervalMinutes = rare,
            headlessMode = hl, visitsConfig = vc, providerConfig = pc, regularVisitsWeights = ws\<rparr>)))))))))"

subsection \<open>Visits\<close>

definition getDepositValue :: "random_fun \<Rightarrow> Config \<Rightarrow> jsnum" where
  "getDepositValue randomBetween c =
     randomBetween (depositMinValue (visitsConfig c)) (depositMaxValue (visitsConfig c))"

definition getTransactionDuration :: "random_fun \<Rightarrow> Config \<Rightarrow> jsnum" where
  "getTransactionDuration randomBetween c =
     js_floor (randomBetween (transactionMinDuration (visitsConfig c)) (transactionMaxDuration (visitsConfig c)))"

text \<open>The visits are given the user that \<open>getRandomUser\<close> drew for them.\<close>

definition long_buy_visit ::
  "random_fun \<Rightarrow> Config \<Rightarrow> VisitName \<Rightarrow> (random_fun \<Rightarrow> buy_options \<Rightarrow> trade_result) \<Rightarrow> lg_user \<Rightarrow> visit" where
  "long_buy_visit f c name calc user =
     V_DepositAndLongBuy \<lparr>dlb_visitName = name, dlb_buyCalculator = calc,
       dlb_url = easytradeUrl (visitsConfig c), dlb_user = user,
       dlb_depositValue = getDepositValue f c, dlb_transactionDuration = getTransactionDuration f c\<rparr>"

definition long_sell_visit ::
  "random_fun \<Rightarrow> Config \<Rightarrow> VisitName \<Rightarrow> (random_fun \<Rightarrow> sell_options \<Rightarrow> trade_result) \<Rightarrow> lg_user \<Rightarrow> visit" where
  "long_sell_visit f c name calc user =
     V_LongSell \<lparr>ls_visitName = name, ls_sellCalculator = calc,
       ls_url = easytradeUrl (visitsConfig c), ls_user = user,
       ls_sellRatio = assetSellRatio (visitsConfig c),
       ls_transactionDuration = getTransactionDuration f c\<rparr>"

fun getRegularProviderFunction :: "random_fun \<Rightarrow> Config \<Rightarrow> lg_user \<Rightarrow> VisitName \<Rightarrow> visit option" where
  "getRegularProviderFunction f c user deposit_and_long_buy_success =
     Some (long_buy_visit f c deposit_and_long_buy_success successBuyCalculator user)"
| "getRegularProviderFunction f c user deposit_and_long_buy_timeout =
     Some (long_buy_visit f c deposit_and_long_buy_timeout timeoutBuyCalculator user)"
| "getRegularProviderFunction f c user deposit_and_long_buy_error =
     Some (long_buy_visit f c deposit_and_long_buy_error errorBuyCalculator user)"
| "getRegularProviderFunction f c user long_sell_success =
     Some (long_sell_visit f c long_sell_success successSellCalculator user)"
| "getRegularProviderFunction f c user long_sell_timeout =
     Some (long_sell_visit f c long_sell_timeout timeoutSellCalculator user)"
| "getRegularProviderFunction f c user long_sell_error =
     Some (long_sell_visit f c long_sell_error errorSellCalculator user)"
| "getRegularProviderFunction f c user deposit_and_buy_success =
     Some (V_DepositAndBuy \<lparr>dab_visitName = deposit_and_buy_success,
       dab_url = easytradeUrl (visitsConfig c), dab_user = user, dab_depositValue = getDepositValue f c\<rparr>)"
| "getRegularProviderFunction f c user sell_and_withdraw_success =
     Some (V_SellAndWithdraw \<lparr>saw_visitName = sell_and_withdraw_success,
       saw_url = easytradeUrl (visitsConfig c), saw_user = user,
       saw_sellRatio = assetSellRatio (visitsConfig c), saw_withdrawMinValue = withdrawMinValue (visitsConfig c)\<rparr>)"
| "getRegularProviderFunction f c user order_credit_card = None"

definition getRareVisitInterval :: "Config \<Rightarrow> jsnum" where
  "getRareVisitInterval c = js_mul (js_mul (rareVisitsIntervalMinutes c) (js_int 60)) (js_int 1000)"

definition getRareProviderFunction :: "rat \<Rightarrow> Config \<Rightarrow> lg_user \<Rightarrow> visit option" where
  "getRareProviderFunction r c user =
     map_option (\<lambda>cardType. V_OrderCreditCard \<lparr>occ_visitName = order_credit_card,
       occ_url = easytradeUrl (visitsConfig c), occ_user = user, occ_cardType = cardType\<rparr>)
       (arrayRandom r EASYTRADE_CREDIT_CARD_TYPES)"

subsection \<open>Provider\<close>

text \<open>A time of day in UTC, as \<open>getUTCHours\<close> and \<open>getUTCMinutes\<close> read it off a \<open>Date\<close>.\<close>

record utc_time =
  getUTCHours :: nat
  getUTCMinutes :: nat

definition isNYSEOpenHours :: "utc_time \<Rightarrow> bool" where
  "isNYSEOpenHours now \<longleftrightarrow>
     ((getUTCHours now = 14 \<and> getUTCMinutes now > 30) \<or> getUTCHours now \<ge> 15) \<and> getUTCHours now < 21"

datatype provider =
    WeightedProvider weights "random_fun \<Rightarrow> lg_user \<Rightarrow> VisitName \<Rightarrow> visit option"
  | FunctionProvider "rat \<Rightarrow> lg_user \<Rightarrow> visit option"
  | IntervalProvider provider jsnum
  | PriorityProvider "provider list"
  | RateLimitedProvider provider jsnum "utc_time \<Rightarrow> jsnum" jsnum string
    \<comment> \<open>wrapped, timeframe in minutes, load factor, learn time factor, log level\<close>

definition getProvider :: "Config \<Rightarrow> js_exn + provider" where
  "getProvider c =
     (let regularVisitProvider =
            WeightedProvider (regularVisitsWeights c) (\<lambda>f. getRegularProviderFunction f c);
          rareVisitsProvider =
            IntervalProvider (FunctionProvider (\<lambda>r. getRareProviderFunction r c)) (getRareVisitInterval c);
          priorityProvider = PriorityProvider [rareVisitsProvider, regularVisitProvider]
      in case providerConfig c of
           None \<Rightarrow> Inl TypeError
         | Some Constant \<Rightarrow> Inr priorityProvider
         | Some (NYSE offHours tf learn) \<Rightarrow>
             Inr (RateLimitedProvider priorityProvider tf
               (\<lambda>now. if isNYSEOpenHours now then js_int 1 else offHours) learn (logLevel c)))"

subsection \<open>Start\<close>

text \<open>
  \<open>main.ts\<close>: what the library is started with; a quantity of time is a unit and a number. The
  statistics are only configured.
\<close>

datatype time_unit = MINUTE | HOUR

record browser_pool =
  bp_name :: string
  bp_headless :: bool
  bp_product :: string
  bp_logLevel :: string
  bp_timeToLiveMs :: jsnum
  bp_concurrentBrowsers :: jsnum

record stats_runner =
  sr_bucket :: "time_unit \<times> nat"
  sr_history :: "time_unit \<times> nat"
  sr_interval :: time_unit
  sr_reports :: "(time_unit \<times> nat) list"

record loadgen_options =
  lo_visitProvider :: provider
  lo_logLevel :: string
  lo_contextPool :: browser_pool
  lo_concurrency :: jsnum
  lo_viewport :: "nat \<times> nat"
  lo_longDelayMs :: nat
  lo_shortDelayMs :: nat
  lo_standDelayMs :: nat
  lo_statsRunner :: stats_runner

definition browserPool :: "Config \<Rightarrow> browser_pool" where
  "browserPool c =
     \<lparr>bp_name = ''main'', bp_headless = (headlessMode c = ''headless''), bp_product = ''chrome'',
      bp_logLevel = logLevel c, bp_timeToLiveMs = js_mul (browserTimeToLiveMinutes c) (js_int 60000),
      bp_concurrentBrowsers = concurrent_browsers c\<rparr>"

definition statRunner :: stats_runner where
  "statRunner =
     \<lparr>sr_bucket = (MINUTE, 5), sr_history = (HOUR, 24), sr_interval = MINUTE, sr_reports = [(MINUTE, 5), (HOUR, 1)]\<rparr>"

definition loadgen_main :: "env_config \<Rightarrow> js_exn + loadgen_options" where
  "loadgen_main e =
     attempt (getConfig e) (\<lambda>c.
     attempt (getProvider c) (\<lambda>provider.
       Inr \<lparr>lo_visitProvider = provider, lo_logLevel = logLevel c, lo_contextPool = browserPool c,
            lo_concurrency = concurrent_visits c, lo_viewport = (1920, 1080), lo_longDelayMs = 3000,
            lo_shortDelayMs = 500, lo_standDelayMs = 1500, lo_statsRunner = statRunner\<rparr>))"

subsection \<open>Defaults\<close>

text \<open>The environment of the library with no variable set but the application's URL.\<close>

definition unset_env :: "url \<Rightarrow> env_config" where
  "unset_env u = \<lparr>ensureNumber = (\<lambda>name d. Inr d), ensureEnum = (\<lambda>name allowed d. Inr d),
     ensureUrl = (\<lambda>name. Inr u)\<rparr>"

lemma getConfig_defaults:
  "getConfig (unset_env u) =
     Inr \<lparr>concurrent_visits = js_int 5, concurrent_browsers = js_int 1,
       browserTimeToLiveMinutes = js_int 60, logLevel = ''info'', rareVisitsIntervalMinutes = js_int 30,
       headlessMode = ''headless'',
       visitsConfig = \<lparr>depositMinValue = js_int 500, depositMaxValue = js_int 1500,
         assetSellRatio = to_js (1/10), withdrawMinValue = js_int 500, transactionMinDuration = js_int 1,
         transactionMaxDuration = js_int 24, easytradeUrl = u\<rparr>,
       providerConfig = Some (NYSE (to_js (7/10)) (js_int 5) (js_int 2)),
       regularVisitsWeights = map (\<lambda>(v, _). (v, js_int 1)) weight_vars\<rparr>"
  by (simp add: getConfig_def unset_env_def getVisitsConfig_def getProviderConfig_def weight_vars_def)

text \<open>With these defaults the load generator starts: five visits at a time, a new browser every hour.\<close>

lemma loadgen_main_defaults:
  "\<exists>opts. loadgen_main (unset_env u) = Inr opts \<and> lo_concurrency opts = js_int 5
     \<and> bp_headless (lo_contextPool opts) \<and> bp_timeToLiveMs (lo_contextPool opts) = js_int 3600000"
  using to_js_of_int [of 3600000]
  by (simp add: loadgen_main_def getConfig_defaults getProvider_def Let_def browserPool_def)

definition sample_config :: Config where
  "sample_config =
     \<lparr>concurrent_visits = js_int 5, concurrent_browsers = js_int 1,
       browserTimeToLiveMinutes = js_int 60, logLevel = ''info'', rareVisitsIntervalMinutes = js_int 30,
       headlessMode = ''headless'',
       visitsConfig = \<lparr>depositMinValue = js_int 500, depositMaxValue = js_int 1500,
         assetSellRatio = js_int 1, withdrawMinValue = js_int 500, transactionMinDuration = js_int 1,
         transactionMaxDuration = js_int 24,
         easytradeUrl = \<lparr>url_href = ''http://easytrade/'', url_hostname = ''easytrade''\<rparr>\<rparr>,
       providerConfig = Some (NYSE (js_int 0) (js_int 5) (js_int 2)),
       regularVisitsWeights = []\<rparr>"

subsection \<open>Properties\<close>

text \<open>
  The provider of regular visits makes, for exactly the visits that have a weight in the
  configuration, a visit of that name, for the drawn user and the configured application.
\<close>

lemma regular_visits:
  "map_option (\<lambda>v. (getName v, visit_user v, visit_url v)) (getRegularProviderFunction f c user name)
     = (if name \<in> set (map fst weight_vars) then Some (name, user, easytradeUrl (visitsConfig c)) else None)"
  by (cases name) (simp_all add: weight_vars_def long_buy_visit_def long_sell_visit_def)

text \<open>
  The rare visit orders a card of one of the three types, for any draw, and it is the
  visit with the name that has no weight.
\<close>

lemma rare_visit:
  assumes "unit_double r"
  shows "\<exists>v. getRareProviderFunction r c user = Some (V_OrderCreditCard v)
     \<and> occ_cardType v \<in> {''Silver'', ''Gold'', ''Platinum''} \<and> occ_user v = user
     \<and> occ_visitName v \<notin> set (map fst weight_vars)"
proof -
  have "rand_index r 3 < 3" using rand_index_less [OF assms, of 3] by simp
  then have "rand_index r 3 \<in> {0, 1, 2}" by auto
  then show ?thesis
    by (auto simp: getRareProviderFunction_def arrayRandom_def EASYTRADE_CREDIT_CARD_TYPES_def weight_vars_def
        numeral_3_eq_3)
qed



end
