(* ===== verification/Js_Dynamic.thy ===== *)
theory Js_Dynamic
  imports Js_Prelude Js_Json
begin

section \<open>Values read from responses\<close>

text \<open>
  The frontend casts parsed responses to its types without looking at them, so reading one is
  reading an arbitrary value: a property of \<open>undefined\<close> or \<open>null\<close> throws a \<open>TypeError\<close>, a
  missing property is \<open>undefined\<close> (\<open>None\<close> here). An object whose property is \<open>undefined\<close> is the
  object without it; reads do not tell them apart.
\<close>

type_synonym jsval = "json option"

definition js_prop :: "jsval \<Rightarrow> string \<Rightarrow> js_exn + jsval" where
  "js_prop v k =
     (case v of
        None \<Rightarrow> Inl TypeError
      | Some JNull \<Rightarrow> Inl TypeError
      | Some (JObj kvs) \<Rightarrow> Inr (map_of (rev kvs) k)
      | Some _ \<Rightarrow> Inr None)"

text \<open>\<open>{ k: v, ... }\<close>\<close>

definition js_obj :: "(string \<times> jsval) list \<Rightarrow> json" where
  "js_obj kvs = JObj (List.map_filter (\<lambda>(k, v). map_option (Pair k) v) kvs)"

text \<open>\<open>{ a, b, ...rest }\<close>: what destructuring leaves.\<close>

definition js_rest :: "jsval \<Rightarrow> string list \<Rightarrow> (string \<times> jsval) list" where
  "js_rest v ks =
     (case v of
        Some (JObj kvs) \<Rightarrow> map (\<lambda>(k, x). (k, Some x)) (filter (\<lambda>(k, x). k \<notin> set ks) kvs)
      | _ \<Rightarrow> [])"

text \<open>Conversion to a string, and \<open>v.toString()\<close>.\<close>

fun js_String :: "json \<Rightarrow> string" where
  "js_String JNull = ''null''"
| "js_String (JBool b) = (if b then ''true'' else ''false'')"
| "js_String (JNum x) = num_str x"
| "js_String (JStr s) = s"
| "js_String (JArr vs) = js_join '','' (map (\<lambda>v. if v = JNull then [] else js_String v) vs)"
| "js_String (JObj _) = ''[object Object]''"

definition js_toString :: "jsval \<Rightarrow> js_exn + jsval" where
  "js_toString v =
     (case v of
        None \<Rightarrow> Inl TypeError
      | Some JNull \<Rightarrow> Inl TypeError
      | Some x \<Rightarrow> Inr (Some (JStr (js_String x))))"

text \<open>\<open>v.map(f)\<close>: only arrays have the method; the callback gets the element and its index.\<close>

fun js_map_from :: "nat \<Rightarrow> (nat \<Rightarrow> json \<Rightarrow> js_exn + json) \<Rightarrow> json list \<Rightarrow> js_exn + json list" where
  "js_map_from i f [] = Inr []"
| "js_map_from i f (x # xs) =
     attempt (f i x) (\<lambda>y. attempt (js_map_from (Suc i) f xs) (\<lambda>ys. Inr (y # ys)))"

definition js_map :: "(nat \<Rightarrow> json \<Rightarrow> js_exn + json) \<Rightarrow> jsval \<Rightarrow> js_exn + jsval" where
  "js_map f v =
     (case v of
        Some (JArr xs) \<Rightarrow> attempt (js_map_from 0 f xs) (\<lambda>ys. Inr (Some (JArr ys)))
      | _ \<Rightarrow> Inl TypeError)"

lemma js_prop_simps [simp]:
  "js_prop None k = Inl TypeError"
  "js_prop (Some JNull) k = Inl TypeError"
  "js_prop (Some (JObj kvs)) k = Inr (map_of (rev kvs) k)"
  "js_prop (Some (JStr s)) k = Inr None"
  by (simp_all add: js_prop_def)

lemma js_obj_simps [simp]:
  "js_obj [] = JObj []"
  by (simp add: js_obj_def map_filter_simps)

lemma js_map_from_pure:
  "(\<And>i x. x \<in> set xs \<Longrightarrow> f i x = Inr (g x)) \<Longrightarrow> js_map_from i f xs = Inr (map g xs)"
  by (induction xs arbitrary: i) auto

lemma js_map_from_length: "js_map_from i f xs = Inr ys \<Longrightarrow> length ys = length xs"
proof (induction xs arbitrary: i ys)
  case (Cons x xs)
  then show ?case by (auto simp: attempt_def split: sum.splits)
qed simp

end
