(* ===== verification/Frontend_Http.thy ===== *)
theory Frontend_Http
  imports Js_Dynamic Offer_Slowdown
begin

section \<open>Frontend: HTTP back ends and business events\<close>

text \<open>
  \<open>frontend/src/env\<close>, \<open>api/backend/\<close> and \<open>api/bizEvents.ts\<close>. The browser window is a
  parameter: its origin, the Dynatrace agent if one is injected, the network, and the
  \<open>fast-xml-parser\<close> library. The log of an action is the requests it sends, its business
  events and its timers.
\<close>

subsection \<open>Window\<close>

datatype http_body = NoBody | BodyJson json | BodyXml string

record http_request =
  rq_method :: string
  rq_url :: string
  rq_headers :: "(string \<times> string) list"
  rq_body :: http_body

record http_reply =
  rp_status :: nat
  rp_text :: "js_exn + string"
  rp_json :: "js_exn + json"

datatype fe_event =
    Request http_request
  | BizEvent string json
  | ReportError js_exn
  | SetTimeout nat
  | ClearTimeout
  | DelayMS nat

text \<open>
  \<open>dynatrace.sendBizEvent\<close> and \<open>dtrum.reportError\<close> may throw; the network may answer
  differently every time, so it is given the log so far.
\<close>

record window =
  w_origin :: string
  w_dynatrace :: "(string \<Rightarrow> json \<Rightarrow> js_exn option) option"
  w_dtrum :: "(js_exn \<Rightarrow> js_exn option) option"
  w_net :: "fe_event list \<Rightarrow> http_request \<Rightarrow> js_exn + http_reply"
  w_xmlParse :: "string \<Rightarrow> js_exn + json"
  w_xmlBuild :: "json \<Rightarrow> string"

type_synonym 'a fe_act = "(fe_event, 'a) act"

definition fetch :: "window \<Rightarrow> http_request \<Rightarrow> http_reply fe_act" where
  "fetch w rq = (\<lambda>l. (w_net w l rq, l @ [Request rq]))"

subsection \<open>EnvProxy\<close>

definition getFeatureFlagServiceUrl :: "window \<Rightarrow> string" where
  "getFeatureFlagServiceUrl w = w_origin w @ ''/feature-flag-service/v1''"

definition getAccountServiceUrl :: "window \<Rightarrow> string" where
  "getAccountServiceUrl w = w_origin w @ ''/accountservice/api''"

definition getLoginServiceUrl :: "window \<Rightarrow> string" where
  "getLoginServiceUrl w = w_origin w @ ''/loginservice/api''"

definition getBrokerServiceUrl :: "window \<Rightarrow> string" where
  "getBrokerServiceUrl w = w_origin w @ ''/broker-service/v1''"

definition getPricingServiceUrl :: "window \<Rightarrow> string" where
  "getPricingServiceUrl w = w_origin w @ ''/pricing-service/v1''"

definition getCreditCardServiceUrl :: "window \<Rightarrow> string" where
  "getCreditCardServiceUrl w = w_origin w @ ''/credit-card-order-service/v1''"

subsection \<open>Requests\<close>

definition acceptJson :: "(string \<times> string) list" where
  "acceptJson = [(''Accept'', ''application/json'')]"

definition jsonHeaders :: "(string \<times> string) list" where
  "jsonHeaders = [(''Accept'', ''application/json''), (''Content-Type'', ''application/json'')]"

definition xmlHeaders :: "(string \<times> string) list" where
  "xmlHeaders = [(''Content-Type'', ''application/xml''), (''Accept'', ''application/xml'')]"

definition get_request :: "string \<Rightarrow> (string \<times> string) list \<Rightarrow> http_request" where
  "get_request url hs = \<lparr>rq_method = ''GET'', rq_url = url, rq_headers = hs, rq_body = NoBody\<rparr>"

definition post_json :: "string \<Rightarrow> json \<Rightarrow> http_request" where
  "post_json url body =
     \<lparr>rq_method = ''POST'', rq_url = url, rq_headers = jsonHeaders, rq_body = BodyJson body\<rparr>"

definition post_xml :: "string \<Rightarrow> string \<Rightarrow> http_request" where
  "post_xml url body =
     \<lparr>rq_method = ''POST'', rq_url = url, rq_headers = xmlHeaders, rq_body = BodyXml body\<rparr>"

text \<open>\<open>if (!response.ok) throw new Error(`HTTP ${response.status}`)\<close>\<close>

definition http_error :: "http_reply \<Rightarrow> js_exn" where
  "http_error r = JsError (''HTTP '' @ nat_str (rp_status r))"

definition send_ok :: "window \<Rightarrow> http_request \<Rightarrow> http_reply fe_act" where
  "send_ok w rq =
     act_bind (fetch w rq) (\<lambda>response.
       if \<not> res_ok (rp_status response) then act_throw (http_error response) else act_return response)"

definition call_void :: "window \<Rightarrow> http_request \<Rightarrow> unit fe_act" where
  "call_void w rq = act_bind (send_ok w rq) (\<lambda>_. act_return ())"

definition call_json :: "window \<Rightarrow> http_request \<Rightarrow> jsval fe_act" where
  "call_json w rq = act_bind (send_ok w rq) (\<lambda>r. act_of (map_sum id Some (rp_json r)))"

definition call_xml :: "window \<Rightarrow> http_request \<Rightarrow> jsval fe_act" where
  "call_xml w rq =
     act_bind (send_ok w rq) (\<lambda>r.
     act_bind (act_of (rp_text r)) (\<lambda>t. act_of (map_sum id Some (w_xmlParse w t))))"

subsection \<open>The back ends\<close>

definition ConfigBackend_getAll :: "window \<Rightarrow> jsval fe_act" where
  "ConfigBackend_getAll w =
     call_json w (get_request (getFeatureFlagServiceUrl w @ ''/flags?tag=config'') acceptJson)"

definition ProblemPatternBackend_getAll :: "window \<Rightarrow> jsval fe_act" where
  "ProblemPatternBackend_getAll w =
     call_json w (get_request (getFeatureFlagServiceUrl w @ ''/flags?tag=problem_pattern'') acceptJson)"

definition setProblemPatternEnabled :: "(string \<Rightarrow> js_exn + json) \<Rightarrow> window \<Rightarrow> string \<Rightarrow> bool \<Rightarrow> jsval fe_act" where
  "setProblemPatternEnabled parse w flagId enabled =
     act_bind (send_ok w \<lparr>rq_method = ''PUT'', rq_url = getFeatureFlagServiceUrl w @ ''/flags/'' @ flagId,
        rq_headers = acceptJson @ [(''Content-Type'', ''application/json'')],
        rq_body = BodyJson (JObj [(''enabled'', JBool enabled)])\<rparr>) (\<lambda>response.
     act_bind (act_of (rp_text response)) (\<lambda>text.
       if text = [] then act_return None else act_of (map_sum id Some (parse text))))"

definition loginXml :: "window \<Rightarrow> string \<Rightarrow> string \<Rightarrow> jsval fe_act" where
  "loginXml w username password =
     call_xml w (post_xml (getLoginServiceUrl w @ ''/Login'') (w_xmlBuild w
       (JObj [(''LoginRequest'', JObj [(''username'', JStr username), (''password'', JStr password)])])))"

definition logoutXml :: "window \<Rightarrow> jsnum \<Rightarrow> jsval fe_act" where
  "logoutXml w accountId =
     call_xml w (post_xml (getLoginServiceUrl w @ ''/Logout'') (w_xmlBuild w
       (JObj [(''LogoutRequest'', JObj [(''accountId'', JNum accountId)])])))"

definition signupXml :: "window \<Rightarrow> json \<Rightarrow> jsval fe_act" where
  "signupXml w request =
     call_xml w (post_xml (getLoginServiceUrl w @ ''/Signup'') (w_xmlBuild w
       (JObj [(''SignupRequest'', request)])))"

definition getData :: "window \<Rightarrow> string \<Rightarrow> jsval fe_act" where
  "getData w accountId = call_json w (get_request (getAccountServiceUrl w @ ''/accounts/'' @ accountId) acceptJson)"

definition UserBackend_getBalance :: "window \<Rightarrow> string \<Rightarrow> jsval fe_act" where
  "UserBackend_getBalance w accountId =
     call_json w (get_request (getBrokerServiceUrl w @ ''/balance/'' @ accountId) acceptJson)"

definition getPreset :: "window \<Rightarrow> jsval fe_act" where
  "getPreset w = call_json w (get_request (getAccountServiceUrl w @ ''/accounts/presets'') acceptJson)"

definition InstrumentBackend_getInstruments :: "window \<Rightarrow> string option \<Rightarrow> jsval fe_act" where
  "InstrumentBackend_getInstruments w i =
     call_json w (get_request (getBrokerServiceUrl w @ ''/instrument?accountId='' @
       (case i of None \<Rightarrow> ''undefined'' | Some s \<Rightarrow> s)) jsonHeaders)"

definition getLatestXml :: "window \<Rightarrow> jsval fe_act" where
  "getLatestXml w =
     call_xml w (get_request (getPricingServiceUrl w @ ''/prices/latest'')
       [(''Accept'', ''application/xml''), (''Content-Type'', ''application/xml'')])"

definition getForInstrumentXml :: "window \<Rightarrow> string \<Rightarrow> jsval fe_act" where
  "getForInstrumentXml w instrumentId =
     call_xml w (get_request (getPricingServiceUrl w @ ''/prices/instrument/'' @ instrumentId @ ''?records=1440'')
       [(''Accept'', ''application/xml''), (''Content-Type'', ''application/xml'')])"

definition TransactionBackend_getAll :: "window \<Rightarrow> string \<Rightarrow> nat \<Rightarrow> jsval fe_act" where
  "TransactionBackend_getAll w accountId limit =
     call_json w (get_request (getBrokerServiceUrl w @ ''/trade/'' @ accountId @ ''?count='' @ nat_str limit
       @ ''&onlyLong=true'') jsonHeaders)"

definition TransactionBackend_quickBuy :: "window \<Rightarrow> json \<Rightarrow> unit fe_act" where
  "TransactionBackend_quickBuy w request = call_void w (post_json (getBrokerServiceUrl w @ ''/trade/buy'') request)"

definition TransactionBackend_quickSell :: "window \<Rightarrow> json \<Rightarrow> unit fe_act" where
  "TransactionBackend_quickSell w request = call_void w (post_json (getBrokerServiceUrl w @ ''/trade/sell'') request)"

definition TransactionBackend_buy :: "window \<Rightarrow> json \<Rightarrow> unit fe_act" where
  "TransactionBackend_buy w request = call_void w (post_json (getBrokerServiceUrl w @ ''/trade/long/buy'') request)"

definition TransactionBackend_sell :: "window \<Rightarrow> json \<Rightarrow> unit fe_act" where
  "TransactionBackend_sell w request = call_void w (post_json (getBrokerServiceUrl w @ ''/trade/long/sell'') request)"

record WithdrawRequest =
  wr_accountId :: jsnum
  wr_amount :: jsnum
  wr_name :: string
  wr_address :: string
  wr_email :: string
  wr_cardNumber :: string
  wr_cardType :: string

record DepositRequest = WithdrawRequest +
  wr_cvv :: string

text \<open>What \<open>JSON.stringify\<close> sends of them.\<close>

definition withdraw_json :: "'a WithdrawRequest_scheme \<Rightarrow> (string \<times> json) list" where
  "withdraw_json r =
     [(''accountId'', JNum (wr_accountId r)), (''amount'', JNum (wr_amount r)), (''name'', JStr (wr_name r)),
      (''address'', JStr (wr_address r)), (''email'', JStr (wr_email r)),
      (''cardNumber'', JStr (wr_cardNumber r)), (''cardType'', JStr (wr_cardType r))]"

definition deposit_json :: "DepositRequest \<Rightarrow> json" where
  "deposit_json r = JObj (withdraw_json r @ [(''cvv'', JStr (wr_cvv r))])"

definition deposit_request :: "window \<Rightarrow> DepositRequest \<Rightarrow> http_request" where
  "deposit_request w r =
     post_json (getBrokerServiceUrl w @ ''/balance/'' @ num_str (wr_accountId r) @ ''/deposit'') (deposit_json r)"

definition withdraw_request :: "window \<Rightarrow> WithdrawRequest \<Rightarrow> http_request" where
  "withdraw_request w r =
     post_json (getBrokerServiceUrl w @ ''/balance/'' @ num_str (wr_accountId r) @ ''/withdraw'')
       (JObj (withdraw_json r))"

definition CreditCardBackend_deposit :: "window \<Rightarrow> DepositRequest \<Rightarrow> unit fe_act" where
  "CreditCardBackend_deposit w r = call_void w (deposit_request w r)"

definition CreditCardBackend_withdraw :: "window \<Rightarrow> WithdrawRequest \<Rightarrow> unit fe_act" where
  "CreditCardBackend_withdraw w r = call_void w (withdraw_request w r)"

definition CreditCardBackend_orderCard :: "window \<Rightarrow> json \<Rightarrow> jsval fe_act" where
  "CreditCardBackend_orderCard w request = call_json w (post_json (getCreditCardServiceUrl w @ ''/orders'') request)"

text \<open>A 404 is let through: its body says that there is no order.\<close>

definition getOrderStatusXml :: "window \<Rightarrow> jsnum \<Rightarrow> jsval fe_act" where
  "getOrderStatusXml w accountId =
     act_bind (fetch w (get_request (getCreditCardServiceUrl w @ ''/orders/'' @ num_str accountId @ ''/status/latest'')
        xmlHeaders)) (\<lambda>response.
       if \<not> res_ok (rp_status response) \<and> rp_status response \<noteq> 404 then act_throw (http_error response)
       else act_bind (act_of (rp_text response)) (\<lambda>t. act_of (map_sum id Some (w_xmlParse w t))))"

definition CreditCardBackend_getOrderStatusHistory :: "window \<Rightarrow> jsnum \<Rightarrow> jsval fe_act" where
  "CreditCardBackend_getOrderStatusHistory w accountId =
     call_json w (get_request (getCreditCardServiceUrl w @ ''/orders/'' @ num_str accountId @ ''/status'') jsonHeaders)"

definition deleteCardAndOrder :: "window \<Rightarrow> jsnum \<Rightarrow> unit fe_act" where
  "deleteCardAndOrder w accountId =
     call_void w \<lparr>rq_method = ''DELETE'', rq_url = getCreditCardServiceUrl w @ ''/orders/'' @ num_str accountId,
       rq_headers = jsonHeaders, rq_body = NoBody\<rparr>"

text \<open>
  \<open>finally { clearTimeout(timer) }\<close> runs on every way out; the parsed body is returned as a
  promise, so its failure reaches the caller after the timer is cleared.
\<close>

definition act_finally :: "('ev, 'a) act \<Rightarrow> ('ev, unit) act \<Rightarrow> ('ev, 'a) act" where
  "act_finally m f =
     act_bind (act_try (act_bind m (\<lambda>x. act_return (Inr x))) (\<lambda>e. act_return (Inl e)))
       (\<lambda>r. act_then f (act_of r))"

definition TIMEOUT_MS :: nat where "TIMEOUT_MS = 1000"

definition VersionBackend_getVersion :: "window \<Rightarrow> string \<Rightarrow> jsval fe_act" where
  "VersionBackend_getVersion w path =
     act_then (act_emit (SetTimeout TIMEOUT_MS))
     (act_bind (act_finally
        (act_bind (send_ok w (get_request path acceptJson)) (\<lambda>response. act_return (rp_json response)))
        (act_emit ClearTimeout))
       (\<lambda>body. act_of (map_sum id Some body)))"

subsection \<open>BizEvents\<close>

definition sendBizEvent :: "window \<Rightarrow> string \<Rightarrow> json \<Rightarrow> unit fe_act" where
  "sendBizEvent w type body =
     (case w_dynatrace w of
        None \<Rightarrow> act_return ()
      | Some send \<Rightarrow>
          act_try
            (act_then (act_emit (BizEvent type body))
              (case send type body of None \<Rightarrow> act_return () | Some err \<Rightarrow> act_throw err))
            (\<lambda>err. case w_dtrum w of
               None \<Rightarrow> act_return ()
             | Some report \<Rightarrow>
                 act_then (act_emit (ReportError err))
                   (case report err of None \<Rightarrow> act_return () | Some e \<Rightarrow> act_throw e)))"

definition finished :: json where
  "finished = JObj [(''status'', JStr ''finished'')]"

definition failed :: "string \<Rightarrow> json" where
  "failed message = JObj [(''status'', JStr ''error''), (''message'', JStr message)]"

definition depositStart :: "window \<Rightarrow> json \<Rightarrow> unit fe_act" where
  "depositStart w body = sendBizEvent w ''com.easytrade.deposit.start'' body"

definition depositFinish :: "window \<Rightarrow> unit fe_act" where
  "depositFinish w = sendBizEvent w ''com.easytrade.deposit.finish'' finished"

definition depositError :: "window \<Rightarrow> string \<Rightarrow> unit fe_act" where
  "depositError w message = sendBizEvent w ''com.easytrade.deposit.error'' (failed message)"

definition withdrawStart :: "window \<Rightarrow> json \<Rightarrow> unit fe_act" where
  "withdrawStart w body = sendBizEvent w ''com.easytrade.withdraw.start'' body"

definition withdrawFinish :: "window \<Rightarrow> unit fe_act" where
  "withdrawFinish w = sendBizEvent w ''com.easytrade.withdraw.finish'' finished"

definition withdrawError :: "window \<Rightarrow> string \<Rightarrow> unit fe_act" where
  "withdrawError w message = sendBizEvent w ''com.easytrade.withdraw.error'' (failed message)"

definition sellStart :: "window \<Rightarrow> json \<Rightarrow> unit fe_act" where
  "sellStart w body = sendBizEvent w ''com.easytrade.sell.start'' body"

definition sellFinish :: "window \<Rightarrow> unit fe_act" where
  "sellFinish w = sendBizEvent w ''com.easytrade.sell.finish'' finished"

definition sellError :: "window \<Rightarrow> string \<Rightarrow> unit fe_act" where
  "sellError w message = sendBizEvent w ''com.easytrade.sell.error'' (failed message)"

definition buyStart :: "window \<Rightarrow> json \<Rightarrow> unit fe_act" where
  "buyStart w body = sendBizEvent w ''com.easytrade.buy.start'' body"

definition buyFinish :: "window \<Rightarrow> unit fe_act" where
  "buyFinish w = sendBizEvent w ''com.easytrade.buy.finish'' finished"

definition buyError :: "window \<Rightarrow> string \<Rightarrow> unit fe_act" where
  "buyError w message = sendBizEvent w ''com.easytrade.buy.error'' (failed message)"

end
