(* ===== verification/Frontend_Api.thy ===== *)
theory Frontend_Api
  imports Frontend_Http Js_JsonText
begin

section \<open>Frontend: the API functions\<close>

text \<open>
  \<open>frontend/src/api/\<close> above the back ends: business events around the money operations,
  mapping of the raw responses, and the replacement of every failure by an error result.
  User ids are strings here and numbers in the requests.
\<close>

definition error_result :: "string \<Rightarrow> json" where
  "error_result msg = JObj [(''error'', JStr msg)]"

definition tagged_error :: "string \<Rightarrow> json" where
  "tagged_error msg = JObj [(''type'', JStr ''error''), (''error'', JStr msg)]"

subsection \<open>Deposit, withdraw and trades\<close>

definition deposit :: "window \<Rightarrow> DepositRequest \<Rightarrow> json fe_act" where
  "deposit w requestData =
     act_try
       (act_then (depositStart w (deposit_json requestData))
       (act_then (CreditCardBackend_deposit w requestData)
       (act_then (depositFinish w)
         (act_return (JObj [])))))
       (\<lambda>_. let msg = ''There was an error processing the deposit'' in
         act_then (depositError w msg) (act_return (error_result msg)))"

definition withdraw :: "window \<Rightarrow> WithdrawRequest \<Rightarrow> json fe_act" where
  "withdraw w requestData =
     act_try
       (act_then (withdrawStart w (JObj (withdraw_json requestData)))
       (act_then (CreditCardBackend_withdraw w requestData)
       (act_then (withdrawFinish w)
         (act_return (JObj [])))))
       (\<lambda>_. let msg = ''There was an error processing the withdraw'' in
         act_then (withdrawError w msg) (act_return (error_result msg)))"

definition quick_body :: "string \<Rightarrow> string \<Rightarrow> jsnum \<Rightarrow> json" where
  "quick_body userId instrumentId amount =
     JObj [(''accountId'', JNum (js_Number userId)), (''instrumentId'', JNum (js_Number instrumentId)),
           (''amount'', JNum amount)]"

definition quickBuy :: "window \<Rightarrow> string \<Rightarrow> string \<Rightarrow> jsnum \<Rightarrow> json fe_act" where
  "quickBuy w userId instrumentId amount =
     act_try
       (let body = quick_body userId instrumentId amount in
        act_then (buyStart w body)
       (act_then (TransactionBackend_quickBuy w body)
       (act_then (buyFinish w)
         (act_return (JObj [])))))
       (\<lambda>_. let msg = ''There was an error when creating transaction.'' in
         act_then (buyError w msg) (act_return (error_result msg)))"

definition quickSell :: "window \<Rightarrow> string \<Rightarrow> string \<Rightarrow> jsnum \<Rightarrow> json fe_act" where
  "quickSell w userId instrumentId amount =
     act_try
       (let body = quick_body userId instrumentId amount in
        act_then (sellStart w body)
       (act_then (TransactionBackend_quickSell w body)
       (act_then (sellFinish w)
         (act_return (JObj [])))))
       (\<lambda>_. let msg = ''There was an error when creating transaction.'' in
         act_then (sellError w msg) (act_return (error_result msg)))"

definition long_body :: "string \<Rightarrow> string \<Rightarrow> jsnum \<Rightarrow> jsnum \<Rightarrow> jsnum \<Rightarrow> json" where
  "long_body userId instrumentId amount price time =
     JObj [(''accountId'', JNum (js_Number userId)), (''instrumentId'', JNum (js_Number instrumentId)),
           (''amount'', JNum amount), (''price'', JNum price), (''duration'', JNum time)]"

definition buy :: "window \<Rightarrow> string \<Rightarrow> string \<Rightarrow> jsnum \<Rightarrow> jsnum \<Rightarrow> jsnum \<Rightarrow> json fe_act" where
  "buy w userId instrumentId amount price time =
     act_try
       (act_then (TransactionBackend_buy w (long_body userId instrumentId amount price time))
         (act_return (JObj [])))
       (\<lambda>_. act_return (error_result ''There was an error when creating transaction.''))"

definition sell :: "window \<Rightarrow> string \<Rightarrow> string \<Rightarrow> jsnum \<Rightarrow> jsnum \<Rightarrow> jsnum \<Rightarrow> json fe_act" where
  "sell w userId instrumentId amount price time =
     act_try
       (act_then (TransactionBackend_sell w (long_body userId instrumentId amount price time))
         (act_return (JObj [])))
       (\<lambda>_. act_return (error_result ''There was an error when creating transaction.''))"

subsection \<open>Credit card orders\<close>

record CreditCardOrder =
  co_name :: string
  co_email :: string
  co_shippingAddress :: string
  co_cardLevel :: string

definition order_json :: "string \<Rightarrow> CreditCardOrder \<Rightarrow> json" where
  "order_json userId d =
     JObj [(''accountId'', JNum (js_Number userId)), (''name'', JStr (co_name d)), (''email'', JStr (co_email d)),
           (''shippingAddress'', JStr (co_shippingAddress d)), (''cardLevel'', JStr (co_cardLevel d))]"

definition orderCreditCard :: "window \<Rightarrow> string \<Rightarrow> CreditCardOrder \<Rightarrow> json fe_act" where
  "orderCreditCard w userId d =
     act_try
       (act_bind (CreditCardBackend_orderCard w (order_json userId d)) (\<lambda>response.
        act_bind (act_of (js_prop response ''results'')) (\<lambda>results.
          if results = None then act_throw (JsError ''Results not included in the response'')
          else act_bind (act_of (js_prop results ''creditCardOrderId'')) (\<lambda>i.
            act_return (js_obj [(''type'', Some (JStr ''success'')), (''creditCardOrderId'', i)])))))
       (\<lambda>_. act_return (tagged_error ''There was an error ordering credit card.''))"

definition orderStatusMapper :: "jsval \<Rightarrow> js_exn + json" where
  "orderStatusMapper response =
     attempt (js_prop response ''statusCode'') (\<lambda>statusCode.
     attempt (js_prop response ''results'') (\<lambda>results.
       if statusCode = Some (JNum (js_int 404)) then Inr (JObj [(''type'', JStr ''not_found'')])
       else if results = None then Inl (JsError ''Field [results] not found in response.'')
       else
         attempt (js_prop results ''creditCardOrderId'') (\<lambda>orderId.
         attempt (js_prop results ''timestamp'') (\<lambda>timestamp.
         attempt (js_prop results ''status'') (\<lambda>status.
         attempt (js_prop results ''details'') (\<lambda>details.
           Inr (js_obj [(''type'', Some (JStr ''success'')), (''orderId'', orderId),
             (''timestamp'', timestamp), (''status'', status), (''details'', details)])))))))"

definition getOrderStatus :: "window \<Rightarrow> string \<Rightarrow> json fe_act" where
  "getOrderStatus w userId =
     act_try
       (act_bind (getOrderStatusXml w (js_Number userId)) (\<lambda>data.
        act_bind (act_of (js_prop data ''StandardResponse'')) (\<lambda>response.
          act_of (orderStatusMapper response))))
       (\<lambda>_. act_return (tagged_error ''There was an error when getting order status.''))"

text \<open>\<open>({ creditCardOrderId, id, ...rest }) => ({ orderId: creditCardOrderId, ...rest })\<close>\<close>

definition status_entry :: "nat \<Rightarrow> json \<Rightarrow> js_exn + json" where
  "status_entry i e =
     attempt (js_prop (Some e) ''creditCardOrderId'') (\<lambda>orderId.
       Inr (js_obj ((''orderId'', orderId) # js_rest (Some e) [''creditCardOrderId'', ''id''])))"

definition getOrderStatusHistory :: "window \<Rightarrow> string \<Rightarrow> json fe_act" where
  "getOrderStatusHistory w userId =
     act_try
       (act_bind (CreditCardBackend_getOrderStatusHistory w (js_Number userId)) (\<lambda>data.
        act_bind (act_of (js_prop data ''results'')) (\<lambda>results.
          if results = None then act_throw (JsError ''Field [results] not found in response.'')
          else
            act_bind (act_of (js_prop results ''creditCardOrderId'')) (\<lambda>orderId.
            act_bind (act_of (js_prop results ''statusList'')) (\<lambda>statusList.
            act_bind (act_of (js_map status_entry statusList)) (\<lambda>statusList'.
              act_return (js_obj [(''type'', Some (JStr ''success'')), (''orderId'', orderId),
                (''statusList'', statusList')])))))))
       (\<lambda>_. act_return (tagged_error ''There was an error when getting order status history.''))"

definition revokeCreditCard :: "window \<Rightarrow> string \<Rightarrow> json fe_act" where
  "revokeCreditCard w userId =
     act_try
       (act_then (deleteCardAndOrder w (js_Number userId))
         (act_return (JObj [(''type'', JStr ''success'')])))
       (\<lambda>_. act_return (tagged_error ''There was an error when trying to revoke the card.''))"

subsection \<open>Feature flags\<close>

definition config_flag :: "nat \<Rightarrow> json \<Rightarrow> js_exn + json" where
  "config_flag i e =
     attempt (js_prop (Some e) ''name'') (\<lambda>name.
     attempt (js_prop (Some e) ''enabled'') (\<lambda>enabled.
     attempt (js_prop (Some e) ''id'') (\<lambda>flagId.
       Inr (js_obj [(''name'', name), (''enabled'', enabled), (''id'', flagId)]))))"

definition elements :: "jsval \<Rightarrow> json list" where
  "elements v = (case v of Some (JArr xs) \<Rightarrow> xs | _ \<Rightarrow> [])"

definition getRawConfigFlags :: "window \<Rightarrow> json list fe_act" where
  "getRawConfigFlags w =
     act_try
       (act_bind (ConfigBackend_getAll w) (\<lambda>data.
        act_bind (act_of (js_prop data ''results'')) (\<lambda>results.
        act_bind (act_of (js_map config_flag results)) (\<lambda>flags. act_return (elements flags)))))
       (\<lambda>_. act_return [])"

text \<open>\<open>flags.find((flag) => flag.id === id)?.enabled ?? defaultValue\<close>\<close>

definition getFlag :: "json list \<Rightarrow> string \<Rightarrow> bool \<Rightarrow> json" where
  "getFlag flags i defaultValue =
     (case List.find (\<lambda>flag. js_prop (Some flag) ''id'' = Inr (Some (JStr i))) flags of
        None \<Rightarrow> JBool defaultValue
      | Some flag \<Rightarrow>
          (case js_prop (Some flag) ''enabled'' of
             Inr (Some v) \<Rightarrow> if v = JNull then JBool defaultValue else v
           | _ \<Rightarrow> JBool defaultValue))"

definition FEATURE_FLAG_MANAGEMENT :: string where
  "FEATURE_FLAG_MANAGEMENT = ''frontend_feature_flag_management''"

definition default_featureFlagManagement :: bool where
  "default_featureFlagManagement = True"

definition getConfig :: "window \<Rightarrow> json fe_act" where
  "getConfig w =
     act_bind (getRawConfigFlags w) (\<lambda>flags.
       act_return (JObj [(''featureFlagManagement'',
         getFlag flags FEATURE_FLAG_MANAGEMENT default_featureFlagManagement)]))"

definition featureFlagMapper :: "nat \<Rightarrow> json \<Rightarrow> js_exn + json" where
  "featureFlagMapper i e =
     attempt (js_prop (Some e) ''id'') (\<lambda>flagId.
     attempt (js_prop (Some e) ''enabled'') (\<lambda>enabled.
     attempt (js_prop (Some e) ''name'') (\<lambda>name.
     attempt (js_prop (Some e) ''description'') (\<lambda>description.
     attempt (js_prop (Some e) ''isModifiable'') (\<lambda>isModifiable.
       Inr (js_obj [(''id'', flagId), (''enabled'', enabled), (''name'', name),
         (''description'', description), (''isModifiable'', isModifiable)]))))))"

definition getFeatureFlags :: "window \<Rightarrow> json list fe_act" where
  "getFeatureFlags w =
     act_try
       (act_bind (ProblemPatternBackend_getAll w) (\<lambda>data.
        act_bind (act_of (js_prop data ''results'')) (\<lambda>results.
        act_bind (act_of (js_map featureFlagMapper results)) (\<lambda>flags. act_return (elements flags)))))
       (\<lambda>_. act_return [])"

definition handleFlagToggle :: "window \<Rightarrow> string \<Rightarrow> bool \<Rightarrow> json fe_act" where
  "handleFlagToggle w flagId enabled =
     act_try
       (act_then (setProblemPatternEnabled JSON_parse w flagId enabled) (act_return (JObj [])))
       (\<lambda>_. act_return (error_result ''There was an error when setting flag state''))"

subsection \<open>Instruments and prices\<close>

definition getInstruments :: "window \<Rightarrow> string option \<Rightarrow> jsval fe_act" where
  "getInstruments w userId =
     act_try
       (act_bind (InstrumentBackend_getInstruments w userId) (\<lambda>data. act_of (js_prop data ''results'')))
       (\<lambda>_. act_return (Some (JArr [])))"

definition price_entry :: "nat \<Rightarrow> json \<Rightarrow> js_exn + json" where
  "price_entry i e =
     attempt (js_prop (Some e) ''id'') (\<lambda>priceId.
     attempt (js_prop (Some e) ''instrumentId'') (\<lambda>instrumentId.
     attempt (js_toString priceId) (\<lambda>priceId'.
     attempt (js_toString instrumentId) (\<lambda>instrumentId'.
       Inr (js_obj ((''id'', priceId') # (''instrumentId'', instrumentId')
         # js_rest (Some e) [''id'', ''instrumentId'']))))))"

definition prices_of :: "jsval \<Rightarrow> js_exn + json list" where
  "prices_of data =
     attempt (js_prop data ''pricesResult'') (\<lambda>r.
     attempt (js_prop r ''results'') (\<lambda>results.
     attempt (js_map price_entry results) (\<lambda>ps. Inr (elements ps))))"

definition getLatestPrices :: "window \<Rightarrow> json list fe_act" where
  "getLatestPrices w =
     act_try (act_bind (getLatestXml w) (\<lambda>data. act_of (prices_of data))) (\<lambda>_. act_return [])"

definition getPricesForInstrument :: "window \<Rightarrow> string \<Rightarrow> json list fe_act" where
  "getPricesForInstrument w instrumentId =
     act_try (act_bind (getForInstrumentXml w instrumentId) (\<lambda>data. act_of (prices_of data)))
       (\<lambda>_. act_return [])"

subsection \<open>Login, logout and sign up\<close>

definition login :: "window \<Rightarrow> string \<Rightarrow> string \<Rightarrow> jsval fe_act" where
  "login w name password =
     act_try
       (act_bind (loginXml w name password) (\<lambda>data. act_of (js_prop data ''IdResponse'')))
       (\<lambda>_. act_return (Some (error_result ''Login or password invalid'')))"

definition logout :: "window \<Rightarrow> string \<Rightarrow> jsval fe_act" where
  "logout w userId =
     act_try
       (act_bind (logoutXml w (js_Number userId)) (\<lambda>data. act_of (js_prop data ''MessageResponse'')))
       (\<lambda>_. act_return (Some (error_result ''There was a problem with logging out'')))"

record SignupRequest =
  sg_firstName :: string
  sg_lastName :: string
  sg_login :: string
  sg_email :: string
  sg_address :: string
  sg_password :: string

definition signup_json :: "SignupRequest \<Rightarrow> json" where
  "signup_json r =
     JObj [(''packageId'', JNum (js_int 1)), (''origin'', JStr ''easyTrade''),
           (''firstName'', JStr (sg_firstName r)), (''lastName'', JStr (sg_lastName r)),
           (''username'', JStr (sg_login r)), (''email'', JStr (sg_email r)),
           (''address'', JStr (sg_address r)), (''password'', JStr (sg_password r))]"

definition signup :: "window \<Rightarrow> SignupRequest \<Rightarrow> jsval fe_act" where
  "signup w request =
     act_try
       (act_bind (signupXml w (signup_json request)) (\<lambda>data. act_of (js_prop data ''IdResponse'')))
       (\<lambda>_. act_return (Some (error_result ''There was an error processing the signup request.'')))"

subsection \<open>Users\<close>

text \<open>\<open>packages[packageId]\<close>: the key is converted to a string.\<close>

definition packages :: "jsval \<Rightarrow> string option" where
  "packages k =
     Option.bind k (\<lambda>v. map_of [(''1'', ''Starter''), (''2'', ''Light''), (''3'', ''Pro'')] (js_String v))"

definition getUser :: "window \<Rightarrow> string \<Rightarrow> json fe_act" where
  "getUser w userId =
     act_try
       (act_bind (getData w userId) (\<lambda>data.
        act_bind (act_of (js_prop data ''id'')) (\<lambda>i.
        act_bind (act_of (js_toString i)) (\<lambda>i'.
        act_bind (act_of (js_prop data ''firstName'')) (\<lambda>firstName.
        act_bind (act_of (js_prop data ''lastName'')) (\<lambda>lastName.
        act_bind (act_of (js_prop data ''packageId'')) (\<lambda>packageId.
        act_bind (act_of (case packages packageId of
            Some p \<Rightarrow> Inr (Some (JStr p)) | None \<Rightarrow> js_toString packageId)) (\<lambda>packageType.
        act_bind (act_of (js_prop data ''email'')) (\<lambda>email.
        act_bind (act_of (js_prop data ''address'')) (\<lambda>address.
          act_return (js_obj [(''id'', i'), (''firstName'', firstName), (''lastName'', lastName),
            (''packageType'', packageType), (''email'', email), (''address'', address)])))))))))))
       (\<lambda>_. act_throw (JsError (''User with id ['' @ userId @ ''] not found'')))"

definition getBalance :: "window \<Rightarrow> string \<Rightarrow> json fe_act" where
  "getBalance w userId =
     act_try
       (act_bind (UserBackend_getBalance w userId) (\<lambda>data.
        act_bind (act_of (js_prop data ''accountId'')) (\<lambda>i.
        act_bind (act_of (js_toString i)) (\<lambda>i'.
        act_bind (act_of (js_prop data ''value'')) (\<lambda>v.
          act_return (js_obj [(''accountId'', i'), (''value'', v)]))))))
       (\<lambda>_. act_throw (JsError (''Balance with account id ['' @ userId @ ''] not found'')))"

definition preset_entry :: "nat \<Rightarrow> json \<Rightarrow> js_exn + json" where
  "preset_entry k e =
     attempt (js_prop (Some e) ''id'') (\<lambda>i.
     attempt (js_toString i) (\<lambda>i'.
       Inr (js_obj ((''id'', i') # js_rest (Some e) [''id'']))))"

definition getPresetUsers :: "window \<Rightarrow> json list fe_act" where
  "getPresetUsers w =
     act_try
       (act_bind (getPreset w) (\<lambda>data.
        act_bind (act_of (js_prop data ''results'')) (\<lambda>results.
        act_bind (act_of (js_map preset_entry results)) (\<lambda>us. act_return (elements us)))))
       (\<lambda>_. act_return [])"

subsection \<open>Transactions\<close>

definition js_toLowerCase :: "jsval \<Rightarrow> js_exn + string" where
  "js_toLowerCase v = (case v of Some (JStr s) \<Rightarrow> Inr (to_lower s) | _ \<Rightarrow> Inl TypeError)"

definition mapStatus :: "jsval \<Rightarrow> js_exn + string" where
  "mapStatus status =
     attempt (js_toLowerCase status) (\<lambda>s.
       if index_of s ''finished'' > 0 then Inr ''SUCCESS''
       else if index_of s ''failed'' > 0 then Inr ''FAIL''
       else Inr ''ACTIVE'')"

definition mapDirection :: "jsval \<Rightarrow> js_exn + string" where
  "mapDirection direction =
     attempt (js_toLowerCase direction) (\<lambda>s.
       if index_of s ''buy'' > 0 then Inr ''BUY'' else Inr ''SELL'')"

text \<open>
  \<open>toISO\<close> stands for \<open>DateTime.fromISO(t, { zone: "utc" }).toISO()\<close> of the Luxon library,
  which is \<open>null\<close> when the text is no date.
\<close>

definition mapRawTransaction :: "(jsval \<Rightarrow> string option) \<Rightarrow> nat \<Rightarrow> json \<Rightarrow> js_exn + json" where
  "mapRawTransaction toISO index e =
     attempt (js_prop (Some e) ''direction'') (\<lambda>direction.
     attempt (js_prop (Some e) ''instrumentId'') (\<lambda>instrumentId.
     attempt (js_prop (Some e) ''quantity'') (\<lambda>quantity.
     attempt (js_prop (Some e) ''entryPrice'') (\<lambda>entryPrice.
     attempt (js_prop (Some e) ''status'') (\<lambda>status.
     attempt (js_prop (Some e) ''timestampClose'') (\<lambda>timestampClose.
     attempt (mapDirection direction) (\<lambda>actionType.
     attempt (js_toString instrumentId) (\<lambda>instrumentName.
     attempt (mapStatus status) (\<lambda>status'.
       Inr (js_obj [(''id'', Some (JNum (js_int (int index)))), (''actionType'', Some (JStr actionType)),
         (''instrumentName'', instrumentName), (''amount'', quantity), (''price'', entryPrice),
         (''status'', Some (JStr status')),
         (''endTime'', (case toISO timestampClose of Some t \<Rightarrow> Some (JStr t) | None \<Rightarrow> timestampClose))]))))))))))"

definition getTransactions :: "(jsval \<Rightarrow> string option) \<Rightarrow> window \<Rightarrow> string \<Rightarrow> nat \<Rightarrow> json list fe_act" where
  "getTransactions toISO w userId records =
     act_try
       (act_bind (TransactionBackend_getAll w userId records) (\<lambda>data.
        act_bind (act_of (js_prop data ''results'')) (\<lambda>results.
        act_bind (act_of (js_map (mapRawTransaction toISO) results)) (\<lambda>ts. act_return (elements ts)))))
       (\<lambda>_. act_return [])"

subsection \<open>Versions\<close>

definition services :: "(string \<times> string) list" where
  "services =
     [(''Account Service'', ''/accountservice/api/version''),
      (''Broker Service'', ''/broker-service/version''),
      (''Credit Card Order Service'', ''/credit-card-order-service/version''),
      (''Engine'', ''/engine/api/version''),
      (''Feature Flag Service'', ''/feature-flag-service/version''),
      (''Login Service'', ''/loginservice/api/version''),
      (''Manager'', ''/manager/api/version''),
      (''Offer Service'', ''/offerservice/api/version''),
      (''Pricing Service'', ''/pricing-service/version''),
      (''Third Party Service'', ''/third-party-service/version'')]"

datatype service_version =
    VersionSuccess (service_name: string) jsval
  | VersionError (service_name: string) string

definition getServiceVersion :: "window \<Rightarrow> string \<times> string \<Rightarrow> service_version fe_act" where
  "getServiceVersion w svc =
     act_try
       (act_bind (VersionBackend_getVersion w (snd svc)) (\<lambda>data. act_return (VersionSuccess (fst svc) data)))
       (\<lambda>_. act_return (VersionError (fst svc) (fst svc @ '' didn'' @ [CHR 0x27] @ ''t respond'')))"

text \<open>
  \<open>Promise.all(services.map(getServiceVersion))\<close>: the results are in the order of the
  services; here the calls also run in that order.
\<close>

fun act_all :: "('a \<Rightarrow> ('ev, 'b) act) \<Rightarrow> 'a list \<Rightarrow> ('ev, 'b list) act" where
  "act_all f [] = act_return []"
| "act_all f (x # xs) = act_bind (f x) (\<lambda>y. act_bind (act_all f xs) (\<lambda>ys. act_return (y # ys)))"

definition getAllVersions :: "window \<Rightarrow> service_version list fe_act" where
  "getAllVersions w = act_all (getServiceVersion w) services"

definition getFrontendVersion :: "json \<Rightarrow> service_version" where
  "getFrontendVersion build = VersionSuccess ''Frontend'' (Some build)"

subsection \<open>util.ts\<close>

definition arrayToMap :: "'a list \<Rightarrow> ('a \<Rightarrow> 'b) \<Rightarrow> ('a \<Rightarrow> 'k) \<Rightarrow> ('k \<rightharpoonup> 'b)" where
  "arrayToMap arr mapFn keyMapFn = foldl (\<lambda>m e. m(keyMapFn e \<mapsto> mapFn e)) Map.empty arr"

end
