(* ===== verification/Frontend_Calls.thy ===== *)
theory Frontend_Calls
  imports Frontend_Api Js_Traces
begin

section \<open>Frontend: what the API functions promise\<close>

text \<open>
  The contracts the rest of the frontend relies on: the protocol of a money operation with
  its business events, and the handlers that never reject.
\<close>

subsection \<open>Running the back ends\<close>

text \<open>What a request ended with: the exception the back end throws for it, if any.\<close>

definition void_outcome :: "window \<Rightarrow> fe_event list \<Rightarrow> http_request \<Rightarrow> js_exn option" where
  "void_outcome w l rq =
     (case w_net w l rq of
        Inl e \<Rightarrow> Some e
      | Inr r \<Rightarrow> if res_ok (rp_status r) then None else Some (http_error r))"

lemma fetch_apply [act_simps]: "fetch w rq l = (w_net w l rq, l @ [Request rq])"
  by (simp add: fetch_def)

lemma call_void_run:
  "call_void w rq l =
     ((case void_outcome w l rq of None \<Rightarrow> Inr () | Some e \<Rightarrow> Inl e), l @ [Request rq])"
  by (simp add: call_void_def send_ok_def act_simps void_outcome_def split: sum.splits)

text \<open>The agent does not throw when an event is handed to it.\<close>

definition agent_ok :: "window \<Rightarrow> bool" where
  "agent_ok w \<longleftrightarrow> (case w_dynatrace w of None \<Rightarrow> True | Some send \<Rightarrow> \<forall>t b. send t b = None)"

definition biz :: "window \<Rightarrow> string \<Rightarrow> json \<Rightarrow> fe_event list" where
  "biz w type body = (if w_dynatrace w = None then [] else [BizEvent type body])"

lemma sendBizEvent_run: "agent_ok w \<Longrightarrow> sendBizEvent w type body l = (Inr (), l @ biz w type body)"
  by (auto simp: sendBizEvent_def agent_ok_def biz_def act_simps split: option.splits)

text \<open>A failing agent alone cannot make an event throw: only a failing error report can.\<close>

definition report_ok :: "window \<Rightarrow> bool" where
  "report_ok w \<longleftrightarrow> (case w_dtrum w of None \<Rightarrow> True | Some report \<Rightarrow> \<forall>e. report e = None)"

lemma sendBizEvent_returns: "report_ok w \<Longrightarrow> \<exists>l'. sendBizEvent w type body l = (Inr (), l')"
  by (auto simp: sendBizEvent_def report_ok_def act_simps split: option.splits sum.splits prod.splits)

subsection \<open>The contract of a money operation\<close>

text \<open>
  Deposit, withdraw, quick buy and quick sell have one shape: a start event, one request,
  then a finish event, or an error event and an error result.
\<close>

definition biz_type :: "string \<Rightarrow> string \<Rightarrow> string" where
  "biz_type kind step = ''com.easytrade.'' @ kind @ ''.'' @ step"

locale biz_call =
  fixes call :: "window \<Rightarrow> 'r \<Rightarrow> json fe_act"
    and rq_of :: "window \<Rightarrow> 'r \<Rightarrow> http_request"
    and body_of :: "'r \<Rightarrow> json"
    and kind :: string
    and msg :: string
  assumes call_shape: "call w r =
    act_try
      (act_then (sendBizEvent w (biz_type kind ''start'') (body_of r))
      (act_then (call_void w (rq_of w r))
      (act_then (sendBizEvent w (biz_type kind ''finish'') finished)
        (act_return (JObj [])))))
      (\<lambda>_. act_then (sendBizEvent w (biz_type kind ''error'') (failed msg))
        (act_return (error_result msg)))"
begin

lemma protocol:
  assumes "agent_ok w"
  shows "call w r l =
    (let start = l @ biz w (biz_type kind ''start'') (body_of r) in
     if void_outcome w start (rq_of w r) = None
     then (Inr (JObj []),
           start @ [Request (rq_of w r)] @ biz w (biz_type kind ''finish'') finished)
     else (Inr (error_result msg),
           start @ [Request (rq_of w r)] @ biz w (biz_type kind ''error'') (failed msg)))"
  using assms
  by (simp add: call_shape act_simps sendBizEvent_run call_void_run Let_def split: option.splits)

lemma requested: "agent_ok w \<Longrightarrow> Request (rq_of w r) \<in> set (snd (call w r l))"
  using protocol [of w r l] by (simp add: Let_def)

lemma resolves:
  assumes "report_ok w"
  shows "\<exists>v l'. call w r l = (Inr v, l') \<and> (v = JObj [] \<or> v = error_result msg)"
proof -
  obtain l1 where s: "sendBizEvent w (biz_type kind ''start'') (body_of r) l = (Inr (), l1)"
    using sendBizEvent_returns [OF assms] by blast
  obtain l2 where f: "sendBizEvent w (biz_type kind ''finish'') finished (l1 @ [Request (rq_of w r)])
      = (Inr (), l2)"
    using sendBizEvent_returns [OF assms] by blast
  obtain l3 where e: "sendBizEvent w (biz_type kind ''error'') (failed msg) (l1 @ [Request (rq_of w r)])
      = (Inr (), l3)"
    using sendBizEvent_returns [OF assms] by blast
  show ?thesis
    by (cases "void_outcome w l1 (rq_of w r)") (simp_all add: call_shape act_simps s f e call_void_run)
qed

end

definition quick_request :: "window \<Rightarrow> string \<Rightarrow> string \<times> string \<times> jsnum \<Rightarrow> http_request" where
  "quick_request w path r =
     post_json (getBrokerServiceUrl w @ path) (quick_body (fst r) (fst (snd r)) (snd (snd r)))"

interpretation deposit_call: biz_call deposit deposit_request deposit_json "''deposit''"
    "''There was an error processing the deposit''"
  by unfold_locales
     (simp add: biz_type_def deposit_def depositStart_def depositFinish_def depositError_def CreditCardBackend_deposit_def Let_def)

interpretation withdraw_call: biz_call withdraw withdraw_request "\<lambda>r. JObj (withdraw_json r)" "''withdraw''"
    "''There was an error processing the withdraw''"
  by unfold_locales
     (simp add: biz_type_def withdraw_def withdrawStart_def withdrawFinish_def withdrawError_def
       CreditCardBackend_withdraw_def Let_def)

interpretation buy_call: biz_call "\<lambda>w (u, i, a). quickBuy w u i a" "\<lambda>w. quick_request w ''/trade/buy''"
    "\<lambda>(u, i, a). quick_body u i a" "''buy''" "''There was an error when creating transaction.''"
  by unfold_locales
     (simp add: biz_type_def quickBuy_def buyStart_def buyFinish_def buyError_def TransactionBackend_quickBuy_def
       quick_request_def Let_def split: prod.splits)

interpretation sell_call: biz_call "\<lambda>w (u, i, a). quickSell w u i a" "\<lambda>w. quick_request w ''/trade/sell''"
    "\<lambda>(u, i, a). quick_body u i a" "''sell''" "''There was an error when creating transaction.''"
  by unfold_locales
     (simp add: biz_type_def quickSell_def sellStart_def sellFinish_def sellError_def TransactionBackend_quickSell_def
       quick_request_def Let_def split: prod.splits)

subsection \<open>Handlers that never reject\<close>

lemma returns_try [intro]: "(\<And>e. returns (h e)) \<Longrightarrow> returns (act_try m h)"
  by (fastforce simp: returns_def act_simps split: sum.splits prod.splits)

lemma returns_act_all: "(\<And>x. returns (f x)) \<Longrightarrow> returns (act_all f xs)"
  by (induction xs) auto

lemma act_all_values:
  assumes "\<And>x l. \<exists>y l'. f x l = (Inr y, l') \<and> P x y"
  shows "\<exists>ys l'. act_all f xs l = (Inr ys, l') \<and> list_all2 P xs ys"
proof (induction xs arbitrary: l)
  case Nil
  show ?case by (simp add: act_simps)
next
  case (Cons x xs)
  obtain y l1 where y: "f x l = (Inr y, l1)" "P x y" using assms by blast
  obtain ys l2 where "act_all f xs l1 = (Inr ys, l2)" "list_all2 P xs ys" using Cons.IH by blast
  with y show ?case by (simp add: act_simps)
qed

subsection \<open>Properties\<close>

text \<open>The four money operations, as what a form asks for.\<close>

datatype money_op =
    Deposit DepositRequest
  | Withdraw WithdrawRequest
  | QuickBuy string string jsnum
  | QuickSell string string jsnum

fun perform :: "window \<Rightarrow> money_op \<Rightarrow> json fe_act" where
  "perform w (Deposit r) = deposit w r"
| "perform w (Withdraw r) = withdraw w r"
| "perform w (QuickBuy u i a) = quickBuy w u i a"
| "perform w (QuickSell u i a) = quickSell w u i a"

fun op_kind :: "money_op \<Rightarrow> string" where
  "op_kind (Deposit r) = ''deposit''"
| "op_kind (Withdraw r) = ''withdraw''"
| "op_kind (QuickBuy u i a) = ''buy''"
| "op_kind (QuickSell u i a) = ''sell''"

fun op_body :: "money_op \<Rightarrow> json" where
  "op_body (Deposit r) = deposit_json r"
| "op_body (Withdraw r) = JObj (withdraw_json r)"
| "op_body (QuickBuy u i a) = quick_body u i a"
| "op_body (QuickSell u i a) = quick_body u i a"

fun op_path :: "money_op \<Rightarrow> string" where
  "op_path (Deposit r) = ''/balance/'' @ num_str (wr_accountId r) @ ''/deposit''"
| "op_path (Withdraw r) = ''/balance/'' @ num_str (wr_accountId r) @ ''/withdraw''"
| "op_path (QuickBuy u i a) = ''/trade/buy''"
| "op_path (QuickSell u i a) = ''/trade/sell''"

fun op_msg :: "money_op \<Rightarrow> string" where
  "op_msg (Deposit r) = ''There was an error processing the deposit''"
| "op_msg (Withdraw r) = ''There was an error processing the withdraw''"
| "op_msg (QuickBuy u i a) = ''There was an error when creating transaction.''"
| "op_msg (QuickSell u i a) = ''There was an error when creating transaction.''"

definition op_request :: "window \<Rightarrow> money_op \<Rightarrow> http_request" where
  "op_request w c = post_json (getBrokerServiceUrl w @ op_path c) (op_body c)"

lemma op_request_simps:
  "op_request w (Deposit r) = deposit_request w r"
  "op_request w (Withdraw r') = withdraw_request w r'"
  "op_request w (QuickBuy u i a) = quick_request w ''/trade/buy'' (u, i, a)"
  "op_request w (QuickSell u i a) = quick_request w ''/trade/sell'' (u, i, a)"
  by (simp_all add: op_request_def deposit_request_def withdraw_request_def quick_request_def)

lemma biz_type_simps: "biz_type kind step = ''com.easytrade.'' @ kind @ CHR ''.'' # step"
  by (simp add: biz_type_def)

text \<open>
  C5: the protocol of the four money operations: a start event with the body of the
  request, exactly one POST of that body to the broker service, and then a finish event and
  an empty result when the answer is in the 200s, or an error event and an error result with
  the same message for every other outcome.
\<close>

theorem money_protocol:
  assumes "agent_ok w"
  shows "perform w c l =
    (let start = l @ biz w (''com.easytrade.'' @ op_kind c @ ''.start'') (op_body c) in
     if void_outcome w start (op_request w c) = None
     then (Inr (JObj []), start @ [Request (op_request w c)]
             @ biz w (''com.easytrade.'' @ op_kind c @ ''.finish'') (JObj [(''status'', JStr ''finished'')]))
     else (Inr (error_result (op_msg c)), start @ [Request (op_request w c)]
             @ biz w (''com.easytrade.'' @ op_kind c @ ''.error'')
                 (JObj [(''status'', JStr ''error''), (''message'', JStr (op_msg c))])))"
proof -
  note rules = op_request_simps biz_type_simps finished_def failed_def Let_def
  show ?thesis
  proof (cases c)
    case (Deposit r)
    then show ?thesis using deposit_call.protocol [OF assms, of r l] by (simp add: rules cong: if_cong)
  next
    case (Withdraw r)
    then show ?thesis using withdraw_call.protocol [OF assms, of r l] by (simp add: rules cong: if_cong)
  next
    case (QuickBuy u i a)
    then show ?thesis using buy_call.protocol [OF assms, of "(u, i, a)" l] by (simp add: rules cong: if_cong)
  next
    case (QuickSell u i a)
    then show ?thesis using sell_call.protocol [OF assms, of "(u, i, a)" l] by (simp add: rules cong: if_cong)
  qed
qed

theorem money_protocol_witness:
  "perform \<lparr>w_origin = ''http://h'', w_dynatrace = Some (\<lambda>_ _. None), w_dtrum = None,
       w_net = (\<lambda>l rq. Inr \<lparr>rp_status = 500, rp_text = Inr [], rp_json = Inl SyntaxError\<rparr>),
       w_xmlParse = (\<lambda>t. Inl SyntaxError), w_xmlBuild = (\<lambda>v. [])\<rparr> (QuickBuy ''1'' ''2'' (js_int 3)) []
   = (Inr (error_result ''There was an error when creating transaction.''),
      [BizEvent ''com.easytrade.buy.start'' (quick_body ''1'' ''2'' (js_int 3)),
       Request (post_json ''http://h/broker-service/v1/trade/buy'' (quick_body ''1'' ''2'' (js_int 3))),
       BizEvent ''com.easytrade.buy.error'' (JObj [(''status'', JStr ''error''),
         (''message'', JStr ''There was an error when creating transaction.'')])])"
  using money_protocol [of "\<lparr>w_origin = ''http://h'', w_dynatrace = Some (\<lambda>_ _. None), w_dtrum = None,
       w_net = (\<lambda>l rq. Inr \<lparr>rp_status = 500, rp_text = Inr [], rp_json = Inl SyntaxError\<rparr>),
       w_xmlParse = (\<lambda>t. Inl SyntaxError), w_xmlBuild = (\<lambda>v. [])\<rparr>" "QuickBuy ''1'' ''2'' (js_int 3)" "[]"]
  by (simp add: agent_ok_def biz_def void_outcome_def res_ok_def op_request_def getBrokerServiceUrl_def
      Let_def post_json_def)

text \<open>
  C28: whatever the network and the agent do, a money operation resolves, with an empty
  result or with its error message; only an error report that itself throws could escape.
\<close>

theorem money_resolves:
  assumes "report_ok w"
  shows "\<exists>v l'. perform w c l = (Inr v, l') \<and> (v = JObj [] \<or> v = error_result (op_msg c))"
proof (cases c)
  case (Deposit r)
  then show ?thesis using deposit_call.resolves [OF assms, of r l] by simp
next
  case (Withdraw r)
  then show ?thesis using withdraw_call.resolves [OF assms, of r l] by simp
next
  case (QuickBuy u i a)
  then show ?thesis using buy_call.resolves [OF assms, of "(u, i, a)" l] by simp
next
  case (QuickSell u i a)
  then show ?thesis using sell_call.resolves [OF assms, of "(u, i, a)" l] by simp
qed

theorem money_resolves_witness:
  "\<exists>v l'. perform \<lparr>w_origin = [], w_dynatrace = Some (\<lambda>_ _. Some NetworkError), w_dtrum = Some (\<lambda>_. None),
       w_net = (\<lambda>l rq. Inl NetworkError), w_xmlParse = (\<lambda>t. Inl SyntaxError), w_xmlBuild = (\<lambda>v. [])\<rparr>
     (QuickSell ''1'' ''2'' (js_int 3)) [] = (Inr v, l')
   \<and> (v = JObj [] \<or> v = error_result (op_msg (QuickSell ''1'' ''2'' (js_int 3))))"
  by (rule money_resolves) (simp add: report_ok_def)


lemma getVersion_log:
  "\<exists>r. VersionBackend_getVersion w path l
     = (r, l @ [SetTimeout 1000, Request (get_request path acceptJson), ClearTimeout])"
  by (simp add: VersionBackend_getVersion_def act_finally_def send_ok_def act_simps TIMEOUT_MS_def
      split: sum.splits)

lemma getServiceVersion_run:
  "\<exists>v. getServiceVersion w svc l
     = (Inr v, l @ [SetTimeout 1000, Request (get_request (snd svc) acceptJson), ClearTimeout])
   \<and> service_name v = fst svc"
proof -
  obtain r where "VersionBackend_getVersion w (snd svc) l
     = (r, l @ [SetTimeout 1000, Request (get_request (snd svc) acceptJson), ClearTimeout])"
    using getVersion_log by blast
  then show ?thesis by (cases r) (simp_all add: getServiceVersion_def act_simps)
qed

lemma versions_run:
  "\<exists>vs. act_all (getServiceVersion w) svcs l
     = (Inr vs, l @ concat (map (\<lambda>svc. [SetTimeout 1000,
          Request (get_request (snd svc) acceptJson), ClearTimeout]) svcs))
   \<and> map service_name vs = map fst svcs"
proof (induction svcs arbitrary: l)
  case (Cons svc svcs)
  obtain v where v: "getServiceVersion w svc l
     = (Inr v, l @ [SetTimeout 1000, Request (get_request (snd svc) acceptJson), ClearTimeout])"
    "service_name v = fst svc" using getServiceVersion_run by blast
  obtain vs where "act_all (getServiceVersion w) svcs
       (l @ [SetTimeout 1000, Request (get_request (snd svc) acceptJson), ClearTimeout])
     = (Inr vs, (l @ [SetTimeout 1000, Request (get_request (snd svc) acceptJson), ClearTimeout])
          @ concat (map (\<lambda>svc. [SetTimeout 1000, Request (get_request (snd svc) acceptJson), ClearTimeout]) svcs))"
    "map service_name vs = map fst svcs" using Cons.IH by blast
  with v show ?case by (simp add: act_simps)
qed (simp add: act_simps)

text \<open>
  The version page: one request per service, each under a timer of a second that is
  cleared on every way out, and one entry per service in the order of the list, whether the
  service answered or not.
\<close>

lemma versions_complete:
  "\<exists>vs. getAllVersions w [] = (Inr vs, concat (map (\<lambda>svc. [SetTimeout 1000,
          Request (get_request (snd svc) [(''Accept'', ''application/json'')]), ClearTimeout]) services))
   \<and> map service_name vs = map fst services"
  using versions_run [of w services "[]"] by (simp add: getAllVersions_def acceptJson_def)

text \<open>
  The id of a preset user is turned into a string for the forms and back into a number
  in the requests: a trade of that user names the account the back end listed.
\<close>

lemma preset_id_roundtrip:
  assumes "\<bar>n\<bar> \<le> 2 ^ 53" and "map_of others ''id'' = None"
  shows "\<exists>s. preset_entry k (JObj ((''id'', JNum (js_int n)) # others)) = Inr (JObj ((''id'', JStr s) # others))
     \<and> quick_body s i a = JObj [(''accountId'', JNum (js_int n)), (''instrumentId'', JNum (js_Number i)),
          (''amount'', JNum a)]"
proof (intro exI conjI)
  have keep: "filter (\<lambda>(k, x). k \<noteq> ''id'') others = others"
    using assms(2) by (auto simp: filter_id_conv map_of_eq_None_iff image_iff)
  have none: "map_of (rev others) ''id'' = None"
    using assms(2) by (simp add: map_of_eq_None_iff)
  have "List.map_filter (\<lambda>(k, v). map_option (Pair k) v) (map (\<lambda>(k, x). (k, Some x)) others) = others"
    by (induction others) (auto simp: map_filter_simps)
  moreover have found: "([''id'' \<mapsto> v] ++ map_of (rev others)) ''id'' = Some v" for v
    using none by (simp add: map_add_def)
  moreover have js_id: "js_String (JNum (js_int n)) = int_str n"
    using num_str_int [OF assms(1)] by (simp only: js_String.simps)
  ultimately show "preset_entry k (JObj ((''id'', JNum (js_int n)) # others))
      = Inr (JObj ((''id'', JStr (int_str n)) # others))"
    using keep
    by (simp del: js_String.simps add: preset_entry_def js_toString_def js_rest_def js_obj_def map_filter_simps)
  show "quick_body (int_str n) i a = JObj [(''accountId'', JNum (js_int n)),
      (''instrumentId'', JNum (js_Number i)), (''amount'', JNum a)]"
    using js_Number_int_str [OF assms(1)] by (simp add: quick_body_def)
qed

text \<open>
  The labels of a transaction: finished and failed trades are told by a word that the
  status contains but does not begin with, and purchases by a direction that contains but
  does not begin with \<open>buy\<close>, in any letter case.
\<close>

lemma transaction_labels:
  "mapStatus (Some (JStr s)) =
     Inr (if js_includes (to_lower s) ''finished'' \<and> \<not> prefix ''finished'' (to_lower s) then ''SUCCESS''
          else if js_includes (to_lower s) ''failed'' \<and> \<not> prefix ''failed'' (to_lower s) then ''FAIL''
          else ''ACTIVE'')
   \<and> mapDirection (Some (JStr d)) =
     Inr (if js_includes (to_lower d) ''buy'' \<and> \<not> prefix ''buy'' (to_lower d) then ''BUY'' else ''SELL'')"
  by (simp add: mapStatus_def mapDirection_def js_toLowerCase_def index_of_pos_iff)

lemma quick_buy_label: "mapDirection (Some (JStr ''buy'')) = Inr ''SELL''"
  by code_simp

lemma long_trade_labels:
  "mapDirection (Some (JStr ''longbuy'')) = Inr ''BUY''"
  "mapDirection (Some (JStr ''longsell'')) = Inr ''SELL''"
  "mapStatus (Some (JStr ''Long buy transaction finished!'')) = Inr ''SUCCESS''"
  "mapStatus (Some (JStr ''Time is up: trade failed'')) = Inr ''FAIL''"
  by code_simp+

end
