(* ===== verification/Frontend_Session.thy ===== *)
theory Frontend_Session
  imports Frontend_Calls
begin

section \<open>Frontend: the session\<close>

text \<open>
  \<open>frontend/src/contexts/AuthContext\<close> and \<open>sessionUserProvider\<close> of
  \<open>contexts/QueryContext/user/loaders.ts\<close>: who is logged in, as React sees it and as the
  route loaders read it back from the session storage. A user id is a JSON value, since
  the login answer is not checked: \<open>JNull\<close> is nobody.
\<close>

subsection \<open>AuthProvider\<close>

text \<open>
  The provider works on any store that gives it a value and a setter. Its handlers are given
  what the login or logout request of the API resolved to.
\<close>

definition AuthProvider_login ::
  "(json \<Rightarrow> 's \<Rightarrow> 's) \<Rightarrow> js_exn + jsval \<Rightarrow> 's \<Rightarrow> js_exn + ('s \<times> json)" where
  "AuthProvider_login setUserId reply s =
     attempt reply (\<lambda>v.
     attempt (js_prop v ''id'') (\<lambda>i.
     attempt (js_prop v ''error'') (\<lambda>e.
       Inr (case i of None \<Rightarrow> s | Some x \<Rightarrow> setUserId x s, js_obj [(''id'', i), (''error'', e)]))))"

definition AuthProvider_logout ::
  "(json \<Rightarrow> 's \<Rightarrow> 's) \<Rightarrow> js_exn + jsval \<Rightarrow> 's \<Rightarrow> js_exn + ('s \<times> json)" where
  "AuthProvider_logout setUserId reply s =
     attempt reply (\<lambda>v.
     attempt (js_prop v ''message'') (\<lambda>m.
     attempt (js_prop v ''error'') (\<lambda>e.
       Inr (case m of None \<Rightarrow> s | Some _ \<Rightarrow> setUserId JNull s, js_obj [(''message'', m), (''error'', e)]))))"

definition AuthProvider_defaultLogin :: "(json \<Rightarrow> 's \<Rightarrow> 's) \<Rightarrow> string \<Rightarrow> 's \<Rightarrow> 's" where
  "AuthProvider_defaultLogin setUserId userId s = setUserId (JStr userId) s"

definition isLoggedIn :: "json \<Rightarrow> bool" where
  "isLoggedIn userId \<longleftrightarrow> userId \<noteq> JNull"

text \<open>A handler that threw has changed nothing.\<close>

definition after :: "js_exn + ('s \<times> json) \<Rightarrow> 's \<Rightarrow> 's" where
  "after r s = (case r of Inl _ \<Rightarrow> s | Inr (s', _) \<Rightarrow> s')"

datatype auth_event =
    LoginReply "js_exn + jsval"
  | LogoutReply "js_exn + jsval"
  | DefaultLogin string

fun auth_step :: "(json \<Rightarrow> 's \<Rightarrow> 's) \<Rightarrow> auth_event \<Rightarrow> 's \<Rightarrow> 's" where
  "auth_step setId (LoginReply r) s = after (AuthProvider_login setId r s) s"
| "auth_step setId (LogoutReply r) s = after (AuthProvider_logout setId r s) s"
| "auth_step setId (DefaultLogin i) s = AuthProvider_defaultLogin setId i s"

text \<open>The id an event leaves behind: a new one, or the old one.\<close>

fun next_user :: "auth_event \<Rightarrow> json \<Rightarrow> json" where
  "next_user (LoginReply r) u =
     (case r of Inr (Some (JObj kvs)) \<Rightarrow> (case map_of (rev kvs) ''id'' of Some x \<Rightarrow> x | None \<Rightarrow> u) | _ \<Rightarrow> u)"
| "next_user (LogoutReply r) u =
     (case r of Inr (Some (JObj kvs)) \<Rightarrow> (case map_of (rev kvs) ''message'' of Some x \<Rightarrow> JNull | None \<Rightarrow> u) | _ \<Rightarrow> u)"
| "next_user (DefaultLogin i) u = JStr i"

text \<open>The contract of a store: what was set is what is there, for the values it can hold.\<close>

locale store_handler =
  fixes get_id :: "'s \<Rightarrow> json"
    and set_id :: "json \<Rightarrow> 's \<Rightarrow> 's"
    and ok_store :: "'s \<Rightarrow> bool"
    and ok_id :: "json \<Rightarrow> bool"
  assumes get_set: "get_id (set_id v s) = v"
    and set_ok: "ok_id v \<Longrightarrow> ok_store (set_id v s)"
begin

lemma step_get: "get_id (auth_step set_id e s) = next_user e (get_id s)"
  by (cases e)
     (auto simp: after_def AuthProvider_login_def AuthProvider_logout_def AuthProvider_defaultLogin_def
       attempt_def js_prop_def get_set split: sum.splits option.splits json.splits)

lemma step_set: "auth_step set_id e s = s \<or> auth_step set_id e s = set_id (next_user e (get_id s)) s"
  by (cases e)
     (auto simp: after_def AuthProvider_login_def AuthProvider_logout_def AuthProvider_defaultLogin_def
       attempt_def js_prop_def split: sum.splits option.splits json.splits)

lemma step_ok:
  assumes "ok_store s" and "ok_id (next_user e (get_id s))"
  shows "ok_store (auth_step set_id e s)"
  using step_set [of e s] assms set_ok by metis

lemma run_get: "get_id (fold (auth_step set_id) es s) = fold next_user es (get_id s)"
  by (induction es arbitrary: s) (simp_all add: step_get)

end

subsection \<open>The two stores\<close>

text \<open>
  \<open>useSessionStorage\<close> of usehooks-ts keeps the value in a React state and its serialized
  text in the session storage under the key. The serializer is a parameter; on the values
  that occur it is \<open>JSON.stringify\<close>.
\<close>

record session_store =
  state_id :: json
  user_id_item :: "string option"

definition sessionStore_set :: "(json \<Rightarrow> string) \<Rightarrow> json \<Rightarrow> session_store \<Rightarrow> session_store" where
  "sessionStore_set serialize v s = \<lparr>state_id = v, user_id_item = Some (serialize v)\<rparr>"

definition valid_id :: "json \<Rightarrow> bool" where
  "valid_id v \<longleftrightarrow> v = JNull \<or> (\<exists>s. v = JStr s) \<or> (\<exists>n. n \<le> 2 ^ 53 \<and> v = JNum (js_int (int n)))"

definition json_serializer :: "(json \<Rightarrow> string) \<Rightarrow> bool" where
  "json_serializer f \<longleftrightarrow> f JNull = ''null'' \<and> (\<forall>s. f (JStr s) = stringify_str s)
     \<and> (\<forall>n. f (JNum (js_int (int n))) = nat_str n)"

text \<open>\<open>localStore\<close> is a plain \<open>useState\<close>.\<close>

definition localStore_set :: "json \<Rightarrow> json \<Rightarrow> json" where
  "localStore_set v s = v"

text \<open>What the route loaders make of the storage.\<close>

definition sessionUserProvider :: "string option \<Rightarrow> js_exn + json" where
  "sessionUserProvider item = (case item of None \<Rightarrow> Inr JNull | Some userId \<Rightarrow> JSON_parse userId)"

definition coherent :: "session_store \<Rightarrow> bool" where
  "coherent s \<longleftrightarrow> sessionUserProvider (user_id_item s) = Inr (state_id s)"

lemma serialized_read_back:
  assumes "json_serializer f" "valid_id v"
  shows "sessionUserProvider (Some (f v)) = Inr v"
proof -
  consider "v = JNull" | s where "v = JStr s" | n where "n \<le> 2 ^ 53" "v = JNum (js_int (int n))"
    using assms(2) by (auto simp: valid_id_def)
  then show ?thesis
  proof cases
    case (3 n)
    then have "to_js (of_nat n) = js_int (int n)" using to_js_of_int [of "int n"] by simp
    with 3 assms(1) show ?thesis
      by (simp add: sessionUserProvider_def json_serializer_def JSON_parse_nat_str)
  qed (use assms(1) in \<open>simp_all add: sessionUserProvider_def json_serializer_def JSON_parse_null
      JSON_parse_stringify\<close>)
qed

interpretation local_store: store_handler "\<lambda>s. s" localStore_set "\<lambda>_. True" "\<lambda>_. True"
  by unfold_locales (simp_all add: localStore_set_def)

interpretation session: store_handler state_id "sessionStore_set f"
    "\<lambda>s. json_serializer f \<longrightarrow> coherent s" valid_id for f
  by unfold_locales (simp_all add: sessionStore_set_def coherent_def serialized_read_back)

definition valid_event :: "auth_event \<Rightarrow> bool" where
  "valid_event e \<longleftrightarrow> (\<forall>u. valid_id u \<longrightarrow> valid_id (next_user e u))"

lemma session_run_coherent:
  assumes "json_serializer f" "list_all valid_event es" "coherent s" "valid_id (state_id s)"
  shows "coherent (fold (auth_step (sessionStore_set f)) es s)
     \<and> valid_id (state_id (fold (auth_step (sessionStore_set f)) es s))"
  using assms(2-4)
proof (induction es arbitrary: s)
  case (Cons e es)
  then have v: "valid_id (next_user e (state_id s))" by (simp add: valid_event_def)
  then have "coherent (auth_step (sessionStore_set f) e s)"
    using session.step_ok [of f s e] Cons.prems assms(1) by simp
  moreover have "valid_id (state_id (auth_step (sessionStore_set f) e s))"
    using v by (simp add: session.step_get)
  ultimately show ?case using Cons by simp
qed simp

subsection \<open>Property\<close>

definition no_session :: session_store where
  "no_session = \<lparr>state_id = JNull, user_id_item = None\<rparr>"

fun sample_serializer :: "json \<Rightarrow> string" where
  "sample_serializer (JStr s) = stringify_str s"
| "sample_serializer (JNum (Fin x)) = nat_str (nat \<lfloor>x\<rfloor>)"
| "sample_serializer _ = ''null''"

lemma sample_serializer_ok: "json_serializer sample_serializer"
  by (simp add: json_serializer_def)

text \<open>
  C2: after any sequence of login replies, logout replies and default logins, starting with
  an empty storage, the user id the route loaders read back from the session storage is the
  one React holds, and it is the id of the last login that was not followed by an
  acknowledged logout.
\<close>

theorem session_agrees:
  assumes "json_serializer f" and "list_all valid_event es"
  shows "let s = fold (auth_step (sessionStore_set f)) es no_session in
     sessionUserProvider (user_id_item s) = Inr (state_id s) \<and> state_id s = fold next_user es JNull"
proof -
  have "coherent no_session" "valid_id (state_id no_session)"
    by (simp_all add: coherent_def no_session_def sessionUserProvider_def valid_id_def)
  then have "coherent (fold (auth_step (sessionStore_set f)) es no_session)"
    using session_run_coherent [OF assms] by blast
  then show ?thesis
    using session.run_get [of f es no_session] by (simp add: Let_def coherent_def no_session_def)
qed

theorem session_agrees_witness:
  "let s = fold (auth_step (sessionStore_set sample_serializer))
         [LoginReply (Inr (Some (JObj [(''id'', JNum (js_int 15))]))),
          LogoutReply (Inr (Some (JObj [(''message'', JStr ''ok'')]))), DefaultLogin ''7''] no_session in
     sessionUserProvider (user_id_item s) = Inr (state_id s) \<and> state_id s = JStr ''7''"
proof -
  have ok: "valid_id (JNum (js_int (int 15)))" unfolding valid_id_def by (intro disjI2 exI [of _ 15]) simp
  then have "list_all valid_event [LoginReply (Inr (Some (JObj [(''id'', JNum (js_int 15))]))),
          LogoutReply (Inr (Some (JObj [(''message'', JStr ''ok'')]))), DefaultLogin ''7'']"
    by (simp add: valid_event_def) (simp add: valid_id_def)
  from session_agrees [OF sample_serializer_ok this] show ?thesis by simp
qed

end
