(* ===== verification/Frontend_Routes.thy ===== *)
theory Frontend_Routes
  imports Frontend_Session
begin

section \<open>Frontend: routes and redirects\<close>

text \<open>
  \<open>frontend/src/router.tsx\<close>, \<open>layouts/\<close>, \<open>pages/BaseNavigation.tsx\<close> and the redirects of
  the pages: what one navigation to a path ends with, given who is logged in, the order
  status the credit card loader got and the ids of the instruments. The router is a library:
  it runs the loaders of the matched routes, follows a redirect that one of them returns, and
  otherwise renders the elements from the outside in. A path is the list of its segments, in
  the lower case of the table (the router itself ignores case).
\<close>

subsection \<open>The route table\<close>

datatype page =
    BaseNavigation | FeatureFlags | Version
  | Login | Signup
  | Withdraw | Deposit
  | CreditCard | CreditCardOrder | CreditCardStatus | CreditCardActive
  | Home | Instruments | Instrument string

type_synonym path = "string list"

definition routes :: "(path \<times> page) list" where
  "routes =
     [([], BaseNavigation),
      ([''feature-flags''], FeatureFlags),
      ([''version''], Version),
      ([''login''], Login),
      ([''signup''], Signup),
      ([''withdraw''], Withdraw),
      ([''deposit''], Deposit),
      ([''credit-card''], CreditCard),
      ([''credit-card'', ''order''], CreditCardOrder),
      ([''credit-card'', ''status''], CreditCardStatus),
      ([''credit-card'', ''active''], CreditCardActive),
      ([''home''], Home),
      ([''instruments''], Instruments)]"

definition match_route :: "path \<Rightarrow> page" where
  "match_route p =
     (case map_of routes p of
        Some pg \<Rightarrow> pg
      | None \<Rightarrow> (case p of
            [a, i] \<Rightarrow> if a = ''instruments'' then Instrument i else BaseNavigation
          | _ \<Rightarrow> BaseNavigation))"

text \<open>Which layout a page is in, and whether a loader of its own asks for the user.\<close>

datatype layout = ProviderLayout | PublicLayout | ProtectedLayout

fun layout_of :: "page \<Rightarrow> layout" where
  "layout_of BaseNavigation = ProviderLayout"
| "layout_of FeatureFlags = ProviderLayout"
| "layout_of Version = ProviderLayout"
| "layout_of Login = PublicLayout"
| "layout_of Signup = PublicLayout"
| "layout_of _ = ProtectedLayout"

fun in_credit_card :: "page \<Rightarrow> bool" where
  "in_credit_card CreditCard = True"
| "in_credit_card CreditCardOrder = True"
| "in_credit_card CreditCardStatus = True"
| "in_credit_card CreditCardActive = True"
| "in_credit_card _ = False"

fun in_instruments_route :: "page \<Rightarrow> bool" where
  "in_instruments_route Home = True"
| "in_instruments_route Instruments = True"
| "in_instruments_route (Instrument i) = True"
| "in_instruments_route _ = False"

subsection \<open>Loaders\<close>

datatype 'a loader_result = Loaded 'a | RedirectTo path

text \<open>\<open>loadWithUser(userIdProvider, loader)\<close>, applied to what the provider returns.\<close>

definition loadWithUser :: "json \<Rightarrow> (json \<Rightarrow> 'a) \<Rightarrow> 'a loader_result" where
  "loadWithUser userId loader =
     (if userId = JNull \<or> userId = JStr [] then RedirectTo [''login''] else Loaded (loader userId))"

text \<open>
  The loader of the protected layout puts two \<open>loadWithUser(...)\<close> into \<open>Promise.all\<close> without
  calling them: it always loads two functions, and never redirects.
\<close>

datatype 'a protected_data = TwoLoaders "json \<Rightarrow> 'a loader_result" "json \<Rightarrow> 'a loader_result"

definition protected_loader :: "(json \<Rightarrow> 'a) \<Rightarrow> (json \<Rightarrow> 'a) \<Rightarrow> 'a protected_data loader_result" where
  "protected_loader loadUser loadBalance =
     Loaded (TwoLoaders (\<lambda>u. loadWithUser u loadUser) (\<lambda>u. loadWithUser u loadBalance))"

text \<open>The loaders of the routes below the protected layout that do run.\<close>

definition asks_user :: "page \<Rightarrow> bool" where
  "asks_user p \<longleftrightarrow> in_credit_card p \<or> in_instruments_route p"

definition route_redirect :: "page \<Rightarrow> json \<Rightarrow> path option" where
  "route_redirect p userId =
     (if asks_user p then
        (case loadWithUser userId (\<lambda>_. ()) of RedirectTo q \<Rightarrow> Some q | Loaded _ \<Rightarrow> None)
      else None)"

subsection \<open>Layouts and pages\<close>

datatype outcome = Render page | NavigateTo path | Crash js_exn

datatype order_status = OrderError string | OrderNotFound | OrderSuccess string

definition pathname :: "path \<Rightarrow> string" where
  "pathname p = CHR ''/'' # js_join ''/'' p"

definition CreditCardLayout :: "order_status \<Rightarrow> path \<Rightarrow> page \<Rightarrow> outcome" where
  "CreditCardLayout data p pg =
     (case data of
        OrderError e \<Rightarrow> Crash (JsError e)
      | OrderNotFound \<Rightarrow>
          if \<not> js_includes (pathname p) ''order'' then NavigateTo [''credit-card'', ''order''] else Render pg
      | OrderSuccess status \<Rightarrow>
          if status = ''card_delivered'' \<and> \<not> js_includes (pathname p) ''active''
          then NavigateTo [''credit-card'', ''active'']
          else if status \<noteq> ''card_delivered'' \<and> \<not> js_includes (pathname p) ''status''
          then NavigateTo [''credit-card'', ''status'']
          else Render pg)"

fun page_element :: "string list \<Rightarrow> page \<Rightarrow> outcome" where
  "page_element ids (Instrument i) = (if i \<in> set ids then Render (Instrument i) else NavigateTo [''instruments''])"
| "page_element ids pg = Render pg"

definition ProtectedLayout_render :: "json \<Rightarrow> order_status \<Rightarrow> string list \<Rightarrow> path \<Rightarrow> page \<Rightarrow> outcome" where
  "ProtectedLayout_render userId data ids p pg =
     (if \<not> isLoggedIn userId then NavigateTo [''login'']
      else if in_credit_card pg then CreditCardLayout data p pg
      else page_element ids pg)"

definition PublicLayout_render :: "json \<Rightarrow> page \<Rightarrow> outcome" where
  "PublicLayout_render userId pg = (if isLoggedIn userId then NavigateTo [''home''] else Render pg)"

definition BaseNavigation_render :: "json \<Rightarrow> outcome" where
  "BaseNavigation_render userId = NavigateTo (if isLoggedIn userId then [''home''] else [''login''])"

definition render :: "json \<Rightarrow> order_status \<Rightarrow> string list \<Rightarrow> path \<Rightarrow> page \<Rightarrow> outcome" where
  "render userId data ids p pg =
     (case layout_of pg of
        PublicLayout \<Rightarrow> PublicLayout_render userId pg
      | ProtectedLayout \<Rightarrow> ProtectedLayout_render userId data ids p pg
      | ProviderLayout \<Rightarrow> if pg = BaseNavigation then BaseNavigation_render userId else Render pg)"

text \<open>One navigation, and the chain of redirects it starts, with fuel.\<close>

definition visit_path :: "json \<Rightarrow> order_status \<Rightarrow> string list \<Rightarrow> path \<Rightarrow> outcome" where
  "visit_path userId data ids p =
     (let pg = match_route p in
      case route_redirect pg userId of Some q \<Rightarrow> NavigateTo q | None \<Rightarrow> render userId data ids p pg)"

fun settle :: "nat \<Rightarrow> json \<Rightarrow> order_status \<Rightarrow> string list \<Rightarrow> path \<Rightarrow> outcome option" where
  "settle 0 userId data ids p = None"
| "settle (Suc n) userId data ids p =
     (case visit_path userId data ids p of
        NavigateTo q \<Rightarrow> settle n userId data ids q
      | r \<Rightarrow> Some r)"

subsection \<open>Properties\<close>

text \<open>The pages that take part in the redirects, and where they lead.\<close>

lemma match_simps [simp]:
  "match_route [''login''] = Login" "match_route [''home''] = Home"
  "match_route [''instruments''] = Instruments"
  "match_route [''credit-card'', ''order''] = CreditCardOrder"
  "match_route [''credit-card'', ''status''] = CreditCardStatus"
  "match_route [''credit-card'', ''active''] = CreditCardActive"
  by (simp_all add: match_route_def routes_def)

lemma redirect_none:
  "userId \<noteq> JNull \<Longrightarrow> userId \<noteq> JStr [] \<Longrightarrow> route_redirect pg userId = None"
  by (simp add: route_redirect_def loadWithUser_def)

lemma redirect_nobody: "route_redirect pg JNull = (if asks_user pg then Some [''login''] else None)"
  by (simp add: route_redirect_def loadWithUser_def)

lemmas visit_simps = visit_path_def render_def Let_def redirect_none redirect_nobody PublicLayout_render_def
  ProtectedLayout_render_def BaseNavigation_render_def isLoggedIn_def asks_user_def

lemma visit_login_nobody: "visit_path JNull data ids [''login''] = Render Login"
  by (simp add: visit_simps)

lemma visit_home_user:
  "userId \<noteq> JNull \<Longrightarrow> userId \<noteq> JStr [] \<Longrightarrow> visit_path userId data ids [''home''] = Render Home"
  by (simp add: visit_simps)

lemma visit_instruments_user:
  "userId \<noteq> JNull \<Longrightarrow> userId \<noteq> JStr [] \<Longrightarrow> visit_path userId data ids [''instruments''] = Render Instruments"
  by (simp add: visit_simps)

text \<open>Without a user every path is shown or leads to the login page.\<close>

lemma visit_nobody:
  "visit_path JNull data ids p = NavigateTo [''login'']
   \<or> (\<exists>pg. visit_path JNull data ids p = Render pg \<and> layout_of pg \<noteq> ProtectedLayout)"
  by (cases "match_route p") (simp_all add: visit_simps)

text \<open>With a user a path outside the credit card pages is shown or leads home or to the instruments.\<close>

lemma visit_user:
  assumes "userId \<noteq> JNull" "userId \<noteq> JStr []" "\<not> in_credit_card (match_route p)"
  shows "visit_path userId data ids p \<in> {NavigateTo [''home''], NavigateTo [''instruments'']}
   \<or> (\<exists>pg. visit_path userId data ids p = Render pg \<and> layout_of pg \<noteq> PublicLayout)"
  using assms by (cases "match_route p") (simp_all add: visit_simps)

definition card_path :: "order_status \<Rightarrow> path" where
  "card_path data = [''credit-card'',
     (case data of OrderSuccess s \<Rightarrow> if s = ''card_delivered'' then ''active'' else ''status'' | _ \<Rightarrow> ''order'')]"

lemma card_includes:
  "js_includes (pathname [''credit-card'', ''order'']) ''order''"
  "js_includes (pathname [''credit-card'', ''active'']) ''active''"
  "js_includes (pathname [''credit-card'', ''status'']) ''status''"
  by code_simp+

lemma in_credit_card_paths:
  "in_credit_card (match_route p) \<longleftrightarrow> p \<in> {[''credit-card''], [''credit-card'', ''order''],
     [''credit-card'', ''status''], [''credit-card'', ''active'']}"
  by (auto simp: match_route_def routes_def split: option.splits list.splits if_splits)

lemma card_excludes:
  "\<not> js_includes (pathname [''credit-card'']) ''order''"
  "\<not> js_includes (pathname [''credit-card'']) ''active''"
  "\<not> js_includes (pathname [''credit-card'']) ''status''"
  "\<not> js_includes (pathname [''credit-card'', ''status'']) ''order''"
  "\<not> js_includes (pathname [''credit-card'', ''active'']) ''order''"
  "\<not> js_includes (pathname [''credit-card'', ''order'']) ''active''"
  "\<not> js_includes (pathname [''credit-card'', ''status'']) ''active''"
  "\<not> js_includes (pathname [''credit-card'', ''order'']) ''status''"
  "\<not> js_includes (pathname [''credit-card'', ''active'']) ''status''"
  by code_simp+

lemma visit_card:
  assumes "userId \<noteq> JNull" "userId \<noteq> JStr []" "in_credit_card (match_route p)"
    and no_error: "\<And>e. data \<noteq> OrderError e"
  shows "visit_path userId data ids p
     = (if p = card_path data then Render (match_route p) else NavigateTo (card_path data))"
proof -
  have "layout_of (match_route p) = ProtectedLayout" using assms(3) by (cases "match_route p") auto
  then have "visit_path userId data ids p = CreditCardLayout data p (match_route p)"
    using assms by (simp add: visit_simps)
  moreover have "p \<in> {[''credit-card''], [''credit-card'', ''order''],
     [''credit-card'', ''status''], [''credit-card'', ''active'']}"
    using assms(3) by (simp only: in_credit_card_paths)
  ultimately show ?thesis
    using no_error
    by (cases data) (auto simp: CreditCardLayout_def card_path_def card_includes card_excludes)
qed

lemma card_path_in: "in_credit_card (match_route (card_path data))"
  by (cases data) (simp_all add: card_path_def)

lemma settle_two:
  "settle 2 userId data ids p =
     (case visit_path userId data ids p of
        NavigateTo q \<Rightarrow> (case visit_path userId data ids q of NavigateTo q' \<Rightarrow> None | r \<Rightarrow> Some r)
      | r \<Rightarrow> Some r)"
  by (simp add: numeral_2_eq_2 split: outcome.splits)



text \<open>The empty string as a user id: the home page and the login page send it to each other.\<close>

lemma empty_id_loops:
  "settle n (JStr []) data ids [''home''] = None \<and> settle n (JStr []) data ids [''login''] = None"
proof (induction n)
  case (Suc n)
  then show ?case by (simp add: visit_path_def render_def Let_def route_redirect_def asks_user_def loadWithUser_def
      PublicLayout_render_def isLoggedIn_def)
qed simp

text \<open>The loader of the protected layout lets nobody through as well as anybody.\<close>

lemma protected_loader_never_redirects: "protected_loader f g \<noteq> RedirectTo q"
  by (simp add: protected_loader_def)

end
