(* ===== verification/Frontend_Queries.thy ===== *)
theory Frontend_Queries
  imports Frontend_Routes
begin

section \<open>Frontend: the query cache\<close>

text \<open>
  \<open>frontend/src/contexts/QueryContext\<close> and the logout of \<open>AppHeader/UserPanel.tsx\<close>. The
  query client is a library: a record of the operations the code uses, with the documented
  laws of a cache whose filters match every key they are a prefix of. The keys of a user's
  own data do not name the user, so what is cached must go when the user goes.
\<close>

subsection \<open>Keys\<close>

type_synonym query_key = "string list"

definition creditCardKeys_all :: query_key where "creditCardKeys_all = [''credit-card'']"
definition creditCardKeys_status :: query_key where "creditCardKeys_status = [''credit-card'', ''status'']"
definition creditCardKeys_history :: query_key where
  "creditCardKeys_history = [''credit-card'', ''status'', ''history'']"
definition featureFlagKeys_all :: query_key where "featureFlagKeys_all = [''feature-flags'']"
definition featureFlagKeys_problemPatterns :: query_key where
  "featureFlagKeys_problemPatterns = [''feature-flags'', ''problem-patterns'']"
definition featureFlagKeys_config :: query_key where "featureFlagKeys_config = [''feature-flags'', ''config'']"
definition instrumentKeys_all :: query_key where "instrumentKeys_all = [''instruments'']"
definition priceKeys_latest :: query_key where "priceKeys_latest = [''prices'', ''latest'']"
definition priceKeys_byInstrument :: "string \<Rightarrow> query_key" where
  "priceKeys_byInstrument instrumentId = [''prices'', instrumentId]"
definition transactionKeys_all :: query_key where "transactionKeys_all = [''transactions'']"
definition userKeys_preset :: query_key where "userKeys_preset = [''users'', ''preset'']"
definition userKeys_current :: query_key where "userKeys_current = [''users'', ''current'']"
definition balanceKeys_current :: query_key where "balanceKeys_current = [''balance'']"
definition versionKeys_all :: query_key where "versionKeys_all = [''versions'']"

lemmas key_defs = creditCardKeys_all_def creditCardKeys_status_def creditCardKeys_history_def
  featureFlagKeys_all_def featureFlagKeys_problemPatterns_def featureFlagKeys_config_def
  instrumentKeys_all_def priceKeys_latest_def priceKeys_byInstrument_def transactionKeys_all_def
  userKeys_preset_def userKeys_current_def balanceKeys_current_def versionKeys_all_def

subsection \<open>Queries\<close>

text \<open>
  The parameters of a query: its key and its query function, taken as what the function
  resolves to, or the exception it rejects with.
\<close>

type_synonym answer = "js_exn + json"

record query_params =
  queryKey :: query_key
  queryFn :: answer

definition userQuery :: "answer \<Rightarrow> query_params" where
  "userQuery f = \<lparr>queryKey = userKeys_current, queryFn = f\<rparr>"
definition balanceQuery :: "answer \<Rightarrow> query_params" where
  "balanceQuery f = \<lparr>queryKey = balanceKeys_current, queryFn = f\<rparr>"
definition presetUsersQuery :: "answer \<Rightarrow> query_params" where
  "presetUsersQuery f = \<lparr>queryKey = userKeys_preset, queryFn = f\<rparr>"
definition transactionQuery :: "json \<Rightarrow> answer \<Rightarrow> query_params" where
  "transactionQuery userId f = \<lparr>queryKey = transactionKeys_all, queryFn = f\<rparr>"
definition instrumentsQuery :: "answer \<Rightarrow> query_params" where
  "instrumentsQuery f = \<lparr>queryKey = instrumentKeys_all, queryFn = f\<rparr>"
definition latestPricesQuery :: "answer \<Rightarrow> query_params" where
  "latestPricesQuery f = \<lparr>queryKey = priceKeys_latest, queryFn = f\<rparr>"
definition instrumentPricesQuery :: "string \<Rightarrow> answer \<Rightarrow> query_params" where
  "instrumentPricesQuery instrumentId f = \<lparr>queryKey = priceKeys_byInstrument instrumentId, queryFn = f\<rparr>"
definition creditCardStatusQuery :: "answer \<Rightarrow> query_params" where
  "creditCardStatusQuery f = \<lparr>queryKey = creditCardKeys_status, queryFn = f\<rparr>"
definition creditCardStatusHistoryQuery :: "answer \<Rightarrow> query_params" where
  "creditCardStatusHistoryQuery f = \<lparr>queryKey = creditCardKeys_history, queryFn = f\<rparr>"
definition problemFlagsQuery :: "answer \<Rightarrow> query_params" where
  "problemFlagsQuery f = \<lparr>queryKey = featureFlagKeys_problemPatterns, queryFn = f\<rparr>"
definition configFlagsQuery :: "answer \<Rightarrow> query_params" where
  "configFlagsQuery f = \<lparr>queryKey = featureFlagKeys_config, queryFn = f\<rparr>"
definition versionsQuery :: "answer \<Rightarrow> query_params" where
  "versionsQuery f = \<lparr>queryKey = versionKeys_all, queryFn = f\<rparr>"

lemmas query_defs = userQuery_def balanceQuery_def presetUsersQuery_def transactionQuery_def
  instrumentsQuery_def latestPricesQuery_def instrumentPricesQuery_def creditCardStatusQuery_def
  creditCardStatusHistoryQuery_def problemFlagsQuery_def configFlagsQuery_def versionsQuery_def

subsection \<open>The client\<close>

record 'c query_client =
  getQueryData :: "'c \<Rightarrow> query_key \<Rightarrow> json option"
  setQueryData :: "query_key \<Rightarrow> json \<Rightarrow> 'c \<Rightarrow> 'c"   \<comment> \<open>a fetch that has ended\<close>
  ensureQueryData :: "query_params \<Rightarrow> 'c \<Rightarrow> answer \<times> 'c"
  removeQueries :: "query_key \<Rightarrow> 'c \<Rightarrow> 'c"
  invalidateQueries :: "query_key \<Rightarrow> 'c \<Rightarrow> 'c"
  invalidateExact :: "query_key \<Rightarrow> 'c \<Rightarrow> 'c"   \<comment> \<open>with \<open>exact: true\<close>\<close>
  isStale :: "'c \<Rightarrow> query_key \<Rightarrow> bool"

definition client_laws :: "'c query_client \<Rightarrow> bool" where
  "client_laws qc \<longleftrightarrow>
     (\<forall>k v c k'. getQueryData qc (setQueryData qc k v c) k' = (if k' = k then Some v else getQueryData qc c k'))
   \<and> (\<forall>q c. ensureQueryData qc q c = (case getQueryData qc c (queryKey q) of
          Some x \<Rightarrow> (Inr x, c)
        | None \<Rightarrow> (queryFn q, case queryFn q of Inl _ \<Rightarrow> c | Inr v \<Rightarrow> setQueryData qc (queryKey q) v c)))
   \<and> (\<forall>k c k'. getQueryData qc (removeQueries qc k c) k' = (if prefix k k' then None else getQueryData qc c k'))
   \<and> (\<forall>k c k'. getQueryData qc (invalidateQueries qc k c) k' = getQueryData qc c k')
   \<and> (\<forall>k c k'. isStale qc (invalidateQueries qc k c) k' = (isStale qc c k' \<or> prefix k k'))
   \<and> (\<forall>k c k'. getQueryData qc (invalidateExact qc k c) k' = getQueryData qc c k')
   \<and> (\<forall>k c k'. isStale qc (invalidateExact qc k c) k' = (isStale qc c k' \<or> k' = k))"

lemma client_simps:
  assumes "client_laws qc"
  shows "getQueryData qc (setQueryData qc k v c) k' = (if k' = k then Some v else getQueryData qc c k')"
    and "ensureQueryData qc q c = (case getQueryData qc c (queryKey q) of
          Some x \<Rightarrow> (Inr x, c)
        | None \<Rightarrow> (queryFn q, case queryFn q of Inl _ \<Rightarrow> c | Inr v \<Rightarrow> setQueryData qc (queryKey q) v c))"
    and "getQueryData qc (removeQueries qc k c) k' = (if prefix k k' then None else getQueryData qc c k')"
    and "getQueryData qc (invalidateQueries qc k c) k' = getQueryData qc c k'"
    and "isStale qc (invalidateQueries qc k c) k' = (isStale qc c k' \<or> prefix k k')"
    and "getQueryData qc (invalidateExact qc k c) k' = getQueryData qc c k'"
    and "isStale qc (invalidateExact qc k c) k' = (isStale qc c k' \<or> k' = k)"
  using assms unfolding client_laws_def by - (elim conjE, erule allE, blast)+

subsection \<open>The query context\<close>

text \<open>
  \<open>QueryClientProvider\<close> keeps the providers, those with a parameter turned into query
  functions by \<open>transform\<close>. A provider is what its promise settles to.
\<close>

definition transform :: "('p \<Rightarrow> answer) \<Rightarrow> 'p \<Rightarrow> answer" where
  "transform fn = (\<lambda>params. fn params)"

record query_context =
  ctx_getUser :: "json \<Rightarrow> answer"
  ctx_getBalance :: "json \<Rightarrow> answer"
  ctx_getPresetUsers :: answer
  ctx_getTransactions :: "json \<Rightarrow> answer"
  ctx_getInstruments :: "json \<Rightarrow> answer"
  ctx_getLatestPrices :: answer
  ctx_getInstrumentPrices :: "string \<Rightarrow> answer"
  ctx_getFeatureFlags :: answer
  ctx_getConfig :: answer
  ctx_getCreditCardStatus :: "json \<Rightarrow> answer"
  ctx_getCreditCardStatusHistory :: "json \<Rightarrow> answer"
  ctx_getVersions :: answer

definition QueryClientProvider :: "query_context \<Rightarrow> query_context" where
  "QueryClientProvider props = props\<lparr>
     ctx_getUser := transform (ctx_getUser props),
     ctx_getBalance := transform (ctx_getBalance props),
     ctx_getTransactions := transform (ctx_getTransactions props),
     ctx_getInstruments := transform (ctx_getInstruments props),
     ctx_getCreditCardStatus := transform (ctx_getCreditCardStatus props),
     ctx_getCreditCardStatusHistory := transform (ctx_getCreditCardStatusHistory props),
     ctx_getInstrumentPrices := transform (ctx_getInstrumentPrices props)\<rparr>"

subsection \<open>Loaders\<close>

text \<open>A loader is given the client, its provider and the parameter of the route.\<close>

definition userLoader :: "'c query_client \<Rightarrow> (json \<Rightarrow> answer) \<Rightarrow> json \<Rightarrow> 'c \<Rightarrow> answer \<times> 'c" where
  "userLoader qc userProvider userId = ensureQueryData qc (userQuery (transform userProvider userId))"

definition balanceLoader :: "'c query_client \<Rightarrow> (json \<Rightarrow> answer) \<Rightarrow> json \<Rightarrow> 'c \<Rightarrow> answer \<times> 'c" where
  "balanceLoader qc balanceProvider userId = ensureQueryData qc (balanceQuery (transform balanceProvider userId))"

definition presetUsersLoader :: "'c query_client \<Rightarrow> answer \<Rightarrow> 'c \<Rightarrow> answer \<times> 'c" where
  "presetUsersLoader qc usersProvider = ensureQueryData qc (presetUsersQuery usersProvider)"

definition transactionsLoader :: "'c query_client \<Rightarrow> (json \<Rightarrow> answer) \<Rightarrow> json \<Rightarrow> 'c \<Rightarrow> answer \<times> 'c" where
  "transactionsLoader qc transactionsProvider userId =
     ensureQueryData qc (transactionQuery userId (transform transactionsProvider userId))"

definition instrumentsLoader :: "'c query_client \<Rightarrow> (json \<Rightarrow> answer) \<Rightarrow> json \<Rightarrow> 'c \<Rightarrow> answer \<times> 'c" where
  "instrumentsLoader qc instrumentsProvider userId =
     ensureQueryData qc (instrumentsQuery (transform instrumentsProvider userId))"

definition latestPricesLoader :: "'c query_client \<Rightarrow> answer \<Rightarrow> 'c \<Rightarrow> answer \<times> 'c" where
  "latestPricesLoader qc pricesProvider = ensureQueryData qc (latestPricesQuery pricesProvider)"

definition instrumentPricesLoader :: "'c query_client \<Rightarrow> (string \<Rightarrow> answer) \<Rightarrow> string \<Rightarrow> 'c \<Rightarrow> answer \<times> 'c" where
  "instrumentPricesLoader qc pricesProvider instrumentId =
     ensureQueryData qc (instrumentPricesQuery instrumentId (transform pricesProvider instrumentId))"

definition creditCardStatusLoader :: "'c query_client \<Rightarrow> (json \<Rightarrow> answer) \<Rightarrow> json \<Rightarrow> 'c \<Rightarrow> answer \<times> 'c" where
  "creditCardStatusLoader qc creditCardStatusProvider userId =
     ensureQueryData qc (creditCardStatusQuery (transform creditCardStatusProvider userId))"

definition creditCardStatusHistoryLoader ::
  "'c query_client \<Rightarrow> (json \<Rightarrow> answer) \<Rightarrow> json \<Rightarrow> 'c \<Rightarrow> answer \<times> 'c" where
  "creditCardStatusHistoryLoader qc creditCardStatusHistoryProvider userId =
     ensureQueryData qc (creditCardStatusHistoryQuery (transform creditCardStatusHistoryProvider userId))"

definition featureFlagsLoader :: "'c query_client \<Rightarrow> answer \<Rightarrow> 'c \<Rightarrow> answer \<times> 'c" where
  "featureFlagsLoader qc provider = ensureQueryData qc (problemFlagsQuery provider)"

definition versionsLoader :: "'c query_client \<Rightarrow> answer \<Rightarrow> 'c \<Rightarrow> answer \<times> 'c" where
  "versionsLoader qc provider = ensureQueryData qc (versionsQuery provider)"

subsection \<open>Hooks\<close>

text \<open>The options a hook gives to \<open>useQuery\<close>: those of its query, and the data the route loaded.\<close>

record query_options = query_params +
  initialData :: "json option"

definition with_initial :: "query_params \<Rightarrow> json option \<Rightarrow> query_options" where
  "with_initial q d = query_params.extend q \<lparr>initialData = d\<rparr>"

definition useUserQuery :: "query_context \<Rightarrow> json \<Rightarrow> json option \<Rightarrow> query_options" where
  "useUserQuery ctx userId d = with_initial (userQuery (ctx_getUser ctx userId)) d"
definition useBalanceQuery :: "query_context \<Rightarrow> json \<Rightarrow> json option \<Rightarrow> query_options" where
  "useBalanceQuery ctx userId d = with_initial (balanceQuery (ctx_getBalance ctx userId)) d"
definition usePresetUsersQuery :: "query_context \<Rightarrow> json option \<Rightarrow> query_options" where
  "usePresetUsersQuery ctx d = with_initial (presetUsersQuery (ctx_getPresetUsers ctx)) d"
definition useTransactionQuery :: "query_context \<Rightarrow> json \<Rightarrow> json option \<Rightarrow> query_options" where
  "useTransactionQuery ctx userId d = with_initial (transactionQuery userId (ctx_getTransactions ctx userId)) d"
definition useInstrumentsQuery :: "query_context \<Rightarrow> json \<Rightarrow> json option \<Rightarrow> query_options" where
  "useInstrumentsQuery ctx userId d = with_initial (instrumentsQuery (ctx_getInstruments ctx userId)) d"
definition useLatestPricesQuery :: "query_context \<Rightarrow> json option \<Rightarrow> query_options" where
  "useLatestPricesQuery ctx d = with_initial (latestPricesQuery (ctx_getLatestPrices ctx)) d"
definition useInstrumentPricesQuery :: "query_context \<Rightarrow> string \<Rightarrow> json option \<Rightarrow> query_options" where
  "useInstrumentPricesQuery ctx instrumentId d =
     with_initial (instrumentPricesQuery instrumentId (ctx_getInstrumentPrices ctx instrumentId)) d"
definition useCreditCardOrderStatus :: "query_context \<Rightarrow> json \<Rightarrow> json option \<Rightarrow> query_options" where
  "useCreditCardOrderStatus ctx userId d = with_initial (creditCardStatusQuery (ctx_getCreditCardStatus ctx userId)) d"
definition useCreditCardOrderStatusHistory :: "query_context \<Rightarrow> json \<Rightarrow> json option \<Rightarrow> query_options" where
  "useCreditCardOrderStatusHistory ctx userId d =
     with_initial (creditCardStatusHistoryQuery (ctx_getCreditCardStatusHistory ctx userId)) d"
definition useProblemFlagsQuery :: "query_context \<Rightarrow> json option \<Rightarrow> query_options" where
  "useProblemFlagsQuery ctx d = with_initial (problemFlagsQuery (ctx_getFeatureFlags ctx)) d"
definition useConfigFlagsQuery :: "query_context \<Rightarrow> json option \<Rightarrow> query_options" where
  "useConfigFlagsQuery ctx d = with_initial (configFlagsQuery (ctx_getConfig ctx)) d"
definition useVersionsQuery :: "query_context \<Rightarrow> json option \<Rightarrow> query_options" where
  "useVersionsQuery ctx d = with_initial (versionsQuery (ctx_getVersions ctx)) d"

lemmas hook_defs = useUserQuery_def useBalanceQuery_def usePresetUsersQuery_def useTransactionQuery_def
  useInstrumentsQuery_def useLatestPricesQuery_def useInstrumentPricesQuery_def useCreditCardOrderStatus_def
  useCreditCardOrderStatusHistory_def useProblemFlagsQuery_def useConfigFlagsQuery_def useVersionsQuery_def

lemmas loader_defs = userLoader_def balanceLoader_def presetUsersLoader_def transactionsLoader_def
  instrumentsLoader_def latestPricesLoader_def instrumentPricesLoader_def creditCardStatusLoader_def
  creditCardStatusHistoryLoader_def featureFlagsLoader_def versionsLoader_def

subsection \<open>Invalidation\<close>

definition transactionInvalidateQuery :: "'c query_client \<Rightarrow> 'c \<Rightarrow> 'c" where
  "transactionInvalidateQuery qc c = invalidateQueries qc transactionKeys_all c"

definition quickTransactionInvalidateQuery :: "'c query_client \<Rightarrow> 'c \<Rightarrow> 'c" where
  "quickTransactionInvalidateQuery qc c =
     invalidateQueries qc instrumentKeys_all (invalidateQueries qc balanceKeys_current c)"

definition balanceInvalidateQuery :: "'c query_client \<Rightarrow> 'c \<Rightarrow> 'c" where
  "balanceInvalidateQuery qc c = invalidateQueries qc balanceKeys_current c"

definition newCardOrderInvalidateQuery :: "'c query_client \<Rightarrow> 'c \<Rightarrow> 'c" where
  "newCardOrderInvalidateQuery qc c = invalidateQueries qc creditCardKeys_status c"

definition deleteCardInvalidateQuery :: "'c query_client \<Rightarrow> 'c \<Rightarrow> 'c" where
  "deleteCardInvalidateQuery qc c = invalidateQueries qc creditCardKeys_status c"

definition logoutInvalidateQuery :: "'c query_client \<Rightarrow> 'c \<Rightarrow> 'c" where
  "logoutInvalidateQuery qc c =
     (let c1 = removeQueries qc transactionKeys_all c;
          c2 = removeQueries qc instrumentKeys_all c1;
          c3 = removeQueries qc userKeys_current c2;
          c4 = removeQueries qc balanceKeys_current c3
      in removeQueries qc creditCardKeys_all c4)"

subsection \<open>Logging out\<close>

text \<open>
  The mutation of the user panel: the session's logout handler, and when its result has no
  error the removal of the queries. \<open>reply\<close> is what the logout request resolved to.
\<close>

definition UserPanel_logout :: "'c query_client \<Rightarrow> js_exn + jsval \<Rightarrow> json \<times> 'c \<Rightarrow> json \<times> 'c" where
  "UserPanel_logout qc reply s =
     (case AuthProvider_logout localStore_set reply (fst s) of
        Inl _ \<Rightarrow> s
      | Inr (u, res) \<Rightarrow>
          (u, if js_prop (Some res) ''error'' = Inr None then logoutInvalidateQuery qc (snd s) else snd s))"

subsection \<open>Removal\<close>

text \<open>The keys whose data belong to a user.\<close>

definition user_key :: "query_key \<Rightarrow> bool" where
  "user_key k \<longleftrightarrow> prefix transactionKeys_all k \<or> prefix instrumentKeys_all k \<or> prefix userKeys_current k
     \<or> prefix balanceKeys_current k \<or> prefix creditCardKeys_all k"

definition shared_keys :: "string \<Rightarrow> query_key list" where
  "shared_keys i = [userKeys_preset, priceKeys_latest, priceKeys_byInstrument i, featureFlagKeys_problemPatterns,
     featureFlagKeys_config, versionKeys_all]"

lemma user_key_simps [simp]:
  "user_key userKeys_current" "user_key balanceKeys_current" "user_key transactionKeys_all"
  "user_key instrumentKeys_all" "user_key creditCardKeys_status" "user_key creditCardKeys_history"
  "\<not> user_key userKeys_preset" "\<not> user_key priceKeys_latest" "\<not> user_key (priceKeys_byInstrument i)"
  "\<not> user_key featureFlagKeys_problemPatterns" "\<not> user_key featureFlagKeys_config"
  "\<not> user_key versionKeys_all"
  by (simp_all add: user_key_def key_defs)

lemma instrument_price_key_clash: "priceKeys_byInstrument ''latest'' = priceKeys_latest"
  by (simp add: key_defs)

lemma removed_on_logout:
  assumes "client_laws qc"
  shows "getQueryData qc (logoutInvalidateQuery qc c) k = (if user_key k then None else getQueryData qc c k)"
  by (simp add: logoutInvalidateQuery_def client_simps [OF assms] user_key_def)

definition invalidations :: "('c query_client \<Rightarrow> 'c \<Rightarrow> 'c) set" where
  "invalidations = {transactionInvalidateQuery, quickTransactionInvalidateQuery, balanceInvalidateQuery,
     newCardOrderInvalidateQuery, deleteCardInvalidateQuery}"

lemma invalidation_keeps_data:
  assumes "client_laws qc"
    and "f \<in> invalidations"
  shows "getQueryData qc (f qc c) k = getQueryData qc c k"
  using assms(2)
  by (auto simp: invalidations_def client_simps [OF assms(1)] transactionInvalidateQuery_def quickTransactionInvalidateQuery_def
      balanceInvalidateQuery_def newCardOrderInvalidateQuery_def deleteCardInvalidateQuery_def)

subsection \<open>The life of the cache\<close>

text \<open>
  The user in React's state together with the cache. \<open>owned u k v\<close>: \<open>v\<close> is an answer to the
  query \<open>k\<close> for the user \<open>u\<close>; a provider given a user returns what that user owns.
\<close>

type_synonym 'c app = "json \<times> 'c"
type_synonym ownership = "json \<Rightarrow> query_key \<Rightarrow> json \<Rightarrow> bool"

definition user_loaders :: "'c query_client \<Rightarrow> (query_key \<times> ((json \<Rightarrow> answer) \<Rightarrow> json \<Rightarrow> 'c \<Rightarrow> answer \<times> 'c)) list" where
  "user_loaders qc =
     [(userKeys_current, userLoader qc), (balanceKeys_current, balanceLoader qc),
      (transactionKeys_all, transactionsLoader qc), (instrumentKeys_all, instrumentsLoader qc),
      (creditCardKeys_status, creditCardStatusLoader qc),
      (creditCardKeys_history, creditCardStatusHistoryLoader qc)]"

definition shared_loaders :: "'c query_client \<Rightarrow> answer \<Rightarrow> ('c \<Rightarrow> answer \<times> 'c) set" where
  "shared_loaders qc v =
     {presetUsersLoader qc v, latestPricesLoader qc v, featureFlagsLoader qc v, versionsLoader qc v}
     \<union> range (instrumentPricesLoader qc (\<lambda>_. v))"

text \<open>A reply of the logout service that does not both acknowledge and fail.\<close>

definition one_sided :: "js_exn + jsval \<Rightarrow> bool" where
  "one_sided reply \<longleftrightarrow>
     \<not> (\<exists>v m e. reply = Inr v \<and> js_prop v ''message'' = Inr (Some m) \<and> js_prop v ''error'' = Inr (Some e))"

inductive app_step :: "'c query_client \<Rightarrow> ownership \<Rightarrow> 'c app \<Rightarrow> 'c app \<Rightarrow> bool" for qc owned where
  log_in: "AuthProvider_login localStore_set reply JNull = Inr (u, res) \<Longrightarrow> app_step qc owned (JNull, c) (u, c)"
| default_log_in: "app_step qc owned (JNull, c) (AuthProvider_defaultLogin localStore_set i JNull, c)"
| user_load: "(k, loader) \<in> set (user_loaders qc) \<Longrightarrow> \<forall>w v. provider w = Inr v \<longrightarrow> owned w k v \<Longrightarrow>
     loadWithUser u (loader provider) = Loaded run \<Longrightarrow> app_step qc owned (u, c) (u, snd (run c))"
| user_fetch: "u \<noteq> JNull \<Longrightarrow> owned u k v \<Longrightarrow> app_step qc owned (u, c) (u, setQueryData qc k v c)"
| shared_load: "run \<in> shared_loaders qc v \<Longrightarrow> app_step qc owned (u, c) (u, snd (run c))"
| shared_fetch: "\<not> user_key k \<Longrightarrow> app_step qc owned (u, c) (u, setQueryData qc k v c)"
| invalidate: "f \<in> invalidations \<Longrightarrow> app_step qc owned (u, c) (u, f qc c)"
| log_out: "one_sided reply \<Longrightarrow> app_step qc owned s (UserPanel_logout qc reply s)"

definition private_cache :: "'c query_client \<Rightarrow> ownership \<Rightarrow> 'c app \<Rightarrow> bool" where
  "private_cache qc owned s \<longleftrightarrow>
     (\<forall>k v. user_key k \<and> getQueryData qc (snd s) k = Some v \<longrightarrow> fst s \<noteq> JNull \<and> owned (fst s) k v)"

lemma private_cacheD:
  "private_cache qc owned (u, c) \<Longrightarrow> user_key k \<Longrightarrow> getQueryData qc c k = Some v \<Longrightarrow> u \<noteq> JNull \<and> owned u k v"
  by (simp add: private_cache_def)

lemma private_cache_same:
  assumes "private_cache qc owned (u, c)"
    and "\<And>k. user_key k \<Longrightarrow> getQueryData qc c' k = getQueryData qc c k"
  shows "private_cache qc owned (u, c')"
  using assms unfolding private_cache_def fst_conv snd_conv by metis

lemma private_cache_anonymous:
  assumes "private_cache qc owned (JNull, c)"
  shows "private_cache qc owned (u, c)"
  using assms by (auto simp: private_cache_def)

text \<open>A loader under a key is \<open>ensureQueryData\<close> of that key.\<close>

lemma user_loader_run:
  assumes "(k, loader) \<in> set (user_loaders qc)"
  shows "loader p u = ensureQueryData qc \<lparr>queryKey = k, queryFn = p u\<rparr>"
  using assms
  by (auto simp: query_defs transform_def user_loaders_def userLoader_def balanceLoader_def transactionsLoader_def instrumentsLoader_def
      creditCardStatusLoader_def creditCardStatusHistoryLoader_def)

lemma shared_loader_run:
  assumes "run \<in> shared_loaders qc v"
  obtains k where "run = ensureQueryData qc \<lparr>queryKey = k, queryFn = v\<rparr>" "\<not> user_key k"
  using assms
  by (auto simp: query_defs transform_def shared_loaders_def presetUsersLoader_def latestPricesLoader_def featureFlagsLoader_def
      versionsLoader_def instrumentPricesLoader_def)

lemma private_ensure:
  assumes "client_laws qc" "private_cache qc owned (u, c)" "\<And>v. user_key k \<Longrightarrow> r = Inr v \<Longrightarrow> u \<noteq> JNull \<and> owned u k v"
  shows "private_cache qc owned (u, snd (ensureQueryData qc \<lparr>queryKey = k, queryFn = r\<rparr> c))"
  using assms(2,3)
  by (auto simp: private_cache_def client_simps [OF assms(1)] split: option.splits sum.splits if_splits)

lemma private_set:
  assumes "client_laws qc" "private_cache qc owned (u, c)" "user_key k \<Longrightarrow> u \<noteq> JNull \<and> owned u k v"
  shows "private_cache qc owned (u, setQueryData qc k v c)"
  using assms(2,3) by (auto simp: private_cache_def client_simps [OF assms(1)] split: if_splits)

lemma private_logout:
  assumes laws: "client_laws qc" and "private_cache qc owned s" "one_sided reply"
  shows "private_cache qc owned (UserPanel_logout qc reply s)"
proof -
  have gone: "private_cache qc owned (u, logoutInvalidateQuery qc c)" for u c
    by (simp add: private_cache_def removed_on_logout [OF laws])
  show ?thesis
    using assms(2,3) gone
    by (cases s)
       (auto simp: UserPanel_logout_def AuthProvider_logout_def attempt_def localStore_set_def one_sided_def
         js_obj_def map_filter_simps split: sum.splits option.splits)
qed

lemma private_step:
  assumes laws: "client_laws qc" and "app_step qc owned s s'" "private_cache qc owned s"
  shows "private_cache qc owned s'"
  using assms(2,3)
proof (induction rule: app_step.induct)
  case (user_load k loader provider u run c)
  then have "u \<noteq> JNull" "run = ensureQueryData qc \<lparr>queryKey = k, queryFn = provider u\<rparr>"
    by (auto simp: loadWithUser_def user_loader_run split: if_splits)
  with user_load show ?case by (auto intro: private_ensure [OF laws])
next
  case (shared_load run v u c)
  from shared_loader_run [OF shared_load(1)] obtain k
    where "run = ensureQueryData qc \<lparr>queryKey = k, queryFn = v\<rparr>" "\<not> user_key k" .
  with shared_load show ?case by (auto intro: private_ensure [OF laws])
next
  case (invalidate f u c)
  then show ?case by (intro private_cache_same [OF invalidate(2)] invalidation_keeps_data [OF laws])
qed (auto intro: private_cache_anonymous private_set [OF laws] private_logout [OF laws])

subsection \<open>A client\<close>

text \<open>The simplest client with the laws: the data by key, and what has been invalidated since.\<close>

type_synonym map_cache = "(query_key \<Rightarrow> json option) \<times> (query_key \<Rightarrow> bool)"

definition map_client :: "map_cache query_client" where
  "map_client = \<lparr>
     getQueryData = fst,
     setQueryData = (\<lambda>k v (m, st). (m(k := Some v), st)),
     ensureQueryData = (\<lambda>q (m, st). (case m (queryKey q) of
        Some x \<Rightarrow> (Inr x, (m, st))
      | None \<Rightarrow> (queryFn q, case queryFn q of Inl _ \<Rightarrow> (m, st) | Inr v \<Rightarrow> (m(queryKey q := Some v), st)))),
     removeQueries = (\<lambda>k (m, st). ((\<lambda>k'. if prefix k k' then None else m k'), st)),
     invalidateQueries = (\<lambda>k (m, st). (m, \<lambda>k'. st k' \<or> prefix k k')),
     invalidateExact = (\<lambda>k (m, st). (m, \<lambda>k'. st k' \<or> k' = k)),
     isStale = (\<lambda>(m, st) k'. st k')\<rparr>"

lemma map_client_laws: "client_laws map_client"
  unfolding client_laws_def
  by (auto simp: map_client_def split: option.splits sum.splits)

subsection \<open>Properties\<close>

text \<open>
  What a page shows is what its route loaded: for every datum that has both, the hook asks
  the client for the same key and with the same query function as the loader.
\<close>

lemma hooks_share_entries:
  fixes props :: query_context
  defines "ctx \<equiv> QueryClientProvider props"
  shows "userLoader qc (ctx_getUser props) u = ensureQueryData qc (query_params.truncate (useUserQuery ctx u d))"
    and "balanceLoader qc (ctx_getBalance props) u = ensureQueryData qc (query_params.truncate (useBalanceQuery ctx u d))"
    and "transactionsLoader qc (ctx_getTransactions props) u
       = ensureQueryData qc (query_params.truncate (useTransactionQuery ctx u d))"
    and "instrumentsLoader qc (ctx_getInstruments props) u
       = ensureQueryData qc (query_params.truncate (useInstrumentsQuery ctx u d))"
    and "creditCardStatusLoader qc (ctx_getCreditCardStatus props) u
       = ensureQueryData qc (query_params.truncate (useCreditCardOrderStatus ctx u d))"
    and "creditCardStatusHistoryLoader qc (ctx_getCreditCardStatusHistory props) u
       = ensureQueryData qc (query_params.truncate (useCreditCardOrderStatusHistory ctx u d))"
    and "instrumentPricesLoader qc (ctx_getInstrumentPrices props) i
       = ensureQueryData qc (query_params.truncate (useInstrumentPricesQuery ctx i d))"
    and "presetUsersLoader qc (ctx_getPresetUsers props) = ensureQueryData qc (query_params.truncate (usePresetUsersQuery ctx d))"
    and "latestPricesLoader qc (ctx_getLatestPrices props)
       = ensureQueryData qc (query_params.truncate (useLatestPricesQuery ctx d))"
    and "featureFlagsLoader qc (ctx_getFeatureFlags props)
       = ensureQueryData qc (query_params.truncate (useProblemFlagsQuery ctx d))"
    and "versionsLoader qc (ctx_getVersions props) = ensureQueryData qc (query_params.truncate (useVersionsQuery ctx d))"
  by (simp_all add: ctx_def loader_defs hook_defs query_defs QueryClientProvider_def transform_def
      with_initial_def query_params.defs)

text \<open>
  C1: as long as the logout service never both acknowledges and fails, whatever sequence of
  logins, loads, background fetches, invalidations and logouts the application goes through,
  every cached datum of a user belongs to the user who is logged in, and none is cached when
  nobody is.
\<close>

theorem cache_is_private:
  assumes "client_laws qc" and "(app_step qc owned)\<^sup>*\<^sup>* (JNull, c) (u, c')"
    and "\<forall>k. user_key k \<longrightarrow> getQueryData qc c k = None"
  shows "\<forall>k v. user_key k \<and> getQueryData qc c' k = Some v \<longrightarrow> u \<noteq> JNull \<and> owned u k v"
proof -
  have "private_cache qc owned (u, c')"
    using assms(2)
  proof (induction rule: rtranclp_induct2)
    case refl
    then show ?case using assms(3) by (auto simp: private_cache_def)
  next
    case (step u1 c1 u2 c2)
    then show ?case using private_step [OF assms(1)] by blast
  qed
  then show ?thesis by (simp add: private_cache_def)
qed

definition sample_cache :: map_cache where
  "sample_cache = ([versionKeys_all \<mapsto> JArr [], balanceKeys_current \<mapsto> JArr [JStr ''1'']], \<lambda>_. False)"

definition sample_owner :: ownership where
  "sample_owner u k v \<longleftrightarrow> v = JArr [u]"

definition sample_run :: "map_cache app" where
  "sample_run =
     (let c1 = snd (balanceLoader map_client (\<lambda>u. Inr (JArr [u])) (JStr ''1'') (Map.empty, \<lambda>_. False))
      in UserPanel_logout map_client (Inr (Some (JObj [(''message'', JStr ''ok'')]))) (JStr ''1'', c1))"

lemma sample_steps: "(app_step map_client sample_owner)\<^sup>*\<^sup>* (JNull, (Map.empty, \<lambda>_. False)) sample_run"
proof -
  let ?c = "(Map.empty, \<lambda>_. False) :: map_cache" and ?p = "\<lambda>u. Inr (JArr [u]) :: answer"
  have "app_step map_client sample_owner (JNull, ?c) (AuthProvider_defaultLogin localStore_set ''1'' JNull, ?c)"
    by (rule default_log_in)
  then have s1: "app_step map_client sample_owner (JNull, ?c) (JStr ''1'', ?c)"
    by (simp add: AuthProvider_defaultLogin_def localStore_set_def)
  have s2: "app_step map_client sample_owner (JStr ''1'', ?c)
      (JStr ''1'', snd (balanceLoader map_client ?p (JStr ''1'') ?c))"
    by (rule user_load [where k = balanceKeys_current and loader = "balanceLoader map_client" and provider = ?p])
       (simp_all add: user_loaders_def sample_owner_def loadWithUser_def)
  have s3: "app_step map_client sample_owner
      (JStr ''1'', snd (balanceLoader map_client ?p (JStr ''1'') ?c)) sample_run"
    unfolding sample_run_def Let_def by (rule log_out) (simp add: one_sided_def)
  note converse_rtranclp_into_rtranclp [where r = "app_step map_client sample_owner"]
  from this [OF s2 this [OF s3 rtranclp.rtrancl_refl]] show ?thesis
    by (rule converse_rtranclp_into_rtranclp [where r = "app_step map_client sample_owner", OF s1])
qed

theorem cache_is_private_witness:
  "getQueryData map_client (snd (balanceLoader map_client (\<lambda>u. Inr (JArr [u])) (JStr ''1'') (Map.empty, \<lambda>_. False)))
     balanceKeys_current = Some (JArr [JStr ''1''])
   \<and> fst sample_run = JNull
   \<and> getQueryData map_client (snd sample_run) balanceKeys_current = None"
proof (intro conjI)
  have s: "sample_run = (JNull, snd sample_run)"
    by (simp add: sample_run_def Let_def UserPanel_logout_def AuthProvider_logout_def attempt_def
        localStore_set_def js_obj_def map_filter_simps)
  have "user_key k \<Longrightarrow> getQueryData map_client (snd sample_run) k \<noteq> Some v" for k v
    using cache_is_private [OF map_client_laws, of sample_owner "(Map.empty, \<lambda>_. False)" JNull "snd sample_run"]
      sample_steps s by (simp add: map_client_def)
  then show "getQueryData map_client (snd sample_run) balanceKeys_current = None"
    using user_key_simps(2) by (metis option.exhaust)
  show "fst sample_run = JNull" using s by (metis fst_conv)
qed (simp add: map_client_def balanceLoader_def balanceQuery_def transform_def)

text \<open>
  C32: an acknowledged logout ends the session and removes exactly the data of the user: the
  transactions, the instruments, the user, the balance and the status and history of the
  card. What users share stays as it was. A refused logout changes nothing.
\<close>

theorem logout_removes_user_data:
  assumes "client_laws qc"
  shows "UserPanel_logout qc (Inr (Some (JObj [(''error'', m)]))) (u, c) = (u, c)
   \<and> (\<exists>c'. UserPanel_logout qc (Inr (Some (JObj [(''message'', m)]))) (u, c) = (JNull, c')
        \<and> map (getQueryData qc c') [transactionKeys_all, instrumentKeys_all, userKeys_current,
              balanceKeys_current, creditCardKeys_status, creditCardKeys_history] = replicate 6 None
        \<and> map (getQueryData qc c') (shared_keys i) = map (getQueryData qc c) (shared_keys i))"
  by (auto simp: removed_on_logout [OF assms] UserPanel_logout_def AuthProvider_logout_def attempt_def
      localStore_set_def js_obj_def map_filter_simps shared_keys_def numeral_eq_Suc)

theorem logout_removes_user_data_witness:
  "\<exists>c'. UserPanel_logout map_client (Inr (Some (JObj [(''message'', JNull)]))) (JStr ''1'', sample_cache) = (JNull, c')
     \<and> getQueryData map_client c' balanceKeys_current = None
     \<and> getQueryData map_client c' versionKeys_all = Some (JArr [])"
proof -
  obtain c' where c': "UserPanel_logout map_client (Inr (Some (JObj [(''message'', JNull)]))) (JStr ''1'', sample_cache)
        = (JNull, c')"
      "map (getQueryData map_client c') [transactionKeys_all, instrumentKeys_all, userKeys_current,
              balanceKeys_current, creditCardKeys_status, creditCardKeys_history] = replicate 6 None"
      "map (getQueryData map_client c') (shared_keys []) = map (getQueryData map_client sample_cache) (shared_keys [])"
    using logout_removes_user_data [OF map_client_laws] by blast
  have "getQueryData map_client sample_cache versionKeys_all = Some (JArr [])"
    by (simp add: map_client_def sample_cache_def key_defs)
  with c' show ?thesis by (intro exI [of _ c']) (simp add: numeral_eq_Suc shared_keys_def)
qed

text \<open>
  After a change of the balance or the holdings the cached data of the user stay readable
  but are stale, so that the next use fetches them again: a quick trade makes the balance and
  the instruments stale, a deposit or withdrawal the balance, an order or revocation of a card
  its status and history, a trade the transactions; no other key becomes stale.
\<close>

lemma invalidation_marks_stale:
  assumes "client_laws qc"
  shows "isStale qc (quickTransactionInvalidateQuery qc c) k
           = (isStale qc c k \<or> prefix balanceKeys_current k \<or> prefix instrumentKeys_all k)
   \<and> isStale qc (balanceInvalidateQuery qc c) k = (isStale qc c k \<or> prefix balanceKeys_current k)
   \<and> isStale qc (transactionInvalidateQuery qc c) k = (isStale qc c k \<or> prefix transactionKeys_all k)
   \<and> isStale qc (newCardOrderInvalidateQuery qc c) creditCardKeys_status
   \<and> isStale qc (newCardOrderInvalidateQuery qc c) creditCardKeys_history
   \<and> isStale qc (deleteCardInvalidateQuery qc c) creditCardKeys_status
   \<and> isStale qc (deleteCardInvalidateQuery qc c) creditCardKeys_history
   \<and> (\<forall>f \<in> invalidations. getQueryData qc (f qc c) k = getQueryData qc c k)"
proof (intro conjI ballI)
  fix f :: "'a query_client \<Rightarrow> 'a \<Rightarrow> 'a" assume "f \<in> invalidations"
  then show "getQueryData qc (f qc c) k = getQueryData qc c k" by (rule invalidation_keeps_data [OF assms])
qed (auto simp: client_simps [OF assms] quickTransactionInvalidateQuery_def balanceInvalidateQuery_def
      newCardOrderInvalidateQuery_def deleteCardInvalidateQuery_def transactionInvalidateQuery_def key_defs)

end
