(* ===== verification/Frontend_Status.thy ===== *)
theory Frontend_Status
  imports Frontend_Queries
begin

section \<open>Frontend: status messages, mutations and forms\<close>

text \<open>
  What the forms share: \<open>hooks/useStatusDisplay.ts\<close> and \<open>components/StatusDisplay.tsx\<close>; a
  mutation, whose callbacks the query library runs around its function; a form, whose data
  the resolver checks before the mutation sees them; and the parsers of \<open>zod\<close> for numbers.
\<close>

subsection \<open>useStatusDisplay\<close>

text \<open>
  The states hold what the setters are given: a text, another value that was thrown, or an
  exception object.
\<close>

datatype message = Msg json | Exn js_exn

abbreviation no_msg :: message where "no_msg \<equiv> Msg (JStr [])"

record status_display =
  successMsg :: message
  errorMsg :: message

definition setSuccess :: "message \<Rightarrow> status_display \<Rightarrow> status_display" where
  "setSuccess msg s = s\<lparr>successMsg := msg, errorMsg := no_msg\<rparr>"

definition setError :: "message \<Rightarrow> status_display \<Rightarrow> status_display" where
  "setError msg s = s\<lparr>successMsg := no_msg, errorMsg := msg\<rparr>"

definition resetStatus :: "status_display \<Rightarrow> status_display" where
  "resetStatus s = setError no_msg (setSuccess no_msg s)"

definition isError :: "status_display \<Rightarrow> bool" where
  "isError s \<longleftrightarrow> errorMsg s \<noteq> no_msg"

definition isSuccess :: "status_display \<Rightarrow> bool" where
  "isSuccess s \<longleftrightarrow> successMsg s \<noteq> no_msg"

definition hasMsg :: "status_display \<Rightarrow> bool" where
  "hasMsg s \<longleftrightarrow> errorMsg s \<noteq> no_msg \<or> successMsg s \<noteq> no_msg"

definition useStatusDisplay :: status_display where
  "useStatusDisplay = \<lparr>successMsg = no_msg, errorMsg = no_msg\<rparr>"

datatype severity = ErrorAlert | SuccessAlert

text \<open>The alerts that are faded in.\<close>

definition StatusDisplay :: "status_display \<Rightarrow> (severity \<times> message) list" where
  "StatusDisplay s =
     (if isError s then [(ErrorAlert, errorMsg s)] else [])
     @ (if isSuccess s then [(SuccessAlert, successMsg s)] else [])"

lemmas status_defs = setSuccess_def setError_def resetStatus_def isError_def isSuccess_def hasMsg_def
  StatusDisplay_def useStatusDisplay_def

datatype status_action = SetSuccess message | SetError message | ResetStatus

fun status_step :: "status_action \<Rightarrow> status_display \<Rightarrow> status_display" where
  "status_step (SetSuccess m) = setSuccess m"
| "status_step (SetError m) = setError m"
| "status_step ResetStatus = resetStatus"

fun alert_of :: "status_action \<Rightarrow> (severity \<times> message) list" where
  "alert_of (SetSuccess m) = (if m = no_msg then [] else [(SuccessAlert, m)])"
| "alert_of (SetError m) = (if m = no_msg then [] else [(ErrorAlert, m)])"
| "alert_of ResetStatus = []"

lemma status_step_shows: "StatusDisplay (status_step a s) = alert_of a"
  by (cases a) (simp_all add: status_defs)

lemma hasMsg_iff: "hasMsg s \<longleftrightarrow> StatusDisplay s \<noteq> []"
  by (simp add: status_defs)

subsection \<open>Mutations\<close>

text \<open>
  \<open>useMutation\<close>: \<open>mutate\<close> runs \<open>onMutate\<close>, then the function, then \<open>onSuccess\<close> with its result
  or \<open>onError\<close> with what it threw. A function ends with a result (\<open>Inr (Inr r)\<close>), throws a value
  (\<open>Inr (Inl v)\<close>) or raises an exception (\<open>Inl e\<close>).
\<close>

record ('d, 'r, 's) mutation =
  mutationFn :: "'d \<Rightarrow> (fe_event, json + 'r) act"
  onMutate :: "'s \<Rightarrow> 's"
  onSuccess :: "'r \<Rightarrow> 's \<Rightarrow> 's"
  onError :: "message \<Rightarrow> 's \<Rightarrow> 's"

definition mutate :: "('d, 'r, 's) mutation \<Rightarrow> 'd \<Rightarrow> 's \<Rightarrow> fe_event list \<Rightarrow> 's \<times> fe_event list" where
  "mutate m d s l =
     (let s1 = onMutate m s in
      case mutationFn m d l of
        (Inl e, l') \<Rightarrow> (onError m (Exn e) s1, l')
      | (Inr (Inl v), l') \<Rightarrow> (onError m (Msg v) s1, l')
      | (Inr (Inr r), l') \<Rightarrow> (onSuccess m r s1, l'))"

text \<open>\<open>const { error } = response; if (error !== undefined) throw error\<close>\<close>

definition throw_error :: "jsval \<Rightarrow> (fe_event, json + unit) act" where
  "throw_error response =
     act_bind (act_of (js_prop response ''error'')) (\<lambda>e.
       act_return (case e of Some x \<Rightarrow> Inl x | None \<Rightarrow> Inr ()))"

subsection \<open>Forms\<close>

text \<open>
  A form has its values, its status and the query cache of the application. A subscriber of
  \<open>watch\<close> is called with the type of the change: \<open>change\<close> for an edit by the user, no type
  for \<open>setValue\<close> and \<open>reset\<close>. Which notifications a \<open>reset()\<close> sends is the form library's: a
  list, a parameter of the forms that reset.
\<close>

record ('v, 'c) form =
  vals :: 'v
  status :: status_display
  cache :: 'c

datatype change = Change | Untyped

definition with_status :: "(status_display \<Rightarrow> status_display) \<Rightarrow> ('v, 'c) form \<Rightarrow> ('v, 'c) form" where
  "with_status f s = s\<lparr>status := f (status s)\<rparr>"

definition with_cache :: "('c \<Rightarrow> 'c) \<Rightarrow> ('v, 'c) form \<Rightarrow> ('v, 'c) form" where
  "with_cache f s = s\<lparr>cache := f (cache s)\<rparr>"

text \<open>The two subscribers: one resets on every change, the other on the user's edits only.\<close>

definition watch_all :: "change \<Rightarrow> ('v, 'c) form \<Rightarrow> ('v, 'c) form" where
  "watch_all type s = with_status resetStatus s"

definition watch_change :: "change \<Rightarrow> ('v, 'c) form \<Rightarrow> ('v, 'c) form" where
  "watch_change type s = (if type = Change then with_status resetStatus s else s)"

definition reset_form ::
  "(change \<Rightarrow> ('v, 'c) form \<Rightarrow> ('v, 'c) form) \<Rightarrow> change list \<Rightarrow> 'v \<Rightarrow> ('v, 'c) form \<Rightarrow> ('v, 'c) form" where
  "reset_form watcher events defaults s = fold watcher events (s\<lparr>vals := defaults\<rparr>)"

text \<open>\<open>FormContainer\<close>: the data go to \<open>mutate\<close> when the resolver accepts them.\<close>

definition submit ::
  "('v \<Rightarrow> 'd option) \<Rightarrow> ('d, 'r, ('v, 'c) form) mutation \<Rightarrow> ('v, 'c) form \<Rightarrow> fe_event list
    \<Rightarrow> ('v, 'c) form \<times> fe_event list" where
  "submit resolver m s l = (case resolver (vals s) of None \<Rightarrow> (s, l) | Some d \<Rightarrow> mutate m d s l)"

lemmas form_defs = with_status_def with_cache_def watch_all_def watch_change_def reset_form_def

lemma watch_change_untyped: "Change \<notin> set events \<Longrightarrow> fold watch_change events s = s"
  by (induction events) (auto simp: watch_change_def)

lemma success_shows: "msg \<noteq> [] \<Longrightarrow> StatusDisplay (setSuccess (Msg (JStr msg)) s) = [(SuccessAlert, Msg (JStr msg))]"
  by (simp add: status_defs)

lemma watch_all_status: "StatusDisplay (status (fold watch_all events s))
    = (if events = [] then StatusDisplay (status s) else [])"
  by (induction events arbitrary: s) (auto simp: watch_all_def with_status_def status_defs)

lemma watch_all_rest: "vals (fold watch_all events s) = vals s" "cache (fold watch_all events s) = cache s"
  by (induction events arbitrary: s) (simp_all add: watch_all_def with_status_def)

subsection \<open>Schemas\<close>

text \<open>An issue is the path of the field and the message shown there.\<close>

type_synonym issue = "string \<times> string"

definition check :: "string \<Rightarrow> string \<Rightarrow> bool \<Rightarrow> issue list" where
  "check path msg ok = (if ok then [] else [(path, msg)])"

definition zod_number :: "jsval \<Rightarrow> jsnum option" where
  "zod_number v = (case v of Some (JNum (Fin x)) \<Rightarrow> Some (Fin x) | _ \<Rightarrow> None)"

text \<open>\<open>z.coerce.number()\<close> converts with \<open>Number(v)\<close> first.\<close>

fun js_ToNumber :: "jsval \<Rightarrow> jsnum" where
  "js_ToNumber None = NaN"
| "js_ToNumber (Some JNull) = Fin 0"
| "js_ToNumber (Some (JBool b)) = Fin (if b then 1 else 0)"
| "js_ToNumber (Some (JNum n)) = n"
| "js_ToNumber (Some v) = js_Number (js_String v)"

definition zod_coerce_number :: "jsval \<Rightarrow> jsnum option" where
  "zod_coerce_number v = zod_number (Some (JNum (js_ToNumber v)))"

definition positive_issues :: "string \<Rightarrow> string \<Rightarrow> string \<Rightarrow> jsnum option \<Rightarrow> issue list" where
  "positive_issues path required positive v =
     (case v of None \<Rightarrow> [(path, required)] | Some n \<Rightarrow> check path positive (js_lt (Fin 0) n))"

definition number_issues :: "string \<Rightarrow> string \<Rightarrow> jsnum option \<Rightarrow> issue list" where
  "number_issues path required v = check path required (v \<noteq> None)"

definition nonempty_issues :: "string \<Rightarrow> string \<Rightarrow> string \<Rightarrow> issue list" where
  "nonempty_issues path msg s = check path msg (1 \<le> length s)"

lemma check_Nil [simp]: "check path msg ok = [] \<longleftrightarrow> ok"
  by (simp add: check_def)

lemma zod_number_Fin [simp]: "zod_number (Some (JNum (Fin x))) = Some (Fin x)"
  by (simp add: zod_number_def)

lemma zod_number_Some: "zod_number v = Some n \<longleftrightarrow> (\<exists>x. v = Some (JNum (Fin x)) \<and> n = Fin x)"
  by (auto simp: zod_number_def split: option.splits json.splits jsnum.splits)

lemma zod_coerce_number_Some: "zod_coerce_number v = Some n \<longleftrightarrow> (\<exists>x. js_ToNumber v = Fin x \<and> n = Fin x)"
  by (simp add: zod_coerce_number_def zod_number_Some)

lemma issues_Nil [simp]:
  "positive_issues path r p v = [] \<longleftrightarrow> (\<exists>n. v = Some n \<and> js_lt (Fin 0) n)"
  "number_issues path r v = [] \<longleftrightarrow> (\<exists>n. v = Some n)"
  "nonempty_issues path r t = [] \<longleftrightarrow> t \<noteq> []"
  by (cases v) (auto simp: positive_issues_def number_issues_def nonempty_issues_def Suc_le_eq)

subsection \<open>The interface of a form and its handler\<close>

text \<open>
  A form relies on its handler to resolve, to an empty result or to an error text. Then a
  mutation that throws that error ends in exactly one of its callbacks.
\<close>

definition void_mutation :: "('d \<Rightarrow> json fe_act) \<Rightarrow> ('d, unit, 's) mutation \<Rightarrow> bool" where
  "void_mutation handler m \<longleftrightarrow> mutationFn m = (\<lambda>d. act_bind (handler d) (\<lambda>r. throw_error (Some r)))"

text \<open>The log of a submit is the log of the handler's call.\<close>

lemma submit_log:
  assumes "void_mutation h m"
  shows "snd (submit resolver m s l) = (case resolver (vals s) of None \<Rightarrow> l | Some d \<Rightarrow> snd (h d l))"
  using assms
  by (auto simp: submit_def mutate_def void_mutation_def throw_error_def act_simps Let_def
      split: option.splits sum.splits prod.splits)

locale form_handler =
  fixes handler :: "window \<Rightarrow> 'd \<Rightarrow> json fe_act"
    and ready :: "window \<Rightarrow> bool"
  assumes answers: "ready w \<Longrightarrow> \<exists>v l'. handler w d l = (Inr v, l')
     \<and> (v = JObj [] \<or> (\<exists>msg. msg \<noteq> [] \<and> v = error_result msg))"
begin

lemma mutate_cases:
  assumes "ready w" "void_mutation (handler w) m"
  obtains (ok) l' where "handler w d l = (Inr (JObj []), l')" "mutate m d s l = (onSuccess m () (onMutate m s), l')"
  | (failed) msg l' where "msg \<noteq> []" "handler w d l = (Inr (error_result msg), l')"
      "mutate m d s l = (onError m (Msg (JStr msg)) (onMutate m s), l')"
proof -
  obtain v l' where h: "handler w d l = (Inr v, l')" "v = JObj [] \<or> (\<exists>msg. msg \<noteq> [] \<and> v = error_result msg)"
    using answers [OF assms(1)] by metis
  from h(2) consider "v = JObj []" | msg where "msg \<noteq> []" "v = error_result msg" by blast
  then show thesis
  proof cases
    case 1
    with h assms(2) show thesis
      by (intro ok [of l']) (simp_all add: void_mutation_def mutate_def throw_error_def act_simps Let_def)
  next
    case (2 msg)
    with h assms(2) show thesis
      by (intro failed [of msg l'])
         (simp_all add: void_mutation_def mutate_def throw_error_def act_simps Let_def error_result_def)
  qed
qed

end

text \<open>
  What a submit promises: refused data change nothing; otherwise the handler is called once.
  A success leaves the given alerts, takes the form back to its defaults and refreshes the
  queries; an error is shown, and neither the data nor the queries change.
\<close>

definition form_outcome ::
  "('v \<Rightarrow> 'd option) \<Rightarrow> ('d \<Rightarrow> json fe_act) \<Rightarrow> (severity \<times> message) list \<Rightarrow> ('c \<Rightarrow> 'c) \<Rightarrow> 'v
    \<Rightarrow> ('v, 'c) form \<Rightarrow> fe_event list \<Rightarrow> ('v, 'c) form \<times> fe_event list \<Rightarrow> bool" where
  "form_outcome resolver call alerts refresh defaults s l r \<longleftrightarrow>
     (case resolver (vals s) of
        None \<Rightarrow> r = (s, l)
      | Some d \<Rightarrow>
          (call d l = (Inr (JObj []), snd r) \<and> vals (fst r) = defaults \<and> cache (fst r) = refresh (cache s)
             \<and> StatusDisplay (status (fst r)) = alerts)
        \<or> (\<exists>msg. call d l = (Inr (error_result msg), snd r) \<and> vals (fst r) = vals s \<and> cache (fst r) = cache s
             \<and> StatusDisplay (status (fst r)) = [(ErrorAlert, Msg (JStr msg))]))"

locale submit_form = form_handler handler ready
  for handler :: "window \<Rightarrow> 'd \<Rightarrow> json fe_act" and ready +
  fixes mut :: "window \<Rightarrow> ('d, unit, ('v, 'c) form) mutation"
    and alerts :: "(severity \<times> message) list" and refresh :: "'c \<Rightarrow> 'c" and defaults :: 'v
  assumes runs: "void_mutation (handler w) (mut w)"
    and starts: "onMutate (mut w) = with_status resetStatus"
    and fails: "onError (mut w) = (\<lambda>m. with_status (setError m))"
    and succeeds: "ready w \<Longrightarrow> vals (onSuccess (mut w) () s) = defaults
      \<and> cache (onSuccess (mut w) () s) = refresh (cache s) \<and> StatusDisplay (status (onSuccess (mut w) () s)) = alerts"
begin

lemma outcome:
  assumes "ready w"
  shows "form_outcome resolver (handler w) alerts refresh defaults s l (submit resolver (mut w) s l)"
proof (cases "resolver (vals s)")
  case None
  then show ?thesis by (simp add: form_outcome_def submit_def)
next
  case (Some d)
  consider
      (ok) l' where "handler w d l = (Inr (JObj []), l')"
        "mutate (mut w) d s l = (onSuccess (mut w) () (onMutate (mut w) s), l')"
    | (failed) msg l' where "msg \<noteq> []" "handler w d l = (Inr (error_result msg), l')"
        "mutate (mut w) d s l = (onError (mut w) (Msg (JStr msg)) (onMutate (mut w) s), l')"
    by (rule mutate_cases [OF assms runs]) blast+
  then show ?thesis
  proof cases
    case (ok l')
    with Some succeeds [OF assms] show ?thesis
      by (simp add: form_outcome_def submit_def) (simp add: starts with_status_def)
  next
    case (failed msg l')
    with Some show ?thesis
      by (simp add: form_outcome_def submit_def starts fails form_defs) (auto simp: status_defs)
  qed
qed

end

subsection \<open>Property\<close>

text \<open>
  Whatever messages are set and reset, at most one alert is shown, and it is the one of
  the last action: a success takes down an error and an error a success.
\<close>

lemma status_shows_last:
  "StatusDisplay (fold status_step acts useStatusDisplay) = (if acts = [] then [] else alert_of (last acts))
   \<and> length (StatusDisplay (fold status_step acts useStatusDisplay)) \<le> 1
   \<and> (hasMsg (fold status_step acts useStatusDisplay)
        = (StatusDisplay (fold status_step acts useStatusDisplay) \<noteq> []))"
proof -
  have "StatusDisplay (fold status_step acts useStatusDisplay) = (if acts = [] then [] else alert_of (last acts))"
    by (cases acts rule: rev_cases) (simp_all add: status_step_shows, simp add: status_defs)
  moreover have "length (alert_of a) \<le> 1" for a by (cases a) simp_all
  ultimately show ?thesis by (simp add: hasMsg_iff)
qed

end
