(* ===== verification/Frontend_Charts.thy ===== *)
theory Frontend_Charts
  imports Frontend_Status "HOL-Library.AList" "HOL-Library.Multiset"
begin

section \<open>Frontend: numbers on display, charts and tables\<close>

text \<open>
  \<open>contexts/FormatterContext\<close>, \<open>components/charts/\<close>, the two tables, \<open>PriceDisplay\<close> and
  \<open>InstrumentCard\<close>: what they compute from the data they are given. A component is modelled
  by the data it hands to the chart, table and text elements of its libraries.
\<close>

subsection \<open>FormatterContext\<close>

text \<open>
  The formatters of \<open>Intl\<close> are parameters. Those of dates throw a \<open>RangeError\<close> on \<open>NaN\<close>.
\<close>

record intl =
  currencyFormatter :: "jsnum \<Rightarrow> string"
  smallCurrencyFormatter :: "jsnum \<Rightarrow> string"
  percentFormatter :: "jsnum \<Rightarrow> string"
  timeFormatter :: "jsnum \<Rightarrow> js_exn + string"
  dateFormatter :: "jsnum \<Rightarrow> js_exn + string"
  relativeDateFormatter :: "jsnum \<Rightarrow> string \<Rightarrow> string"

definition milisecondsInMinute :: jsnum where "milisecondsInMinute = Fin (60 * 1000)"
definition milisecondsInHour :: jsnum where "milisecondsInHour = Fin (60 * 60 * 1000)"
definition milisecondsInDay :: jsnum where "milisecondsInDay = Fin (24 * 60 * 60 * 1000)"

fun js_abs :: "jsnum \<Rightarrow> jsnum" where
  "js_abs NaN = NaN"
| "js_abs PInf = PInf"
| "js_abs NInf = PInf"
| "js_abs (Fin x) = Fin \<bar>x\<bar>"

definition formatCurrency :: "intl \<Rightarrow> jsnum \<Rightarrow> string" where
  "formatCurrency f n = (if js_lt n (to_js (1/100)) then smallCurrencyFormatter f n else currencyFormatter f n)"

definition formatPercent :: "intl \<Rightarrow> jsnum \<Rightarrow> string" where
  "formatPercent f n = percentFormatter f n"

definition formatTime :: "intl \<Rightarrow> jsnum \<Rightarrow> js_exn + string" where
  "formatTime f n = timeFormatter f n"

definition formatDate :: "intl \<Rightarrow> jsnum \<Rightarrow> jsnum \<Rightarrow> js_exn + string" where
  "formatDate f now n =
     (let timeDiff = js_sub n now in
      if js_lt (js_abs timeDiff) milisecondsInHour
      then Inr (relativeDateFormatter f (js_floor (js_div timeDiff milisecondsInMinute)) ''minutes'')
      else if js_lt (js_abs timeDiff) milisecondsInDay
      then Inr (relativeDateFormatter f (js_floor (js_div timeDiff milisecondsInHour)) ''hours'')
      else dateFormatter f n)"

subsection \<open>Data\<close>

record price =
  p_timestamp :: string
  p_open :: jsnum
  p_high :: jsnum
  p_low :: jsnum
  p_close :: jsnum

record instrument_row =
  i_id :: string
  i_code :: string
  i_name :: string
  i_amount :: jsnum
  i_price :: price

record transaction =
  t_actionType :: string
  t_instrumentName :: string
  t_amount :: jsnum
  t_price :: jsnum
  t_status :: string
  t_endTime :: string

subsection \<open>TransactionsCharts\<close>

text \<open>
  The \<open>Map\<close> keeps its entries in the order of their first insertion, as \<open>AList.update\<close> does.
\<close>

definition getTransactionsData :: "'t list \<Rightarrow> ('t \<Rightarrow> 'k) \<Rightarrow> ('k \<times> nat) list" where
  "getTransactionsData transactions property =
     foldl (\<lambda>m t. let key = property t; value = nullish (map_of m key) 0 in AList.update key (value + 1) m)
       [] transactions"

definition TransactionsCharts :: "transaction list \<Rightarrow> (string \<times> nat) list \<times> (string \<times> nat) list" where
  "TransactionsCharts transactions =
     (getTransactionsData transactions t_status, getTransactionsData transactions t_actionType)"

datatype palette_color = ErrorMain | SuccessMain | PrimaryMain

definition pie_colors :: "(string \<times> palette_color) list" where
  "pie_colors = [(''FAIL'', ErrorMain), (''SUCCESS'', SuccessMain), (''ACTIVE'', PrimaryMain),
     (''BUY'', PrimaryMain), (''SELL'', SuccessMain)]"

definition TransactionsPieChart :: "(string \<times> nat) list \<Rightarrow> (string \<times> nat \<times> palette_color option) list" where
  "TransactionsPieChart data = map (\<lambda>(name, value). (name, value, map_of pie_colors name)) data"

subsection \<open>TransactionsTable\<close>

text \<open>
  The rendering replaces the id of the instrument by its name in the transactions themselves:
  they are the cached objects, so that the next rendering starts from its result.
\<close>

definition resolve_name :: "instrument_row list \<Rightarrow> transaction \<Rightarrow> transaction" where
  "resolve_name instruments t =
     (case List.find (\<lambda>x. i_id x = t_instrumentName t) instruments of
        None \<Rightarrow> t
      | Some i \<Rightarrow> t\<lparr>t_instrumentName := i_name i\<rparr>)"

definition TransactionsTable :: "instrument_row list \<Rightarrow> transaction list \<Rightarrow> transaction list" where
  "TransactionsTable instruments transactions = map (resolve_name instruments) transactions"

datatype status_icon = Autorenew | CheckMark | Cross

text \<open>The cells of a row, with what \<open>new Date(endTime).getTime()\<close> gives for the end time.\<close>

record transaction_cells =
  tc_actionType :: string
  tc_status :: "status_icon \<times> string"
  tc_instrument :: string
  tc_amount :: jsnum
  tc_price :: string
  tc_total :: string
  tc_endTime :: "js_exn + string"

definition status_cell :: "string \<Rightarrow> status_icon \<times> string" where
  "status_cell s = (if s = ''ACTIVE'' then Autorenew else if s = ''SUCCESS'' then CheckMark else Cross, s)"

definition transaction_columns :: "intl \<Rightarrow> (string \<Rightarrow> jsnum) \<Rightarrow> jsnum \<Rightarrow> transaction \<Rightarrow> transaction_cells" where
  "transaction_columns f getTime now t = \<lparr>
     tc_actionType = t_actionType t,
     tc_status = status_cell (t_status t),
     tc_instrument = t_instrumentName t,
     tc_amount = t_amount t,
     tc_price = formatCurrency f (t_price t),
     tc_total = formatCurrency f (js_mul (t_amount t) (t_price t)),
     tc_endTime = formatDate f now (getTime (t_endTime t))\<rparr>"

subsection \<open>Instruments\<close>

definition total_value :: "instrument_row \<Rightarrow> jsnum" where
  "total_value i = js_mul (i_amount i) (p_close (i_price i))"

definition InstrumentsTable :: "intl \<Rightarrow> instrument_row list \<Rightarrow> (string \<times> string \<times> jsnum \<times> string \<times> string) list" where
  "InstrumentsTable f instruments =
     map (\<lambda>i. (i_code i, i_name i, i_amount i, formatCurrency f (p_close (i_price i)), formatCurrency f (total_value i)))
       (filter (\<lambda>i. js_lt (Fin 0) (i_amount i)) instruments)"

definition InstrumentsChart :: "instrument_row list \<Rightarrow> (string \<times> string \<times> jsnum \<times> jsnum) list" where
  "InstrumentsChart instruments = map (\<lambda>i. (i_name i, i_code i, i_amount i, total_value i)) instruments"

definition InstrumentCard_class :: "instrument_row \<Rightarrow> string" where
  "InstrumentCard_class i = ''instrument-card'' @ (if js_lt (Fin 0) (i_amount i) then '' owned-instrument'' else [])"

definition InstrumentCard_link :: "instrument_row \<Rightarrow> string" where
  "InstrumentCard_link i = ''/instruments/'' @ i_id i"

definition PriceDisplay :: "intl \<Rightarrow> price \<Rightarrow> palette_color \<times> string \<times> string" where
  "PriceDisplay f p =
     (let trendingUp = js_lt (p_open p) (p_close p);
          percentDifference = js_div (js_sub (p_close p) (p_open p)) (p_open p)
      in (if trendingUp then SuccessMain else ErrorMain, formatCurrency f (p_close p), formatPercent f percentDifference))"

subsection \<open>InstrumentPriceChart\<close>

record price_bar =
  b_date :: "js_exn + string"
  openClosePriceRange :: "jsnum \<times> jsnum"
  lowHighPriceRange :: "jsnum \<times> jsnum"

definition priceData :: "intl \<Rightarrow> (string \<Rightarrow> jsnum) \<Rightarrow> price list \<Rightarrow> price_bar list" where
  "priceData f getTime prices = rev (map (\<lambda>p.
     \<lparr>b_date = formatTime f (getTime (p_timestamp p)),
      openClosePriceRange = (p_open p, p_close p),
      lowHighPriceRange = (p_low p, p_high p)\<rparr>) prices)"

text \<open>\<open>Math.min(...xs)\<close> and \<open>Math.max(...xs)\<close>\<close>

definition js_minimum :: "jsnum list \<Rightarrow> jsnum" where
  "js_minimum xs = foldl js_min PInf xs"

definition js_maximum :: "jsnum list \<Rightarrow> jsnum" where
  "js_maximum xs = foldl js_max NInf xs"

definition chart_domain :: "price list \<Rightarrow> jsnum \<times> jsnum" where
  "chart_domain prices =
     (let minValue = js_minimum (map p_low prices); maxValue = js_maximum (map p_high prices)
      in (js_sub minValue (js_mul (to_js (1/100)) minValue), js_add maxValue (js_mul (to_js (1/100)) minValue)))"

definition bar_fill :: "jsnum \<times> jsnum \<Rightarrow> palette_color" where
  "bar_fill r = (if js_lt (snd r) (fst r) then ErrorMain else SuccessMain)"

text \<open>The part of the chart that the brush shows first.\<close>

definition brush :: "price_bar list \<Rightarrow> int \<times> int" where
  "brush data = (int (length data) - 200, int (length data) - 1)"

subsection \<open>Counting\<close>

definition first_occurrences :: "'k list \<Rightarrow> 'k list" where
  "first_occurrences xs = rev (remdups (rev xs))"

lemma first_occurrences_snoc:
  "first_occurrences (xs @ [x]) = (if x \<in> set xs then first_occurrences xs else first_occurrences xs @ [x])"
  by (simp add: first_occurrences_def)

lemma first_occurrences_simps [simp]:
  "first_occurrences [] = []" "set (first_occurrences xs) = set xs" "distinct (first_occurrences xs)"
  by (simp_all add: first_occurrences_def)

lemma update_entries:
  assumes "distinct ks"
  shows "AList.update k v (map (\<lambda>j. (j, f j)) ks)
       = map (\<lambda>j. (j, (f(k := v)) j)) (if k \<in> set ks then ks else ks @ [k])"
  using assms by (induction ks) auto

lemma map_of_entries: "map_of (map (\<lambda>j. (j, f j)) ks) k = (if k \<in> set ks then Some (f k) else None)"
  by (induction ks) auto

lemma getTransactionsData_snoc:
  "getTransactionsData (ts @ [t]) prop =
     AList.update (prop t) (nullish (map_of (getTransactionsData ts prop) (prop t)) 0 + 1) (getTransactionsData ts prop)"
  by (simp add: getTransactionsData_def Let_def)

lemma getTransactionsData_entries:
  "getTransactionsData ts prop
     = map (\<lambda>k. (k, count (mset (map prop ts)) k)) (first_occurrences (map prop ts))"
proof (induction ts rule: rev_induct)
  case (snoc t ts)
  let ?f = "count (mset (map prop ts))"
  have "nullish (map_of (getTransactionsData ts prop) (prop t)) 0 = ?f (prop t)"
    by (simp add: snoc.IH map_of_entries count_eq_zero_iff)
  then have "getTransactionsData (ts @ [t]) prop
      = AList.update (prop t) (?f (prop t) + 1) (map (\<lambda>k. (k, ?f k)) (first_occurrences (map prop ts)))"
    by (simp add: getTransactionsData_snoc snoc.IH)
  also have "\<dots> = map (\<lambda>k. (k, (?f(prop t := ?f (prop t) + 1)) k)) (first_occurrences (map prop ts @ [prop t]))"
    by (simp add: update_entries first_occurrences_snoc)
  also have "?f(prop t := ?f (prop t) + 1) = count (mset (map prop (ts @ [t])))"
    by (auto simp: fun_eq_iff)
  finally show ?case by simp
qed (simp add: getTransactionsData_def)

subsection \<open>Extremes\<close>

lemma foldl_extreme:
  fixes f :: "jsnum \<Rightarrow> jsnum \<Rightarrow> jsnum"
  assumes pick: "\<And>a b. a \<noteq> NaN \<Longrightarrow> b \<noteq> NaN \<Longrightarrow> f a b \<in> {a, b} \<and> R (f a b) a \<and> R (f a b) b"
    and trans: "\<And>a b c. R a b \<Longrightarrow> R b c \<Longrightarrow> R a c" and refl: "\<And>a. a \<noteq> NaN \<Longrightarrow> R a a"
    and "NaN \<notin> set xs" "a \<noteq> NaN"
  shows "foldl f a xs \<in> insert a (set xs) \<and> R (foldl f a xs) a \<and> (\<forall>x\<in>set xs. R (foldl f a xs) x)"
  using assms(4,5)
proof (induction xs arbitrary: a)
  case (Cons x xs)
  have p: "f a x \<in> {a, x}" "R (f a x) a" "R (f a x) x" using pick [of a x] Cons.prems by auto
  then have "f a x \<noteq> NaN" using Cons.prems by auto
  with Cons.IH [OF _ this] Cons.prems have "foldl f (f a x) xs \<in> insert (f a x) (set xs) \<and> R (foldl f (f a x) xs) (f a x)
      \<and> (\<forall>y\<in>set xs. R (foldl f (f a x) xs) y)" by auto
  with p show ?case by (auto intro: trans)
qed (simp add: refl)

lemma js_min_pick: "a \<noteq> NaN \<Longrightarrow> b \<noteq> NaN \<Longrightarrow> js_min a b \<in> {a, b} \<and> js_le (js_min a b) a \<and> js_le (js_min a b) b"
  using js_le_total [of a b] by (auto simp: js_min_def js_le_refl)

lemma js_max_pick: "a \<noteq> NaN \<Longrightarrow> b \<noteq> NaN \<Longrightarrow> js_max a b \<in> {a, b} \<and> js_le a (js_max a b) \<and> js_le b (js_max a b)"
  using js_le_total [of a b] by (auto simp: js_max_def js_le_refl)

lemma js_minimum_least:
  assumes "NaN \<notin> set xs" "xs \<noteq> []"
  shows "js_minimum xs \<in> set xs \<and> (\<forall>x\<in>set xs. js_le (js_minimum xs) x)"
proof -
  obtain x ys where xs: "xs = x # ys" using assms(2) by (cases xs) auto
  have "js_min PInf x = x" using xs assms(1) by (cases x) (auto simp: js_min_def)
  then have "js_minimum xs = foldl js_min x ys" by (simp add: js_minimum_def xs)
  with foldl_extreme [of js_min js_le ys x, OF js_min_pick js_le_trans js_le_refl] assms(1) xs
  show ?thesis by auto
qed

lemma js_maximum_greatest:
  assumes "NaN \<notin> set xs" "xs \<noteq> []"
  shows "js_maximum xs \<in> set xs \<and> (\<forall>x\<in>set xs. js_le x (js_maximum xs))"
proof -
  obtain x ys where xs: "xs = x # ys" using assms(2) by (cases xs) auto
  have "js_max NInf x = x" using xs assms(1) by (cases x) (auto simp: js_max_def)
  then have "js_maximum xs = foldl js_max x ys" by (simp add: js_maximum_def xs)
  with foldl_extreme [of js_max "\<lambda>a b. js_le b a" ys x, OF js_max_pick] assms(1) xs
  show ?thesis by (auto intro: js_le_trans js_le_refl)
qed

subsection \<open>Whole units of time\<close>

lemma floor_quotient:
  assumes "\<bar>d\<bar> \<le> 10 ^ 8" "0 < c" "c \<le> 10 ^ 7"
  shows "js_floor (js_div (js_int d) (js_int c)) = js_int (d div c)"
proof (cases "d = 0")
  case True
  with assms(2) show ?thesis using is_double_0 by simp
next
  case False
  let ?x = "of_int d / of_int c :: rat" and ?k = "d div c"
  have c1: "(1::rat) \<le> of_int c" using assms(2) by simp
  have c7: "of_int c \<le> (10::rat) ^ 7" using assms(3) by (metis of_int_le_iff of_int_numeral of_int_power)
  have d1: "1 \<le> \<bar>of_int d :: rat\<bar>" using False by (simp flip: of_int_abs)
  have d8: "\<bar>of_int d :: rat\<bar> \<le> 10 ^ 8" using assms(1) by (metis of_int_abs of_int_le_iff of_int_numeral of_int_power)
  have abs: "\<bar>?x\<bar> = \<bar>of_int d\<bar> / of_int c" using c1 by (simp add: abs_div)
  have "\<bar>of_int d\<bar> / of_int c \<le> \<bar>of_int d :: rat\<bar> / 1" using c1 by (intro divide_left_mono) auto
  then have x8: "\<bar>?x\<bar> \<le> 10 ^ 8" using d8 unfolding abs by simp
  have "1 / 10 ^ 7 \<le> \<bar>?x\<bar>" unfolding abs using c1 c7 d1 by (intro frac_le) auto
  moreover have "2 powi -1022 \<le> (1 / 10 ^ 7 :: rat)" by (simp add: power_int_minus)
  ultimately have "\<bar>dbl ?x - ?x\<bar> \<le> \<bar>?x\<bar> * 2 powi -53" by (intro dbl_error) linarith
  also have "\<dots> \<le> 10 ^ 8 * 2 powi -53" using x8 by (intro mult_right_mono) auto
  also have "\<dots> < 1 / 10 ^ 7" by (simp add: power_int_minus)
  also have "\<dots> \<le> 1 / of_int c" using c1 c7 by (intro divide_left_mono) auto
  finally have err: "dbl ?x < ?x + 1 / of_int c" by linarith
  have "d = ?k * c + d mod c" by simp
  then have eq: "of_int d = of_int ?k * of_int c + (of_int (d mod c) :: rat)" by (metis of_int_add of_int_mult)
  have m: "0 \<le> d mod c" "d mod c \<le> c - 1" using assms(2) pos_mod_bound [of c d] by auto
  have "of_int (d mod c) \<le> (of_int c - 1 :: rat)" using m(2) by (metis of_int_1 of_int_diff of_int_le_iff)
  then have up: "?x + 1 / of_int c \<le> of_int ?k + 1"
    using c1 eq by (simp add: field_simps)
  with err have hi: "dbl ?x < of_int ?k + 1" by linarith
  have kx: "of_int ?k \<le> ?x" using c1 eq m(1) by (simp add: field_simps)
  have "?x \<le> of_int ?k + 1" using up c1 by (simp add: order_trans [rotated])
  with kx x8 have k8: "\<bar>of_int ?k :: rat\<bar> \<le> 10 ^ 8 + 1" by linarith
  then have "of_int \<bar>?k\<bar> \<le> (of_int (10 ^ 8 + 1) :: rat)" by simp
  then have "\<bar>?k\<bar> \<le> 10 ^ 8 + 1" by (simp only: of_int_le_iff)
  with kx have lo: "of_int ?k \<le> dbl ?x" using dbl_mono [of "of_int ?k" ?x] dbl_of_int [of ?k] by simp
  have "- (10 ^ 8 + 1) \<le> dbl ?x" "dbl ?x < 10 ^ 8 + 2" using lo hi k8 by linarith+
  then have "dbl ?x < 2 ^ 1024" "- (2 ^ 1024) < dbl ?x" by (simp_all add: less_le_trans [rotated])
  then have "to_js ?x = Fin (dbl ?x)" by (simp add: to_js_def Let_def)
  moreover have "\<lfloor>dbl ?x\<rfloor> = ?k" using lo hi by (simp add: floor_eq_iff)
  ultimately show ?thesis using assms(2) by simp
qed

subsection \<open>Properties\<close>

text \<open>
  C33: the data of a pie chart are the count of every value that occurs, once each and in the
  order of first occurrence; the counts add up to the number of transactions.
\<close>

theorem pie_data_counts:
  "getTransactionsData ts prop = map (\<lambda>k. (k, count (mset (map prop ts)) k)) (first_occurrences (map prop ts))
   \<and> distinct (map fst (getTransactionsData ts prop))
   \<and> sum_list (map snd (getTransactionsData ts prop)) = length ts"
proof -
  have entries: "getTransactionsData ts prop
      = map (\<lambda>k. (k, count (mset (map prop ts)) k)) (first_occurrences (map prop ts))"
    by (rule getTransactionsData_entries)
  have "sum_list (map snd (getTransactionsData ts prop))
      = sum (count (mset (map prop ts))) (set (first_occurrences (map prop ts)))"
    unfolding entries by (simp add: o_def sum_list_distinct_conv_sum_set)
  also have "\<dots> = size (mset (map prop ts))" by (simp add: size_multiset_overloaded_eq)
  finally show ?thesis using entries by (simp add: o_def)
qed

text \<open>
  Times within an hour are shown in whole minutes between 60 ago and 59 ahead, times
  within a day in whole hours between 24 ago and 23 ahead, both rounded down, and all others
  as a date.
\<close>

lemma format_date_units:
  assumes "\<bar>n\<bar> \<le> 2 ^ 52" "\<bar>now\<bar> \<le> 2 ^ 52"
  shows "formatDate f (js_int now) (js_int n) =
     (if \<bar>n - now\<bar> < 3600000 then Inr (relativeDateFormatter f (js_int ((n - now) div 60000)) ''minutes'')
      else if \<bar>n - now\<bar> < 86400000 then Inr (relativeDateFormatter f (js_int ((n - now) div 3600000)) ''hours'')
      else dateFormatter f (js_int n))
   \<and> (\<bar>n - now\<bar> < 3600000 \<longrightarrow> - 60 \<le> (n - now) div 60000 \<and> (n - now) div 60000 \<le> 59)
   \<and> (\<bar>n - now\<bar> < 86400000 \<longrightarrow> - 24 \<le> (n - now) div 3600000 \<and> (n - now) div 3600000 \<le> 23)"
proof -
  have sub: "js_sub (js_int n) (js_int now) = js_int (n - now)"
    using to_js_of_int [of "n - now"] assms by (simp add: js_sub_def)
  have lt: "js_lt (js_abs (js_int d)) (Fin (of_int m)) \<longleftrightarrow> \<bar>d\<bar> < m" for d m :: int
    by (simp flip: of_int_abs)
  have m: "js_floor (js_div (js_int (n - now)) milisecondsInMinute) = js_int ((n - now) div 60000)"
    if "\<bar>n - now\<bar> < 3600000"
    using floor_quotient [of "n - now" 60000] that by (simp add: milisecondsInMinute_def)
  have h: "js_floor (js_div (js_int (n - now)) milisecondsInHour) = js_int ((n - now) div 3600000)"
    if "\<bar>n - now\<bar> < 86400000"
    using floor_quotient [of "n - now" 3600000] that by (simp add: milisecondsInHour_def)
  have "formatDate f (js_int now) (js_int n) =
     (if \<bar>n - now\<bar> < 3600000 then Inr (relativeDateFormatter f (js_int ((n - now) div 60000)) ''minutes'')
      else if \<bar>n - now\<bar> < 86400000 then Inr (relativeDateFormatter f (js_int ((n - now) div 3600000)) ''hours'')
      else dateFormatter f (js_int n))"
    using m h lt [of "n - now" 3600000] lt [of "n - now" 86400000]
    by (simp add: formatDate_def sub Let_def milisecondsInHour_def milisecondsInDay_def del: of_int_diff)
  then show ?thesis by auto
qed

text \<open>
  The vertical axis of the price chart covers every candle: for prices that are not
  negative, no low lies below its lower end and no high above its upper end, after all
  rounding.
\<close>

lemma chart_domain_covers:
  assumes "\<And>p. p \<in> set prices \<Longrightarrow> \<exists>lo hi. p_low p = Fin lo \<and> p_high p = Fin hi \<and> is_double lo \<and> is_double hi \<and> 0 \<le> lo"
    and "p \<in> set prices"
  shows "js_le (fst (chart_domain prices)) (p_low p) \<and> js_le (p_high p) (snd (chart_domain prices))"
proof -
  have ne: "prices \<noteq> []" using assms(2) by auto
  have nan: "NaN \<notin> set (map p_low prices)" "NaN \<notin> set (map p_high prices)" using assms(1) by fastforce+
  obtain q where q: "q \<in> set prices" "js_minimum (map p_low prices) = p_low q"
    using js_minimum_least [OF nan(1)] ne by auto
  obtain m where m: "js_minimum (map p_low prices) = Fin m" "is_double m" "0 \<le> m"
    using assms(1) [OF q(1)] q(2) by auto
  obtain r where r: "r \<in> set prices" "js_maximum (map p_high prices) = p_high r"
    using js_maximum_greatest [OF nan(2)] ne by auto
  obtain M where M: "js_maximum (map p_high prices) = Fin M" "is_double M"
    using assms(1) [OF r(1)] r(2) by auto
  have low: "js_le (Fin m) (p_low p)" using js_minimum_least [OF nan(1)] ne assms(2) m(1) by auto
  have high: "js_le (p_high p) (Fin M)" using js_maximum_greatest [OF nan(2)] ne assms(2) M(1) by auto
  obtain d where d: "to_js (1/100) = Fin d" "1/100 * (1 - 1 / 10 ^ 6) \<le> d" "d \<le> 1/100 * (1 + 1 / 10 ^ 6)"
    by (rule to_js_near [of "1/100"]) auto
  then have "0 \<le> d" "d \<le> 1" by auto
  with m(3) have dm: "0 \<le> d * m" "d * m \<le> m" by (auto intro: mult_left_le_one_le)
  have "js_le (Fin 0) (to_js (d * m))" "js_le (to_js (d * m)) (Fin m)"
    using to_js_ge_double [OF is_double_0 dm(1)] to_js_le_double [OF m(2) dm(2)] by auto
  then obtain y where y: "to_js (d * m) = Fin y" "0 \<le> y" by (cases "to_js (d * m)") auto
  have "js_le (to_js (m - y)) (Fin m)" using y(2) by (intro to_js_le_double m(2)) simp
  moreover have "js_le (Fin M) (to_js (M + y))" using y(2) by (intro to_js_ge_double M(2)) simp
  ultimately show ?thesis
    using low high by (auto simp: chart_domain_def Let_def m(1) M(1) d(1) y(1) js_sub_def intro: js_le_trans)
qed

subsection \<open>Rendering the transactions again\<close>

text \<open>
  Since the rendering writes the names into the cached transactions, it must not change them
  the second time: it does not if no name of an instrument is the id of another one, and it
  may otherwise.
\<close>

lemma resolve_twice:
  assumes "\<And>i j. i \<in> set instruments \<Longrightarrow> j \<in> set instruments \<Longrightarrow> i_name i = i_id j \<Longrightarrow> i_name j = i_name i"
  shows "TransactionsTable instruments (TransactionsTable instruments ts) = TransactionsTable instruments ts"
proof -
  have "resolve_name instruments (resolve_name instruments t) = resolve_name instruments t" for t
  proof (cases "List.find (\<lambda>x. i_id x = t_instrumentName t) instruments")
    case (Some i)
    then have i: "i \<in> set instruments" using find_Some_mem by fastforce
    have r: "resolve_name instruments t = t\<lparr>t_instrumentName := i_name i\<rparr>" by (simp add: resolve_name_def Some)
    show ?thesis
    proof (cases "List.find (\<lambda>x. i_id x = i_name i) instruments")
      case None
      then show ?thesis by (simp only: r) (simp add: resolve_name_def)
    next
      case (Some j)
      then have "j \<in> set instruments" "i_id j = i_name i" using find_Some_mem by fastforce+
      then have "i_name j = i_name i" using assms [OF i] by simp
      with Some show ?thesis by (simp only: r) (simp add: resolve_name_def)
    qed
  qed (simp add: resolve_name_def)
  then show ?thesis by (simp add: TransactionsTable_def)
qed

lemma resolve_name_of_name:
  assumes "p = \<lparr>p_timestamp = [], p_open = Fin 1, p_high = Fin 1, p_low = Fin 1, p_close = Fin 1\<rparr>"
    and "is = [\<lparr>i_id = ''1'', i_code = ''A'', i_name = ''2'', i_amount = Fin 0, i_price = p\<rparr>,
               \<lparr>i_id = ''2'', i_code = ''B'', i_name = ''Beta'', i_amount = Fin 0, i_price = p\<rparr>]"
    and "t = \<lparr>t_actionType = ''BUY'', t_instrumentName = ''1'', t_amount = Fin 1, t_price = Fin 1,
              t_status = ''SUCCESS'', t_endTime = []\<rparr>"
  shows "TransactionsTable is (TransactionsTable is [t]) \<noteq> TransactionsTable is [t]"
  by (simp add: assms TransactionsTable_def resolve_name_def)

text \<open>With fewer than 200 prices the brush starts before the data.\<close>

lemma brush_starts_before: "length data < 200 \<Longrightarrow> fst (brush data) < 0"
  by (simp add: brush_def)

end
