(* ===== verification/Frontend_Forms.thy ===== *)
theory Frontend_Forms
  imports Frontend_Status
begin

section \<open>Frontend: account forms\<close>

text \<open>
  \<open>components/forms/\<close>, \<open>components/creditCard/CreditCardForm.tsx\<close> and the revocation of
  \<open>pages/protected/creditCard/CreditCardActive.tsx\<close>: deposit, withdrawal, login, sign up and
  card orders. The checks of the libraries, whether a text is an e-mail address and whether it
  is a card number, are parameters.
\<close>

subsection \<open>Deposit and withdrawal\<close>

record transfer_values =
  tv_amount :: jsval
  tv_cardholderName :: string
  tv_address :: string
  tv_email :: string
  tv_cardNumber :: string
  tv_cardType :: string
  tv_agreementCheck :: bool

record deposit_values = transfer_values +
  tv_cvv :: string

record text_checks =
  is_email :: "string \<Rightarrow> bool"
  isCreditCard :: "string \<Rightarrow> bool"

definition transfer_issues :: "text_checks \<Rightarrow> 'z transfer_values_scheme \<Rightarrow> issue list" where
  "transfer_issues lib v =
     positive_issues ''amount'' ''Amount is required'' ''Amount must be greater than 0'' (zod_number (tv_amount v))
     @ nonempty_issues ''cardholderName'' ''Cardholder name is required'' (tv_cardholderName v)
     @ nonempty_issues ''address'' ''Address is required'' (tv_address v)
     @ check ''email'' ''Invalid email'' (is_email lib (tv_email v))
     @ nonempty_issues ''cardNumber'' ''Card number is required'' (tv_cardNumber v)
     @ check ''cardNumber'' ''Invalid credit card number'' (isCreditCard lib (tv_cardNumber v))
     @ nonempty_issues ''cardType'' ''Must set card type'' (tv_cardType v)
     @ check ''agreementCheck'' ''Must agree to terms and conditions'' (tv_agreementCheck v)"

text \<open>\<open>/^[0-9]{3,4}$/\<close>\<close>

definition cvvRegex :: "string \<Rightarrow> bool" where
  "cvvRegex s \<longleftrightarrow> list_all is_digit s \<and> 3 \<le> length s \<and> length s \<le> 4"

definition DepositForm_issues :: "text_checks \<Rightarrow> deposit_values \<Rightarrow> issue list" where
  "DepositForm_issues lib v =
     transfer_issues lib v
     @ nonempty_issues ''cvv'' ''CVV is required'' (tv_cvv v) @ check ''cvv'' ''Invalid CVV'' (cvvRegex (tv_cvv v))"

definition DepositForm_resolver :: "text_checks \<Rightarrow> deposit_values \<Rightarrow> deposit_values option" where
  "DepositForm_resolver lib v = (if DepositForm_issues lib v = [] then Some v else None)"

definition WithdrawForm_resolver :: "text_checks \<Rightarrow> transfer_values \<Rightarrow> transfer_values option" where
  "WithdrawForm_resolver lib v = (if transfer_issues lib v = [] then Some v else None)"

definition DepositForm_defaults :: deposit_values where
  "DepositForm_defaults =
     \<lparr>tv_amount = Some (JNum (Fin 0)), tv_cardholderName = [], tv_address = [], tv_email = [], tv_cardNumber = [],
      tv_cardType = [], tv_agreementCheck = False, tv_cvv = []\<rparr>"

definition WithdrawForm_defaults :: transfer_values where
  "WithdrawForm_defaults =
     \<lparr>tv_amount = Some (JNum (Fin 0)), tv_cardholderName = [], tv_address = [], tv_email = [], tv_cardNumber = [],
      tv_cardType = [], tv_agreementCheck = False\<rparr>"

text \<open>
  The request of accepted data: the name of the card holder under \<open>name\<close>, the account of
  the user, and the rest without the agreement.
\<close>

definition accepted_amount :: "'z transfer_values_scheme \<Rightarrow> jsnum" where
  "accepted_amount v = nullish (zod_number (tv_amount v)) NaN"

definition DepositForm_request :: "string \<Rightarrow> deposit_values \<Rightarrow> DepositRequest" where
  "DepositForm_request userId v =
     \<lparr>wr_accountId = js_Number userId, wr_amount = accepted_amount v, wr_name = tv_cardholderName v,
      wr_address = tv_address v, wr_email = tv_email v, wr_cardNumber = tv_cardNumber v,
      wr_cardType = tv_cardType v, wr_cvv = tv_cvv v\<rparr>"

definition WithdrawForm_request :: "string \<Rightarrow> transfer_values \<Rightarrow> WithdrawRequest" where
  "WithdrawForm_request userId v =
     \<lparr>wr_accountId = js_Number userId, wr_amount = accepted_amount v, wr_name = tv_cardholderName v,
      wr_address = tv_address v, wr_email = tv_email v, wr_cardNumber = tv_cardNumber v,
      wr_cardType = tv_cardType v\<rparr>"

definition DepositForm_mutation ::
  "window \<Rightarrow> 'c query_client \<Rightarrow> change list \<Rightarrow> string \<Rightarrow> (deposit_values, unit, (deposit_values, 'c) form) mutation" where
  "DepositForm_mutation w qc events userId = \<lparr>
     mutationFn = (\<lambda>v. act_bind (deposit w (DepositForm_request userId v)) (\<lambda>r. throw_error (Some r))),
     onMutate = with_status resetStatus,
     onSuccess = (\<lambda>_ s.
       let s1 = with_status (setSuccess (Msg (JStr ''Deposit successful''))) s;
           s2 = with_cache (balanceInvalidateQuery qc) s1
       in reset_form watch_all events DepositForm_defaults s2),
     onError = (\<lambda>m. with_status (setError m))\<rparr>"

definition WithdrawForm_mutation ::
  "window \<Rightarrow> 'c query_client \<Rightarrow> change list \<Rightarrow> string \<Rightarrow> (transfer_values, unit, (transfer_values, 'c) form) mutation" where
  "WithdrawForm_mutation w qc events userId = \<lparr>
     mutationFn = (\<lambda>v. act_bind (withdraw w (WithdrawForm_request userId v)) (\<lambda>r. throw_error (Some r))),
     onMutate = with_status resetStatus,
     onSuccess = (\<lambda>_ s.
       let s1 = with_status (setSuccess (Msg (JStr ''Withdraw successful''))) s;
           s2 = with_cache (balanceInvalidateQuery qc) s1
       in reset_form watch_all events WithdrawForm_defaults s2),
     onError = (\<lambda>m. with_status (setError m))\<rparr>"

definition DepositForm_submit where
  "DepositForm_submit lib w qc events userId =
     submit (DepositForm_resolver lib) (DepositForm_mutation w qc events userId)"

definition WithdrawForm_submit where
  "WithdrawForm_submit lib w qc events userId =
     submit (WithdrawForm_resolver lib) (WithdrawForm_mutation w qc events userId)"

text \<open>Autofill, with the data of the user when they are loaded.\<close>

record account_user =
  au_firstName :: string
  au_lastName :: string
  au_address :: string
  au_email :: string

definition autofill_name :: "account_user option \<Rightarrow> string" where
  "autofill_name user =
     (case user of None \<Rightarrow> ''undefined'' | Some u \<Rightarrow> au_firstName u) @ '' ''
     @ (case user of None \<Rightarrow> ''undefined'' | Some u \<Rightarrow> au_lastName u)"

definition autofill_amount :: "jsval \<Rightarrow> jsval" where
  "autofill_amount a = (if a = Some (JNum (Fin 0)) then Some (JNum (Fin 1000)) else a)"

definition WithdrawForm_autofill :: "account_user option \<Rightarrow> 'z transfer_values_scheme \<Rightarrow> 'z transfer_values_scheme" where
  "WithdrawForm_autofill user v = v\<lparr>
     tv_amount := autofill_amount (tv_amount v),
     tv_cardholderName := autofill_name user,
     tv_address := nullish (map_option au_address user) ''Kochweg 4 01510 Kronach'',
     tv_email := nullish (map_option au_email user) ''mockemail@mail.com'',
     tv_cardNumber := ''2293562484488276'',
     tv_cardType := ''visaDebit'',
     tv_agreementCheck := True\<rparr>"

definition DepositForm_autofill :: "account_user option \<Rightarrow> deposit_values \<Rightarrow> deposit_values" where
  "DepositForm_autofill user v = (WithdrawForm_autofill user v)\<lparr>tv_cvv := ''123''\<rparr>"

definition autofillCardNumber :: "'z transfer_values_scheme \<Rightarrow> 'z transfer_values_scheme" where
  "autofillCardNumber v = v\<lparr>tv_cardNumber := ''2293562484488276''\<rparr>"

subsection \<open>Login\<close>

text \<open>
  \<open>LoginForm\<close> over \<open>AuthProvider.login\<close>: the handler both answers the form and sets the user
  in the session, so the form's state here carries the session in place of the cache.
\<close>

record login_values =
  lv_login :: string
  lv_password :: string

definition LoginForm_issues :: "login_values \<Rightarrow> issue list" where
  "LoginForm_issues v =
     nonempty_issues ''login'' ''Login is required'' (lv_login v)
     @ nonempty_issues ''password'' ''Password is required'' (lv_password v)"

definition LoginForm_defaults :: login_values where
  "LoginForm_defaults = \<lparr>lv_login = [], lv_password = []\<rparr>"

definition LoginForm_submit ::
  "(json \<Rightarrow> 's \<Rightarrow> 's) \<Rightarrow> window \<Rightarrow> (login_values, 's) form \<Rightarrow> fe_event list \<Rightarrow> (login_values, 's) form \<times> fe_event list" where
  "LoginForm_submit setUserId w s l =
     (if LoginForm_issues (vals s) \<noteq> [] then (s, l)
      else
        (let s1 = with_status resetStatus s;
             (reply, l') = login w (lv_login (vals s)) (lv_password (vals s)) l
         in case AuthProvider_login setUserId reply (cache s1) of
              Inl e \<Rightarrow> (with_status (setError (Exn e)) s1, l')
            | Inr (session, response) \<Rightarrow>
                (let s2 = s1\<lparr>cache := session\<rparr> in
                 case throw_error (Some response) l' of
                   (Inl e, l'') \<Rightarrow> (with_status (setError (Exn e)) s2, l'')
                 | (Inr (Inl v), l'') \<Rightarrow> (with_status (setError (Msg v)) s2, l'')
                 | (Inr (Inr _), l'') \<Rightarrow> (s2, l''))))"

text \<open>\<open>DefaultLoginForm\<close>: the first preset user is preselected; without users it is disabled.\<close>

definition DefaultLoginForm_default :: "json list \<Rightarrow> js_exn + jsval" where
  "DefaultLoginForm_default users = (case users of [] \<Rightarrow> Inr None | u # _ \<Rightarrow> js_prop (Some u) ''id'')"

definition DefaultLoginForm_disabled :: "json list \<Rightarrow> bool" where
  "DefaultLoginForm_disabled users \<longleftrightarrow> users = []"

definition DefaultLoginForm_submit :: "(json \<Rightarrow> 's \<Rightarrow> 's) \<Rightarrow> jsval \<Rightarrow> 's \<Rightarrow> 's" where
  "DefaultLoginForm_submit setUserId userId s =
     (case userId of Some (JStr i) \<Rightarrow> AuthProvider_defaultLogin setUserId i s | _ \<Rightarrow> s)"

subsection \<open>Sign up\<close>

record signup_values =
  sv_request :: SignupRequest
  sv_repeatPassword :: string

definition SignupForm_issues :: "text_checks \<Rightarrow> signup_values \<Rightarrow> issue list" where
  "SignupForm_issues lib v =
     (let d = sv_request v in
     nonempty_issues ''firstName'' ''First name is required'' (sg_firstName d)
     @ nonempty_issues ''lastName'' ''Last name is required'' (sg_lastName d)
     @ nonempty_issues ''login'' ''Login is required'' (sg_login d)
     @ check ''email'' ''Invalid email'' (is_email lib (sg_email d))
     @ nonempty_issues ''address'' ''Address is required'' (sg_address d)
     @ nonempty_issues ''password'' ''Password is required'' (sg_password d)
     @ nonempty_issues ''repeatPassword'' ''Password is required'' (sv_repeatPassword v)
     @ check ''repeatPassword'' ''Passwords have to match'' (sg_password d = sv_repeatPassword v))"

definition SignupForm_resolver :: "text_checks \<Rightarrow> signup_values \<Rightarrow> signup_values option" where
  "SignupForm_resolver lib v = (if SignupForm_issues lib v = [] then Some v else None)"

definition SignupForm_defaults :: signup_values where
  "SignupForm_defaults =
     \<lparr>sv_request = \<lparr>sg_firstName = [], sg_lastName = [], sg_login = [], sg_email = [], sg_address = [], sg_password = []\<rparr>,
      sv_repeatPassword = []\<rparr>"

definition SignupForm_mutation :: "window \<Rightarrow> change list \<Rightarrow> (signup_values, unit, (signup_values, 'c) form) mutation" where
  "SignupForm_mutation w events = \<lparr>
     mutationFn = (\<lambda>v. act_bind (signup w (sv_request v)) throw_error),
     onMutate = with_status resetStatus,
     onSuccess = (\<lambda>_ s. reset_form watch_change events SignupForm_defaults
       (with_status (setSuccess (Msg (JStr ''User created successfully. You may now login.''))) s)),
     onError = (\<lambda>m. with_status (setError m))\<rparr>"

definition SignupForm_submit where
  "SignupForm_submit lib w events = submit (SignupForm_resolver lib) (SignupForm_mutation w events)"

subsection \<open>Ordering and revoking a credit card\<close>

record card_values =
  cv_name :: string
  cv_address :: string
  cv_email :: "string option"   \<comment> \<open>has no default value\<close>
  cv_type :: string
  cv_agreementCheck :: bool

definition CreditCardForm_issues :: "text_checks \<Rightarrow> card_values \<Rightarrow> issue list" where
  "CreditCardForm_issues lib v =
     nonempty_issues ''name'' ''Cardholder name is required.'' (cv_name v)
     @ nonempty_issues ''address'' ''Cardholder address is required.'' (cv_address v)
     @ check ''email'' ''Provide a valid email.'' (case cv_email v of None \<Rightarrow> False | Some e \<Rightarrow> is_email lib e)
     @ nonempty_issues ''type'' ''Card type is required.'' (cv_type v)
     @ check ''agreementCheck'' ''Must agree to terms and conditions'' (cv_agreementCheck v)"

definition CreditCardForm_resolver :: "text_checks \<Rightarrow> card_values \<Rightarrow> CreditCardOrder option" where
  "CreditCardForm_resolver lib v =
     (if CreditCardForm_issues lib v = []
      then Some \<lparr>co_name = cv_name v, co_email = nullish (cv_email v) [], co_shippingAddress = cv_address v,
                 co_cardLevel = cv_type v\<rparr>
      else None)"

definition CreditCardForm_defaults :: card_values where
  "CreditCardForm_defaults =
     \<lparr>cv_name = [], cv_address = [], cv_email = None, cv_type = [], cv_agreementCheck = False\<rparr>"

text \<open>
  \<open>if (response.type === "error") throw response.error\<close>. The responses tagged so by the API
  functions always have an error text; without one \<open>undefined\<close> would be thrown.
\<close>

definition throw_tagged :: "json \<Rightarrow> (json \<Rightarrow> js_exn + 'r) \<Rightarrow> (fe_event, json + 'r) act" where
  "throw_tagged response result =
     act_bind (act_of (js_prop (Some response) ''type'')) (\<lambda>t.
       if t = Some (JStr ''error'')
       then act_bind (act_of (js_prop (Some response) ''error'')) (\<lambda>e. act_return (Inl (nullish e JNull)))
       else act_bind (act_of (result response)) (\<lambda>r. act_return (Inr r)))"

definition CreditCardForm_mutation ::
  "window \<Rightarrow> 'c query_client \<Rightarrow> string \<Rightarrow> (CreditCardOrder, jsval, (card_values, 'c) form) mutation" where
  "CreditCardForm_mutation w qc userId = \<lparr>
     mutationFn = (\<lambda>order. act_bind (orderCreditCard w userId order) (\<lambda>r.
       throw_tagged r (\<lambda>r. js_prop (Some r) ''creditCardOrderId''))),
     onMutate = with_status resetStatus,
     onSuccess = (\<lambda>orderId s.
       let s1 = with_status (setSuccess (Msg (JStr
             (''Card orderred successfully. Order ID: '' @ (case orderId of None \<Rightarrow> ''undefined'' | Some i \<Rightarrow> js_String i))))) s;
           s2 = s1\<lparr>vals := CreditCardForm_defaults\<rparr>
       in with_cache (newCardOrderInvalidateQuery qc) s2),
     onError = (\<lambda>m. with_status (setError m))\<rparr>"

definition CreditCardForm_submit where
  "CreditCardForm_submit lib w qc userId =
     submit (CreditCardForm_resolver lib) (CreditCardForm_mutation w qc userId)"

definition CreditCardForm_autofill :: "account_user option \<Rightarrow> (card_values, 'c) form \<Rightarrow> (card_values, 'c) form" where
  "CreditCardForm_autofill user s =
     (case user of
        None \<Rightarrow> with_status (setError (Msg (JStr ''Couldn't get proper data to fill form.''))) s
      | Some u \<Rightarrow> s\<lparr>vals := \<lparr>cv_name = au_firstName u @ '' '' @ au_lastName u, cv_address = au_address u,
          cv_email = Some (au_email u), cv_type = ''silver'', cv_agreementCheck = True\<rparr>\<rparr>)"

definition CreditCardActive_mutation :: "window \<Rightarrow> 'c query_client \<Rightarrow> string \<Rightarrow> (unit, unit, (unit, 'c) form) mutation" where
  "CreditCardActive_mutation w qc userId = \<lparr>
     mutationFn = (\<lambda>_. act_bind (revokeCreditCard w userId) (\<lambda>r. throw_tagged r (\<lambda>_. Inr ()))),
     onMutate = with_status resetStatus,
     onSuccess = (\<lambda>_ s.
       let s1 = with_cache (deleteCardInvalidateQuery qc) s
       in with_status (setSuccess (Msg (JStr ''Card has been successfully revoked.''))) s1),
     onError = (\<lambda>m. with_status (setError m))\<rparr>"

subsection \<open>The forms over their handlers\<close>

lemma deposit_answers:
  "report_ok w \<Longrightarrow> \<exists>v l'. deposit w r l = (Inr v, l') \<and> (v = JObj [] \<or> (\<exists>msg. msg \<noteq> [] \<and> v = error_result msg))"
  using deposit_call.resolves [of w r l] by auto

lemma withdraw_answers:
  "report_ok w \<Longrightarrow> \<exists>v l'. withdraw w r l = (Inr v, l') \<and> (v = JObj [] \<or> (\<exists>msg. msg \<noteq> [] \<and> v = error_result msg))"
  using withdraw_call.resolves [of w r l] by auto

text \<open>
  Their subscribers reset the status on every change: the message of a success stays only if
  the form library's \<open>reset()\<close> tells nobody.
\<close>

definition unless_reset :: "change list \<Rightarrow> string \<Rightarrow> (severity \<times> message) list" where
  "unless_reset events msg = (if events = [] then [(SuccessAlert, Msg (JStr msg))] else [])"

interpretation deposit_form: submit_form "\<lambda>w v. deposit w (DepositForm_request u v)" report_ok
    "\<lambda>w. DepositForm_mutation w qc events u" "unless_reset events ''Deposit successful''"
    "balanceInvalidateQuery qc" DepositForm_defaults
    for u qc events
  by unfold_locales
     (use deposit_answers in \<open>auto simp: void_mutation_def DepositForm_mutation_def Let_def reset_form_def
        watch_all_rest watch_all_status with_status_def with_cache_def success_shows unless_reset_def\<close>)

interpretation withdraw_form: submit_form "\<lambda>w v. withdraw w (WithdrawForm_request u v)" report_ok
    "\<lambda>w. WithdrawForm_mutation w qc events u" "unless_reset events ''Withdraw successful''"
    "balanceInvalidateQuery qc" WithdrawForm_defaults
    for u qc events
  by unfold_locales
     (use withdraw_answers in \<open>auto simp: void_mutation_def WithdrawForm_mutation_def Let_def reset_form_def
        watch_all_rest watch_all_status with_status_def with_cache_def success_shows unless_reset_def\<close>)

subsection \<open>Properties\<close>

lemma transfer_issues_Nil:
  "transfer_issues lib v = [] \<longleftrightarrow>
     (\<exists>x. tv_amount v = Some (JNum (Fin x)) \<and> 0 < x) \<and> tv_cardholderName v \<noteq> [] \<and> tv_address v \<noteq> []
     \<and> is_email lib (tv_email v) \<and> tv_cardNumber v \<noteq> [] \<and> isCreditCard lib (tv_cardNumber v)
     \<and> tv_cardType v \<noteq> [] \<and> tv_agreementCheck v"
  by (auto simp: transfer_issues_def zod_number_Some)

text \<open>
  C14: a deposit or a withdrawal that the form refuses changes nothing. An accepted one is for
  a positive amount, by a card that passes the check, with the terms agreed to, and its
  request has that amount and card; the handler is called once. On success the form is
  reset and the balance refreshed, but the announcement stays only if the form library's
  reset notifies no subscriber; on an error the message is shown and the data stay.
\<close>

theorem transfer_forms_outcome:
  assumes "report_ok w"
  shows "form_outcome (DepositForm_resolver lib) (\<lambda>v. deposit w (DepositForm_request u v))
       (unless_reset events ''Deposit successful'') (balanceInvalidateQuery qc) DepositForm_defaults ds l
       (DepositForm_submit lib w qc events u ds l)
   \<and> form_outcome (WithdrawForm_resolver lib) (\<lambda>v. withdraw w (WithdrawForm_request u v))
       (unless_reset events ''Withdraw successful'') (balanceInvalidateQuery qc) WithdrawForm_defaults ws l
       (WithdrawForm_submit lib w qc events u ws l)
   \<and> (\<forall>v. DepositForm_resolver lib dv = Some v \<longrightarrow>
        (\<exists>x. 0 < x \<and> wr_amount (DepositForm_request u v) = Fin x) \<and> tv_agreementCheck dv
        \<and> isCreditCard lib (wr_cardNumber (DepositForm_request u v)) \<and> cvvRegex (wr_cvv (DepositForm_request u v)))
   \<and> (\<forall>v. WithdrawForm_resolver lib wv = Some v \<longrightarrow>
        (\<exists>x. 0 < x \<and> wr_amount (WithdrawForm_request u v) = Fin x) \<and> tv_agreementCheck wv
        \<and> isCreditCard lib (wr_cardNumber (WithdrawForm_request u v)))"
proof (intro conjI)
  show "\<forall>v. DepositForm_resolver lib dv = Some v \<longrightarrow>
        (\<exists>x. 0 < x \<and> wr_amount (DepositForm_request u v) = Fin x) \<and> tv_agreementCheck dv
        \<and> isCreditCard lib (wr_cardNumber (DepositForm_request u v)) \<and> cvvRegex (wr_cvv (DepositForm_request u v))"
    by (auto simp: DepositForm_resolver_def DepositForm_issues_def transfer_issues_Nil DepositForm_request_def
        accepted_amount_def)
  show "\<forall>v. WithdrawForm_resolver lib wv = Some v \<longrightarrow>
        (\<exists>x. 0 < x \<and> wr_amount (WithdrawForm_request u v) = Fin x) \<and> tv_agreementCheck wv
        \<and> isCreditCard lib (wr_cardNumber (WithdrawForm_request u v))"
    by (auto simp: WithdrawForm_resolver_def transfer_issues_Nil WithdrawForm_request_def accepted_amount_def)
qed (simp_all only: DepositForm_submit_def WithdrawForm_submit_def deposit_form.outcome [OF assms]
      withdraw_form.outcome [OF assms])

definition sample_checks :: text_checks where
  "sample_checks = \<lparr>is_email = (\<lambda>s. CHR 0x40 \<in> set s), isCreditCard = (\<lambda>s. length s = 16)\<rparr>"

definition sample_deposit :: "(deposit_values, map_cache) form" where
  "sample_deposit = \<lparr>vals = DepositForm_autofill None DepositForm_defaults, status = useStatusDisplay, cache = sample_cache\<rparr>"

definition quiet_window :: window where
  "quiet_window = \<lparr>w_origin = [], w_dynatrace = None, w_dtrum = None,
     w_net = (\<lambda>l rq. Inr \<lparr>rp_status = 200, rp_text = Inr [], rp_json = Inl SyntaxError\<rparr>),
     w_xmlParse = (\<lambda>t. Inl SyntaxError), w_xmlBuild = (\<lambda>v. [])\<rparr>"

theorem transfer_forms_outcome_witness:
  "form_outcome (DepositForm_resolver sample_checks) (\<lambda>v. deposit quiet_window (DepositForm_request ''7'' v))
     (unless_reset [Untyped] ''Deposit successful'') (balanceInvalidateQuery map_client) DepositForm_defaults
     sample_deposit [] (DepositForm_submit sample_checks quiet_window map_client [Untyped] ''7'' sample_deposit [])
   \<and> DepositForm_resolver sample_checks (vals sample_deposit) = Some (vals sample_deposit)"
proof
  have "report_ok quiet_window" by (simp add: quiet_window_def report_ok_def)
  from transfer_forms_outcome [OF this, of sample_checks "''7''" "[Untyped]" map_client sample_deposit "[]"]
  show "form_outcome (DepositForm_resolver sample_checks) (\<lambda>v. deposit quiet_window (DepositForm_request ''7'' v))
     (unless_reset [Untyped] ''Deposit successful'') (balanceInvalidateQuery map_client) DepositForm_defaults
     sample_deposit [] (DepositForm_submit sample_checks quiet_window map_client [Untyped] ''7'' sample_deposit [])"
    by blast
  show "DepositForm_resolver sample_checks (vals sample_deposit) = Some (vals sample_deposit)"
    by code_simp
qed

text \<open>
  One click on autofill makes the deposit and the withdrawal form acceptable, whether the
  user's data are there or not, and asks for a thousand unless an amount was already given.
\<close>

lemma transfer_autofill_accepted:
  assumes "isCreditCard lib ''2293562484488276''" and "is_email lib ''mockemail@mail.com''"
    and "\<And>u. user = Some u \<Longrightarrow> is_email lib (au_email u) \<and> au_address u \<noteq> []"
    and "tv_amount dv = Some (JNum (Fin x))" "tv_amount wv = Some (JNum (Fin y))" "0 \<le> x" "0 \<le> y"
  shows "DepositForm_resolver lib (DepositForm_autofill user dv) = Some (DepositForm_autofill user dv)
   \<and> wr_amount (DepositForm_request u (DepositForm_autofill user dv)) = Fin (if x = 0 then 1000 else x)
   \<and> WithdrawForm_resolver lib (WithdrawForm_autofill user wv) = Some (WithdrawForm_autofill user wv)
   \<and> wr_amount (WithdrawForm_request u (WithdrawForm_autofill user wv)) = Fin (if y = 0 then 1000 else y)"
proof -
  have "is_email lib (nullish (map_option au_email user) ''mockemail@mail.com'')"
    "nullish (map_option au_address user) ''Kochweg 4 01510 Kronach'' \<noteq> []" "autofill_name user \<noteq> []"
    using assms(2,3) by (cases user; simp add: autofill_name_def)+
  moreover have "cvvRegex ''123''" by code_simp
  ultimately show ?thesis
    using assms(1,4-7)
    by (auto simp: DepositForm_resolver_def DepositForm_issues_def WithdrawForm_resolver_def transfer_issues_Nil
        DepositForm_autofill_def WithdrawForm_autofill_def autofill_amount_def DepositForm_request_def
        WithdrawForm_request_def accepted_amount_def)
qed

text \<open>The alert an answer to a login leaves.\<close>

definition login_alerts :: "js_exn + jsval \<Rightarrow> (severity \<times> message) list" where
  "login_alerts reply =
     (case attempt reply (\<lambda>v. js_prop v ''error'') of
        Inl e \<Rightarrow> [(ErrorAlert, Exn e)]
      | Inr None \<Rightarrow> []
      | Inr (Some e) \<Rightarrow> if e = JStr [] then [] else [(ErrorAlert, Msg e)])"

lemma js_prop_fails: "js_prop v k = Inl e \<longleftrightarrow> e = TypeError \<and> (v = None \<or> v = Some JNull)"
  by (auto simp: js_prop_def split: option.splits json.splits)

lemma login_response_error: "js_prop (Some (js_obj [(''id'', i), (''error'', e)])) ''error'' = Inr e"
  by (cases i; cases e) (simp_all add: js_obj_def map_filter_simps)

lemma login_result:
  "AuthProvider_login setId reply s = Inl e \<Longrightarrow> login_alerts reply = [(ErrorAlert, Exn e)]"
  "AuthProvider_login setId reply s = Inr (s', resp) \<Longrightarrow>
      \<exists>e. js_prop (Some resp) ''error'' = Inr e
        \<and> login_alerts reply = (case e of None \<Rightarrow> [] | Some x \<Rightarrow> if x = JStr [] then [] else [(ErrorAlert, Msg x)])"
proof -
  assume "AuthProvider_login setId reply s = Inl e"
  then show "login_alerts reply = [(ErrorAlert, Exn e)]"
    by (auto simp: AuthProvider_login_def attempt_def login_alerts_def js_prop_fails split: sum.splits)
next
  assume "AuthProvider_login setId reply s = Inr (s', resp)"
  then show "\<exists>e. js_prop (Some resp) ''error'' = Inr e
        \<and> login_alerts reply = (case e of None \<Rightarrow> [] | Some x \<Rightarrow> if x = JStr [] then [] else [(ErrorAlert, Msg x)])"
    by (auto simp: AuthProvider_login_def attempt_def login_alerts_def login_response_error split: sum.splits)
qed

lemma throw_error_run:
  "js_prop r ''error'' = Inr e \<Longrightarrow> throw_error r l = (Inr (case e of Some x \<Rightarrow> Inl x | None \<Rightarrow> Inr ()), l)"
  by (simp add: throw_error_def act_simps)

text \<open>
  C35: a submit of the login form sends nothing when a field is empty. Otherwise one login
  request decides: the session goes to the id of the answer if there is one and stays as it
  is if there is none, and the alert shown is the error of the answer if there is one. An
  answer that is no object ends in an exception that is shown, with the session unchanged.
\<close>

theorem login_form_outcome:
  assumes "login w (lv_login (vals s)) (lv_password (vals s)) l = (reply, l')"
  shows "if lv_login (vals s) = [] \<or> lv_password (vals s) = []
     then LoginForm_submit (sessionStore_set f) w s l = (s, l)
     else \<exists>s'. LoginForm_submit (sessionStore_set f) w s l = (s', l') \<and> vals s' = vals s
          \<and> state_id (cache s') = next_user (LoginReply reply) (state_id (cache s))
          \<and> StatusDisplay (status s') = login_alerts reply"
proof (cases "lv_login (vals s) = [] \<or> lv_password (vals s) = []")
  case True
  then show ?thesis by (simp add: LoginForm_submit_def LoginForm_issues_def)
next
  case False
  note step = session.step_get [of f "LoginReply reply" "cache s"]
  show ?thesis
  proof (cases "AuthProvider_login (sessionStore_set f) reply (cache s)")
    case (Inl e)
    with False assms step login_result(1) [OF Inl] show ?thesis
      by (simp add: LoginForm_submit_def LoginForm_issues_def Let_def with_status_def after_def)
         (simp add: status_defs)
  next
    case (Inr r)
    obtain session resp where r: "r = (session, resp)" by (cases r)
    obtain e where e: "js_prop (Some resp) ''error'' = Inr e"
      "login_alerts reply = (case e of None \<Rightarrow> [] | Some x \<Rightarrow> if x = JStr [] then [] else [(ErrorAlert, Msg x)])"
      using login_result(2) [OF Inr [unfolded r]] by blast
    with False assms step Inr r show ?thesis
      by (cases e) (simp_all add: LoginForm_submit_def LoginForm_issues_def Let_def with_status_def after_def
          throw_error_run [OF e(1)], simp_all add: status_defs)
  qed
qed

theorem login_form_outcome_witness:
  "\<exists>s' l'. LoginForm_submit (sessionStore_set sample_serializer) quiet_window
       \<lparr>vals = \<lparr>lv_login = ''u'', lv_password = ''p''\<rparr>, status = useStatusDisplay, cache = no_session\<rparr> [] = (s', l')
     \<and> state_id (cache s') = JNull
     \<and> StatusDisplay (status s') = [(ErrorAlert, Msg (JStr ''Login or password invalid''))]"
proof -
  let ?s = "\<lparr>vals = \<lparr>lv_login = ''u'', lv_password = ''p''\<rparr>, status = useStatusDisplay, cache = no_session\<rparr>"
  obtain reply l' where r: "login quiet_window ''u'' ''p'' [] = (reply, l')" by (cases "login quiet_window ''u'' ''p'' []")
  then have "reply = Inr (Some (error_result ''Login or password invalid''))"
    by (auto simp: login_def loginXml_def quiet_window_def call_xml_def send_ok_def fetch_def act_simps res_ok_def)
  moreover from r have "\<exists>s'. LoginForm_submit (sessionStore_set sample_serializer) quiet_window ?s [] = (s', l')
      \<and> vals s' = vals ?s \<and> state_id (cache s') = next_user (LoginReply reply) (state_id (cache ?s))
      \<and> StatusDisplay (status s') = login_alerts reply"
    using login_form_outcome [of quiet_window ?s "[]" reply l' sample_serializer] by simp
  ultimately show ?thesis by (auto simp: login_alerts_def error_result_def no_session_def)
qed

end
