(* ===== verification/Frontend_Pages.thy ===== *)
theory Frontend_Pages
  imports Frontend_Forms
begin

section \<open>Frontend: feature flags, versions, order status and navigation\<close>

text \<open>
  \<open>components/featureFlags/\<close> and \<open>pages/FeatureFlags.tsx\<close>, \<open>components/version/\<close> and
  \<open>pages/Version.tsx\<close>, the timeline of a card order, the contexts of theme and navigation,
  the application header and the links between the pages.
\<close>

subsection \<open>FeatureFlagList\<close>

record flag_list =
  expand_target :: string
  fb_visible :: bool
  fb_variant :: severity
  fb_msg :: string

datatype flag_action = FlagSuccess string | FlagError string | ResetFeedback | Expand string | Collapse

fun feedbackReducer :: "flag_list \<Rightarrow> flag_action \<Rightarrow> flag_list" where
  "feedbackReducer s (FlagSuccess m) = s\<lparr>fb_visible := True, fb_variant := SuccessAlert, fb_msg := m\<rparr>"
| "feedbackReducer s (FlagError m) = s\<lparr>fb_visible := True, fb_variant := ErrorAlert, fb_msg := m\<rparr>"
| "feedbackReducer s ResetFeedback = s\<lparr>fb_visible := False, fb_msg := []\<rparr>"
| "feedbackReducer s (Expand t) = s\<lparr>expand_target := (if expand_target s = t then [] else t)\<rparr>"
| "feedbackReducer s Collapse = s\<lparr>expand_target := []\<rparr>"

definition flag_list_init :: flag_list where
  "flag_list_init = \<lparr>expand_target = [], fb_visible = False, fb_variant = SuccessAlert, fb_msg = []\<rparr>"

record feature_flag_data =
  ff_id :: string
  ff_name :: string
  ff_description :: "string option"
  ff_enabled :: bool
  ff_isModifiable :: bool

definition item_expanded :: "flag_list \<Rightarrow> feature_flag_data \<Rightarrow> bool" where
  "item_expanded s flag \<longleftrightarrow> expand_target s = ff_name flag"

text \<open>The snackbar is not closed by a click elsewhere.\<close>

definition Snackbar_onClose :: "string \<Rightarrow> flag_list \<Rightarrow> flag_list" where
  "Snackbar_onClose reason s = (if reason \<noteq> ''clickaway'' then feedbackReducer s ResetFeedback else s)"

subsection \<open>FeatureFlagItem\<close>

definition getFeatureFlagCurl :: "window \<Rightarrow> string \<Rightarrow> bool \<Rightarrow> string" where
  "getFeatureFlagCurl w flagId enable =
     ''curl -X PUT '' @ [CHR 0x22] @ w_origin w @ ''/feature-flag-service/v1/flags/'' @ flagId
     @ [CHR 0x22] @ '' -H '' @ [CHR 0x22] @ ''Content-Type: application/json'' @ [CHR 0x22]
     @ '' -d '' @ [CHR 0x27] @ ''{'' @ [CHR 0x22] @ ''enabled'' @ [CHR 0x22] @ '': ''
     @ (if enable then ''true'' else ''false'') @ ''}'' @ [CHR 0x27]"

text \<open>
  \<open>([head, ...tail]) => ...\<close> on the segments of a name: an empty segment has no head, and
  calling a method of \<open>undefined\<close> throws.
\<close>

fun capitalize :: "(string \<Rightarrow> string) \<Rightarrow> string \<Rightarrow> js_exn + string" where
  "capitalize lower [] = Inl TypeError"
| "capitalize lower (c # t) = Inr (to_upper [c] @ lower t)"

fun capitalize_all :: "(string \<Rightarrow> string) \<Rightarrow> string list \<Rightarrow> js_exn + string list" where
  "capitalize_all lower [] = Inr []"
| "capitalize_all lower (w # ws) =
     attempt (capitalize lower w) (\<lambda>w'. attempt (capitalize_all lower ws) (\<lambda>ws'. Inr (w' # ws')))"

definition title_of :: "(string \<Rightarrow> string) \<Rightarrow> string \<Rightarrow> js_exn + string" where
  "title_of lower s = attempt (capitalize_all lower (split_on (CHR 0x5F) s)) (\<lambda>ws. Inr (js_join '' '' ws))"

definition displayName :: "string \<Rightarrow> js_exn + string" where
  "displayName name = title_of (\<lambda>t. t) name"

text \<open>\<open>featureFlagManagement\<close> of the configuration, when it is loaded.\<close>

definition modifyDisabled :: "feature_flag_data \<Rightarrow> bool option \<Rightarrow> bool" where
  "modifyDisabled flag management \<longleftrightarrow> \<not> ff_isModifiable flag \<or> \<not> nullish management False"

text \<open>The tooltip that explains a disabled button: its hover listener, as set.\<close>

definition tooltip_listens :: "feature_flag_data \<Rightarrow> bool option \<Rightarrow> bool" where
  "tooltip_listens flag management \<longleftrightarrow> \<not> modifyDisabled flag management"

definition item_texts :: "feature_flag_data \<Rightarrow> (string \<times> string \<times> string \<times> string)" where
  "item_texts flag =
     (if ff_isModifiable flag then ''modifiable'' else ''non-modifiable'',
      if ff_enabled flag then ''enabled'' else ''disabled'',
      nullish (ff_description flag) ''There is no description for this flag currently.'',
      if ff_enabled flag then ''Disable'' else ''Enable'')"

text \<open>\<open>`${error}`\<close>; the text of an exception is that of its class.\<close>

definition message_text :: "(js_exn \<Rightarrow> string) \<Rightarrow> message \<Rightarrow> string" where
  "message_text show_exn m = (case m of Msg v \<Rightarrow> js_String v | Exn e \<Rightarrow> show_exn e)"

definition FeatureFlagItem_mutation ::
  "(js_exn \<Rightarrow> string) \<Rightarrow> window \<Rightarrow> 'c query_client \<Rightarrow> feature_flag_data \<Rightarrow> (unit, unit, (flag_list, 'c) form) mutation" where
  "FeatureFlagItem_mutation show_exn w qc flag =
     (let enabled = \<not> ff_enabled flag in \<lparr>
       mutationFn = (\<lambda>_. act_bind (handleFlagToggle w (ff_id flag) (\<not> ff_enabled flag)) (\<lambda>r. throw_error (Some r))),
       onMutate = (\<lambda>s. s),
       onSuccess = (\<lambda>_ s.
         let s1 = with_cache (invalidateExact qc featureFlagKeys_problemPatterns) s
         in s1\<lparr>vals := feedbackReducer (vals s1) (FlagSuccess
              (''Flag '' @ ff_name flag @ '' '' @ (if enabled then ''enabled'' else ''disabled'') @ '' successfully.''))\<rparr>),
       onError = (\<lambda>error s. s\<lparr>vals := feedbackReducer (vals s) (FlagError
              (''Error while '' @ (if enabled then ''enabling'' else ''disabling'') @ '' flag '' @ ff_name flag @ '': ''
               @ message_text show_exn error @ ''.''))\<rparr>)\<rparr>)"

text \<open>The button, which does nothing when it is disabled, and the one that copies the command.\<close>

definition FeatureFlagItem_toggle ::
  "(js_exn \<Rightarrow> string) \<Rightarrow> window \<Rightarrow> 'c query_client \<Rightarrow> bool option \<Rightarrow> feature_flag_data
    \<Rightarrow> (flag_list, 'c) form \<Rightarrow> fe_event list \<Rightarrow> (flag_list, 'c) form \<times> fe_event list" where
  "FeatureFlagItem_toggle show_exn w qc management flag s l =
     (if modifyDisabled flag management then (s, l)
      else mutate (FeatureFlagItem_mutation show_exn w qc flag) () s l)"

definition copy_curl :: "window \<Rightarrow> feature_flag_data \<Rightarrow> flag_list \<Rightarrow> string \<times> flag_list" where
  "copy_curl w flag s =
     (getFeatureFlagCurl w (ff_id flag) (\<not> ff_enabled flag), feedbackReducer s (FlagSuccess ''Copied to clipboard!''))"

subsection \<open>FeatureFlags page and icon\<close>

definition management_alert :: "bool option \<Rightarrow> bool" where
  "management_alert management \<longleftrightarrow> \<not> nullish management False"

text \<open>The refresh: a delay, and a refetch of every query under the key.\<close>

definition FeatureFlags_refresh :: "(query_key \<Rightarrow> (fe_event, unit) act) \<Rightarrow> (fe_event, unit) act" where
  "FeatureFlags_refresh refetchQueries = act_then (act_emit (DelayMS 500)) (refetchQueries featureFlagKeys_all)"

definition enabledFlagCount :: "feature_flag_data list option \<Rightarrow> nat" where
  "enabledFlagCount flags = (case flags of None \<Rightarrow> 0 | Some fs \<Rightarrow> length (filter ff_enabled fs))"

subsection \<open>Versions\<close>

datatype version_cell = Plain jsval | Warning jsval

datatype version_row =
    ErrorRow string string
  | DataRow string version_cell version_cell version_cell

definition DifferenceWarning :: "jsval \<Rightarrow> jsval \<Rightarrow> version_cell" where
  "DifferenceWarning value expected = (if value = expected then Plain value else Warning value)"

definition version_cell_of :: "jsval \<Rightarrow> jsval \<Rightarrow> string \<Rightarrow> js_exn + version_cell" where
  "version_cell_of data frontend field =
     attempt (js_prop data field) (\<lambda>v. attempt (js_prop frontend field) (\<lambda>e. Inr (DifferenceWarning v e)))"

definition VersionsTableItem :: "json \<Rightarrow> service_version \<Rightarrow> js_exn + version_row" where
  "VersionsTableItem build service =
     (case service of
        VersionError name msg \<Rightarrow> Inr (ErrorRow name msg)
      | VersionSuccess name data \<Rightarrow>
          (case getFrontendVersion build of
             VersionSuccess _ frontend \<Rightarrow>
               attempt (version_cell_of data frontend ''buildVersion'') (\<lambda>v.
               attempt (version_cell_of data frontend ''buildDate'') (\<lambda>d.
               attempt (version_cell_of data frontend ''buildCommit'') (\<lambda>c.
                 Inr (DataRow name v d c))))
           | VersionError _ _ \<Rightarrow> Inl TypeError))"

fun all_rows :: "('a \<Rightarrow> js_exn + 'b) \<Rightarrow> 'a list \<Rightarrow> js_exn + 'b list" where
  "all_rows f [] = Inr []"
| "all_rows f (x # xs) = attempt (f x) (\<lambda>y. attempt (all_rows f xs) (\<lambda>ys. Inr (y # ys)))"

definition VersionsTable :: "json \<Rightarrow> service_version list \<Rightarrow> js_exn + version_row list" where
  "VersionsTable build versions = all_rows (VersionsTableItem build) versions"

definition Version_page :: "json \<Rightarrow> service_version list option \<Rightarrow> js_exn + version_row list" where
  "Version_page build versions = VersionsTable build (getFrontendVersion build # nullish versions [])"

subsection \<open>The status of a card order\<close>

definition status_label :: "string \<Rightarrow> js_exn + string" where
  "status_label st = title_of to_lower st"

record status_entry_data =
  se_timestamp :: string
  se_status :: string
  se_details :: string

text \<open>
  \<open>TimelineEntry\<close>: \<open>date\<close> stands for \<open>formatDate(Date.parse(timestamp))\<close>. The list is shown
  last entry first.
\<close>

definition TimelineEntry :: "(string \<Rightarrow> js_exn + string) \<Rightarrow> status_entry_data \<Rightarrow> js_exn + (string \<times> string \<times> string)" where
  "TimelineEntry date e =
     attempt (date (se_timestamp e)) (\<lambda>d. attempt (status_label (se_status e)) (\<lambda>t. Inr (d, t, se_details e)))"

definition CreditCardStatusTimeline ::
  "(string \<Rightarrow> js_exn + string) \<Rightarrow> status_entry_data list \<Rightarrow> js_exn + (string \<times> string \<times> string) list" where
  "CreditCardStatusTimeline date statusList = all_rows (TimelineEntry date) (rev statusList)"

text \<open>The page around it throws when there is no history to show.\<close>

definition CreditCardStatus_page ::
  "(string \<Rightarrow> js_exn + string) \<Rightarrow> (string + status_entry_data list) option \<Rightarrow> js_exn + (string \<times> string \<times> string) list" where
  "CreditCardStatus_page date data =
     (case data of
        None \<Rightarrow> Inl (JsError ''There was an error getting order history [Response was empty]'')
      | Some (Inl e) \<Rightarrow> Inl (JsError (''There was an error getting order history ['' @ e @ '']''))
      | Some (Inr statusList) \<Rightarrow> CreditCardStatusTimeline date statusList)"

subsection \<open>Theme\<close>

datatype theme_mode = dark | light

definition getPreferredTheme :: "bool \<Rightarrow> theme_mode" where
  "getPreferredTheme prefersDark = (if prefersDark then dark else light)"

definition isDarkTheme :: "theme_mode \<Rightarrow> bool" where
  "isDarkTheme mode \<longleftrightarrow> mode = dark"

definition toggleTheme :: "theme_mode \<Rightarrow> theme_mode" where
  "toggleTheme prev = (if prev = dark then light else dark)"

subsection \<open>Navigation\<close>

definition toggleNavigation :: "bool \<Rightarrow> bool" where
  "toggleNavigation navigationVisible = (\<not> navigationVisible)"

definition hideNavigation :: "bool \<Rightarrow> bool" where
  "hideNavigation navigationVisible = False"

text \<open>The effect of the protected layout when the width of the window passes the break point.\<close>

definition ProtectedLayout_effect :: "bool \<Rightarrow> bool \<Rightarrow> bool" where
  "ProtectedLayout_effect navigationHidden navigationVisible =
     (if navigationHidden then hideNavigation navigationVisible else navigationVisible)"

definition ProtectedLayout_margin :: "bool \<Rightarrow> string" where
  "ProtectedLayout_margin navigationVisible = (if navigationVisible then ''210px'' else ''0px'')"

definition Navigation_items :: "(string \<times> string) list" where
  "Navigation_items =
     [(''/home'', ''Home''), (''/instruments'', ''Instruments''), (''/deposit'', ''Deposit''),
      (''/withdraw'', ''Withdraw''), (''/credit-card'', ''Credit Card'')]"

definition Login_link :: string where "Login_link = ''/signup''"
definition Signup_link :: string where "Signup_link = ''/login''"
definition FeatureFlag_link :: string where "FeatureFlag_link = ''/feature-flags''"

text \<open>The parts of the header: the user's are there only with a user.\<close>

datatype header_part = NavigationToggler | Logo | ThemeSwitcher | FeatureFlagIcon | VersionInfo | UserPanel

definition AppHeader :: "json \<Rightarrow> header_part list" where
  "AppHeader userId =
     (if isLoggedIn userId then [NavigationToggler] else []) @ [Logo, ThemeSwitcher, FeatureFlagIcon, VersionInfo]
     @ (if isLoggedIn userId then [UserPanel] else [])"

definition GreetingWithSkeleton :: "string option \<Rightarrow> string option" where
  "GreetingWithSkeleton firstName =
     (case firstName of None \<Rightarrow> None | Some n \<Rightarrow> if n = [] then None else Some (''Hi, '' @ n))"

definition AvatarWithSkeleton :: "string option \<Rightarrow> char option" where
  "AvatarWithSkeleton token = (case token of None \<Rightarrow> None | Some t \<Rightarrow> if t = [] then None else Some (hd t))"

definition AccountInfo :: "(jsnum \<Rightarrow> string) \<Rightarrow> jsnum option \<Rightarrow> string option \<Rightarrow> string \<times> string" where
  "AccountInfo formatCurrency balance packageType =
     (case balance of None \<Rightarrow> ''Loading...'' | Some b \<Rightarrow> formatCurrency b, nullish packageType ''Loading...'')"

definition CheckboxLabel_color :: "bool \<Rightarrow> string" where
  "CheckboxLabel_color hasErrors = (if hasErrors then ''error'' else [])"

subsection \<open>The tabs of an instrument\<close>

datatype FormId = QuickBuy_form | QuickSell_form | Buy_form | Sell_form

definition InstrumentTransactions_init :: FormId where
  "InstrumentTransactions_init = QuickBuy_form"

definition InstrumentTransactions_tabs :: "(string \<times> FormId) list" where
  "InstrumentTransactions_tabs =
     [(''Quick Buy'', QuickBuy_form), (''Quick Sell'', QuickSell_form), (''Buy'', Buy_form), (''Sell'', Sell_form)]"

subsection \<open>Lemmas\<close>

lemma capitalize_all_ok:
  "capitalize_all lower ws =
     (if [] \<in> set ws then Inl TypeError else Inr (map (\<lambda>w. to_upper [hd w] @ lower (tl w)) ws))"
proof (induction ws)
  case (Cons w ws)
  then show ?case by (cases w) auto
qed simp

lemma title_of_ok:
  "title_of lower s =
     (if [] \<in> set (split_on (CHR 0x5F) s) then Inl TypeError
      else Inr (js_join '' '' (map (\<lambda>w. to_upper [hd w] @ lower (tl w)) (split_on (CHR 0x5F) s))))"
  by (simp add: title_of_def capitalize_all_ok)

lemma all_rows_map: "(\<And>x. x \<in> set xs \<Longrightarrow> f x = Inr (g x)) \<Longrightarrow> all_rows f xs = Inr (map g xs)"
  by (induction xs) auto

text \<open>A name with two underscores in a row, or one at an end, breaks the page of the flags.\<close>

lemma displayName_empty_segment: "displayName ''db__down'' = Inl TypeError"
  by (simp add: displayName_def title_of_ok)

text \<open>The tooltip says that managing is disabled, and listens exactly when it is not.\<close>

lemma tooltip_inverted: "tooltip_listens flag management \<longleftrightarrow> \<not> modifyDisabled flag management"
  by (rule tooltip_listens_def)

lemma toggle_twice: "toggleTheme (toggleTheme m) = m" "toggleNavigation (toggleNavigation v) = v"
  by (cases m) (simp_all add: toggleTheme_def toggleNavigation_def)

subsection \<open>The toggle of a flag\<close>

abbreviation flag_put :: "window \<Rightarrow> string \<Rightarrow> bool \<Rightarrow> http_request" where
  "flag_put w flagId enabled \<equiv>
     \<lparr>rq_method = ''PUT'', rq_url = getFeatureFlagServiceUrl w @ ''/flags/'' @ flagId,
        rq_headers = acceptJson @ [(''Content-Type'', ''application/json'')],
        rq_body = BodyJson (JObj [(''enabled'', JBool enabled)])\<rparr>"

text \<open>The answers the back end accepts: an empty body, or one that is JSON.\<close>

definition flag_put_accepted :: "js_exn + http_reply \<Rightarrow> bool" where
  "flag_put_accepted reply =
     (case reply of
        Inl e \<Rightarrow> False
      | Inr r \<Rightarrow> res_ok (rp_status r)
          \<and> (case rp_text r of Inl e \<Rightarrow> False | Inr t \<Rightarrow> t = [] \<or> (\<exists>v. JSON_parse t = Inr v)))"

lemma handleFlagToggle_run:
  "handleFlagToggle w i b l =
     (Inr (if flag_put_accepted (w_net w l (flag_put w i b)) then JObj []
           else error_result ''There was an error when setting flag state''), l @ [Request (flag_put w i b)])"
proof (cases "w_net w l (flag_put w i b)")
  case (Inl e)
  then show ?thesis
    by (simp add: handleFlagToggle_def setProblemPatternEnabled_def send_ok_def fetch_def act_simps flag_put_accepted_def)
next
  case (Inr r)
  show ?thesis
  proof (cases "rp_text r")
    case (Inl e)
    with Inr show ?thesis
      by (simp add: handleFlagToggle_def setProblemPatternEnabled_def send_ok_def fetch_def act_simps
          flag_put_accepted_def)
  next
    case (Inr t)
    with \<open>w_net w l (flag_put w i b) = Inr r\<close> show ?thesis
      by (cases "JSON_parse t") (simp_all add: handleFlagToggle_def setProblemPatternEnabled_def send_ok_def
          fetch_def act_simps flag_put_accepted_def)
  qed
qed

lemma flag_toggle_answers:
  "\<exists>v l'. handleFlagToggle w i b l = (Inr v, l') \<and> (v = JObj [] \<or> (\<exists>msg. msg \<noteq> [] \<and> v = error_result msg))"
  by (auto simp: handleFlagToggle_run)

interpretation flag_handler: form_handler "\<lambda>w _. handleFlagToggle w i b" "\<lambda>_. True" for i b
  by unfold_locales (rule flag_toggle_answers)

text \<open>
  C22: the button of a flag does nothing when it is disabled. Otherwise it sends one \<open>PUT\<close> of
  the opposite state. The list of flags is reread exactly when the answer was accepted, and the
  snackbar shows the matching success or error.
\<close>

theorem flag_toggle_outcome:
  "let r = FeatureFlagItem_toggle show_exn w qc management flag s l;
       req = flag_put w (ff_id flag) (\<not> ff_enabled flag)
   in if modifyDisabled flag management then r = (s, l)
      else snd r = l @ [Request req] \<and> fb_visible (vals (fst r))
        \<and> (if flag_put_accepted (w_net w l req)
           then fb_variant (vals (fst r)) = SuccessAlert
             \<and> cache (fst r) = invalidateExact qc featureFlagKeys_problemPatterns (cache s)
           else fb_variant (vals (fst r)) = ErrorAlert \<and> cache (fst r) = cache s)"
proof (cases "modifyDisabled flag management")
  case True
  then show ?thesis by (simp add: FeatureFlagItem_toggle_def)
next
  case False
  let ?m = "FeatureFlagItem_mutation show_exn w qc flag"
  let ?h = "handleFlagToggle w (ff_id flag) (\<not> ff_enabled flag)"
  have void: "void_mutation (\<lambda>_. ?h) ?m"
    by (simp add: void_mutation_def FeatureFlagItem_mutation_def Let_def)
  consider
      (ok) l' where "?h l = (Inr (JObj []), l')" "mutate ?m () s l = (onSuccess ?m () (onMutate ?m s), l')"
    | (failed) msg l' where "msg \<noteq> []" "?h l = (Inr (error_result msg), l')"
        "mutate ?m () s l = (onError ?m (Msg (JStr msg)) (onMutate ?m s), l')"
    by (rule flag_handler.mutate_cases [OF TrueI void]) blast+
  then show ?thesis
  proof cases
    case (ok l')
    with False show ?thesis
      by (simp add: FeatureFlagItem_toggle_def handleFlagToggle_run FeatureFlagItem_mutation_def Let_def
          with_cache_def error_result_def split: if_splits)
  next
    case (failed msg l')
    with False show ?thesis
      by (simp add: FeatureFlagItem_toggle_def handleFlagToggle_run FeatureFlagItem_mutation_def Let_def
          error_result_def split: if_splits)
  qed
qed

subsection \<open>Where the links lead\<close>

definition link_path :: "string \<Rightarrow> path" where
  "link_path to = tl (split_on (CHR 0x2F) to)"

lemma link_paths:
  "map (link_path \<circ> fst) Navigation_items =
     [[''home''], [''instruments''], [''deposit''], [''withdraw''], [''credit-card'']]"
  by (simp add: Navigation_items_def link_path_def)

lemma match_links:
  "match_route [''deposit''] = Deposit" "match_route [''withdraw''] = Withdraw"
  "match_route [''credit-card''] = CreditCard"
  by (simp_all add: match_route_def routes_def)

lemma card_not_landing: "[''credit-card''] \<noteq> card_path data"
  by (simp add: card_path_def)

lemma card_path_layout: "layout_of (match_route (card_path data)) = ProtectedLayout"
  by (cases data) (simp_all add: card_path_def)

text \<open>
  With a user, every entry of the navigation leads to a protected page: its own, and for
  the credit card the one for the status of the order. The links between the two public pages
  and to the flags lead where they say.
\<close>

lemma navigation_links:
  assumes "userId \<noteq> JNull" "userId \<noteq> JStr []" and "\<And>e. data \<noteq> OrderError e"
  shows "map (\<lambda>(to, label). settle 2 userId data ids (link_path to)) Navigation_items =
      map (Some \<circ> Render) [Home, Instruments, Deposit, Withdraw, match_route (card_path data)]
   \<and> settle 1 JNull data ids (link_path Login_link) = Some (Render Signup)
   \<and> settle 1 JNull data ids (link_path Signup_link) = Some (Render Login)
   \<and> settle 1 userId data ids (link_path FeatureFlag_link) = Some (Render FeatureFlags)"
proof (intro conjI)
  have card: "settle 2 userId data ids [''credit-card''] = Some (Render (match_route (card_path data)))"
    using visit_card [OF assms(1,2) _ assms(3), of "[''credit-card'']" ids]
      visit_card [OF assms(1,2) card_path_in assms(3), of ids]
    by (simp add: settle_two match_links card_not_landing)
  show "map (\<lambda>(to, label). settle 2 userId data ids (link_path to)) Navigation_items =
      map (Some \<circ> Render) [Home, Instruments, Deposit, Withdraw, match_route (card_path data)]"
    using assms(1,2) card
    by (simp add: Navigation_items_def link_path_def) (simp add: settle_two visit_simps match_links)
qed (use assms(1,2) in \<open>simp_all add: link_path_def Login_link_def Signup_link_def FeatureFlag_link_def visit_simps
       match_route_def routes_def\<close>)

end
