(* ===== verification/Frontend_Components.thy ===== *)
theory Frontend_Components
  imports Frontend_Pages
begin

section \<open>Frontend: the component tree\<close>

text \<open>
  The elements the layouts, pages and components render, with the contexts their hooks read and
  those the providers give. A hook outside its provider throws; so does taking apart the data of a route
  that was not matched. Elements of the libraries are left out, they read none of these.
\<close>

subsection \<open>Contexts and hooks\<close>

datatype loader_id = UserData | InstrumentsData

datatype need =
    FormatterContext
  | QueryContext
  | QueryClientContext
  | AuthContext
  | UserContext
  | InstrumentContext
  | RouteData loader_id

fun missing :: "need \<Rightarrow> js_exn" where
  "missing FormatterContext = JsError ''Components using [useFormatter] hook need to be wrapped in [FormatterProvider]''"
| "missing QueryContext = JsError ''Components using [useQueryContext] hook need to be wrapped in [QueryClientProvider]''"
| "missing QueryClientContext = JsError ''No QueryClient set, use QueryClientProvider to set one''"
| "missing AuthContext = JsError ''Components using [useAuth] hook need to be wrapped in [AuthProvider]''"
| "missing UserContext = JsError ''[useAuthUser] hook needs to be wrapped in [UserContextProvider]''"
| "missing InstrumentContext = JsError ''Components using [userInstrument] hook need to be wrapped in [InstrumentProvider]''"
| "missing (RouteData i) = TypeError"

abbreviation useFormatter :: "need list" where "useFormatter \<equiv> [FormatterContext]"
abbreviation useAuth :: "need list" where "useAuth \<equiv> [AuthContext]"
abbreviation useAuthUser :: "need list" where "useAuthUser \<equiv> [UserContext]"
abbreviation useInstrument :: "need list" where "useInstrument \<equiv> [InstrumentContext]"
abbreviation useQueryClient :: "need list" where "useQueryClient \<equiv> [QueryClientContext]"

text \<open>The hooks of \<open>QueryContext\<close>: the context of the application, then \<open>useQuery\<close>.\<close>

definition query_hook :: "need list" where
  "query_hook = [QueryContext, QueryClientContext]"

definition useAuthUserData :: "need list" where
  "useAuthUserData = useAuthUser @ [RouteData UserData] @ query_hook @ query_hook"

subsection \<open>Elements\<close>

datatype jsx = Element string "need list" "need list" "jsx list" | Raise js_exn

fun render_jsx :: "need set \<Rightarrow> jsx \<Rightarrow> js_exn option"
and render_all :: "need set \<Rightarrow> jsx list \<Rightarrow> js_exn option" where
  "render_jsx given (Raise e) = Some e"
| "render_jsx given (Element name hooks provided children) =
     (case List.find (\<lambda>n. n \<notin> given) hooks of
        Some n \<Rightarrow> Some (missing n)
      | None \<Rightarrow> render_all (given \<union> set provided) children)"
| "render_all given [] = None"
| "render_all given (x # xs) =
     (case render_jsx given x of Some e \<Rightarrow> Some e | None \<Rightarrow> render_all given xs)"

abbreviation Plain :: "string \<Rightarrow> jsx list \<Rightarrow> jsx" where
  "Plain name children \<equiv> Element name [] [] children"

abbreviation Uses :: "string \<Rightarrow> need list \<Rightarrow> jsx list \<Rightarrow> jsx" where
  "Uses name hooks children \<equiv> Element name hooks [] children"

subsection \<open>Providers\<close>

definition FormatterProvider_jsx :: "jsx list \<Rightarrow> jsx" where
  "FormatterProvider_jsx children = Element ''FormatterProvider'' [] [FormatterContext] children"

definition QueryClientProvider_jsx :: "jsx list \<Rightarrow> jsx" where
  "QueryClientProvider_jsx children = Element ''QueryClientProvider'' [] [QueryClientContext, QueryContext] children"

definition AuthProvider_jsx :: "jsx list \<Rightarrow> jsx" where
  "AuthProvider_jsx children = Element ''AuthProvider'' [] [AuthContext] children"

definition UserContextProvider_jsx :: "json \<Rightarrow> jsx list \<Rightarrow> jsx" where
  "UserContextProvider_jsx userId children =
     (if userId = JNull then Raise (JsError ''Need authenticated user to use [UserContextProvider]'')
      else Element ''UserContextProvider'' [] [UserContext] children)"

definition InstrumentProvider_jsx :: "jsx list \<Rightarrow> jsx" where
  "InstrumentProvider_jsx children = Element ''InstrumentProvider'' [] [InstrumentContext] children"

subsection \<open>Forms\<close>

definition StatusDisplay_jsx :: jsx where "StatusDisplay_jsx = Plain ''StatusDisplay'' []"

definition DepositForm_jsx :: jsx where
  "DepositForm_jsx =
     Uses ''DepositForm'' (useAuthUserData @ useAuthUser @ useFormatter @ useQueryClient) [StatusDisplay_jsx]"

definition WithdrawForm_jsx :: jsx where
  "WithdrawForm_jsx =
     Uses ''WithdrawForm'' (useAuthUserData @ useAuthUser @ useFormatter @ useQueryClient) [StatusDisplay_jsx]"

text \<open>\<open>useMutation\<close> also reads the client.\<close>

definition LoginForm_jsx :: jsx where "LoginForm_jsx = Uses ''LoginForm'' useQueryClient [StatusDisplay_jsx]"
definition SignupForm_jsx :: jsx where "SignupForm_jsx = Uses ''SignupForm'' useQueryClient [StatusDisplay_jsx]"
definition DefaultLoginForm_jsx :: jsx where "DefaultLoginForm_jsx = Plain ''DefaultLoginForm'' []"

definition CreditCardForm_jsx :: jsx where
  "CreditCardForm_jsx = Uses ''CreditCardForm'' (useAuthUser @ useAuthUserData @ useQueryClient) [StatusDisplay_jsx]"

definition QuickBuyForm_jsx :: jsx where
  "QuickBuyForm_jsx = Uses ''QuickBuyForm'' (useAuthUserData @ useInstrument @ useQueryClient) [StatusDisplay_jsx]"

definition QuickSellForm_jsx :: jsx where
  "QuickSellForm_jsx = Uses ''QuickSellForm'' (useInstrument @ useQueryClient) [StatusDisplay_jsx]"

definition BuyForm_jsx :: jsx where
  "BuyForm_jsx = Uses ''BuyForm'' (useAuthUserData @ useInstrument @ useQueryClient)
     [Plain ''BuyAutofillButton'' [Plain ''AutofillButton'' []], StatusDisplay_jsx]"

definition SellForm_jsx :: jsx where
  "SellForm_jsx = Uses ''SellForm'' (useInstrument @ useQueryClient)
     [Plain ''SellAutofillButton'' [Plain ''AutofillButton'' []], StatusDisplay_jsx]"

subsection \<open>Instruments, tables and charts\<close>

definition PriceDisplay_jsx :: jsx where "PriceDisplay_jsx = Uses ''PriceDisplay'' useFormatter []"

definition InstrumentCard_jsx :: jsx where
  "InstrumentCard_jsx = Plain ''InstrumentCard'' [PriceDisplay_jsx]"

definition InstrumentsGrid_jsx :: "'i list \<Rightarrow> jsx" where
  "InstrumentsGrid_jsx instruments = Plain ''InstrumentsGrid'' (map (\<lambda>_. Plain ''Item'' [InstrumentCard_jsx]) instruments)"

definition InstrumentPriceChart_jsx :: jsx where
  "InstrumentPriceChart_jsx = Uses ''InstrumentPriceChart'' useFormatter [Plain ''CustomTooltip'' []]"

definition FullInstrumentCard_jsx :: jsx where
  "FullInstrumentCard_jsx = Uses ''FullInstrumentCard'' (useInstrument @ query_hook)
     [Plain ''InstrumentHeader'' [PriceDisplay_jsx], InstrumentPriceChart_jsx]"

text \<open>The panel of the tabs that is open.\<close>

fun TabForm_jsx :: "FormId \<Rightarrow> jsx" where
  "TabForm_jsx QuickBuy_form = QuickBuyForm_jsx"
| "TabForm_jsx QuickSell_form = QuickSellForm_jsx"
| "TabForm_jsx Buy_form = BuyForm_jsx"
| "TabForm_jsx Sell_form = SellForm_jsx"

definition InstrumentTransactions_jsx :: "FormId \<Rightarrow> jsx" where
  "InstrumentTransactions_jsx formId = Plain ''InstrumentTransactions'' [TabForm_jsx formId]"

definition AccountInfo_jsx :: jsx where
  "AccountInfo_jsx = Uses ''AccountInfo'' (useAuthUserData @ useFormatter) []"

definition InstrumentsChart_jsx :: jsx where
  "InstrumentsChart_jsx = Plain ''InstrumentsChart'' [Uses ''CustomTooltip'' useFormatter []]"

definition InstrumentsTable_jsx :: jsx where "InstrumentsTable_jsx = Uses ''InstrumentsTable'' useFormatter []"

definition TransactionsCharts_jsx :: jsx where
  "TransactionsCharts_jsx = Plain ''TransactionsCharts'' [Plain ''TransactionsPieChart'' [], Plain ''TransactionsPieChart'' []]"

definition TransactionsTable_jsx :: jsx where "TransactionsTable_jsx = Uses ''TransactionsTable'' useFormatter []"

subsection \<open>Header and navigation\<close>

definition UserPanel_jsx :: "json \<Rightarrow> jsx" where
  "UserPanel_jsx userId =
     Uses ''UserPanel'' (useAuth @ (if userId = JNull \<or> userId = JStr [] then [] else query_hook) @ useQueryClient)
       [Plain ''GreetingWithSkeleton'' [], Plain ''AvatarWithSkeleton'' []]"

fun header_jsx :: "json \<Rightarrow> header_part \<Rightarrow> jsx" where
  "header_jsx userId FeatureFlagIcon = Uses ''FeatureFlag'' query_hook []"
| "header_jsx userId VersionInfo = Plain ''VersionInfo'' [Plain ''VersionDialog'' []]"
| "header_jsx userId UserPanel = UserPanel_jsx userId"
| "header_jsx userId part = Plain ''part'' []"

definition AppHeader_jsx :: "json \<Rightarrow> jsx" where
  "AppHeader_jsx userId = Uses ''AppHeader'' useAuth (map (header_jsx userId) (AppHeader userId))"

definition AppLayout_jsx :: "json \<Rightarrow> jsx \<Rightarrow> jsx" where
  "AppLayout_jsx userId outlet = Plain ''AppLayout'' [AppHeader_jsx userId, outlet]"

definition Navigation_jsx :: jsx where
  "Navigation_jsx = Plain ''Navigation'' (map (\<lambda>_. Plain ''NavigationItem'' []) Navigation_items)"

subsection \<open>Layouts\<close>

definition Navigate_jsx :: jsx where "Navigate_jsx = Plain ''Navigate'' []"

definition ProviderLayout_jsx :: "json \<Rightarrow> jsx \<Rightarrow> jsx" where
  "ProviderLayout_jsx userId outlet =
     FormatterProvider_jsx [QueryClientProvider_jsx [Plain ''ThemeProvider'' [AuthProvider_jsx
       [Plain ''NavigationProvider'' [AppLayout_jsx userId outlet], Uses ''ReactQueryDevtools'' useQueryClient []]]]]"

definition PublicLayout_jsx :: "json \<Rightarrow> jsx \<Rightarrow> jsx" where
  "PublicLayout_jsx userId outlet =
     Uses ''PublicLayout'' useAuth [if isLoggedIn userId then Navigate_jsx else outlet]"

definition ProtectedLayout_jsx :: "json \<Rightarrow> jsx \<Rightarrow> jsx" where
  "ProtectedLayout_jsx userId outlet =
     Uses ''ProtectedLayout'' useAuth
       [if \<not> isLoggedIn userId then Navigate_jsx else UserContextProvider_jsx userId [Navigation_jsx, outlet]]"

definition CreditCardLayout_jsx :: "order_status \<Rightarrow> path \<Rightarrow> page \<Rightarrow> jsx \<Rightarrow> jsx" where
  "CreditCardLayout_jsx data p pg outlet =
     Uses ''CreditCardLayout'' (useAuthUser @ query_hook)
       [case CreditCardLayout data p pg of Crash e \<Rightarrow> Raise e | NavigateTo q \<Rightarrow> Navigate_jsx | Render _ \<Rightarrow> outlet]"

subsection \<open>Pages\<close>

text \<open>What the pages are given: the instruments, the history of the order, the flags and versions, the open tab.\<close>

record page_data =
  pd_instruments :: "string list"
  pd_history :: "(string + nat) option"
  pd_flags :: nat
  pd_versions :: "nat option"
  pd_tab :: FormId

definition Login_jsx :: jsx where
  "Login_jsx = Uses ''Login'' (useAuth @ query_hook) [LoginForm_jsx, DefaultLoginForm_jsx]"

definition DemoAppWarning_jsx :: jsx where "DemoAppWarning_jsx = Plain ''DemoAppWarning'' []"

definition Signup_jsx :: jsx where "Signup_jsx = Plain ''Signup'' [DemoAppWarning_jsx, SignupForm_jsx]"
definition Deposit_jsx :: jsx where "Deposit_jsx = Plain ''Deposit'' [DemoAppWarning_jsx, DepositForm_jsx]"
definition Withdraw_jsx :: jsx where "Withdraw_jsx = Plain ''Withdraw'' [DemoAppWarning_jsx, WithdrawForm_jsx]"

definition CreditCardOrder_jsx :: jsx where
  "CreditCardOrder_jsx = Plain ''CreditCardOrder'' [DemoAppWarning_jsx, CreditCardForm_jsx]"

definition CreditCardStatus_jsx :: "(string + nat) option \<Rightarrow> jsx" where
  "CreditCardStatus_jsx history =
     Uses ''CreditCardStatus'' (useAuthUser @ query_hook)
       [case history of
          None \<Rightarrow> Raise (JsError ''There was an error getting order history [Response was empty]'')
        | Some (Inl e) \<Rightarrow> Raise (JsError (''There was an error getting order history ['' @ e @ '']''))
        | Some (Inr n) \<Rightarrow> Plain ''CreditCardsStatusTimeline'' (replicate n (Uses ''TimelineEntry'' useFormatter []))]"

definition CreditCardActive_jsx :: jsx where
  "CreditCardActive_jsx = Uses ''CreditCardActive'' (useAuthUser @ useQueryClient) [StatusDisplay_jsx]"

definition Home_jsx :: jsx where
  "Home_jsx =
     Uses ''Home'' (useAuthUser @ query_hook @ [RouteData InstrumentsData] @ query_hook)
       [AccountInfo_jsx, InstrumentsChart_jsx, InstrumentsTable_jsx, TransactionsCharts_jsx, TransactionsTable_jsx]"

definition InstrumentsPage_jsx :: "string list \<Rightarrow> jsx" where
  "InstrumentsPage_jsx instruments =
     Uses ''InstrumentsPage'' (useAuthUser @ [RouteData InstrumentsData] @ query_hook) [InstrumentsGrid_jsx instruments]"

definition Instrument_jsx :: "string list \<Rightarrow> FormId \<Rightarrow> string \<Rightarrow> jsx" where
  "Instrument_jsx instruments tab i =
     Uses ''Instrument'' (useAuthUser @ [RouteData InstrumentsData] @ query_hook)
       [if i \<in> set instruments
        then InstrumentProvider_jsx [FullInstrumentCard_jsx, InstrumentTransactions_jsx tab]
        else Navigate_jsx]"

definition FeatureFlags_jsx :: "nat \<Rightarrow> jsx" where
  "FeatureFlags_jsx flags =
     Uses ''FeatureFlags'' (query_hook @ query_hook @ useQueryClient)
       [Plain ''FeatureFlagList'' (replicate flags (Uses ''FeatureFlagItem'' (useQueryClient @ query_hook) []))]"

definition Version_jsx :: "nat option \<Rightarrow> jsx" where
  "Version_jsx versions =
     Uses ''Version'' query_hook
       [Plain ''VersionsTable'' (replicate (Suc (nullish versions 0)) (Plain ''VersionsTabelItem'' []))]"

definition BaseNavigation_jsx :: jsx where "BaseNavigation_jsx = Uses ''BaseNavigation'' useAuth [Navigate_jsx]"

fun page_jsx :: "page_data \<Rightarrow> page \<Rightarrow> jsx" where
  "page_jsx d BaseNavigation = BaseNavigation_jsx"
| "page_jsx d FeatureFlags = FeatureFlags_jsx (pd_flags d)"
| "page_jsx d Version = Version_jsx (pd_versions d)"
| "page_jsx d Login = Login_jsx"
| "page_jsx d Signup = Signup_jsx"
| "page_jsx d Withdraw = Withdraw_jsx"
| "page_jsx d Deposit = Deposit_jsx"
| "page_jsx d CreditCard = Plain ''Outlet'' []"
| "page_jsx d CreditCardOrder = CreditCardOrder_jsx"
| "page_jsx d CreditCardStatus = CreditCardStatus_jsx (pd_history d)"
| "page_jsx d CreditCardActive = CreditCardActive_jsx"
| "page_jsx d Home = Home_jsx"
| "page_jsx d Instruments = InstrumentsPage_jsx (pd_instruments d)"
| "page_jsx d (Instrument i) = Instrument_jsx (pd_instruments d) (pd_tab d) i"

text \<open>The elements of the matched routes, and the routes whose data a component can read.\<close>

definition route_jsx :: "json \<Rightarrow> order_status \<Rightarrow> page_data \<Rightarrow> path \<Rightarrow> page \<Rightarrow> jsx" where
  "route_jsx userId data d p pg =
     ProviderLayout_jsx userId
       (case layout_of pg of
          ProviderLayout \<Rightarrow> page_jsx d pg
        | PublicLayout \<Rightarrow> PublicLayout_jsx userId (page_jsx d pg)
        | ProtectedLayout \<Rightarrow> ProtectedLayout_jsx userId
            (if in_credit_card pg then CreditCardLayout_jsx data p pg (page_jsx d pg) else page_jsx d pg))"

definition route_data :: "page \<Rightarrow> need set" where
  "route_data pg =
     (if layout_of pg = ProtectedLayout then {RouteData UserData} else {})
     \<union> (if in_instruments_route pg then {RouteData InstrumentsData} else {})"

subsection \<open>Property\<close>

text \<open>An element renders without an exception when all its hooks find their providers.\<close>

lemma find_given: "List.find (\<lambda>n. n \<notin> given) hooks = None \<longleftrightarrow> set hooks \<subseteq> given"
  by (auto simp: find_None_iff)

lemma render_Element [simp]:
  "render_jsx given (Element name hooks provided children) = None
     \<longleftrightarrow> set hooks \<subseteq> given \<and> render_all (given \<union> set provided) children = None"
  by (simp add: find_given split: option.splits)
     (metis find_given option.distinct(1) option.exhaust)



lemma render_all_None [simp]: "render_all given xs = None \<longleftrightarrow> (\<forall>x\<in>set xs. render_jsx given x = None)"
  by (induction xs) (auto split: option.splits)

declare render_jsx.simps(2) [simp del] render_all.simps(2) [simp del]

abbreviation app_contexts :: "need set" where
  "app_contexts \<equiv> {FormatterContext, QueryContext, QueryClientContext, AuthContext}"

lemmas hook_lists = query_hook_def useAuthUserData_def

lemma AppHeader_ok: "app_contexts \<subseteq> given \<Longrightarrow> render_jsx given (AppHeader_jsx userId) = None"
  by (auto simp: AppHeader_jsx_def AppHeader_def UserPanel_jsx_def hook_lists)

lemma ProviderLayout_ok:
  "render_jsx (given \<union> app_contexts) outlet = None \<Longrightarrow> render_jsx given (ProviderLayout_jsx userId outlet) = None"
  using AppHeader_ok [of "given \<union> app_contexts" userId]
  by (simp add: ProviderLayout_jsx_def FormatterProvider_jsx_def QueryClientProvider_jsx_def AuthProvider_jsx_def
      AppLayout_jsx_def insert_commute Un_insert_right)

lemma ProtectedLayout_ok:
  "AuthContext \<in> given \<Longrightarrow> (userId \<noteq> JNull \<Longrightarrow> render_jsx (insert UserContext given) outlet = None)
    \<Longrightarrow> render_jsx given (ProtectedLayout_jsx userId outlet) = None"
  by (auto simp: ProtectedLayout_jsx_def UserContextProvider_jsx_def Navigate_jsx_def Navigation_jsx_def
      isLoggedIn_def)

lemma PublicLayout_ok:
  "AuthContext \<in> given \<Longrightarrow> render_jsx given outlet = None \<Longrightarrow> render_jsx given (PublicLayout_jsx userId outlet) = None"
  by (simp add: PublicLayout_jsx_def Navigate_jsx_def)

lemmas form_elements = StatusDisplay_jsx_def DepositForm_jsx_def WithdrawForm_jsx_def LoginForm_jsx_def SignupForm_jsx_def
  DefaultLoginForm_jsx_def CreditCardForm_jsx_def QuickBuyForm_jsx_def QuickSellForm_jsx_def BuyForm_jsx_def
  SellForm_jsx_def DemoAppWarning_jsx_def

lemmas instrument_elements = PriceDisplay_jsx_def InstrumentCard_jsx_def InstrumentsGrid_jsx_def
  InstrumentPriceChart_jsx_def FullInstrumentCard_jsx_def InstrumentTransactions_jsx_def AccountInfo_jsx_def
  InstrumentsChart_jsx_def InstrumentsTable_jsx_def TransactionsCharts_jsx_def TransactionsTable_jsx_def

lemma tab_ok:
  "{InstrumentContext, UserContext, RouteData UserData} \<union> app_contexts \<subseteq> given
    \<Longrightarrow> render_jsx given (TabForm_jsx tab) = None"
  by (cases tab) (simp_all add: form_elements hook_lists)

lemma open_page_ok:
  "layout_of pg \<noteq> ProtectedLayout \<Longrightarrow> app_contexts \<subseteq> given \<Longrightarrow> render_jsx given (page_jsx d pg) = None"
  by (cases pg) (auto simp: hook_lists form_elements BaseNavigation_jsx_def Navigate_jsx_def FeatureFlags_jsx_def
      Version_jsx_def Login_jsx_def Signup_jsx_def)

lemma protected_page_ok:
  assumes "layout_of pg = ProtectedLayout" "pd_history d = Some (Inr k)"
    and "insert UserContext app_contexts \<union> route_data pg \<subseteq> given"
  shows "render_jsx given (page_jsx d pg) = None"
proof (cases pg)
  case (Instrument i)
  then show ?thesis
    using assms tab_ok [of "given \<union> {InstrumentContext}" "pd_tab d"]
    by (simp add: route_data_def hook_lists Instrument_jsx_def InstrumentProvider_jsx_def Navigate_jsx_def
        instrument_elements)
qed (use assms in \<open>auto simp: route_data_def hook_lists form_elements instrument_elements Withdraw_jsx_def
       Deposit_jsx_def CreditCardOrder_jsx_def CreditCardStatus_jsx_def CreditCardActive_jsx_def Home_jsx_def
       InstrumentsPage_jsx_def\<close>)

lemma CreditCardLayout_page: "CreditCardLayout data p m = Render pg \<Longrightarrow> pg = m"
  by (auto simp: CreditCardLayout_def split: order_status.splits if_splits)

lemma render_page: "render userId data ids p m = Render pg \<Longrightarrow> pg = m"
  by (cases m) (auto simp: render_def ProtectedLayout_render_def PublicLayout_render_def BaseNavigation_render_def
      dest: CreditCardLayout_page split: if_splits)

lemma render_card:
  "render userId data ids p m = Render pg \<Longrightarrow> in_credit_card m \<Longrightarrow> CreditCardLayout data p m = Render m"
  by (cases m) (auto simp: render_def ProtectedLayout_render_def dest: CreditCardLayout_page split: if_splits)



text \<open>Without the layout of the users, the money forms throw.\<close>

lemma deposit_needs_user:
  "UserContext \<notin> given \<Longrightarrow> render_jsx given DepositForm_jsx = Some (missing UserContext)"
  by (simp add: DepositForm_jsx_def hook_lists render_jsx.simps(2))

end
