(* ===== verification/Frontend_Trades.thy ===== *)
theory Frontend_Trades
  imports Frontend_Status
begin

section \<open>Frontend: the trade forms\<close>

text \<open>
  \<open>components/instrument/forms/\<close> with the handlers of \<open>contexts/InstrumentContext\<close>: quick buy
  and quick sell, which trade at the current price, and the long buy and sell with a price
  and a time of the user's. Numbers are doubles.
\<close>

subsection \<open>InstrumentProvider\<close>

record instrument =
  instr_id :: string
  close_price :: jsnum    \<comment> \<open>\<open>price.close\<close>\<close>
  amount_owned :: jsnum   \<comment> \<open>\<open>amount\<close>\<close>

definition quickBuyHandler :: "window \<Rightarrow> string \<Rightarrow> instrument \<Rightarrow> jsnum \<Rightarrow> json fe_act" where
  "quickBuyHandler w userId i amount = quickBuy w userId (instr_id i) amount"

definition quickSellHandler :: "window \<Rightarrow> string \<Rightarrow> instrument \<Rightarrow> jsnum \<Rightarrow> json fe_act" where
  "quickSellHandler w userId i amount = quickSell w userId (instr_id i) amount"

definition buyHandler :: "window \<Rightarrow> string \<Rightarrow> instrument \<Rightarrow> jsnum \<Rightarrow> jsnum \<Rightarrow> jsnum \<Rightarrow> json fe_act" where
  "buyHandler w userId i amount price time = buy w userId (instr_id i) amount price time"

definition sellHandler :: "window \<Rightarrow> string \<Rightarrow> instrument \<Rightarrow> jsnum \<Rightarrow> jsnum \<Rightarrow> jsnum \<Rightarrow> json fe_act" where
  "sellHandler w userId i amount price time = sell w userId (instr_id i) amount price time"

lemma quick_buy_answers:
  "report_ok w \<Longrightarrow> \<exists>v l'. quickBuyHandler w u i a l = (Inr v, l')
     \<and> (v = JObj [] \<or> (\<exists>msg. msg \<noteq> [] \<and> v = error_result msg))"
  using buy_call.resolves [of w "(u, instr_id i, a)" l] by (auto simp: quickBuyHandler_def)

lemma quick_sell_answers:
  "report_ok w \<Longrightarrow> \<exists>v l'. quickSellHandler w u i a l = (Inr v, l')
     \<and> (v = JObj [] \<or> (\<exists>msg. msg \<noteq> [] \<and> v = error_result msg))"
  using sell_call.resolves [of w "(u, instr_id i, a)" l] by (auto simp: quickSellHandler_def)

lemma long_buy_answers:
  "\<exists>v l'. buyHandler w u i a p t l = (Inr v, l') \<and> (v = JObj [] \<or> (\<exists>msg. msg \<noteq> [] \<and> v = error_result msg))"
  by (auto simp: buyHandler_def buy_def act_simps split: sum.splits prod.splits)

lemma long_sell_answers:
  "\<exists>v l'. sellHandler w u i a p t l = (Inr v, l') \<and> (v = JObj [] \<or> (\<exists>msg. msg \<noteq> [] \<and> v = error_result msg))"
  by (auto simp: sellHandler_def sell_def act_simps split: sum.splits prod.splits)

subsection \<open>QuickBuyForm\<close>

record quick_values =
  amount :: jsval
  price :: jsval
  limit :: jsval   \<comment> \<open>\<open>currentBalance\<close> or \<open>possessedAmount\<close>\<close>
  total :: jsval

abbreviation num_val :: "jsnum \<Rightarrow> jsval" where "num_val n \<equiv> Some (JNum n)"

definition QuickBuyForm_issues :: "quick_values \<Rightarrow> issue list" where
  "QuickBuyForm_issues v =
     positive_issues ''amount'' ''Amount is required'' ''Amount must be greater than 0'' (zod_number (amount v))
     @ positive_issues ''price'' ''Price is required'' ''Price must be grater than 0'' (zod_number (price v))
     @ number_issues ''currentBalance'' ''Current balance is required'' (zod_number (limit v))
     @ number_issues ''total'' ''Total price is required'' (zod_number (total v))
     @ (case (zod_number (amount v), zod_number (price v), zod_number (limit v), zod_number (total v)) of
          (Some a, Some p, Some b, Some t) \<Rightarrow>
            check ''total'' ''Total price can't exceed current balance'' (js_le (js_mul a p) b)
        | _ \<Rightarrow> [])"

definition QuickBuyForm_resolver :: "quick_values \<Rightarrow> jsnum option" where
  "QuickBuyForm_resolver v = (if QuickBuyForm_issues v = [] then zod_number (amount v) else None)"

definition QuickBuyForm_values :: "instrument \<Rightarrow> jsnum option \<Rightarrow> quick_values" where
  "QuickBuyForm_values i balance =
     \<lparr>amount = num_val (Fin 0), price = num_val (close_price i), limit = num_val (nullish balance (Fin 0)),
      total = num_val (Fin 0)\<rparr>"

definition QuickBuyForm_mutation ::
  "window \<Rightarrow> 'c query_client \<Rightarrow> change list \<Rightarrow> string \<Rightarrow> instrument \<Rightarrow> jsnum option
    \<Rightarrow> (jsnum, unit, (quick_values, 'c) form) mutation" where
  "QuickBuyForm_mutation w qc events userId i balance = \<lparr>
     mutationFn = (\<lambda>a. act_bind (quickBuyHandler w userId i a) (\<lambda>r. throw_error (Some r))),
     onMutate = with_status resetStatus,
     onSuccess = (\<lambda>_ s.
       let s1 = with_status (setSuccess (Msg (JStr ''Transaction successful''))) s;
           s2 = reset_form watch_change events (QuickBuyForm_values i balance) s1
       in with_cache (quickTransactionInvalidateQuery qc) s2),
     onError = (\<lambda>m. with_status (setError m))\<rparr>"

definition QuickBuyForm_submit where
  "QuickBuyForm_submit w qc events userId i balance =
     submit QuickBuyForm_resolver (QuickBuyForm_mutation w qc events userId i balance)"

text \<open>An edit of the amount, with the effect that computes the total.\<close>

definition quick_setAmount :: "instrument \<Rightarrow> jsval \<Rightarrow> (quick_values, 'c) form \<Rightarrow> (quick_values, 'c) form" where
  "quick_setAmount i a s =
     (let s1 = watch_change Change (s\<lparr>vals := (vals s)\<lparr>amount := a\<rparr>\<rparr>);
          a' = js_ToNumber (if a = None \<or> a = Some JNull then num_val (Fin 0) else a)
      in watch_change Untyped (s1\<lparr>vals := (vals s1)\<lparr>total := num_val (js_mul a' (close_price i))\<rparr>\<rparr>))"

subsection \<open>QuickSellForm\<close>

definition QuickSellForm_issues :: "quick_values \<Rightarrow> issue list" where
  "QuickSellForm_issues v =
     positive_issues ''amount'' ''Amount is required'' ''Amount must be greater than 0'' (zod_number (amount v))
     @ positive_issues ''price'' ''Price is required'' ''Price must be grater than 0'' (zod_number (price v))
     @ number_issues ''possessedAmount'' ''Possessed amount is required'' (zod_number (limit v))
     @ number_issues ''total'' ''Total price is required'' (zod_number (total v))
     @ (case (zod_number (amount v), zod_number (price v), zod_number (limit v), zod_number (total v)) of
          (Some a, Some p, Some b, Some t) \<Rightarrow>
            check ''amount'' ''Can't sell more assets than possessed'' (js_le a b)
        | _ \<Rightarrow> [])"

definition QuickSellForm_resolver :: "quick_values \<Rightarrow> jsnum option" where
  "QuickSellForm_resolver v = (if QuickSellForm_issues v = [] then zod_number (amount v) else None)"

definition QuickSellForm_values :: "instrument \<Rightarrow> quick_values" where
  "QuickSellForm_values i =
     \<lparr>amount = num_val (Fin 0), price = num_val (close_price i), limit = num_val (amount_owned i),
      total = num_val (Fin 0)\<rparr>"

definition QuickSellForm_mutation ::
  "window \<Rightarrow> 'c query_client \<Rightarrow> change list \<Rightarrow> string \<Rightarrow> instrument
    \<Rightarrow> (jsnum, unit, (quick_values, 'c) form) mutation" where
  "QuickSellForm_mutation w qc events userId i = \<lparr>
     mutationFn = (\<lambda>a. act_bind (quickSellHandler w userId i a) (\<lambda>r. throw_error (Some r))),
     onMutate = with_status resetStatus,
     onSuccess = (\<lambda>_ s.
       let s1 = with_status (setSuccess (Msg (JStr ''Transaction successful''))) s;
           s2 = reset_form watch_change events (QuickSellForm_values i) s1
       in with_cache (quickTransactionInvalidateQuery qc) s2),
     onError = (\<lambda>m. with_status (setError m))\<rparr>"

definition QuickSellForm_submit where
  "QuickSellForm_submit w qc events userId i =
     submit QuickSellForm_resolver (QuickSellForm_mutation w qc events userId i)"

subsection \<open>BuyForm and SellForm\<close>

record long_values =
  long_amount :: jsval
  long_price :: jsval
  long_time :: jsval
  long_total :: jsval

definition time_issues :: "jsnum option \<Rightarrow> issue list" where
  "time_issues v =
     (case v of None \<Rightarrow> [(''time'', ''Time range is required'')]
      | Some t \<Rightarrow> check ''time'' ''Time range must be at least 1h'' (js_le (Fin 1) t)
               @ check ''time'' ''Time range must be at most 24h'' (js_le t (Fin 24)))"

definition LongForm_issues :: "long_values \<Rightarrow> issue list" where
  "LongForm_issues v =
     positive_issues ''amount'' ''Amount is required'' ''Amount must be greater than 0'' (zod_coerce_number (long_amount v))
     @ positive_issues ''price'' ''Price is required'' ''Price must be grater than 0'' (zod_coerce_number (long_price v))
     @ time_issues (zod_coerce_number (long_time v))
     @ number_issues ''total'' ''Total price is required'' (zod_number (long_total v))"

definition LongForm_resolver :: "long_values \<Rightarrow> (jsnum \<times> jsnum \<times> jsnum) option" where
  "LongForm_resolver v =
     (if LongForm_issues v = []
      then Some (js_ToNumber (long_amount v), js_ToNumber (long_price v), js_ToNumber (long_time v))
      else None)"

definition LongForm_values :: "instrument \<Rightarrow> long_values" where
  "LongForm_values i =
     \<lparr>long_amount = None, long_price = num_val (close_price i), long_time = num_val (Fin 1),
      long_total = num_val (Fin 0)\<rparr>"

text \<open>The effect on amount and price.\<close>

definition LongForm_total :: "long_values \<Rightarrow> long_values" where
  "LongForm_total v =
     (let amount = js_ToNumber (Some (nullish (long_amount v) (JNum (Fin 0))));
          price = js_ToNumber (Some (nullish (long_price v) (JNum (Fin 0))))
      in v\<lparr>long_total := num_val (js_mul amount price)\<rparr>)"

definition BuyForm_mutation ::
  "window \<Rightarrow> 'c query_client \<Rightarrow> change list \<Rightarrow> string \<Rightarrow> instrument
    \<Rightarrow> (jsnum \<times> jsnum \<times> jsnum, unit, (long_values, 'c) form) mutation" where
  "BuyForm_mutation w qc events userId i = \<lparr>
     mutationFn = (\<lambda>(a, p, t). act_bind (buyHandler w userId i a p t) (\<lambda>r. throw_error (Some r))),
     onMutate = with_status resetStatus,
     onSuccess = (\<lambda>_ s.
       let s1 = with_status (setSuccess (Msg (JStr ''Transaction scheduled''))) s;
           s2 = reset_form watch_change events (LongForm_values i) s1
       in with_cache (transactionInvalidateQuery qc) s2),
     onError = (\<lambda>m. with_status (setError m))\<rparr>"

definition BuyForm_submit where
  "BuyForm_submit w qc events userId i = submit LongForm_resolver (BuyForm_mutation w qc events userId i)"

definition SellForm_mutation ::
  "window \<Rightarrow> 'c query_client \<Rightarrow> change list \<Rightarrow> string \<Rightarrow> instrument
    \<Rightarrow> (jsnum \<times> jsnum \<times> jsnum, unit, (long_values, 'c) form) mutation" where
  "SellForm_mutation w qc events userId i = \<lparr>
     mutationFn = (\<lambda>(a, p, t). act_bind (sellHandler w userId i a p t) (\<lambda>r. throw_error (Some r))),
     onMutate = with_status resetStatus,
     onSuccess = (\<lambda>_ s.
       let s1 = with_status (setSuccess (Msg (JStr ''Transaction scheduled''))) s;
           s2 = reset_form watch_change events (LongForm_values i) s1
       in with_cache (transactionInvalidateQuery qc) s2),
     onError = (\<lambda>m. with_status (setError m))\<rparr>"

definition SellForm_submit where
  "SellForm_submit w qc events userId i = submit LongForm_resolver (SellForm_mutation w qc events userId i)"

subsection \<open>Autofill\<close>

definition long_setValues :: "jsnum \<Rightarrow> jsnum \<Rightarrow> jsnum \<Rightarrow> long_values \<Rightarrow> long_values" where
  "long_setValues a p t v =
     LongForm_total (v\<lparr>long_amount := num_val a, long_price := num_val p, long_time := num_val t\<rparr>)"

definition buy_setSuccessTransaction :: "jsnum option \<Rightarrow> jsnum \<Rightarrow> long_values \<Rightarrow> long_values" where
  "buy_setSuccessTransaction availableBalance p =
     long_setValues (js_floor (js_div (nullish availableBalance p) p)) p (Fin 1)"

definition buy_setFailTransaction :: "jsnum option \<Rightarrow> jsnum \<Rightarrow> long_values \<Rightarrow> long_values" where
  "buy_setFailTransaction availableBalance p =
     long_setValues (js_add (js_ceil (js_div (nullish availableBalance (Fin 1000000)) p)) (Fin 1)) p (Fin 1)"

definition buy_setTimeoutTransaction :: "jsnum option \<Rightarrow> jsnum \<Rightarrow> long_values \<Rightarrow> long_values" where
  "buy_setTimeoutTransaction availableBalance p =
     long_setValues (js_floor (js_div (nullish availableBalance p) p)) (js_div p (Fin 1000)) (Fin 1)"

definition sell_setSuccessTransaction :: "jsnum \<Rightarrow> jsnum \<Rightarrow> long_values \<Rightarrow> long_values" where
  "sell_setSuccessTransaction a p = long_setValues a p (Fin 1)"

definition sell_setFailTransaction :: "jsnum \<Rightarrow> jsnum \<Rightarrow> long_values \<Rightarrow> long_values" where
  "sell_setFailTransaction a p = long_setValues (js_add a (Fin 1)) p (Fin 1)"

definition sell_setTimeoutTransaction :: "jsnum \<Rightarrow> jsnum \<Rightarrow> long_values \<Rightarrow> long_values" where
  "sell_setTimeoutTransaction a p = long_setValues a (js_add p (Fin 1000)) (Fin 1)"

subsection \<open>The forms over their handlers\<close>

interpretation quick_buy_form: submit_form "\<lambda>w a. quickBuyHandler w u i a"
    "\<lambda>w. report_ok w \<and> Change \<notin> set events" "\<lambda>w. QuickBuyForm_mutation w qc events u i b"
    "[(SuccessAlert, Msg (JStr ''Transaction successful''))]" "quickTransactionInvalidateQuery qc" "QuickBuyForm_values i b"
    for u i b qc events
  by unfold_locales
     (use quick_buy_answers in \<open>auto simp: void_mutation_def QuickBuyForm_mutation_def Let_def form_defs
        watch_change_untyped success_shows split_def\<close>)

interpretation quick_sell_form: submit_form "\<lambda>w a. quickSellHandler w u i a"
    "\<lambda>w. report_ok w \<and> Change \<notin> set events" "\<lambda>w. QuickSellForm_mutation w qc events u i"
    "[(SuccessAlert, Msg (JStr ''Transaction successful''))]" "quickTransactionInvalidateQuery qc" "QuickSellForm_values i"
    for u i qc events
  by unfold_locales
     (use quick_sell_answers in \<open>auto simp: void_mutation_def QuickSellForm_mutation_def Let_def form_defs
        watch_change_untyped success_shows split_def\<close>)

interpretation long_buy_form: submit_form "\<lambda>w (a, p, t). buyHandler w u i a p t"
    "\<lambda>w. Change \<notin> set events" "\<lambda>w. BuyForm_mutation w qc events u i"
    "[(SuccessAlert, Msg (JStr ''Transaction scheduled''))]" "transactionInvalidateQuery qc" "LongForm_values i"
    for u i qc events
  by unfold_locales
     (use long_buy_answers in \<open>auto simp: void_mutation_def BuyForm_mutation_def Let_def form_defs
        watch_change_untyped success_shows split_def\<close>)

interpretation long_sell_form: submit_form "\<lambda>w (a, p, t). sellHandler w u i a p t"
    "\<lambda>w. Change \<notin> set events" "\<lambda>w. SellForm_mutation w qc events u i"
    "[(SuccessAlert, Msg (JStr ''Transaction scheduled''))]" "transactionInvalidateQuery qc" "LongForm_values i"
    for u i qc events
  by unfold_locales
     (use long_sell_answers in \<open>auto simp: void_mutation_def SellForm_mutation_def Let_def form_defs
        watch_change_untyped success_shows split_def\<close>)

subsection \<open>What the resolvers accept\<close>

lemma QuickBuyForm_accepts:
  "QuickBuyForm_resolver v = Some d \<longleftrightarrow>
     (\<exists>a p b t. v = \<lparr>amount = num_val (Fin a), price = num_val (Fin p), limit = num_val (Fin b), total = num_val (Fin t)\<rparr>
        \<and> 0 < a \<and> 0 < p \<and> js_le (js_mul (Fin a) (Fin p)) (Fin b) \<and> d = Fin a)"
  by (cases v) (auto simp: QuickBuyForm_resolver_def QuickBuyForm_issues_def zod_number_Some)

lemma QuickSellForm_accepts:
  "QuickSellForm_resolver v = Some d \<longleftrightarrow>
     (\<exists>a p b t. v = \<lparr>amount = num_val (Fin a), price = num_val (Fin p), limit = num_val (Fin b), total = num_val (Fin t)\<rparr>
        \<and> 0 < a \<and> 0 < p \<and> a \<le> b \<and> d = Fin a)"
  by (cases v) (auto simp: QuickSellForm_resolver_def QuickSellForm_issues_def zod_number_Some)

lemma time_issues_Nil:
  "time_issues (zod_coerce_number v) = [] \<longleftrightarrow> (\<exists>x. js_ToNumber v = Fin x \<and> 1 \<le> x \<and> x \<le> 24)"
  by (cases "js_ToNumber v") (simp_all add: time_issues_def zod_coerce_number_def zod_number_def)

lemma LongForm_accepts:
  "LongForm_resolver v = Some d \<longleftrightarrow>
     (\<exists>a p t. d = (Fin a, Fin p, Fin t) \<and> 0 < a \<and> 0 < p \<and> 1 \<le> t \<and> t \<le> 24
        \<and> js_ToNumber (long_amount v) = Fin a \<and> js_ToNumber (long_price v) = Fin p
        \<and> js_ToNumber (long_time v) = Fin t \<and> (\<exists>s. long_total v = num_val (Fin s)))"
  by (auto simp: LongForm_resolver_def LongForm_issues_def time_issues_Nil zod_number_Some zod_coerce_number_Some)

subsection \<open>Properties\<close>

text \<open>
  C8: a submit of any of the four trade forms changes nothing when the data are refused.
  Otherwise the trade is called once; a success is announced, the form is reset and exactly
  the queries the trade touches are refreshed; an error is shown and the data and queries stay.
\<close>

theorem trade_forms_outcome:
  assumes "report_ok w" and "Change \<notin> set events"
  shows "form_outcome QuickBuyForm_resolver (quickBuyHandler w u i) [(SuccessAlert, Msg (JStr ''Transaction successful''))]
       (quickTransactionInvalidateQuery qc) (QuickBuyForm_values i b) qs l
       (QuickBuyForm_submit w qc events u i b qs l)
   \<and> form_outcome QuickSellForm_resolver (quickSellHandler w u i) [(SuccessAlert, Msg (JStr ''Transaction successful''))]
       (quickTransactionInvalidateQuery qc) (QuickSellForm_values i) qs l (QuickSellForm_submit w qc events u i qs l)
   \<and> form_outcome LongForm_resolver (\<lambda>(a, p, t). buyHandler w u i a p t) [(SuccessAlert, Msg (JStr ''Transaction scheduled''))]
       (transactionInvalidateQuery qc) (LongForm_values i) ls l (BuyForm_submit w qc events u i ls l)
   \<and> form_outcome LongForm_resolver (\<lambda>(a, p, t). sellHandler w u i a p t) [(SuccessAlert, Msg (JStr ''Transaction scheduled''))]
       (transactionInvalidateQuery qc) (LongForm_values i) ls l (SellForm_submit w qc events u i ls l)"
  unfolding QuickBuyForm_submit_def QuickSellForm_submit_def BuyForm_submit_def SellForm_submit_def
  by (intro conjI quick_buy_form.outcome quick_sell_form.outcome long_buy_form.outcome long_sell_form.outcome
      assms)

definition dead_window :: window where
  "dead_window = \<lparr>w_origin = [], w_dynatrace = None, w_dtrum = None, w_net = (\<lambda>l rq. Inl NetworkError),
     w_xmlParse = (\<lambda>t. Inl SyntaxError), w_xmlBuild = (\<lambda>v. [])\<rparr>"

definition sample_instrument :: instrument where
  "sample_instrument = \<lparr>instr_id = ''3'', close_price = Fin 150, amount_owned = Fin 4\<rparr>"

definition sample_quick_form :: "(quick_values, map_cache) form" where
  "sample_quick_form = \<lparr>
     vals = \<lparr>amount = num_val (Fin 2), price = num_val (Fin 150), limit = num_val (Fin 1000), total = num_val (Fin 300)\<rparr>,
     status = useStatusDisplay, cache = sample_cache\<rparr>"

lemma dead_window_ok: "report_ok dead_window" "agent_ok dead_window"
  by (simp_all add: dead_window_def report_ok_def agent_ok_def)

lemma sample_quick_accepted: "QuickBuyForm_resolver (vals sample_quick_form) = Some (Fin 2)"
  using to_js_of_int [of 300] by (simp add: QuickBuyForm_accepts sample_quick_form_def)

theorem trade_forms_outcome_witness:
  "form_outcome QuickBuyForm_resolver (quickBuyHandler dead_window ''7'' sample_instrument)
     [(SuccessAlert, Msg (JStr ''Transaction successful''))] (quickTransactionInvalidateQuery map_client)
     (QuickBuyForm_values sample_instrument None) sample_quick_form []
     (QuickBuyForm_submit dead_window map_client [Untyped] ''7'' sample_instrument None sample_quick_form [])
   \<and> QuickBuyForm_resolver (vals sample_quick_form) = Some (Fin 2)"
  using trade_forms_outcome [OF dead_window_ok(1), of "[Untyped]" "''7''" sample_instrument map_client None
      sample_quick_form "[]"] sample_quick_accepted by simp

definition is_request :: "fe_event \<Rightarrow> bool" where
  "is_request e = (case e of Request _ \<Rightarrow> True | _ \<Rightarrow> False)"

lemma biz_no_request: "filter is_request (biz w t v) = []"
  by (simp add: biz_def is_request_def)

lemma quick_log:
  assumes "agent_ok w"
  shows "\<exists>ev. snd (quickBuyHandler w u i a l) = l @ ev
           \<and> filter is_request ev = [Request (quick_request w ''/trade/buy'' (u, instr_id i, a))]"
    and "\<exists>ev. snd (quickSellHandler w u i a l) = l @ ev
           \<and> filter is_request ev = [Request (quick_request w ''/trade/sell'' (u, instr_id i, a))]"
  using buy_call.protocol [OF assms, of "(u, instr_id i, a)" l]
    sell_call.protocol [OF assms, of "(u, instr_id i, a)" l]
  by (auto simp: quickBuyHandler_def quickSellHandler_def Let_def biz_no_request is_request_def)

text \<open>
  C7: the quick trade forms send a request only for data they accepted: a buy of a positive
  amount whose price does not exceed the balance shown, and a sale of a positive amount that
  is owned. A submit sends at most this one request.
\<close>

theorem quick_trades_guarded:
  assumes "agent_ok w"
  shows "(\<exists>ev. snd (QuickBuyForm_submit w qc events u i b s l) = l @ ev \<and>
     (filter is_request ev = [] \<or>
      (\<exists>a p m t. vals s = \<lparr>amount = num_val (Fin a), price = num_val (Fin p), limit = num_val (Fin m), total = t\<rparr>
         \<and> 0 < a \<and> 0 < p \<and> js_le (js_mul (Fin a) (Fin p)) (Fin m)
         \<and> filter is_request ev = [Request (quick_request w ''/trade/buy'' (u, instr_id i, Fin a))])))
   \<and> (\<exists>ev. snd (QuickSellForm_submit w qc events u i s l) = l @ ev \<and>
     (filter is_request ev = [] \<or>
      (\<exists>a p m t. vals s = \<lparr>amount = num_val (Fin a), price = num_val (Fin p), limit = num_val (Fin m), total = t\<rparr>
         \<and> 0 < a \<and> a \<le> m
         \<and> filter is_request ev = [Request (quick_request w ''/trade/sell'' (u, instr_id i, Fin a))])))"
    (is "?buy \<and> ?sell")
proof
  have m: "void_mutation (quickBuyHandler w u i) (QuickBuyForm_mutation w qc events u i b)"
    by (simp add: void_mutation_def QuickBuyForm_mutation_def)
  show ?buy
  proof (cases "QuickBuyForm_resolver (vals s)")
    case None
    then show ?thesis by (simp add: QuickBuyForm_submit_def submit_log [OF m])
  next
    case (Some d)
    obtain ev where "snd (quickBuyHandler w u i d l) = l @ ev"
      "filter is_request ev = [Request (quick_request w ''/trade/buy'' (u, instr_id i, d))]"
      using quick_log(1) [OF assms] by blast
    moreover from Some have "snd (QuickBuyForm_submit w qc events u i b s l) = snd (quickBuyHandler w u i d l)"
      by (simp add: QuickBuyForm_submit_def submit_log [OF m])
    ultimately show ?thesis using Some [unfolded QuickBuyForm_accepts] by auto
  qed
next
  have m: "void_mutation (quickSellHandler w u i) (QuickSellForm_mutation w qc events u i)"
    by (simp add: void_mutation_def QuickSellForm_mutation_def)
  show ?sell
  proof (cases "QuickSellForm_resolver (vals s)")
    case None
    then show ?thesis by (simp add: QuickSellForm_submit_def submit_log [OF m])
  next
    case (Some d)
    obtain ev where "snd (quickSellHandler w u i d l) = l @ ev"
      "filter is_request ev = [Request (quick_request w ''/trade/sell'' (u, instr_id i, d))]"
      using quick_log(2) [OF assms] by blast
    moreover from Some have "snd (QuickSellForm_submit w qc events u i s l) = snd (quickSellHandler w u i d l)"
      by (simp add: QuickSellForm_submit_def submit_log [OF m])
    ultimately show ?thesis using Some [unfolded QuickSellForm_accepts] by auto
  qed
qed

theorem quick_trades_guarded_witness:
  "\<exists>ev. snd (QuickBuyForm_submit dead_window map_client [] ''7'' sample_instrument None
       (sample_quick_form\<lparr>vals := (vals sample_quick_form)\<lparr>limit := num_val (Fin 299)\<rparr>\<rparr>) []) = ev
     \<and> filter is_request ev = []"
proof -
  have "\<not> js_le (js_mul (Fin 2) (Fin 150)) (Fin 299)" using to_js_of_int [of 300] by simp
  then show ?thesis
    using quick_trades_guarded [OF dead_window_ok(2), of map_client "[]" "''7''" sample_instrument None
        "sample_quick_form\<lparr>vals := (vals sample_quick_form)\<lparr>limit := num_val (Fin 299)\<rparr>\<rparr>" "[]"]
    by (auto simp: sample_quick_form_def)
qed

subsection \<open>Autofill of the buy form\<close>

lemma LongForm_set_accepted:
  assumes "0 < a" "0 < p" "js_mul (Fin a) (Fin p) = Fin t"
  shows "LongForm_resolver (long_setValues (Fin a) (Fin p) (Fin 1) v) = Some (Fin a, Fin p, Fin 1)"
  using assms by (simp add: LongForm_accepts long_setValues_def LongForm_total_def Let_def)

lemma afford_quotient:
  assumes p: "1 / 100 \<le> p" "p \<le> b" and b: "b \<le> 10 ^ 12"
  obtains q where "js_div (Fin b) (Fin p) = Fin q" "1 \<le> q" "q * p \<le> b * (1 + 2 powi -53)"
    "b * (1 - 2 powi -53) \<le> q * p" "q \<le> 10 ^ 15"
proof -
  have p0: "0 < p" using p(1) by linarith
  have q1: "1 \<le> b / p" using p p0 by simp
  have "b / p \<le> b / (1 / 100)" using p p0 by (intro divide_left_mono) auto
  also have "\<dots> \<le> 10 ^ 14" using b by simp
  finally have q2: "b / p \<le> 10 ^ 14" .
  have "2 powi -1022 \<le> (1::rat)" "(10::rat) ^ 14 \<le> 2 ^ 1023" by (simp_all add: power_int_minus)
  then have "2 powi -1022 \<le> b / p" "b / p \<le> 2 ^ 1023" using q1 q2 by linarith+
  then obtain q where q: "to_js (b / p) = Fin q" "b / p * (1 - 2 powi -53) \<le> q" "q \<le> b / p * (1 + 2 powi -53)"
    by (rule to_js_rel)
  have one: "1 \<le> q" using to_js_ge_double [of 1 "b / p"] q1 q(1) is_double_of_int [of 1] by simp
  have up: "q * p \<le> b / p * (1 + 2 powi -53) * p" and lo: "b / p * (1 - 2 powi -53) * p \<le> q * p"
    using q p0 by (simp_all only: mult_right_mono less_imp_le)
  have "(1::rat) + 2 powi -53 \<le> 10" by (simp add: power_int_minus)
  then have "b / p * (1 + 2 powi -53) \<le> 10 ^ 14 * 10" using q1 q2 by (intro mult_mono) auto
  then have "q \<le> 10 ^ 15" using q(3) by simp
  with q(1) one up lo p0 show thesis by (intro that [of q]) auto
qed

text \<open>A whole amount at a price in range has a finite total.\<close>

lemma finite_total:
  assumes "1 / 10 ^ 6 \<le> p" "1 \<le> n" "of_int n * p \<le> 10 ^ 18"
  obtains t where "js_mul (js_int n) (Fin p) = Fin t"
proof -
  have "1 * p \<le> of_int n * p" using assms by (intro mult_right_mono) auto
  with assms(1) have "1 / 10 ^ 6 \<le> of_int n * p" by (metis mult_1 order_trans)
  then obtain t where "to_js (of_int n * p) = Fin t" using assms(3) by (rule to_js_near)
  then show thesis by (intro that [of t]) simp
qed

lemma buy_fail_accepted:
  assumes p: "1 / 100 \<le> p" "p \<le> b" and b: "b \<le> 10 ^ 12"
  shows "\<exists>k. LongForm_resolver (buy_setFailTransaction (Some (Fin b)) (Fin p) v) = Some (js_int k, Fin p, Fin 1)
     \<and> b < of_int k * p"
proof -
  obtain q where q: "js_div (Fin b) (Fin p) = Fin q" "1 \<le> q" "q * p \<le> b * (1 + 2 powi -53)"
    "b * (1 - 2 powi -53) \<le> q * p" "q \<le> 10 ^ 15"
    by (rule afford_quotient [OF p b])
  let ?k = "\<lceil>q\<rceil> + 1"
  have c: "q \<le> of_int \<lceil>q\<rceil>" "of_int \<lceil>q\<rceil> < q + 1" by linarith+
  have "\<lceil>q\<rceil> \<le> 10 ^ 15" using q(5) by (simp add: ceiling_le_iff)
  moreover have "1 \<le> \<lceil>q\<rceil>" using q(2) by (simp add: one_le_ceiling)
  ultimately have k: "2 \<le> ?k" "?k \<le> 2 ^ 53" by simp_all
  then have add: "js_add (js_ceil (Fin q)) (Fin 1) = js_int ?k" using to_js_of_int [of ?k] by simp
  have p0: "0 < p" using p(1) by linarith
  have lo: "(q + 1) * p \<le> of_int ?k * p" and hi: "of_int ?k * p \<le> (q + 2) * p"
    using c p0 by (intro mult_right_mono; simp)+
  have small: "b * 2 powi -53 < 1 / 100" "b * (1 + 2 powi -53) \<le> 2 * b"
    using b p by (simp_all add: power_int_minus)
  have "b * (1 - 2 powi -53) = b - b * 2 powi -53" by (simp add: right_diff_distrib)
  with q(4) small(1) p(1) have "b < q * p + p" by linarith
  also have "\<dots> \<le> of_int ?k * p" using lo by (simp only: distrib_right mult_1)
  finally have exceeds: "b < of_int ?k * p" .
  have "of_int ?k * p \<le> 10 ^ 18" using hi q(3) small(2) p(2) b by (simp add: distrib_right)
  then obtain t where "js_mul (js_int ?k) (Fin p) = Fin t"
    by (rule finite_total [rotated 2]) (use p k in auto)
  then have "LongForm_resolver (long_setValues (js_int ?k) (Fin p) (Fin 1) v) = Some (js_int ?k, Fin p, Fin 1)"
    by (rule LongForm_set_accepted [rotated 2]) (use c(1) q(2) p0 in linarith)+
  with exceeds add q(1) show ?thesis by (intro exI [of _ ?k]) (simp add: buy_setFailTransaction_def)
qed

lemma buy_amount_accepted:
  assumes p: "1 / 100 \<le> p" "p \<le> b" and b: "b \<le> 10 ^ 12"
  obtains n where "js_floor (js_div (Fin b) (Fin p)) = js_int n" "1 \<le> n" "of_int n * p \<le> b * (1 + 1 / 10 ^ 6)"
    "\<And>y w. 1 / 10 ^ 6 \<le> y \<Longrightarrow> y \<le> p \<Longrightarrow>
       LongForm_resolver (long_setValues (js_int n) (Fin y) (Fin 1) w) = Some (js_int n, Fin y, Fin 1)"
proof -
  obtain q where q: "js_div (Fin b) (Fin p) = Fin q" "1 \<le> q" "q * p \<le> b * (1 + 2 powi -53)"
    by (rule afford_quotient [OF p b])
  have p0: "0 < p" using p(1) by linarith
  have n: "1 \<le> \<lfloor>q\<rfloor>" "of_int \<lfloor>q\<rfloor> \<le> q" using q(2) by (simp_all add: le_floor_iff)
  have "of_int \<lfloor>q\<rfloor> * p \<le> q * p" using n(2) p0 by (intro mult_right_mono) auto
  moreover have "b * (1 + 2 powi -53) \<le> b * (1 + 1 / 10 ^ 6)"
    using p p0 by (intro mult_left_mono) (auto simp: power_int_minus)
  ultimately have np: "of_int \<lfloor>q\<rfloor> * p \<le> b * (1 + 1 / 10 ^ 6)" using q(3) by linarith
  have accepted: "LongForm_resolver (long_setValues (js_int \<lfloor>q\<rfloor>) (Fin y) (Fin 1) w) = Some (js_int \<lfloor>q\<rfloor>, Fin y, Fin 1)"
    if y: "1 / 10 ^ 6 \<le> y" "y \<le> p" for y w
  proof -
    have "of_int \<lfloor>q\<rfloor> * y \<le> of_int \<lfloor>q\<rfloor> * p" using y n(1) by (intro mult_left_mono) auto
    with np b have "of_int \<lfloor>q\<rfloor> * y \<le> 10 ^ 18" by simp
    then obtain t where "js_mul (js_int \<lfloor>q\<rfloor>) (Fin y) = Fin t"
      by (rule finite_total [OF y(1) n(1)])
    moreover have "0 < y" using y(1) by (rule less_le_trans [rotated]) simp
    ultimately show ?thesis using n(1) by (intro LongForm_set_accepted) auto
  qed
  have "js_floor (js_div (Fin b) (Fin p)) = js_int \<lfloor>q\<rfloor>" by (simp only: q(1) js_floor.simps)
  then show thesis using n(1) np accepted by (rule that)
qed

text \<open>
  C21: the autofill of the buy form, when the balance affords a piece: all three fillings are
  accepted by the form. The successful one asks for whole pieces within the balance, up to a
  rounding of one part in a million; the failing one for more than the balance pays; the one
  that times out asks for the same pieces at about a thousandth of the price.
\<close>

theorem buy_autofill:
  assumes "1 / 100 \<le> p" "p \<le> b" "b \<le> 10 ^ 12"
  shows "\<exists>n k y.
     LongForm_resolver (buy_setSuccessTransaction (Some (Fin b)) (Fin p) v) = Some (js_int n, Fin p, Fin 1)
     \<and> 1 \<le> n \<and> of_int n * p \<le> b * (1 + 1 / 10 ^ 6)
   \<and> LongForm_resolver (buy_setFailTransaction (Some (Fin b)) (Fin p) v) = Some (js_int k, Fin p, Fin 1)
     \<and> b < of_int k * p
   \<and> LongForm_resolver (buy_setTimeoutTransaction (Some (Fin b)) (Fin p) v) = Some (js_int n, Fin y, Fin 1)
     \<and> 0 < y \<and> y \<le> p / 900"
proof -
  obtain n where n: "js_floor (js_div (Fin b) (Fin p)) = js_int n" "1 \<le> n" "of_int n * p \<le> b * (1 + 1 / 10 ^ 6)"
    "\<And>y w. 1 / 10 ^ 6 \<le> y \<Longrightarrow> y \<le> p \<Longrightarrow>
       LongForm_resolver (long_setValues (js_int n) (Fin y) (Fin 1) w) = Some (js_int n, Fin y, Fin 1)"
    by (rule buy_amount_accepted [OF assms]) blast
  obtain y where y: "to_js (p / 1000) = Fin y" "p / 1000 * (1 - 1 / 10 ^ 6) \<le> y" "y \<le> p / 1000 * (1 + 1 / 10 ^ 6)"
    by (rule to_js_near [of "p / 1000"]) (use assms in auto)
  then have "1 / 10 ^ 6 \<le> y" "y \<le> p / 900" using assms(1) by auto
  moreover have "y \<le> p" using y(3) assms(1) by simp
  ultimately show ?thesis
    using n y(1) assms(1) buy_fail_accepted [OF assms, of v]
    by (auto simp: buy_setSuccessTransaction_def buy_setTimeoutTransaction_def intro!: exI [of _ n] exI [of _ y])
qed

theorem buy_autofill_witness:
  "\<exists>k. LongForm_resolver (buy_setFailTransaction (Some (Fin 1000)) (Fin 150) (LongForm_values sample_instrument))
       = Some (js_int k, Fin 150, Fin 1) \<and> 1000 < of_int k * (150::rat)"
  using buy_autofill [of 150 1000 "LongForm_values sample_instrument"] by auto

text \<open>When it does not, the filling for a successful transaction is refused.\<close>

lemma buy_autofill_too_poor:
  assumes "0 \<le> b" "b < p" "to_js (b / p) = Fin q" "q < 1"
  shows "LongForm_resolver (buy_setSuccessTransaction (Some (Fin b)) (Fin p) v) = None"
proof -
  have "\<lfloor>q\<rfloor> \<le> 0" using assms(4) by simp
  then have "\<not> (0::rat) < of_int \<lfloor>q\<rfloor>" by simp
  then show ?thesis
    using assms by (cases "LongForm_resolver (buy_setSuccessTransaction (Some (Fin b)) (Fin p) v)")
      (auto simp: LongForm_accepts buy_setSuccessTransaction_def long_setValues_def LongForm_total_def Let_def)
qed

end
