(* ===== verification/Frontend_Mocks.thy ===== *)
theory Frontend_Mocks
  imports Frontend_Forms Frontend_Trades Frontend_Charts Frontend_Pages
begin

section \<open>Frontend: mock functions and data\<close>

text \<open>
  \<open>mockFunc.ts\<close> and \<open>mockData.ts\<close> of the directories of \<open>api/\<close>: what the frontend is developed against
  without the services. The mock handlers keep the interface the forms rely on, and the mock
  flags are a state that a toggle changes.
\<close>

subsection \<open>Data\<close>

record mock_user =
  mu_id :: jsnum
  mu_packageId :: jsnum
  mu_firstName :: string
  mu_lastName :: string
  mu_username :: string
  mu_email :: string
  mu_password :: string
  mu_hashedPassword :: string
  mu_origin :: string
  mu_creationDate :: string
  mu_packageActivationDate :: string
  mu_accountActive :: bool
  mu_address :: string

record raw_price = price +
  lp_id :: jsnum
  lp_instrumentId :: jsnum

record full_instrument = instrument_row +
  fi_description :: string
  fi_productId :: jsnum
  fi_productName :: string

record numbered_transaction = transaction +
  nt_id :: jsnum

record tagged_flag = feature_flag_data +
  tf_tag :: string

definition USERS :: "mock_user list" where
  "USERS =
     [\<lparr>mu_id = js_int 6, mu_packageId = js_int 3, mu_firstName = ''James'', mu_lastName = ''Norton'', mu_username = ''james_norton'',
        mu_email = ''james.norton@yahoo.com'', mu_password = ''pass_james_123'',
        mu_hashedPassword = ''65593378630b74fd4d77eb54473a6a389e8eb23a7b67faefd798835543aa3967'', mu_origin = ''PRESET'',
        mu_creationDate = ''2022-01-08 15:01:21'', mu_packageActivationDate = ''2022-01-08 15:01:21'', mu_accountActive = True,
        mu_address = ''test address 123''\<rparr>,
      \<lparr>mu_id = js_int 7, mu_packageId = js_int 1, mu_firstName = ''Jessica'', mu_lastName = ''Smith'', mu_username = ''jessica_smith'',
        mu_email = ''jessica.smith@gmail.com'', mu_password = ''pass_jessica_123'',
        mu_hashedPassword = ''3488b51313c45f71c34ccabbc40b42e700f7977e1acd6fb8dd5d9c96c808f66f'', mu_origin = ''PRESET'',
        mu_creationDate = ''2021-12-30 08:54:00'', mu_packageActivationDate = ''2021-12-30 08:54:00'', mu_accountActive = True,
        mu_address = ''test address 123''\<rparr>,
      \<lparr>mu_id = js_int 8, mu_packageId = js_int 3, mu_firstName = ''Tracy'', mu_lastName = ''Wright'', mu_username = ''tracy_wright'',
        mu_email = ''tracy.wright@gmail.com'', mu_password = ''pass_tracy_123'',
        mu_hashedPassword = ''4f359e89e46e0988e4abf0b248074c815b682d5417bced6e88f955f12313859f'', mu_origin = ''PRESET'',
        mu_creationDate = ''2022-01-10 04:20:11'', mu_packageActivationDate = ''2022-01-10 04:20:11'', mu_accountActive = True,
        mu_address = ''test address 123''\<rparr>]"

definition LATEST_PRICES :: "raw_price list" where
  "LATEST_PRICES =
     [\<lparr>p_timestamp = ''2023-04-04T13:05:00Z'', p_open = to_js (13768958333/100000000), p_high = to_js (13907805518/100000000),
        p_low = to_js (13637064957/100000000), p_close = to_js (13773125/100000), lp_id = js_int 256846, lp_instrumentId = js_int 1\<rparr>,
      \<lparr>p_timestamp = ''2023-04-04T13:05:00Z'', p_open = to_js (9486888889/100000000), p_high = to_js (9544784334/100000000),
        p_low = to_js (9431277586/100000000), p_close = to_js (9491333333/100000000), lp_id = js_int 256847, lp_instrumentId = js_int 2\<rparr>,
      \<lparr>p_timestamp = ''2023-04-04T13:05:00Z'', p_open = to_js (1807583333/100000000), p_high = to_js (1827412251/100000000),
        p_low = to_js (1787590367/100000000), p_close = to_js (180925/10000), lp_id = js_int 256848, lp_instrumentId = js_int 3\<rparr>,
      \<lparr>p_timestamp = ''2023-04-04T13:05:00Z'', p_open = to_js (22982778/100000000), p_high = to_js (23174109/100000000),
        p_low = to_js (22786974/100000000), p_close = to_js (22971667/100000000), lp_id = js_int 256849, lp_instrumentId = js_int 4\<rparr>,
      \<lparr>p_timestamp = ''2023-04-04T13:05:00Z'', p_open = to_js (27348264/100000000), p_high = to_js (2754496/10000000),
        p_low = to_js (27158477/100000000), p_close = to_js (27355208/100000000), lp_id = js_int 256850, lp_instrumentId = js_int 5\<rparr>,
      \<lparr>p_timestamp = ''2023-04-04T13:05:00Z'', p_open = to_js (194572222/100000000), p_high = to_js (196486361/100000000),
        p_low = to_js (192615336/100000000), p_close = to_js (194683333/100000000), lp_id = js_int 256851, lp_instrumentId = js_int 6\<rparr>,
      \<lparr>p_timestamp = ''2023-04-04T13:05:00Z'', p_open = to_js (130906944/100000000), p_high = to_js (132804647/100000000),
        p_low = to_js (128942186/100000000), p_close = to_js (130879167/100000000), lp_id = js_int 256852, lp_instrumentId = js_int 7\<rparr>,
      \<lparr>p_timestamp = ''2023-04-04T13:05:00Z'', p_open = to_js (820030556/100000000), p_high = to_js (827920498/100000000),
        p_low = to_js (81219989/10000000), p_close = to_js (820308333/100000000), lp_id = js_int 256853, lp_instrumentId = js_int 8\<rparr>,
      \<lparr>p_timestamp = ''2023-04-04T13:05:00Z'', p_open = to_js (473492778/100000000), p_high = to_js (477447025/100000000),
        p_low = to_js (469544523/100000000), p_close = to_js (473681667/100000000), lp_id = js_int 256854, lp_instrumentId = js_int 9\<rparr>,
      \<lparr>p_timestamp = ''2023-04-04T13:05:00Z'', p_open = to_js (89527778/100000000), p_high = to_js (90478886/100000000),
        p_low = to_js (8856325/10000000), p_close = to_js (89416667/100000000), lp_id = js_int 256855, lp_instrumentId = js_int 10\<rparr>,
      \<lparr>p_timestamp = ''2023-04-04T13:05:00Z'', p_open = to_js (362327778/100000000), p_high = to_js (365957571/100000000),
        p_low = to_js (358399074/100000000), p_close = to_js (362216667/100000000), lp_id = js_int 256856, lp_instrumentId = js_int 11\<rparr>,
      \<lparr>p_timestamp = ''2023-04-04T13:05:00Z'', p_open = to_js (852133333/100000000), p_high = to_js (859939838/100000000),
        p_low = to_js (844446944/100000000), p_close = to_js (8528/1000), lp_id = js_int 256857, lp_instrumentId = js_int 12\<rparr>,
      \<lparr>p_timestamp = ''2023-04-04T13:05:00Z'', p_open = to_js (44351667/100000000), p_high = to_js (44729446/100000000),
        p_low = to_js (43956996/100000000), p_close = to_js (44385/100000), lp_id = js_int 256858, lp_instrumentId = js_int 13\<rparr>,
      \<lparr>p_timestamp = ''2023-04-04T13:05:00Z'', p_open = to_js (8841389/100000000), p_high = to_js (8975643/100000000),
        p_low = to_js (8706928/100000000), p_close = to_js (8835833/100000000), lp_id = js_int 256859, lp_instrumentId = js_int 14\<rparr>,
      \<lparr>p_timestamp = ''2023-04-04T13:05:00Z'', p_open = to_js (11149306/100000000), p_high = to_js (11285592/100000000),
        p_low = to_js (11019602/100000000), p_close = to_js (11152083/100000000), lp_id = js_int 256860, lp_instrumentId = js_int 15\<rparr>]"

definition INSTRUMENTS :: "full_instrument list" where
  "INSTRUMENTS =
     [\<lparr>i_id = ''1'', i_code = ''ETRAVE'', i_name = ''EasyTravel'', i_amount = js_int 0,
        i_price = \<lparr>p_timestamp = ''2023-07-28T12:46:00Z'', p_open = to_js (13689930556/100000000), p_high = to_js (13806830198/100000000),
        p_low = to_js (13554899536/100000000), p_close = to_js (13694097222/100000000)\<rparr>, fi_description = ''EasyTravel Incorporated'',
        fi_productId = js_int 1, fi_productName = ''Share''\<rparr>,
      \<lparr>i_id = ''2'', i_code = ''EPLANE'', i_name = ''EasyPlanes'', i_amount = js_int 0,
        i_price = \<lparr>p_timestamp = ''2023-07-28T12:46:00Z'', p_open = to_js (9402592593/100000000), p_high = to_js (9457735546/100000000),
        p_low = to_js (9347043922/100000000), p_close = to_js (9407037037/100000000)\<rparr>, fi_description = ''EasyPlanes Worldwide'',
        fi_productId = js_int 2, fi_productName = ''ETF''\<rparr>,
      \<lparr>i_id = ''3'', i_code = ''EHOTEL'', i_name = ''EasyHotels'', i_amount = js_int 0,
        i_price = \<lparr>p_timestamp = ''2023-07-28T12:46:00Z'', p_open = to_js (1775972222/100000000), p_high = to_js (1795577612/100000000),
        p_low = to_js (1756330321/100000000), p_close = to_js (1777638889/100000000)\<rparr>, fi_description = ''EasyHotels International'',
        fi_productId = js_int 3, fi_productName = ''Crypto''\<rparr>,
      \<lparr>i_id = ''4'', i_code = ''JANGRP'', i_name = ''Janssen Groep'', i_amount = js_int 0,
        i_price = \<lparr>p_timestamp = ''2023-07-28T12:46:00Z'', p_open = to_js (23193519/100000000), p_high = to_js (2338967/10000000),
        p_low = to_js (22995119/100000000), p_close = to_js (23182407/100000000)\<rparr>, fi_description = ''Janssen Groep'',
        fi_productId = js_int 1, fi_productName = ''Share''\<rparr>,
      \<lparr>i_id = ''5'', i_code = ''CORFIG'', i_name = ''Corti e figli'', i_amount = js_int 0,
        i_price = \<lparr>p_timestamp = ''2023-07-28T12:46:00Z'', p_open = to_js (27216551/100000000), p_high = to_js (27407263/100000000),
        p_low = to_js (27029866/100000000), p_close = to_js (27223495/100000000)\<rparr>, fi_description = ''Corti e figli'',
        fi_productId = js_int 2, fi_productName = ''ETF''\<rparr>,
      \<lparr>i_id = ''6'', i_code = ''CMRTIN'', i_name = ''Cummerata Inc'', i_amount = js_int 0,
        i_price = \<lparr>p_timestamp = ''2023-07-28T12:46:00Z'', p_open = to_js (192464815/100000000), p_high = to_js (194374358/100000000),
        p_low = to_js (190543412/100000000), p_close = to_js (192575926/100000000)\<rparr>, fi_description = ''Cummerata Inc'',
        fi_productId = js_int 3, fi_productName = ''Crypto''\<rparr>,
      \<lparr>i_id = ''7'', i_code = ''CHAMAT'', i_name = ''Charles - Mathieu'', i_amount = js_int 0,
        i_price = \<lparr>p_timestamp = ''2023-07-28T12:46:00Z'', p_open = to_js (131433796/100000000), p_high = to_js (133327475/100000000),
        p_low = to_js (129530193/100000000), p_close = to_js (131406019/100000000)\<rparr>, fi_description = ''Charles - Mathieu'',
        fi_productId = js_int 1, fi_productName = ''Share''\<rparr>,
      \<lparr>i_id = ''8'', i_code = ''BLSTCR'', i_name = ''BlueStar Craft'', i_amount = js_int 0,
        i_price = \<lparr>p_timestamp = ''2023-07-28T12:46:00Z'', p_open = to_js (814762037/100000000), p_high = to_js (822301537/100000000),
        p_low = to_js (806908858/100000000), p_close = to_js (815039815/100000000)\<rparr>, fi_description = ''BlueStar Craft'',
        fi_productId = js_int 2, fi_productName = ''ETF''\<rparr>,
      \<lparr>i_id = ''9'', i_code = ''CAFGAL'', i_name = ''Cafe Galore'', i_amount = js_int 0,
        i_price = \<lparr>p_timestamp = ''2023-07-28T12:46:00Z'', p_open = to_js (469910185/100000000), p_high = to_js (473903894/100000000),
        p_low = to_js (466189436/100000000), p_close = to_js (470099074/100000000)\<rparr>, fi_description = ''Cafe Galore'',
        fi_productId = js_int 3, fi_productName = ''Crypto''\<rparr>,
      \<lparr>i_id = ''10'', i_code = ''DECGRP'', i_name = ''Deckerr Gruppe'', i_amount = js_int 0,
        i_price = \<lparr>p_timestamp = ''2023-07-28T12:46:00Z'', p_open = to_js (91635185/100000000), p_high = to_js (92611086/100000000),
        p_low = to_js (9064131/10000000), p_close = to_js (91524074/100000000)\<rparr>, fi_description = ''Deckerr Gruppe'', fi_productId = js_int 1,
        fi_productName = ''Share''\<rparr>,
      \<lparr>i_id = ''11'', i_code = ''PETBAN'', i_name = ''Peters Bank'', i_amount = js_int 0,
        i_price = \<lparr>p_timestamp = ''2023-07-28T12:46:00Z'', p_open = to_js (364435185/100000000), p_high = to_js (368361082/100000000),
        p_low = to_js (36044698/10000000), p_close = to_js (364324074/100000000)\<rparr>, fi_description = ''Peters Bank'', fi_productId = js_int 2,
        fi_productName = ''ETF''\<rparr>,
      \<lparr>i_id = ''12'', i_code = ''BATBAT'', i_name = ''Batista - Batista'', i_amount = js_int 0,
        i_price = \<lparr>p_timestamp = ''2023-07-28T12:46:00Z'', p_open = to_js (839488889/100000000), p_high = to_js (847018505/100000000),
        p_low = to_js (831721199/100000000), p_close = to_js (840155556/100000000)\<rparr>, fi_description = ''Batista - Batista'',
        fi_productId = js_int 3, fi_productName = ''Crypto''\<rparr>,
      \<lparr>i_id = ''13'', i_code = ''STOLLC'', i_name = ''Stokes LLC'', i_amount = js_int 0,
        i_price = \<lparr>p_timestamp = ''2023-07-28T12:46:00Z'', p_open = to_js (43719444/100000000), p_high = to_js (44106881/100000000),
        p_low = to_js (43348289/100000000), p_close = to_js (43752778/100000000)\<rparr>, fi_description = ''Stokes LLC'', fi_productId = js_int 1,
        fi_productName = ''Share''\<rparr>,
      \<lparr>i_id = ''14'', i_code = ''LEBRGA'', i_name = ''Lemke - Braun Garden'', i_amount = js_int 0,
        i_price = \<lparr>p_timestamp = ''2023-07-28T12:46:00Z'', p_open = to_js (8946759/100000000), p_high = to_js (908183/10000000),
        p_low = to_js (8808759/100000000), p_close = to_js (8941204/100000000)\<rparr>, fi_description = ''Lemke - Braun Garden'',
        fi_productId = js_int 2, fi_productName = ''ETF''\<rparr>,
      \<lparr>i_id = ''15'', i_code = ''MOROBA'', i_name = ''Mohr Royalty Bank'', i_amount = js_int 0,
        i_price = \<lparr>p_timestamp = ''2023-07-28T12:46:00Z'', p_open = to_js (1109662/10000000), p_high = to_js (11220813/100000000),
        p_low = to_js (10957413/100000000), p_close = to_js (11099398/100000000)\<rparr>, fi_description = ''Mohr Royalty Bank'',
        fi_productId = js_int 3, fi_productName = ''Crypto''\<rparr>]"

definition transactions :: "numbered_transaction list" where
  "transactions =
     [\<lparr>t_actionType = ''SELL'', t_instrumentName = ''EasyHotels'', t_amount = js_int 8460, t_price = to_js (2317/100), t_status = ''FAIL'',
        t_endTime = ''2023-03-20T12:15:00'', nt_id = js_int 1\<rparr>,
      \<lparr>t_actionType = ''BUY'', t_instrumentName = ''Charles - Mathieu'', t_amount = js_int 7, t_price = to_js (37136/10),
        t_status = ''SUCCESS'', t_endTime = ''2023-03-22T15:03:00'', nt_id = js_int 2\<rparr>,
      \<lparr>t_actionType = ''BUY'', t_instrumentName = ''Janssen Groep'', t_amount = js_int 234, t_price = to_js (3736/10), t_status = ''FAIL'',
        t_endTime = ''2023-03-21T08:04:00'', nt_id = js_int 3\<rparr>,
      \<lparr>t_actionType = ''SELL'', t_instrumentName = ''BlueStar Craft'', t_amount = js_int 56, t_price = to_js (100023/100),
        t_status = ''SUCCESS'', t_endTime = ''2023-03-22T03:03:00'', nt_id = js_int 4\<rparr>,
      \<lparr>t_actionType = ''BUY'', t_instrumentName = ''Charles - Mathieu'', t_amount = js_int 10, t_price = to_js (37136/10),
        t_status = ''FAIL'', t_endTime = ''2023-03-21T20:03:00'', nt_id = js_int 5\<rparr>,
      \<lparr>t_actionType = ''BUY'', t_instrumentName = ''EasyHotels'', t_amount = js_int 12, t_price = to_js (2317/100), t_status = ''SUCCESS'',
        t_endTime = ''2023-03-20T18:03:00'', nt_id = js_int 6\<rparr>,
      \<lparr>t_actionType = ''SELL'', t_instrumentName = ''EasyHotels'', t_amount = js_int 239, t_price = to_js (2317/100), t_status = ''ACTIVE'',
        t_endTime = ''2023-04-20T18:03:00'', nt_id = js_int 7\<rparr>,
      \<lparr>t_actionType = ''BUY'', t_instrumentName = ''Mohr Royalty Bank'', t_amount = js_int 4731, t_price = js_int 11, t_status = ''ACTIVE'',
        t_endTime = ''2023-05-21T13:03:00'', nt_id = js_int 8\<rparr>,
      \<lparr>t_actionType = ''SELL'', t_instrumentName = ''Peters Bank'', t_amount = js_int 321, t_price = to_js (23017/100), t_status = ''ACTIVE'',
        t_endTime = ''2023-05-01T18:03:00'', nt_id = js_int 9\<rparr>,
      \<lparr>t_actionType = ''BUY'', t_instrumentName = ''EasyHotels'', t_amount = js_int 102, t_price = to_js (2532/100), t_status = ''ACTIVE'',
        t_endTime = ''2023-04-17T18:03:00'', nt_id = js_int 10\<rparr>,
      \<lparr>t_actionType = ''BUY'', t_instrumentName = ''Charles - Mathieu'', t_amount = js_int 428, t_price = to_js (2101/10),
        t_status = ''ACTIVE'', t_endTime = ''2023-04-10T18:03:00'', nt_id = js_int 11\<rparr>]"

definition VERSIONS :: "service_version list" where
  "VERSIONS =
     [VersionSuccess ''Broker Service'' (Some (JObj [(''buildVersion'', JStr ''Mock Broker Service version''), (''buildDate'', JStr ''Date''),
        (''buildCommit'', JStr ''Commit'')])),
      VersionSuccess ''Login Service'' (Some (JObj [(''buildVersion'', JStr ''Mock Login Service version''), (''buildDate'', JStr ''Date''),
        (''buildCommit'', JStr ''Commit'')])),
      VersionSuccess ''Pricing Service'' (Some (JObj [(''buildVersion'', JStr ''Mock Pricing Service version''), (''buildDate'', JStr ''Date''),
        (''buildCommit'', JStr ''Commit'')]))]"

text \<open>The three descriptions of the source are this literal, one sentence twice.\<close>

definition lorem :: string where
  "lorem =
     ''Lorem ipsum dolor sit amet, consectetur adipiscing elit. Suspendisse malesuada lacus ex, sit amet blandit leo lobortis eget.''
     @ '' Lorem ipsum dolor sit amet, consectetur adipiscing elit. Suspendisse malesuada lacus ex, sit amet blandit leo lobortis eget.''"

definition FEATURE_FLAGS :: "tagged_flag list" where
  "FEATURE_FLAGS =
     [\<lparr>ff_id = ''1'', ff_name = ''ergo_aggregator_slowdown'', ff_description = Some lorem, ff_enabled = False,
        ff_isModifiable = True, tf_tag = ''problem_pattern''\<rparr>,
      \<lparr>ff_id = ''2'', ff_name = ''db_not_responding'', ff_description = Some lorem, ff_enabled = False,
        ff_isModifiable = True, tf_tag = ''problem_pattern''\<rparr>,
      \<lparr>ff_id = ''3'', ff_name = ''frontend_feature_flag_management'', ff_description = Some lorem, ff_enabled = False,
        ff_isModifiable = True, tf_tag = ''config''\<rparr>]"

text \<open>\<open>PRESET_USERS\<close>: identifier, user name, first and last name.\<close>

definition PRESET_USERS :: "(jsnum \<times> string \<times> string \<times> string) list" where
  "PRESET_USERS = map (\<lambda>u. (mu_id u, mu_username u, mu_firstName u, mu_lastName u)) USERS"

subsection \<open>Functions\<close>

definition getUserMock :: "string \<Rightarrow> json fe_act" where
  "getUserMock userId =
     act_then (act_emit (DelayMS 1000))
     (case List.find (\<lambda>u. num_str (mu_id u) = userId) USERS of
        None \<Rightarrow> act_throw (JsError (''User with id ['' @ userId @ ''] not found''))
      | Some u \<Rightarrow> act_return (JObj [(''id'', JStr (num_str (mu_id u))), (''firstName'', JStr (mu_firstName u)),
          (''lastName'', JStr (mu_lastName u)), (''packageType'', JStr (num_str (mu_packageId u))),
          (''email'', JStr (mu_email u)), (''address'', JStr (mu_address u))]))"

definition getPresetUsersMock :: "json fe_act" where
  "getPresetUsersMock =
     act_then (act_emit (DelayMS 1000))
     (act_return (JArr (map (\<lambda>(i, n, f, l). JObj [(''id'', JStr (num_str i)), (''firstName'', JStr f), (''lastName'', JStr l)])
        PRESET_USERS)))"

definition loginMock :: "string \<Rightarrow> string \<Rightarrow> json fe_act" where
  "loginMock username password =
     act_then (act_emit (DelayMS 2000))
     (act_return (case List.find (\<lambda>u. mu_username u = username \<and> mu_password u = password) USERS of
        Some u \<Rightarrow> JObj [(''id'', JStr (num_str (mu_id u)))]
      | None \<Rightarrow> error_result ''Login or password invalid''))"

text \<open>The mock \<open>logout\<close> resolves to \<open>undefined\<close>.\<close>

definition logoutMock :: "jsval fe_act" where
  "logoutMock = act_return None"

definition signupMock :: "'r \<Rightarrow> json fe_act" where
  "signupMock data = act_then (act_emit (DelayMS 3000)) (act_return (JObj []))"

definition getDepositHandlerMock :: "bool \<Rightarrow> 'r \<Rightarrow> json fe_act" where
  "getDepositHandlerMock error data =
     act_then (act_emit (DelayMS 3000))
     (act_return (if error then error_result ''There was an error processing the deposit'' else JObj []))"

definition getWithdrawHandlerMock :: "bool \<Rightarrow> 'r \<Rightarrow> json fe_act" where
  "getWithdrawHandlerMock error data =
     act_then (act_emit (DelayMS 3000))
     (act_return (if error then error_result ''There was an error processing the deposit'' else JObj []))"

definition quickBuyMock :: "'r \<Rightarrow> json fe_act" where
  "quickBuyMock data =
     act_then (act_emit (DelayMS 2000))
     (act_return (error_result (''There once was a ship that put to sea, the name of the ship was '' @ [CHR 0x22]
        @ ''Ahh yerr got an error!'' @ [CHR 0x22])))"

definition quickSellMock :: "'r \<Rightarrow> json fe_act" where
  "quickSellMock data = act_then (act_emit (DelayMS 2000)) (act_return (JObj []))"

definition buyMock :: "'r \<Rightarrow> json fe_act" where
  "buyMock data = act_then (act_emit (DelayMS 2000)) (act_return (JObj []))"

definition sellMock :: "'r \<Rightarrow> json fe_act" where
  "sellMock data = act_then (act_emit (DelayMS 2000)) (act_return (JObj []))"

text \<open>A latest price: its identifier, that of its instrument, and the prices.\<close>

definition getLatestPricesMock :: "(string \<times> string \<times> price) list fe_act" where
  "getLatestPricesMock =
     act_then (act_emit (DelayMS 1000))
     (act_return (map (\<lambda>p. (num_str (lp_id p), num_str (lp_instrumentId p), price.truncate p)) LATEST_PRICES))"

definition getInstrumentsMock :: "full_instrument list fe_act" where
  "getInstrumentsMock = act_then (act_emit (DelayMS 1000)) (act_return INSTRUMENTS)"

definition getAllVersionsMock :: "service_version list fe_act" where
  "getAllVersionsMock = act_then (act_emit (DelayMS 1000)) (act_return VERSIONS)"

text \<open>The flags are changed in place: the state of these two is the list.\<close>

fun flag_index :: "string \<Rightarrow> 'a feature_flag_data_scheme list \<Rightarrow> nat option" where
  "flag_index i [] = None"
| "flag_index i (f # fs) = (if ff_id f = i then Some 0 else map_option Suc (flag_index i fs))"

definition set_flag :: "string \<Rightarrow> bool \<Rightarrow> tagged_flag list \<Rightarrow> json \<times> tagged_flag list" where
  "set_flag flagId enabled flags =
     (if flagId = ''1'' then (error_result ''You're an Error Harry!'', flags)
      else case flag_index flagId flags of
             None \<Rightarrow> (error_result ''Flag not found'', flags)
           | Some index \<Rightarrow> (JObj [], flags[index := (flags ! index)\<lparr>ff_enabled := enabled\<rparr>]))"

definition mockHandleFlagToggle :: "string \<Rightarrow> bool \<Rightarrow> tagged_flag list \<Rightarrow> (json \<times> tagged_flag list) fe_act" where
  "mockHandleFlagToggle flagId enabled flags =
     act_then (act_emit (DelayMS 2000)) (act_return (set_flag flagId enabled flags))"

definition mockGetFeatureFlags :: "tagged_flag list \<Rightarrow> tagged_flag list fe_act" where
  "mockGetFeatureFlags flags = act_then (act_emit (DelayMS 2000)) (act_return flags)"

subsection \<open>The mocks keep the interfaces\<close>

interpretation deposit_mock: form_handler "\<lambda>w d. getDepositHandlerMock error d" "\<lambda>w. True" for error
  by unfold_locales (auto simp: getDepositHandlerMock_def act_simps)

interpretation withdraw_mock: form_handler "\<lambda>w d. getWithdrawHandlerMock error d" "\<lambda>w. True" for error
  by unfold_locales (auto simp: getWithdrawHandlerMock_def act_simps)

interpretation signup_mock: form_handler "\<lambda>w d. signupMock d" "\<lambda>w. True"
  by unfold_locales (simp add: signupMock_def act_simps)

interpretation quick_buy_mock: form_handler "\<lambda>w d. quickBuyMock d" "\<lambda>w. True"
  by unfold_locales (auto simp: quickBuyMock_def act_simps)

interpretation quick_sell_mock: form_handler "\<lambda>w d. quickSellMock d" "\<lambda>w. True"
  by unfold_locales (simp add: quickSellMock_def act_simps)

interpretation buy_mock: form_handler "\<lambda>w d. buyMock d" "\<lambda>w. True"
  by unfold_locales (simp add: buyMock_def act_simps)

interpretation sell_mock: form_handler "\<lambda>w d. sellMock d" "\<lambda>w. True"
  by unfold_locales (simp add: sellMock_def act_simps)

text \<open>Whoever logs in to the mock is found by it.\<close>

lemma mock_login_found:
  assumes "loginMock name pw l = (Inr (JObj [(''id'', JStr i)]), l')"
  shows "\<exists>u. getUserMock i k = (Inr u, k @ [DelayMS 1000])"
proof -
  obtain v where v: "List.find (\<lambda>u. mu_username u = name \<and> mu_password u = pw) USERS = Some v" "num_str (mu_id v) = i"
    using assms by (auto simp: loginMock_def act_simps error_result_def split: option.splits)
  have "v \<in> set USERS" using find_Some_mem [OF v(1)] by (rule conjunct1)
  with v(2) have "List.find (\<lambda>u. num_str (mu_id u) = i) USERS \<noteq> None"
    unfolding find_None_iff by blast
  then obtain u where "List.find (\<lambda>u. num_str (mu_id u) = i) USERS = Some u" by blast
  then show ?thesis by (simp add: getUserMock_def act_simps)
qed

lemma flag_index_Some: "flag_index i fs = Some k \<Longrightarrow> k < length fs \<and> ff_id (fs ! k) = i"
  by (induction fs arbitrary: k) (auto split: if_splits)

lemma set_flag_keeps_ids: "map ff_id (snd (set_flag i b flags)) = map ff_id flags"
proof (cases "flag_index i flags")
  case (Some k)
  then have "k < length flags" using flag_index_Some by blast
  then have "map ff_id (flags[k := (flags ! k)\<lparr>ff_enabled := b\<rparr>]) = map ff_id flags"
    using list_update_id [of "map ff_id flags" k] by (simp add: map_update)
  with Some show ?thesis by (simp add: set_flag_def)
qed (simp add: set_flag_def)

text \<open>An accepted toggle sets one flag of the list, and only its state; then the list has it.\<close>

lemma mock_toggle_sets:
  assumes "mockHandleFlagToggle i b flags l = (Inr (JObj [], flags'), l')"
  shows "\<exists>k < length flags. ff_id (flags ! k) = i \<and> flags' = flags[k := (flags ! k)\<lparr>ff_enabled := b\<rparr>]"
    and "map ff_id flags' = map ff_id flags"
    and "\<exists>f \<in> set flags'. ff_id f = i \<and> ff_enabled f = b"
proof -
  have s: "set_flag i b flags = (JObj [], flags')"
    using assms by (simp add: mockHandleFlagToggle_def act_simps)
  then show k: "\<exists>k < length flags. ff_id (flags ! k) = i \<and> flags' = flags[k := (flags ! k)\<lparr>ff_enabled := b\<rparr>]"
    by (auto simp: set_flag_def error_result_def dest!: flag_index_Some split: if_splits option.splits)
  show "map ff_id flags' = map ff_id flags" using set_flag_keeps_ids [of i b flags] s by simp
  from k obtain k where k: "k < length flags" "ff_id (flags ! k) = i" "flags' = flags[k := (flags ! k)\<lparr>ff_enabled := b\<rparr>]"
    by blast
  then have "(flags ! k)\<lparr>ff_enabled := b\<rparr> \<in> set flags'" by (simp add: set_update_memI)
  then show "\<exists>f \<in> set flags'. ff_id f = i \<and> ff_enabled f = b" using k(2) by (rule_tac bexI) auto
qed

text \<open>The prices of the mock data lie within their bounds.\<close>

definition price_in_bounds :: "'a price_scheme \<Rightarrow> bool" where
  "price_in_bounds p \<longleftrightarrow> js_le (p_low p) (p_open p) \<and> js_le (p_low p) (p_close p)
     \<and> js_le (p_open p) (p_high p) \<and> js_le (p_close p) (p_high p)"

lemma mock_prices_in_bounds: "list_all price_in_bounds LATEST_PRICES"
  by (simp add: LATEST_PRICES_def price_in_bounds_def to_js_mono)

lemma mock_instruments_in_bounds: "list_all (price_in_bounds \<circ> i_price) INSTRUMENTS"
  by (simp add: INSTRUMENTS_def price_in_bounds_def to_js_mono)

end
