(* ===== verification/Frontend_Fields.thy ===== *)
theory Frontend_Fields
  imports Frontend_Forms Frontend_Trades
begin

section \<open>Frontend: the fields of the forms\<close>

text \<open>
  What the forms of \<open>components/forms/\<close>, \<open>components/creditCard/\<close> and
  \<open>components/instrument/forms/\<close> put on the page: their fields, with the identifiers in the
  document and the names they are registered under, the options of the selections, and the buttons.
  An issue of a schema is shown at the field that is registered under its path.
\<close>

datatype field_kind =
    NumberInput
  | ReadOnlyNumber
  | TextInput
  | PasswordInput
  | SelectInput "(string \<times> string) list"   \<comment> \<open>identifier and label of each option\<close>
  | CheckboxInput

record form_field =
  fl_id :: "string option"
  fl_name :: string
  fl_label :: string
  fl_kind :: field_kind
  fl_required :: bool

record form_button =
  bt_id :: "string option"
  bt_submit :: bool
  bt_label :: string

record form_view =
  fv_fields :: "form_field list"
  fv_buttons :: "form_button list"
  fv_note :: "string option"

definition card_options :: "(string \<times> string) list" where
  "card_options =
     [(''visaDebit'', ''Visa Debit''), (''visaCredit'', ''Visa Credit''), (''mastercard'', ''Mastercard''),
      (''americanExpress'', ''American Express'')]"

definition DepositForm_view :: form_view where
  "DepositForm_view =
     \<lparr>fv_fields =
        [\<lparr>fl_id = Some ''amount'', fl_name = ''amount'', fl_label = ''Amount'', fl_kind = NumberInput, fl_required = True\<rparr>,
         \<lparr>fl_id = Some ''cardholderName'', fl_name = ''cardholderName'', fl_label = ''Cardholder name'', fl_kind = TextInput, fl_required = True\<rparr>,
         \<lparr>fl_id = Some ''address'', fl_name = ''address'', fl_label = ''Address'', fl_kind = TextInput, fl_required = True\<rparr>,
         \<lparr>fl_id = Some ''email'', fl_name = ''email'', fl_label = ''Email'', fl_kind = TextInput, fl_required = True\<rparr>,
         \<lparr>fl_id = Some ''cardNumber'', fl_name = ''cardNumber'', fl_label = ''Card number'', fl_kind = TextInput, fl_required = True\<rparr>,
         \<lparr>fl_id = Some ''cardType'', fl_name = ''cardType'', fl_label = ''Card type'', fl_kind = SelectInput card_options, fl_required = True\<rparr>,
         \<lparr>fl_id = Some ''cvv'', fl_name = ''cvv'', fl_label = ''CVV'', fl_kind = TextInput, fl_required = True\<rparr>,
         \<lparr>fl_id = Some ''agreement'', fl_name = ''agreementCheck'', fl_label = ''Agree to terms and conditions *'', fl_kind = CheckboxInput, fl_required = True\<rparr>],
      fv_buttons = [\<lparr>bt_id = Some ''submitButton'', bt_submit = True, bt_label = ''Deposit''\<rparr>,
         \<lparr>bt_id = None, bt_submit = False, bt_label = ''Autofill''\<rparr>],
      fv_note = Some ''* Required field''\<rparr>"

definition WithdrawForm_view :: form_view where
  "WithdrawForm_view =
     \<lparr>fv_fields =
        [\<lparr>fl_id = Some ''amount'', fl_name = ''amount'', fl_label = ''Amount'', fl_kind = NumberInput, fl_required = True\<rparr>,
         \<lparr>fl_id = Some ''cardholderName'', fl_name = ''cardholderName'', fl_label = ''Cardholder name'', fl_kind = TextInput, fl_required = True\<rparr>,
         \<lparr>fl_id = Some ''address'', fl_name = ''address'', fl_label = ''Address'', fl_kind = TextInput, fl_required = True\<rparr>,
         \<lparr>fl_id = Some ''email'', fl_name = ''email'', fl_label = ''Email'', fl_kind = TextInput, fl_required = True\<rparr>,
         \<lparr>fl_id = Some ''cardNumber'', fl_name = ''cardNumber'', fl_label = ''Card number'', fl_kind = TextInput, fl_required = True\<rparr>,
         \<lparr>fl_id = Some ''cardType'', fl_name = ''cardType'', fl_label = ''Card type'', fl_kind = SelectInput card_options, fl_required = True\<rparr>,
         \<lparr>fl_id = Some ''agreement'', fl_name = ''agreementCheck'', fl_label = ''Agree to terms and conditions *'', fl_kind = CheckboxInput, fl_required = True\<rparr>],
      fv_buttons = [\<lparr>bt_id = Some ''submitButton'', bt_submit = True, bt_label = ''Withdraw''\<rparr>,
         \<lparr>bt_id = None, bt_submit = False, bt_label = ''Autofill''\<rparr>],
      fv_note = Some ''* Required field''\<rparr>"

definition LoginForm_view :: form_view where
  "LoginForm_view =
     \<lparr>fv_fields =
        [\<lparr>fl_id = Some ''login'', fl_name = ''login'', fl_label = ''Login'', fl_kind = TextInput, fl_required = False\<rparr>,
         \<lparr>fl_id = Some ''password'', fl_name = ''password'', fl_label = ''Password'', fl_kind = PasswordInput, fl_required = False\<rparr>],
      fv_buttons = [\<lparr>bt_id = Some ''submitButton'', bt_submit = True, bt_label = ''Login''\<rparr>],
      fv_note = None\<rparr>"

definition SignupForm_view :: form_view where
  "SignupForm_view =
     \<lparr>fv_fields =
        [\<lparr>fl_id = None, fl_name = ''firstName'', fl_label = ''First name'', fl_kind = TextInput, fl_required = False\<rparr>,
         \<lparr>fl_id = None, fl_name = ''lastName'', fl_label = ''Last name'', fl_kind = TextInput, fl_required = False\<rparr>,
         \<lparr>fl_id = None, fl_name = ''login'', fl_label = ''Login'', fl_kind = TextInput, fl_required = False\<rparr>,
         \<lparr>fl_id = None, fl_name = ''email'', fl_label = ''Email'', fl_kind = TextInput, fl_required = False\<rparr>,
         \<lparr>fl_id = None, fl_name = ''address'', fl_label = ''Address'', fl_kind = TextInput, fl_required = False\<rparr>,
         \<lparr>fl_id = None, fl_name = ''password'', fl_label = ''Password'', fl_kind = PasswordInput, fl_required = False\<rparr>,
         \<lparr>fl_id = None, fl_name = ''repeatPassword'', fl_label = ''Repeat password'', fl_kind = PasswordInput, fl_required = False\<rparr>],
      fv_buttons = [\<lparr>bt_id = None, bt_submit = True, bt_label = ''Sign up''\<rparr>],
      fv_note = None\<rparr>"

definition CreditCardForm_view :: form_view where
  "CreditCardForm_view =
     \<lparr>fv_fields =
        [\<lparr>fl_id = Some ''name'', fl_name = ''name'', fl_label = ''Cardholder name'', fl_kind = TextInput, fl_required = True\<rparr>,
         \<lparr>fl_id = Some ''address'', fl_name = ''address'', fl_label = ''Cardholder address'', fl_kind = TextInput, fl_required = True\<rparr>,
         \<lparr>fl_id = Some ''email'', fl_name = ''email'', fl_label = ''Email'', fl_kind = TextInput, fl_required = True\<rparr>,
         \<lparr>fl_id = Some ''type'', fl_name = ''type'', fl_label = ''Card type'', fl_kind = SelectInput [(''silver'', ''Silver''), (''gold'', ''Gold''), (''platinum'', ''Platinum'')], fl_required = True\<rparr>,
         \<lparr>fl_id = Some ''agreement'', fl_name = ''agreementCheck'', fl_label = ''Agree to terms and conditions *'', fl_kind = CheckboxInput, fl_required = True\<rparr>],
      fv_buttons = [\<lparr>bt_id = Some ''submitButton'', bt_submit = True, bt_label = ''Order card''\<rparr>,
         \<lparr>bt_id = None, bt_submit = False, bt_label = ''Autofill''\<rparr>],
      fv_note = Some ''* Required field''\<rparr>"

definition QuickBuyForm_view :: form_view where
  "QuickBuyForm_view =
     \<lparr>fv_fields =
        [\<lparr>fl_id = Some ''amount'', fl_name = ''amount'', fl_label = ''Amount'', fl_kind = NumberInput, fl_required = True\<rparr>,
         \<lparr>fl_id = Some ''price'', fl_name = ''price'', fl_label = ''Instrument price'', fl_kind = ReadOnlyNumber, fl_required = True\<rparr>,
         \<lparr>fl_id = Some ''currentBalance'', fl_name = ''currentBalance'', fl_label = ''Current balance'', fl_kind = ReadOnlyNumber, fl_required = True\<rparr>,
         \<lparr>fl_id = None, fl_name = ''total'', fl_label = ''Total price'', fl_kind = ReadOnlyNumber, fl_required = True\<rparr>],
      fv_buttons = [\<lparr>bt_id = Some ''submitButton'', bt_submit = True, bt_label = ''Buy''\<rparr>],
      fv_note = None\<rparr>"

definition QuickSellForm_view :: form_view where
  "QuickSellForm_view =
     \<lparr>fv_fields =
        [\<lparr>fl_id = Some ''amount'', fl_name = ''amount'', fl_label = ''Amount'', fl_kind = NumberInput, fl_required = True\<rparr>,
         \<lparr>fl_id = Some ''price'', fl_name = ''price'', fl_label = ''Instrument price'', fl_kind = ReadOnlyNumber, fl_required = True\<rparr>,
         \<lparr>fl_id = Some ''posessedAmount'', fl_name = ''possessedAmount'', fl_label = ''Possessed amount'', fl_kind = ReadOnlyNumber, fl_required = True\<rparr>,
         \<lparr>fl_id = None, fl_name = ''total'', fl_label = ''Total price'', fl_kind = ReadOnlyNumber, fl_required = True\<rparr>],
      fv_buttons = [\<lparr>bt_id = Some ''submitButton'', bt_submit = True, bt_label = ''Sell''\<rparr>],
      fv_note = None\<rparr>"

definition BuyForm_view :: form_view where
  "BuyForm_view =
     \<lparr>fv_fields =
        [\<lparr>fl_id = Some ''amount'', fl_name = ''amount'', fl_label = ''Amount'', fl_kind = NumberInput, fl_required = True\<rparr>,
         \<lparr>fl_id = Some ''price'', fl_name = ''price'', fl_label = ''Instrument price'', fl_kind = NumberInput, fl_required = True\<rparr>,
         \<lparr>fl_id = Some ''time'', fl_name = ''time'', fl_label = ''Time [h]'', fl_kind = NumberInput, fl_required = True\<rparr>,
         \<lparr>fl_id = None, fl_name = ''total'', fl_label = ''Total price'', fl_kind = ReadOnlyNumber, fl_required = True\<rparr>],
      fv_buttons = [\<lparr>bt_id = Some ''submitButton'', bt_submit = True, bt_label = ''Buy''\<rparr>,
         \<lparr>bt_id = None, bt_submit = False, bt_label = ''Autofill''\<rparr>],
      fv_note = None\<rparr>"

definition SellForm_view :: form_view where
  "SellForm_view =
     \<lparr>fv_fields =
        [\<lparr>fl_id = Some ''amount'', fl_name = ''amount'', fl_label = ''Amount'', fl_kind = NumberInput, fl_required = True\<rparr>,
         \<lparr>fl_id = Some ''price'', fl_name = ''price'', fl_label = ''Instrument price'', fl_kind = NumberInput, fl_required = True\<rparr>,
         \<lparr>fl_id = Some ''time'', fl_name = ''time'', fl_label = ''Time [h]'', fl_kind = NumberInput, fl_required = True\<rparr>,
         \<lparr>fl_id = None, fl_name = ''total'', fl_label = ''Total price'', fl_kind = ReadOnlyNumber, fl_required = True\<rparr>],
      fv_buttons = [\<lparr>bt_id = Some ''submitButton'', bt_submit = True, bt_label = ''Sell''\<rparr>,
         \<lparr>bt_id = None, bt_submit = False, bt_label = ''Autofill''\<rparr>],
      fv_note = None\<rparr>"

text \<open>The text in the balance that the money forms show, and the preset users' form.\<close>

definition balance_text :: "(jsnum \<Rightarrow> string) \<Rightarrow> jsnum option \<Rightarrow> string" where
  "balance_text formatCurrency balance =
     (case balance of None \<Rightarrow> ''Loading...'' | Some b \<Rightarrow> formatCurrency b)"

record preset_user =
  pu_id :: string
  pu_firstName :: string
  pu_lastName :: string

definition DefaultLoginForm_options :: "preset_user list \<Rightarrow> (string \<times> string) list" where
  "DefaultLoginForm_options users = map (\<lambda>u. (pu_id u, pu_firstName u @ '' '' @ pu_lastName u)) users"

definition DefaultLoginForm_label :: "preset_user list \<Rightarrow> string \<Rightarrow> string" where
  "DefaultLoginForm_label users userId =
     ''Log in as '' @ (case List.find (\<lambda>u. pu_id u = userId) users of None \<Rightarrow> ''User'' | Some u \<Rightarrow> pu_firstName u)"

definition DefaultLoginForm_view :: "preset_user list \<Rightarrow> string \<Rightarrow> form_view" where
  "DefaultLoginForm_view users userId =
     \<lparr>fv_fields =
        [\<lparr>fl_id = None, fl_name = ''userId'', fl_label = ''User'', fl_kind = SelectInput (DefaultLoginForm_options users), fl_required = False\<rparr>],
      fv_buttons = [\<lparr>bt_id = None, bt_submit = True, bt_label = DefaultLoginForm_label users userId\<rparr>],
      fv_note = None\<rparr>"

text \<open>The button that revokes a card, and the menu of the autofill button.\<close>

definition CreditCardActive_button :: form_button where
  "CreditCardActive_button = \<lparr>bt_id = Some ''revoke-card'', bt_submit = False, bt_label = ''Revoke card''\<rparr>"

definition AutofillButton_menu :: "('v \<Rightarrow> 'v) \<Rightarrow> ('v \<Rightarrow> 'v) \<Rightarrow> ('v \<Rightarrow> 'v) \<Rightarrow> (string \<times> ('v \<Rightarrow> 'v)) list" where
  "AutofillButton_menu setSuccessTransaction setFailTransaction setTimeoutTransaction =
     [(''Success transaction'', setSuccessTransaction), (''Fail transaction'', setFailTransaction),
      (''Timeout transaction'', setTimeoutTransaction)]"

definition BuyAutofillButton :: "jsnum option \<Rightarrow> jsnum \<Rightarrow> (string \<times> (long_values \<Rightarrow> long_values)) list" where
  "BuyAutofillButton balance p =
     AutofillButton_menu (buy_setSuccessTransaction balance p) (buy_setFailTransaction balance p)
       (buy_setTimeoutTransaction balance p)"

definition SellAutofillButton :: "jsnum \<Rightarrow> jsnum \<Rightarrow> (string \<times> (long_values \<Rightarrow> long_values)) list" where
  "SellAutofillButton p a =
     AutofillButton_menu (sell_setSuccessTransaction a p) (sell_setFailTransaction a p)
       (sell_setTimeoutTransaction a p)"

subsection \<open>Property\<close>

definition field_names :: "form_view \<Rightarrow> string set" where
  "field_names v = fl_name ` set (fv_fields v)"

text \<open>A form shows the issues of its schema, has no two fields of one name and one way to submit.\<close>

definition shows_issues :: "form_view \<Rightarrow> ('v \<Rightarrow> issue list) \<Rightarrow> bool" where
  "shows_issues view schema \<longleftrightarrow>
     (\<Union>v. fst ` set (schema v)) \<subseteq> field_names view \<and> distinct (map fl_name (fv_fields view))
     \<and> length (filter bt_submit (fv_buttons view)) = 1"

named_theorems issue_paths \<open>the paths of the issues of the parts of a schema\<close>

lemma issue_paths_basic [issue_paths]:
  "fst ` set (check p m ok) \<subseteq> {p}"
  "fst ` set (positive_issues p r q n) \<subseteq> {p}"
  "fst ` set (number_issues p r n) \<subseteq> {p}"
  "fst ` set (nonempty_issues p r t) \<subseteq> {p}"
  "fst ` set (time_issues n) \<subseteq> {''time''}"
  by (auto simp: check_def positive_issues_def number_issues_def nonempty_issues_def time_issues_def
      split: option.splits if_splits)

lemma paths_append: "fst ` set xs \<subseteq> A \<Longrightarrow> fst ` set ys \<subseteq> A \<Longrightarrow> fst ` set (xs @ ys) \<subseteq> A"
  by auto

lemma paths_within: "fst ` set xs \<subseteq> {p} \<Longrightarrow> p \<in> A \<Longrightarrow> fst ` set xs \<subseteq> A"
  by auto

lemmas paths_rules = paths_append issue_paths_basic [THEN paths_within]

lemma paths_some:
  "(\<And>x. fst ` set (f x) \<subseteq> A) \<Longrightarrow> fst ` set (case_option [] f v) \<subseteq> A"
  by (cases v) auto

lemmas form_views = DepositForm_view_def WithdrawForm_view_def LoginForm_view_def SignupForm_view_def
  CreditCardForm_view_def QuickBuyForm_view_def QuickSellForm_view_def BuyForm_view_def SellForm_view_def

lemma field_names_views:
  "field_names WithdrawForm_view =
     {''amount'', ''cardholderName'', ''address'', ''email'', ''cardNumber'', ''cardType'', ''agreementCheck''}"
  "field_names DepositForm_view = insert ''cvv'' (field_names WithdrawForm_view)"
  "field_names LoginForm_view = {''login'', ''password''}"
  "field_names SignupForm_view =
     {''firstName'', ''lastName'', ''login'', ''email'', ''address'', ''password'', ''repeatPassword''}"
  "field_names CreditCardForm_view = {''name'', ''address'', ''email'', ''type'', ''agreementCheck''}"
  "field_names QuickBuyForm_view = {''amount'', ''price'', ''currentBalance'', ''total''}"
  "field_names QuickSellForm_view = {''amount'', ''price'', ''possessedAmount'', ''total''}"
  "field_names BuyForm_view = {''amount'', ''price'', ''time'', ''total''}"
  "field_names SellForm_view = {''amount'', ''price'', ''time'', ''total''}"
  by (auto simp: field_names_def form_views)

lemma transfer_paths: "fst ` set (transfer_issues lib v) \<subseteq> field_names WithdrawForm_view"
  unfolding transfer_issues_def field_names_views by (intro paths_rules) simp_all

lemma deposit_paths: "fst ` set (DepositForm_issues lib d) \<subseteq> field_names DepositForm_view"
  unfolding DepositForm_issues_def field_names_views(2)
  by (intro paths_rules order.trans [OF transfer_paths]) auto

lemma login_paths: "fst ` set (LoginForm_issues l) \<subseteq> field_names LoginForm_view"
  unfolding LoginForm_issues_def field_names_views by (intro paths_rules) simp_all

lemma signup_paths: "fst ` set (SignupForm_issues lib s) \<subseteq> field_names SignupForm_view"
  unfolding SignupForm_issues_def field_names_views Let_def by (intro paths_rules) simp_all

lemma card_paths: "fst ` set (CreditCardForm_issues lib c) \<subseteq> field_names CreditCardForm_view"
  unfolding CreditCardForm_issues_def field_names_views by (intro paths_rules) simp_all

lemma quick_buy_paths: "fst ` set (QuickBuyForm_issues q) \<subseteq> field_names QuickBuyForm_view"
  unfolding QuickBuyForm_issues_def field_names_views prod.case by (intro paths_rules paths_some) simp_all

lemma quick_sell_paths: "fst ` set (QuickSellForm_issues q) \<subseteq> field_names QuickSellForm_view"
  unfolding QuickSellForm_issues_def field_names_views prod.case by (intro paths_rules paths_some) simp_all

lemma long_paths:
  "fst ` set (LongForm_issues n) \<subseteq> field_names BuyForm_view"
  "fst ` set (LongForm_issues n) \<subseteq> field_names SellForm_view"
  unfolding LongForm_issues_def field_names_views by (intro paths_rules; simp)+

text \<open>
  C31: whatever is wrong with the data of a form, each issue is shown at a field that is on the
  page; no form registers two fields under one name, and each has exactly one submit button.
\<close>

theorem forms_show_issues:
  "shows_issues DepositForm_view (DepositForm_issues lib) \<and> shows_issues WithdrawForm_view (transfer_issues lib :: transfer_values \<Rightarrow> issue list)
   \<and> shows_issues LoginForm_view LoginForm_issues \<and> shows_issues SignupForm_view (SignupForm_issues lib)
   \<and> shows_issues CreditCardForm_view (CreditCardForm_issues lib)
   \<and> shows_issues QuickBuyForm_view QuickBuyForm_issues \<and> shows_issues QuickSellForm_view QuickSellForm_issues
   \<and> shows_issues BuyForm_view LongForm_issues \<and> shows_issues SellForm_view LongForm_issues"
proof -
  have paths: "(\<And>v. fst ` set (schema v) \<subseteq> field_names view) \<Longrightarrow> distinct (map fl_name (fv_fields view))
    \<Longrightarrow> length (filter bt_submit (fv_buttons view)) = 1 \<Longrightarrow> shows_issues view schema"
    for view and schema :: "'v \<Rightarrow> issue list" by (auto simp: shows_issues_def)
  show ?thesis
    by (intro conjI paths deposit_paths transfer_paths login_paths signup_paths card_paths quick_buy_paths
        quick_sell_paths long_paths) (simp_all add: form_views)
qed

end
