(* ===== verification/Visit_Pages.thy ===== *)
theory Visit_Pages
  imports Loadgen_Visits Frontend_Fields
begin

section \<open>The load generator on the frontend\<close>

text \<open>
  The visits of the load generator find the elements they act on by XPath. Which tag a widget
  of the component library becomes is the library's: a parameter, with what its documentation
  says as a hypothesis.
\<close>

record widgets =
  field_tag :: "field_kind \<Rightarrow> string"
  button_tag :: string
  menu_item_tag :: string

definition documented_tags :: "widgets \<Rightarrow> bool" where
  "documented_tags wd \<longleftrightarrow>
     (\<forall>k. field_tag wd k = (case k of SelectInput _ \<Rightarrow> ''div'' | _ \<Rightarrow> ''input''))
     \<and> button_tag wd = ''button'' \<and> menu_item_tag wd = ''li''"

definition view_elements :: "widgets \<Rightarrow> form_view \<Rightarrow> (string \<times> string) list" where
  "view_elements wd v =
     List.map_filter (\<lambda>f. map_option (Pair (field_tag wd (fl_kind f))) (fl_id f)) (fv_fields v)
     @ List.map_filter (\<lambda>b. map_option (Pair (button_tag wd)) (bt_id b)) (fv_buttons v)"

text \<open>The elements with an identifier in the header and the user's menu.\<close>

definition header_elements :: "widgets \<Rightarrow> (string \<times> string) list" where
  "header_elements wd =
     [(button_tag wd, ''navigationToggler''), (button_tag wd, ''profileToggler''), (menu_item_tag wd, ''logoutItem'')]"

definition by_id :: "string \<times> string \<Rightarrow> string" where
  "by_id e = ''//'' @ fst e @ ''[@id='' @ [CHR 0x22] @ snd e @ [CHR 0x22] @ '']''"

fun found_in :: "(string \<times> string) list \<Rightarrow> selector \<Rightarrow> nat" where
  "found_in es (XpathSelector name x) = length (filter (\<lambda>e. by_id e = x) es)"

text \<open>In a form there is also the submit button, found by its type.\<close>

definition found_in_form :: "widgets \<Rightarrow> form_view \<Rightarrow> selector \<Rightarrow> nat" where
  "found_in_form wd v s =
     (if s = depositPage_submit then length (filter bt_submit (fv_buttons v)) else found_in (view_elements wd v) s)"

fun acts_on :: "page_event \<Rightarrow> selector list" where
  "acts_on (Click s) = [s]"
| "acts_on (Input s t) = [s]"
| "acts_on (Navigate s) = [s]"
| "acts_on _ = []"

abbreviation finds_once :: "(selector \<Rightarrow> nat) \<Rightarrow> page_event list \<Rightarrow> bool" where
  "finds_once f w \<equiv> list_all (\<lambda>s. f s = 1) (concat (map acts_on w))"

lemmas find_simps = found_in_form_def view_elements_def header_elements_def documented_tags_def map_filter_simps

lemma deposit_found:
  "documented_tags wd \<Longrightarrow> w \<in> depositL u v \<Longrightarrow> finds_once (found_in_form wd DepositForm_view) w"
  by (auto simp: find_simps DepositForm_view_def depositL_def money_form_def by_id_def
      depositPage_amount_def depositPage_cardholderName_def depositPage_address_def depositPage_email_def
      depositPage_cardNumber_def depositPage_cardType_def depositPage_cardCvv_def depositPage_acceptTerms_def
      depositPage_submit_def)

lemma withdraw_found:
  "documented_tags wd \<Longrightarrow> w \<in> withdrawL u v \<Longrightarrow> finds_once (found_in_form wd WithdrawForm_view) w"
  by (auto simp: find_simps WithdrawForm_view_def withdrawL_def money_form_def by_id_def
      depositPage_amount_def depositPage_cardholderName_def depositPage_address_def depositPage_email_def
      depositPage_cardNumber_def depositPage_cardType_def depositPage_acceptTerms_def
      depositPage_submit_def)

lemma order_found:
  "documented_tags wd \<Longrightarrow> w \<in> orderL u t \<Longrightarrow> finds_once (found_in_form wd CreditCardForm_view) w"
  by (auto simp: find_simps CreditCardForm_view_def orderL_def by_id_def
      creditCardPage_nameInput_def creditCardPage_addressInput_def creditCardPage_emailInput_def
      creditCardPage_cardTypeInput_def creditCardPage_acceptTerms_def creditCardPage_orderCardButton_def
      depositPage_submit_def)

lemma login_found: "documented_tags wd \<Longrightarrow> finds_once (found_in_form wd LoginForm_view) (login_trace u)"
  by (simp add: find_simps LoginForm_view_def login_trace_def by_id_def loginPage_username_def
      loginPage_password_def loginPage_loginButton_def depositPage_submit_def)

lemma trade_found:
  "documented_tags wd \<Longrightarrow> view \<in> {QuickBuyForm_view, QuickSellForm_view}
    \<Longrightarrow> finds_once (found_in_form wd view) (trade_trace a)"
  by (auto simp: find_simps QuickBuyForm_view_def QuickSellForm_view_def trade_trace_def by_id_def
      instrumentPage_amountInput_def instrumentPage_submitButton_def depositPage_submit_def)

lemma schedule_found:
  "documented_tags wd \<Longrightarrow> view \<in> {BuyForm_view, SellForm_view}
    \<Longrightarrow> finds_once (found_in_form wd view) (schedule_trace p d a)"
  by (auto simp: find_simps BuyForm_view_def SellForm_view_def schedule_trace_def by_id_def
      instrumentPage_amountInput_def instrumentPage_priceInput_def instrumentPage_timeInput_def
      instrumentPage_submitButton_def depositPage_submit_def)

lemma reads_found:
  "documented_tags wd \<Longrightarrow> found_in_form wd QuickBuyForm_view common_currentBalance = 1"
  "documented_tags wd \<Longrightarrow> found_in_form wd QuickSellForm_view instrumentPage_possessedAmount = 1"
  by (simp_all add: find_simps QuickBuyForm_view_def QuickSellForm_view_def by_id_def
      common_currentBalance_def instrumentPage_possessedAmount_def depositPage_submit_def)

lemma logout_found: "documented_tags wd \<Longrightarrow> finds_once (found_in (header_elements wd)) logout_trace"
  by (simp add: find_simps logout_trace_def by_id_def navigation_dropdownToggler_def navigation_logout_def)

text \<open>The labels of the options of a selection.\<close>

definition option_labels :: "form_view \<Rightarrow> string list" where
  "option_labels v = concat (map (\<lambda>f. case fl_kind f of SelectInput opts \<Rightarrow> map snd opts | _ \<Rightarrow> []) (fv_fields v))"

definition picks_once :: "form_view \<Rightarrow> string \<Rightarrow> bool" where
  "picks_once v label \<longleftrightarrow> length (filter (\<lambda>l. js_includes l label) (option_labels v)) = 1"

lemma option_labels_views:
  "option_labels DepositForm_view = [''Visa Debit'', ''Visa Credit'', ''Mastercard'', ''American Express'']"
  "option_labels WithdrawForm_view = [''Visa Debit'', ''Visa Credit'', ''Mastercard'', ''American Express'']"
  "option_labels CreditCardForm_view = [''Silver'', ''Gold'', ''Platinum'']"
  by (simp_all add: option_labels_def form_views card_options_def)

lemma sublist_by_prefix: "sublist p (c # s) \<longleftrightarrow> prefix p (c # s) \<or> sublist p s"
  by (rule sublist_Cons_right)

lemma provider_found:
  assumes "view \<in> {DepositForm_view, WithdrawForm_view}"
  shows "picks_once view (CREDIT_CARD_MAPPING c)"
proof -
  have "option_labels view = [''Visa Debit'', ''Visa Credit'', ''Mastercard'', ''American Express'']"
    using assms option_labels_views by auto
  then show ?thesis
    by (cases c) (simp_all add: picks_once_def js_includes_def sublist_by_prefix)
qed

lemma card_type_found:
  assumes "t \<in> set EASYTRADE_CREDIT_CARD_TYPES"
  shows "picks_once CreditCardForm_view t"
proof -
  have "t = ''Silver'' \<or> t = ''Gold'' \<or> t = ''Platinum''"
    using assms by (simp add: EASYTRADE_CREDIT_CARD_TYPES_def)
  then show ?thesis
    by (elim disjE) (simp_all add: picks_once_def option_labels_views js_includes_def sublist_by_prefix)
qed


definition sample_widgets :: widgets where
  "sample_widgets =
     \<lparr>field_tag = (\<lambda>k. case k of SelectInput _ \<Rightarrow> ''div'' | _ \<Rightarrow> ''input''), button_tag = ''button'',
      menu_item_tag = ''li''\<rparr>"



end
