(* ===== verification/Js_Printing.thy ===== *)
theory Js_Printing
  imports Js_Json
begin

section \<open>Numbers survive being printed\<close>

text \<open>
  \<open>Number(String(n)) = n\<close> and \<open>parseFloat(String(n)) = n\<close> for every double: seventeen significant digits identify it, since
  whatever is closer to a double than \<open>2 ^ -54\<close> of it rounds to it, and the printed text reads back as
  the decimal it was made from. The program relies on this wherever a number goes through a
  text: ids in routes and requests, amounts that are typed, prices read off a page.
\<close>

subsection \<open>What rounds to a double\<close>

lemma quantum_exp_pos: "0 < x \<Longrightarrow> quantum_exp x = max (-1074) (ilog2 x - 52)"
  by (simp add: quantum_exp_def)

lemma double_multiple:
  assumes "dbl x = x" "0 < x"
  obtains m where "x = of_int m * 2 powi quantum_exp x"
  using assms that [of "round_even (x / 2 powi quantum_exp x)"] by (simp add: dbl_def split: if_splits)

lemma near_quantum:
  assumes x: "dbl x = x" "0 < x" and y: "\<bar>y - x\<bar> < x / 2 ^ 54"
  shows "quantum_exp y = quantum_exp x \<or> x = 2 powi ilog2 x \<and> quantum_exp y = ilog2 x - 53 \<and> quantum_exp x = ilog2 x - 52"
proof -
  define L where "L = ilog2 x"
  define P :: rat where "P = 2 powi L"
  have P: "0 < P" by (simp add: P_def)
  have lx: "P \<le> x" "x < 2 * P"
    using ilog2_bounds [OF x(2)] by (simp_all add: P_def L_def power_int_add)
  have yb: "x - x / 2 ^ 54 < y" "y < x + x / 2 ^ 54" using y by (simp_all only: abs_less_iff) linarith+
  then have y0: "0 < y" using x(2) by simp
  define M where "M = ilog2 y"
  have ly: "2 powi M \<le> y" "y < 2 powi (M + 1)"
    using ilog2_bounds [OF y0] by (simp_all add: M_def)
  have up: "M \<le> L + 1"
  proof (rule ccontr)
    assume "\<not> M \<le> L + 1"
    then have "(2::rat) powi (L + 2) \<le> 2 powi M" by (simp only: powi_le_iff)
    then have "4 * P \<le> y" using ly(1) by (simp add: P_def power_int_add)
    then show False using yb lx P by simp
  qed
  have down: "L - 1 \<le> M"
  proof (rule ccontr)
    assume "\<not> L - 1 \<le> M"
    then have "(2::rat) powi (M + 1) \<le> 2 powi (L - 1)" by (simp only: powi_le_iff)
    then have "y < P / 2" using ly(2) by (simp add: P_def power_int_diff)
    then show False using yb lx P by simp
  qed
  have qx: "quantum_exp x = max (-1074) (L - 52)" and qy: "quantum_exp y = max (-1074) (M - 52)"
    using x(2) y0 by (simp_all add: quantum_exp_pos L_def M_def)
  show ?thesis
  proof (cases "L - 52 \<le> -1074 \<and> M - 52 \<le> -1074 \<or> M = L")
    case True
    then show ?thesis using qx qy by auto
  next
    case False
    then have ne: "M \<noteq> L" and big: "-1074 < L - 52 \<or> -1074 < M - 52" by auto
    have E: "quantum_exp x = L - 52" "-1074 < L - 52 \<or> M = L + 1 \<and> L - 52 = -1074"
      using big ne up down qx by auto
    define Q where "Q = P / 2 ^ 52"
    have Q: "2 powi quantum_exp x = Q" by (simp add: E(1) Q_def P_def power_int_diff)
    have Q0: "0 \<le> Q" using P by (simp add: Q_def)
    obtain m where m: "x = of_int m * Q" using double_multiple [OF x] Q by metis
    have mlo: "2 ^ 52 \<le> m" and mhi: "m < 2 ^ 53"
      using lx P unfolding m Q_def by (simp_all add: field_simps)
    have "M \<noteq> L + 1"
    proof
      assume "M = L + 1"
      then have "2 * P \<le> y" using ly(1) by (simp add: P_def power_int_add)
      moreover have "m \<le> 2 ^ 53 - 1" using mhi by simp
      then have "of_int m * Q \<le> of_int (2 ^ 53 - 1) * Q" by (intro mult_right_mono Q0) (simp only: of_int_le_iff)
      then have "x \<le> 2 * P - P / 2 ^ 52" by (simp add: m Q_def)
      ultimately show False using yb(2) P by simp
    qed
    then have near: "M = L - 1" "-1074 < L - 52" using ne up down E(2) by auto
    then have "y < P" using ly(2) by (simp add: P_def)
    have "\<not> 2 ^ 52 + 1 \<le> m"
    proof
      assume "2 ^ 52 + 1 \<le> m"
      then have "of_int (2 ^ 52 + 1) * Q \<le> of_int m * Q" by (intro mult_right_mono Q0) (simp only: of_int_le_iff)
      then have "P + P / 2 ^ 52 \<le> x" by (simp add: m Q_def)
      then show False using yb(1) lx P \<open>y < P\<close> by simp
    qed
    then have "m = 2 ^ 52" using mlo by simp
    then have "x = P" using P by (simp add: m Q_def)
    then show ?thesis using near qx qy by (auto simp: P_def L_def)
  qed
qed

lemma dbl_near:
  assumes x: "dbl x = x" "0 < x" and y: "\<bar>y - x\<bar> < x / 2 ^ 54"
  shows "dbl y = x"
proof -
  define e where "e = quantum_exp y"
  define q :: rat where "q = 2 powi e"
  have q: "0 < q" by (simp add: q_def)
  have "x \<le> 2 ^ 53 * q \<and> (\<exists>m. x = of_int m * q)"
    using near_quantum [OF assms]
  proof
    assume e: "quantum_exp y = quantum_exp x"
    have "ilog2 x + 1 \<le> e + 53" using e x(2) by (simp add: e_def quantum_exp_pos)
    then have "(2::rat) powi (ilog2 x + 1) \<le> 2 powi (e + 53)" by (simp only: powi_le_iff)
    then have "x \<le> 2 ^ 53 * q" using ilog2_bounds(2) [OF x(2)] by (simp add: q_def power_int_add)
    moreover obtain m where "x = of_int m * q" using double_multiple [OF x] e by (auto simp: q_def e_def)
    ultimately show ?thesis by blast
  next
    assume a: "x = 2 powi ilog2 x \<and> quantum_exp y = ilog2 x - 53 \<and> quantum_exp x = ilog2 x - 52"
    then have "x = 2 powi (e + 53)" by (simp add: e_def)
    then have "x = of_int (2 ^ 53) * q" by (simp add: q_def power_int_add)
    then show ?thesis by (intro conjI exI [of _ "2 ^ 53"]) simp_all
  qed
  then obtain m where m: "x \<le> 2 ^ 53 * q" "x = of_int m * q" by blast
  have y0: "y \<noteq> 0" using y x(2) by auto
  then obtain k where k: "dbl y = of_int k * q" by (simp add: dbl_def q_def e_def)
  have "\<bar>dbl y - y\<bar> \<le> q / 2" using dbl_error_quantum [of y] by (simp add: q_def e_def)
  moreover have "\<bar>y - x\<bar> < q / 2" using y m(1) by simp
  ultimately have "\<bar>dbl y - x\<bar> < q" by linarith
  then have "\<bar>of_int (k - m)\<bar> * q < 1 * q" using q by (simp add: k m(2) left_diff_distrib [symmetric] abs_mult)
  then have "\<bar>of_int (k - m) :: rat\<bar> < 1" using q by (simp only: mult_less_cancel_right_pos)
  then have "k = m" by linarith
  then show ?thesis using k m(2) by simp
qed

subsection \<open>The decimal exponent\<close>

text \<open>Between powers of two and ten, from \<open>59/196 < log 2 / log 10 < 28/93\<close>.\<close>

lemma pow_compare:
  fixes c d :: nat
  assumes "c ^ p \<le> d ^ q" "a * q \<le> p * b" "0 < c" "0 < q"
  shows "c ^ a \<le> d ^ b"
proof -
  have "(c ^ a) ^ q = c ^ (a * q)" by (rule power_mult [symmetric])
  also have "\<dots> \<le> c ^ (p * b)" using assms(2,3) by (intro power_increasing) simp_all
  also have "\<dots> = (c ^ p) ^ b" by (rule power_mult)
  also have "\<dots> \<le> (d ^ q) ^ b" by (intro power_mono assms(1)) simp
  also have "\<dots> = (d ^ b) ^ q" by (simp add: power_mult [symmetric] mult.commute)
  finally show ?thesis using assms(4) by (simp add: power_mono_iff)
qed

lemma log10_2: "(10::nat) ^ 59 \<le> 2 ^ 196" "(2::nat) ^ 93 \<le> 10 ^ 28"
  by simp_all

lemma ten_le_two: "a * 196 \<le> 59 * b \<Longrightarrow> (10::nat) ^ a \<le> 2 ^ b"
  by (erule pow_compare [OF log10_2(1)]) simp_all

lemma two_le_ten: "b * 28 \<le> 93 * a \<Longrightarrow> (2::nat) ^ b \<le> 10 ^ a"
  by (erule pow_compare [OF log10_2(2)]) simp_all

lemma powi_pos: "0 \<le> i \<Longrightarrow> (c :: rat) powi i = c ^ nat i"
  by (simp add: power_int_def)

lemma powi_neg: "i \<le> 0 \<Longrightarrow> (c :: rat) powi i = inverse (c ^ nat (- i))"
  using power_int_minus [of c "- i"] by (simp add: powi_pos)

lemma powi_ten_two: "0 \<le> a \<Longrightarrow> 0 \<le> b \<Longrightarrow> a * 196 \<le> 59 * b \<Longrightarrow> (10::rat) powi a \<le> 2 powi b"
  using ten_le_two [of "nat a" "nat b"]
  by (simp add: powi_pos of_nat_le_iff [symmetric, where 'a = rat] nat_le_eq_zle nat_mult_distrib [symmetric])

lemma powi_two_ten: "0 \<le> a \<Longrightarrow> 0 \<le> b \<Longrightarrow> b * 28 \<le> 93 * a \<Longrightarrow> (2::rat) powi b \<le> 10 powi a"
  using two_le_ten [of "nat b" "nat a"]
  by (simp add: powi_pos of_nat_le_iff [symmetric, where 'a = rat] nat_le_eq_zle nat_mult_distrib [symmetric])

lemma dec_exp_bounds:
  assumes x: "0 < x" and e: "-1074 \<le> ilog2 x" "ilog2 x \<le> 1023"
  shows "10 powi (dec_exp x - 1) \<le> x" "x < 10 powi dec_exp x"
proof -
  define e where "e = ilog2 x"
  define n where "n = (e * 30103) div 100000"
  have n: "100000 * n \<le> 30103 * e" "30103 * e < 100000 * n + 100000"
    by (simp_all add: n_def)
  have lx: "2 powi e \<le> x" "x < 2 powi (e + 1)"
    using ilog2_bounds [OF x] by (simp_all add: e_def)
  have "(10::rat) powi (n - 1) \<le> 2 powi e"
  proof (cases "0 \<le> e")
    case True
    show ?thesis
    proof (cases "0 \<le> n - 1")
      case True
      then show ?thesis using \<open>0 \<le> e\<close> n e by (intro powi_ten_two) (auto simp: e_def)
    next
      case False
      then have "(10::rat) powi (n - 1) \<le> 10 powi 0" by (intro power_int_increasing) simp_all
      also have "\<dots> \<le> 2 powi e" using True power_int_increasing [of 0 e "2::rat"] by simp
      finally show ?thesis .
    qed
  next
    case False
    then have "(2::rat) powi - e \<le> 10 powi (1 - n)"
      using n e by (intro powi_two_ten) (auto simp: e_def)
    then have "inverse ((10::rat) powi (1 - n)) \<le> inverse (2 powi - e)" by (intro le_imp_inverse_le) simp_all
    then show ?thesis by (simp only: power_int_minus [symmetric]) simp
  qed
  then have lo: "10 powi (n - 1) \<le> x" using lx(1) by simp
  have "(2::rat) powi (e + 1) \<le> 10 powi (n + 2)"
  proof (cases "0 \<le> e + 1")
    case True
    then show ?thesis using n e by (intro powi_two_ten) (auto simp: e_def)
  next
    case e0: False
    show ?thesis
    proof (cases "0 \<le> n + 2")
      case True
      have "(2::rat) powi (e + 1) \<le> 2 powi 0" using e0 by (intro power_int_increasing) simp_all
      also have "\<dots> \<le> 10 powi (n + 2)" using True power_int_increasing [of 0 "n + 2" "10::rat"] by simp
      finally show ?thesis .
    next
      case False
      then have "(10::rat) powi - (n + 2) \<le> 2 powi - (e + 1)"
        using n e e0 by (intro powi_ten_two) (auto simp: e_def)
      then have "inverse ((2::rat) powi - (e + 1)) \<le> inverse (10 powi - (n + 2))" by (intro le_imp_inverse_le) simp_all
      then show ?thesis by (simp only: power_int_minus [symmetric] minus_minus)
    qed
  qed
  then have hi: "x < 10 powi (n + 2)" using lx(2) by simp
  show "10 powi (dec_exp x - 1) \<le> x" "x < 10 powi dec_exp x"
    using lo hi by (auto simp: dec_exp_def Let_def e_def [symmetric] n_def [symmetric] add.commute)
qed

lemma double_range:
  assumes "is_double x" "0 < x"
  shows "-1074 \<le> ilog2 x" "ilog2 x \<le> 1023"
proof -
  note b = ilog2_bounds [OF assms(2)]
  show "ilog2 x \<le> 1023"
  proof (rule ccontr)
    assume "\<not> ilog2 x \<le> 1023"
    then have "(2::rat) powi 1024 \<le> 2 powi ilog2 x" by (simp only: powi_le_iff)
    then show False using b(1) assms by (simp add: is_double_def)
  qed
  have "dbl x = x" using assms by (simp add: is_double_def)
  then obtain m where m: "x = of_int m * 2 powi quantum_exp x" using double_multiple assms(2) by blast
  define q :: rat where "q = 2 powi quantum_exp x"
  have q: "0 < q" "x = of_int m * q" using m by (simp_all add: q_def)
  then have "0 < m" using assms(2) by (simp add: zero_less_mult_iff)
  then have "q \<le> x" using q by (simp add: mult_le_cancel_right1)
  then have "2 powi quantum_exp x \<le> x" by (simp add: q_def)
  then have "(2::rat) powi quantum_exp x < 2 powi (ilog2 x + 1)" using b(2) by (rule le_less_trans)
  then have "quantum_exp x < ilog2 x + 1" by (simp only: powi_less_iff)
  then show "-1074 \<le> ilog2 x" using assms(2) by (simp add: quantum_exp_pos)
qed

subsection \<open>The digits\<close>

lemma shortest_digits_dbl:
  "dbl (of_int (round (x / 10 powi (n - (k + int f)))) * 10 powi (n - (k + int f))) = x
     \<Longrightarrow> shortest_digits f x n k = (s, e) \<Longrightarrow> dbl (of_int s * 10 powi e) = x"
proof (induction f arbitrary: k)
  case (Suc f)
  have k: "k + int (Suc f) = k + 1 + int f" by simp
  show ?case
    using Suc.IH [OF Suc.prems(1) [unfolded k]] Suc.prems(2) by (auto simp: Let_def split: if_splits)
qed auto

lemma seventeen_digits:
  assumes "is_double x" "0 < x"
  shows "dbl (of_int (round (x / 10 powi (dec_exp x - 17))) * 10 powi (dec_exp x - 17)) = x"
proof (rule dbl_near)
  define t :: rat where "t = 10 powi (dec_exp x - 17)"
  have t: "0 < t" by (simp add: t_def)
  have "t * 10 ^ 16 = 10 powi (dec_exp x - 1)" by (simp add: t_def power_int_diff)
  also have "\<dots> \<le> x" using assms double_range by (intro dec_exp_bounds)
  finally have "t * 10 ^ 16 \<le> x" .
  moreover have "\<bar>of_int (round (x / t)) - x / t\<bar> \<le> 1 / 2" by (rule of_int_round_abs_le)
  then have "\<bar>of_int (round (x / t)) - x / t\<bar> * t \<le> 1 / 2 * t" using t by (intro mult_right_mono) simp_all
  then have "\<bar>(of_int (round (x / t)) - x / t) * t\<bar> \<le> t / 2" using t by (simp add: abs_mult)
  then have "\<bar>of_int (round (x / t)) * t - x\<bar> \<le> t / 2" using t by (simp add: left_diff_distrib)
  ultimately show "\<bar>of_int (round (x / 10 powi (dec_exp x - 17))) * 10 powi (dec_exp x - 17) - x\<bar> < x / 2 ^ 54"
    using assms(2) by (simp add: t_def [symmetric])
qed (use assms in \<open>simp_all add: is_double_def\<close>)

lemma printed_digits:
  assumes "is_double x" "0 < x" "shortest_digits 16 x (dec_exp x) 1 = (s, e)"
  shows "dbl (of_int s * 10 powi e) = x" "0 < s"
proof -
  show d: "dbl (of_int s * 10 powi e) = x"
    using shortest_digits_dbl [OF _ assms(3)] seventeen_digits [OF assms(1,2)] by simp
  show "0 < s"
  proof (rule ccontr)
    assume "\<not> 0 < s"
    then have "0 \<le> - (of_int s * (10::rat) powi e)" by (simp add: mult_le_0_iff)
    then have "0 \<le> - dbl (of_int s * 10 powi e)" unfolding dbl_minus [symmetric] by (rule dbl_nonneg)
    then show False using d assms(2) by simp
  qed
qed

lemma digits_val_append: "digits_val (s @ t) = digits_val s * 10 ^ length t + digits_val t"
  by (induction t rule: rev_induct) (simp_all flip: append_assoc)

lemma digits_val_zeros: "digits_val (replicate n (CHR ''0'')) = 0"
  by (induction n) (simp_all add: digits_val_def digit_val_def)

lemma strip_zeros_split: "s = strip_zeros s @ replicate (length s - length (strip_zeros s)) (CHR ''0'')"
proof -
  have "rev s = takeWhile (\<lambda>c. c = CHR ''0'') (rev s) @ dropWhile (\<lambda>c. c = CHR ''0'') (rev s)" by simp
  moreover have "takeWhile (\<lambda>c. c = CHR ''0'') (rev s) = replicate (length (takeWhile (\<lambda>c. c = CHR ''0'') (rev s))) (CHR ''0'')"
    by (rule replicate_eqI [symmetric, THEN sym]) (auto dest: set_takeWhileD)
  ultimately obtain m where m: "rev s = replicate m (CHR ''0'') @ rev (strip_zeros s)"
    by (metis rev_rev_ident strip_zeros_def)
  then have "s = strip_zeros s @ replicate m (CHR ''0'')" by (metis rev_append rev_replicate rev_rev_ident)
  moreover from this have "length s = length (strip_zeros s) + m" by (metis length_append length_replicate)
  ultimately show ?thesis by simp
qed

subsection \<open>Reading a printed decimal\<close>

lemma takeWhile_digits:
  assumes "list_all is_digit s" "t = [] \<or> \<not> is_digit (hd t)"
  shows "takeWhile is_digit (s @ t) = s" "dropWhile is_digit (s @ t) = t"
  using assms by (induction s) (cases t; auto)+

lemma not_digits [simp]: "\<not> is_digit (CHR ''.'')" "\<not> is_digit (CHR ''e'')" "\<not> is_digit (CHR ''I'')" "is_digit (CHR ''0'')"
  by (simp_all add: is_digit_def)

lemma read_decimal_point:
  assumes "list_all is_digit a" "list_all is_digit b" "a \<noteq> []"
  shows "read_decimal (a @ ''.'' @ b) = Some (of_nat (digits_val (a @ b)) * 10 powi - int (length b))"
  using assms(3) takeWhile_digits [OF assms(1), of "''.'' @ b"]
  by (simp add: read_decimal_def read_exponent_def list_all_digit_takeWhile assms(1,2))

lemma read_exponent_e:
  "read_exponent (''e'' @ (if n < 0 then ''-'' else ''+'') @ int_str \<bar>n\<bar>) = Some n"
  by (simp add: read_exponent_def int_str_def digits_val_nat_str)

lemma read_decimal_exp:
  assumes "is_digit c" "list_all is_digit b"
  shows "read_decimal (c # (if b = [] then [] else CHR ''.'' # b) @ ''e'' @ (if n < 0 then ''-'' else ''+'') @ int_str \<bar>n\<bar>)
     = Some (of_nat (digits_val (c # b)) * 10 powi (n - int (length b)))"
  using assms takeWhile_digits [of b "''e'' @ (if n < 0 then ''-'' else ''+'') @ int_str \<bar>n\<bar>"] read_exponent_e [of n]
  by (simp add: read_decimal_def)

lemma read_format_decimal:
  assumes "ds \<noteq> []" "list_all is_digit ds"
  shows "read_decimal (format_decimal ds n) = Some (of_nat (digits_val ds) * 10 powi (n - int (length ds)))"
proof -
  let ?k = "int (length ds)"
  let ?z = "\<lambda>m. replicate (nat m) (CHR ''0'')"
  consider "?k \<le> n" "n \<le> 21" | "\<not> ?k \<le> n" "0 < n" "n \<le> 21" | "-6 < n" "n \<le> 0"
    | "\<not> (?k \<le> n \<and> n \<le> 21)" "\<not> (0 < n \<and> n \<le> 21)" "\<not> (-6 < n \<and> n \<le> 0)" by linarith
  then show ?thesis
  proof cases
    case 1
    then have "all_digits (ds @ ?z (n - ?k))" using assms by (simp add: all_digits_def)
    from read_decimal_digits [OF this] 1 show ?thesis
      by (simp add: format_decimal_def digits_val_append digits_val_zeros powi_pos)
  next
    case 2
    then have "read_decimal (take (nat n) ds @ ''.'' @ drop (nat n) ds)
        = Some (of_nat (digits_val ds) * 10 powi - int (length (drop (nat n) ds)))"
      using assms read_decimal_point [of "take (nat n) ds" "drop (nat n) ds"] by simp
    with 2 show ?thesis by (simp add: format_decimal_def of_nat_diff)
  next
    case 3
    have "read_decimal (''0'' @ ''.'' @ ?z (- n) @ ds)
        = Some (of_nat (digits_val (''0'' @ ?z (- n) @ ds)) * 10 powi - int (length (?z (- n) @ ds)))"
      using assms by (intro read_decimal_point) simp_all
    moreover have "digits_val (''0'' @ ?z (- n) @ ds) = digits_val ds"
      by (simp only: digits_val_append digits_val_zeros) (simp add: digits_val_def digit_val_def)
    moreover have "\<not> (?k \<le> n \<and> n \<le> 21)" using 3 assms(1) by (cases ds) simp_all
    ultimately show ?thesis using 3 by (simp add: format_decimal_def Let_def)
  next
    case 4
    obtain c b where ds: "ds = c # b" using assms(1) by (cases ds) simp_all
    have "read_decimal (c # (if b = [] then [] else CHR ''.'' # b) @ ''e'' @ (if n - 1 < 0 then ''-'' else ''+'') @ int_str \<bar>n - 1\<bar>)
       = Some (of_nat (digits_val (c # b)) * 10 powi (n - 1 - int (length b)))"
      using assms(2) by (intro read_decimal_exp) (simp_all add: ds)
    moreover have "format_decimal ds n
       = c # (if b = [] then [] else CHR ''.'' # b) @ ''e'' @ (if n - 1 < 0 then ''-'' else ''+'') @ int_str \<bar>n - 1\<bar>"
      by (simp only: format_decimal_def Let_def 4 if_False) (simp add: ds)
    moreover have "n - 1 - int (length b) = n - int (length ds)" by (simp add: ds)
    ultimately show ?thesis by (simp only: ds)
  qed
qed

lemma format_decimal_first:
  assumes "ds \<noteq> []" "list_all is_digit ds"
  obtains c t where "format_decimal ds n = c # t" "is_digit c"
proof -
  have "is_digit (hd (format_decimal ds n)) \<and> format_decimal ds n \<noteq> []"
    using assms by (cases ds) (auto simp: format_decimal_def Let_def take_Cons' split: nat.splits)
  then show thesis using that by (cases "format_decimal ds n") auto
qed

lemma num_char_no_space: "num_char c \<Longrightarrow> \<not> is_space c"
  by (auto simp: num_char_def is_digit_not_space) (simp_all add: is_space_def)

lemma num_char_no_base: "num_char c \<Longrightarrow> c \<notin> set ''xXoObB''"
  by (auto simp: num_char_def is_digit_def)

lemma js_Number_printed:
  assumes "list_all num_char (c # t)" "is_digit c"
  shows "js_Number (c # t) = read_unsigned (c # t)"
proof -
  have "trim (c # t) = c # t"
    using assms(1) by (intro trim_id) (auto simp: list_all_iff num_char_no_space)
  moreover have "\<not> (2 \<le> length t \<and> hd t \<in> set ''xXoObB'')"
    using assms(1) num_char_no_base by (cases t) auto
  moreover have "c \<noteq> CHR ''-''" "c \<noteq> CHR ''+''" using assms(2) by (auto simp: is_digit_def)
  ultimately show ?thesis by (auto simp: js_Number_def Let_def)
qed

lemma js_Number_minus:
  assumes "list_all num_char s"
  shows "js_Number (CHR ''-'' # s) = js_neg (read_unsigned s)"
proof -
  have "trim (CHR ''-'' # s) = CHR ''-'' # s"
    using assms by (intro trim_id) (auto simp: list_all_iff num_char_no_space)
  then show ?thesis by (simp add: js_Number_def)
qed

text \<open>A printed fraction is the decimal of its digits.\<close>

lemma pos_str_format:
  assumes "is_double x" "0 < x"
  obtains ds n where "pos_str x = format_decimal ds n" "ds \<noteq> []" "list_all is_digit ds"
    "dbl (of_nat (digits_val ds) * 10 powi (n - int (length ds))) = x"
proof -
  obtain s e where se: "shortest_digits 16 x (dec_exp x) 1 = (s, e)" by (cases "shortest_digits 16 x (dec_exp x) 1")
  note p = printed_digits [OF assms se]
  define d where "d = nat_str (nat s)"
  define ds where "ds = strip_zeros d"
  define z where "z = length d - length ds"
  have d: "d = ds @ replicate z (CHR ''0'')" using strip_zeros_split [of d] by (simp add: ds_def z_def)
  have digits: "list_all is_digit d" using nat_str_digits by (simp add: d_def)
  then have dd: "list_all is_digit ds" by (subst (asm) d) simp
  have "int (digits_val d) = s" using p(2) by (simp add: d_def digits_val_nat_str)
  then have v: "int (digits_val ds) * 10 ^ z = s" by (subst (asm) d) (simp add: digits_val_append digits_val_zeros)
  then have "ds \<noteq> []" using p(2) by auto
  have "(of_nat (digits_val ds) :: rat) * 10 powi (e + int (length d) - int (length ds)) = of_int (int (digits_val ds) * 10 ^ z) * 10 powi e"
    by (subst d) (simp add: power_int_add)
  then have "dbl (of_nat (digits_val ds) * 10 powi (e + int (length d) - int (length ds))) = x"
    using p(1) by (simp only: v)
  moreover have "pos_str x = format_decimal ds (e + int (length d))"
    by (simp add: pos_str_def se d_def ds_def Let_def)
  ultimately show thesis using dd \<open>ds \<noteq> []\<close> by (intro that)
qed

lemma pos_str_reads:
  assumes "is_double x" "0 < x"
  shows "read_unsigned (pos_str x) = Fin x" "js_Number (pos_str x) = Fin x"
proof -
  obtain ds n where p: "pos_str x = format_decimal ds n" "ds \<noteq> []" "list_all is_digit ds"
    "dbl (of_nat (digits_val ds) * 10 powi (n - int (length ds))) = x"
    by (rule pos_str_format [OF assms])
  obtain c t where ct: "pos_str x = c # t" "is_digit c"
    using format_decimal_first [OF p(2,3)] by (auto simp: p(1))
  have "read_decimal (pos_str x) = Some (of_nat (digits_val ds) * 10 powi (n - int (length ds)))"
    using read_format_decimal [OF p(2,3)] by (simp add: p(1))
  with ct show "read_unsigned (pos_str x) = Fin x"
    using p(4) assms(1) by (auto simp: read_unsigned_def to_js_def Let_def is_double_def)
  with ct js_Number_printed [of c t] pos_str_num_char [of x] show "js_Number (pos_str x) = Fin x" by simp
qed

text \<open>The ways a number is printed.\<close>

fun js_double :: "jsnum \<Rightarrow> bool" where
  "js_double (Fin x) \<longleftrightarrow> is_double x"
| "js_double _ \<longleftrightarrow> True"

lemma num_str_cases:
  assumes "js_double a"
  obtains (int) n where "a = js_int n" "\<bar>n\<bar> \<le> 2 ^ 53" "num_str a = int_str n"
  | (pos) x where "a = Fin x" "is_double x" "0 < x" "num_str a = pos_str x"
  | (neg) x where "a = Fin (- x)" "is_double x" "0 < x" "num_str a = CHR ''-'' # pos_str x"
  | (special) "a = NaN \<or> a = PInf \<or> a = NInf"
proof (cases a)
  case (Fin x)
  then have x: "is_double x" using assms by simp
  show thesis
  proof (cases "x = of_int \<lfloor>x\<rfloor> \<and> \<bar>x\<bar> \<le> 2 ^ 53")
    case True
    then have "\<bar>\<lfloor>x\<rfloor>\<bar> \<le> 2 ^ 53" by (metis of_int_abs of_int_le_iff of_int_numeral of_int_power)
    then show thesis using True Fin by (intro int [of "\<lfloor>x\<rfloor>"]) simp_all
  next
    case False
    show thesis
    proof (cases "x < 0")
      case True
      moreover have "num_str (Fin x) = CHR ''-'' # pos_str (- x)"
        using True False by (simp only: num_str.simps if_False if_True)
      moreover have "is_double (- x)" using x by (simp add: is_double_def dbl_minus)
      ultimately show thesis using Fin by (intro neg [of "- x"]) simp_all
    next
      case nonneg: False
      then have "0 < x" using False by (cases "x = 0") simp_all
      moreover have "num_str (Fin x) = pos_str x"
        using nonneg False by (simp only: num_str.simps if_False)
      ultimately show thesis using Fin x by (intro pos) simp_all
    qed
  qed
qed (use special in auto)

text \<open>Every number survives being printed and read back.\<close>

theorem js_Number_num_str:
  assumes "js_double a"
  shows "js_Number (num_str a) = a"
  using assms
proof (cases a rule: num_str_cases)
  case (int n)
  then show ?thesis using js_Number_int_str by simp
next
  case (pos x)
  then show ?thesis using pos_str_reads by simp
next
  case (neg x)
  then show ?thesis using pos_str_reads(1) js_Number_minus [OF pos_str_num_char, of x] by simp
next
  case special
  then show ?thesis by (elim disjE; simp; code_simp)
qed


subsection \<open>The longest prefix\<close>

text \<open>The shape of a printed number: digits, a fraction, an exponent. \<open>parseFloat\<close> takes all of it.\<close>

definition decimal_text :: "string \<Rightarrow> bool" where
  "decimal_text s \<longleftrightarrow> (\<exists>a f e. s = a @ f @ e \<and> all_digits a
     \<and> (f = [] \<or> (\<exists>b. f = CHR ''.'' # b \<and> list_all is_digit b))
     \<and> (e = [] \<or> (\<exists>d u. e = CHR ''e'' # d # u \<and> d \<in> {CHR ''+'', CHR ''-''} \<and> all_digits u)))"

lemma decimal_textI:
  "s = a @ f @ e \<Longrightarrow> all_digits a \<Longrightarrow> f = [] \<or> (\<exists>b. f = CHR ''.'' # b \<and> list_all is_digit b)
    \<Longrightarrow> e = [] \<or> (\<exists>d u. e = CHR ''e'' # d # u \<and> d \<in> {CHR ''+'', CHR ''-''} \<and> all_digits u) \<Longrightarrow> decimal_text s"
  unfolding decimal_text_def by blast

lemma decimal_text_first:
  assumes "decimal_text s"
  obtains c t where "s = c # t" "is_digit c"
  using assms by (auto simp: decimal_text_def all_digits_def neq_Nil_conv)

lemma read_float_prefix_text:
  assumes "decimal_text s"
  shows "read_float_prefix s = (case read_decimal s of None \<Rightarrow> NaN | Some x \<Rightarrow> to_js x)"
proof -
  obtain a f e where s: "s = a @ f @ e" and a: "all_digits a"
    and f: "f = [] \<or> (\<exists>b. f = CHR ''.'' # b \<and> list_all is_digit b)"
    and e: "e = [] \<or> (\<exists>d u. e = CHR ''e'' # d # u \<and> d \<in> {CHR ''+'', CHR ''-''} \<and> all_digits u)"
    using assms unfolding decimal_text_def by blast
  have "\<not> prefix ''Infinity'' s" using a by (cases a) (auto simp: s all_digits_def)
  moreover have "takeWhile is_digit s = a" "dropWhile is_digit s = f @ e"
    unfolding s using a e f by (intro takeWhile_digits; auto simp: all_digits_def)+
  moreover have "(case f @ e of c # t \<Rightarrow> if c = CHR ''.'' then c # takeWhile is_digit t else [] | [] \<Rightarrow> []) = f"
    using f
  proof
    assume "f = []"
    then show ?thesis using e by auto
  next
    assume "\<exists>b. f = CHR ''.'' # b \<and> list_all is_digit b"
    then obtain b where b: "f = CHR ''.'' # b" "list_all is_digit b" by blast
    have "takeWhile is_digit (b @ e) = b" using b e by (intro takeWhile_digits) auto
    then show ?thesis by (simp add: b)
  qed
  moreover have "exponent_prefix e = e"
    using e by (auto simp: exponent_prefix_def all_digits_def list_all_digit_takeWhile)
  moreover have "a \<noteq> []" using a by (simp add: all_digits_def)
  ultimately show ?thesis by (simp add: read_float_prefix_def s)
qed

lemma format_decimal_text:
  assumes "ds \<noteq> []" "list_all is_digit ds"
  shows "decimal_text (format_decimal ds n)"
proof -
  let ?k = "int (length ds)"
  let ?z = "\<lambda>m. replicate (nat m) (CHR ''0'')"
  have all: "all_digits (nat_str m)" for m by simp
  consider "?k \<le> n \<and> n \<le> 21" | "\<not> (?k \<le> n \<and> n \<le> 21)" "0 < n \<and> n \<le> 21"
    | "\<not> (?k \<le> n \<and> n \<le> 21)" "\<not> (0 < n \<and> n \<le> 21)" "-6 < n \<and> n \<le> 0"
    | "\<not> (?k \<le> n \<and> n \<le> 21)" "\<not> (0 < n \<and> n \<le> 21)" "\<not> (-6 < n \<and> n \<le> 0)" by blast
  then show ?thesis
  proof cases
    case 1
    then show ?thesis
      using assms by (intro decimal_textI [of _ "ds @ ?z (n - ?k)" "[]" "[]"])
        (simp_all add: format_decimal_def all_digits_def)
  next
    case 2
    then show ?thesis
      using assms by (intro decimal_textI [of _ "take (nat n) ds" "''.'' @ drop (nat n) ds" "[]"])
        (simp_all add: format_decimal_def all_digits_def)
  next
    case 3
    then show ?thesis
      using assms by (intro decimal_textI [of _ "''0''" "''.'' @ ?z (- n) @ ds" "[]"])
        (simp_all add: format_decimal_def all_digits_def Let_def)
  next
    case 4
    obtain c b where ds: "ds = c # b" using assms(1) by (cases ds) simp_all
    let ?e = "CHR ''e'' # (if n - 1 < 0 then CHR ''-'' else CHR ''+'') # int_str \<bar>n - 1\<bar>"
    have "format_decimal ds n = [c] @ (if b = [] then [] else CHR ''.'' # b) @ ?e"
      by (simp only: format_decimal_def Let_def 4 if_False) (simp add: ds)
    then show ?thesis
      using assms(2) by (intro decimal_textI [of _ "[c]" "if b = [] then [] else CHR ''.'' # b" ?e])
        (auto simp: ds all_digits_def int_str_def nat_str_digits)
  qed
qed

lemma nat_str_text: "decimal_text (nat_str n)"
  by (rule decimal_textI [of _ "nat_str n" "[]" "[]"]) simp_all

lemma read_decimal_text:
  assumes "decimal_text s" "read_unsigned s = Fin x"
  shows "read_float_prefix s = Fin x"
proof -
  obtain c t where "s = c # t" "is_digit c" by (rule decimal_text_first [OF assms(1)])
  then have "s \<noteq> ''Infinity''" by auto
  then show ?thesis
    using assms by (simp add: read_float_prefix_text read_unsigned_def)
qed

lemma signed_text:
  assumes "decimal_text s"
  shows "js_parseFloat s = read_float_prefix s" "js_parseFloat (CHR ''-'' # s) = js_neg (read_float_prefix s)"
proof -
  obtain c t where s: "s = c # t" "is_digit c" by (rule decimal_text_first [OF assms])
  then have "\<not> is_space c" "c \<noteq> CHR ''-''" "c \<noteq> CHR ''+''"
    using is_digit_not_space by (auto simp: is_digit_def)
  then show "js_parseFloat s = read_float_prefix s" "js_parseFloat (CHR ''-'' # s) = js_neg (read_float_prefix s)"
    by (simp_all add: js_parseFloat_def signed_def s(1) is_space_def)
qed

lemma pos_str_text: "is_double x \<Longrightarrow> 0 < x \<Longrightarrow> decimal_text (pos_str x)"
  by (metis pos_str_format format_decimal_text)

theorem js_parseFloat_num_str:
  assumes "js_double a"
  shows "js_parseFloat (num_str a) = a"
  using assms
proof (cases a rule: num_str_cases)
  case (int n)
  have "js_parseFloat (int_str n) = js_int n"
  proof -
    have "read_float_prefix (nat_str (nat \<bar>n\<bar>)) = js_int \<bar>n\<bar>"
      using to_js_of_int [of "\<bar>n\<bar>"] int(2)
      by (intro read_decimal_text nat_str_text) (simp add: read_unsigned_nat_str)
    then show ?thesis
      using signed_text [OF nat_str_text, of "nat \<bar>n\<bar>"] by (cases "n < 0") (simp_all add: int_str_def)
  qed
  then show ?thesis using int by simp
next
  case (pos x)
  then show ?thesis
    using read_decimal_text [OF pos_str_text pos_str_reads(1)] signed_text [OF pos_str_text] by simp
next
  case (neg x)
  then show ?thesis
    using read_decimal_text [OF pos_str_text pos_str_reads(1)] signed_text [OF pos_str_text] by simp
next
  case special
  then show ?thesis by (elim disjE; simp; code_simp)
qed

lemma num_str_nonempty:
  assumes "js_double a"
  shows "num_str a \<noteq> []"
  using assms
proof (cases a rule: num_str_cases)
  case (pos x)
  obtain c t where "pos_str x = c # t" "is_digit c" by (rule decimal_text_first [OF pos_str_text [OF pos(2,3)]])
  with pos show ?thesis by simp
qed (auto simp: int_str_def)


subsection \<open>Results of operations are doubles\<close>

lemma dbl_small_multiple:
  assumes "\<bar>m\<bar> < 2 ^ 53" "-1074 \<le> e"
  shows "dbl (of_int m * 2 powi e) = of_int m * 2 powi e"
proof (cases "m = 0")
  case False
  define x :: rat where "x = of_int m * 2 powi e"
  have x: "0 < \<bar>x\<bar>" using False by (simp add: x_def abs_mult)
  have "\<bar>of_int m :: rat\<bar> < 2 ^ 53" using assms(1) by (metis of_int_abs of_int_less_iff of_int_numeral of_int_power)
  then have "\<bar>x\<bar> < 2 ^ 53 * 2 powi e" by (simp add: x_def abs_mult)
  also have "\<dots> = 2 powi (e + 53)" by (simp add: power_int_add)
  finally have "\<bar>x\<bar> < 2 powi (e + 53)" .
  with ilog2_bounds(1) [OF x] have "(2::rat) powi ilog2 \<bar>x\<bar> < 2 powi (e + 53)" by (rule le_less_trans)
  then have "ilog2 \<bar>x\<bar> < e + 53" by (simp only: powi_less_iff)
  then have le: "quantum_exp x \<le> e" using assms(2) by (simp add: quantum_exp_def)
  have "x / 2 powi quantum_exp x = of_int m * 2 powi (e - quantum_exp x)"
    by (simp add: x_def power_int_diff)
  also have "\<dots> = of_int (m * 2 ^ nat (e - quantum_exp x))" using le by (simp add: powi_nat)
  finally have n: "x / 2 powi quantum_exp x = of_int (m * 2 ^ nat (e - quantum_exp x))" .
  then have "x = of_int (m * 2 ^ nat (e - quantum_exp x)) * 2 powi quantum_exp x" by (simp add: field_simps)
  then have "dbl x = x" using n x by (simp only: dbl_def round_even_int) simp
  then show ?thesis by (simp add: x_def)
qed simp

lemma dbl_dbl: "dbl (dbl x) = dbl x"
proof (cases "x = 0")
  case False
  define e where "e = quantum_exp x"
  define m where "m = round_even (x / 2 powi e)"
  have e: "-1074 \<le> e" by (simp add: e_def quantum_exp_def)
  have d: "dbl x = of_int m * 2 powi e" using False by (simp add: dbl_def m_def e_def)
  have x: "0 < \<bar>x\<bar>" using False by simp
  have "ilog2 \<bar>x\<bar> + 1 \<le> e + 53" by (simp add: e_def quantum_exp_def)
  then have "(2::rat) powi (ilog2 \<bar>x\<bar> + 1) \<le> 2 powi (e + 53)" by (simp only: powi_le_iff)
  then have "\<bar>x\<bar> \<le> 2 ^ 53 * 2 powi e" using ilog2_bounds(2) [OF x] by (simp add: power_int_add)
  then have "\<bar>x / 2 powi e\<bar> \<le> 2 ^ 53" by (simp add: abs_divide field_simps)
  then have "x / 2 powi e \<le> of_int (2 ^ 53)" "of_int (- (2 ^ 53)) \<le> x / 2 powi e"
    unfolding abs_le_iff by simp_all
  then have "m \<le> 2 ^ 53" "- (2 ^ 53) \<le> m"
    unfolding m_def using round_even_mono round_even_int by metis+
  then consider "\<bar>m\<bar> < 2 ^ 53" | "m = 2 ^ 52 * 2" | "m = - (2 ^ 52) * 2" by force
  then show ?thesis
  proof cases
    case 1
    then show ?thesis using dbl_small_multiple [OF 1 e] by (simp add: d)
  next
    case 2
    have "dbl (of_int (2 ^ 52) * 2 powi (e + 1)) = of_int (2 ^ 52) * 2 powi (e + 1)"
      using e by (intro dbl_small_multiple) simp_all
    then show ?thesis by (simp add: d 2 power_int_add)
  next
    case 3
    have "dbl (of_int (- (2 ^ 52)) * 2 powi (e + 1)) = of_int (- (2 ^ 52)) * 2 powi (e + 1)"
      using e by (intro dbl_small_multiple) simp_all
    then show ?thesis by (simp add: d 3 power_int_add)
  qed
qed simp

lemma js_double_to_js [simp]: "js_double (to_js x)"
  by (simp add: to_js_def Let_def is_double_def dbl_dbl abs_less_iff)

lemma to_js_finite:
  assumes "\<bar>x\<bar> \<le> 2 ^ 1023"
  obtains y where "to_js x = Fin y" "is_double y"
proof -
  have "(2::rat) ^ 1023 = of_int 1 * 2 powi 1023" by simp
  moreover have "dbl (of_int 1 * 2 powi 1023) = of_int 1 * 2 powi 1023" by (rule dbl_small_multiple) simp_all
  ultimately have p: "dbl (2 ^ 1023) = 2 ^ 1023" by simp
  have "x \<le> 2 ^ 1023" "- (2 ^ 1023) \<le> x" using assms unfolding abs_le_iff by simp_all
  then have "dbl x \<le> 2 ^ 1023" "- (2 ^ 1023) \<le> dbl x"
    using dbl_mono [of x "2 ^ 1023"] dbl_mono [of "- (2 ^ 1023)" x] p by (simp_all only: dbl_minus)
  moreover have "(2::rat) ^ 1023 < 2 ^ 1024" by simp
  ultimately have "to_js x = Fin (dbl x)" unfolding to_js_def Let_def by (simp add: not_le)
  then show thesis using that js_double_to_js [of x] by simp
qed

lemma js_double_ops [simp]:
  "js_double (js_mul a b)" "js_double a \<Longrightarrow> js_double b \<Longrightarrow> js_double (js_max a b)"
  by (cases a; cases b; simp) (simp add: js_max_def)

end
