(* ===== verification/Visit_Forms.thy ===== *)
theory Visit_Forms
  imports Visit_Pages Js_Printing
begin

section \<open>The load generator in the forms\<close>

text \<open>
  What the forms of the frontend hold after a visit has typed into them, and what they then
  ask the services for. How a field turns the text it ends up with into a value belongs to the
  widget and form libraries, and so does which option of an open menu a handle denotes:
  parameters, with what the libraries document as hypotheses.
\<close>

record typing =
  typed :: "field_kind \<Rightarrow> string \<Rightarrow> jsval"
  chosen :: "nat \<Rightarrow> string"

definition documented_typing :: "typing \<Rightarrow> bool" where
  "documented_typing ty \<longleftrightarrow>
     (\<forall>t. typed ty TextInput t = Some (JStr t))
     \<and> (\<forall>x. is_double x \<longrightarrow>
          typed ty NumberInput (num_str (Fin x)) = Some (JNum (js_Number (num_str (Fin x)))))
     \<and> (\<forall>t. all_digits t \<longrightarrow> typed ty NumberInput t = Some (JNum (js_Number t)))
     \<and> (\<forall>t. typed ty PasswordInput t = Some (JStr t))"

lemma typed_number: "documented_typing ty \<Longrightarrow> is_double x \<Longrightarrow> typed ty NumberInput (num_str (Fin x)) = Some (JNum (Fin x))"
  using js_Number_num_str [of "Fin x"] by (simp add: documented_typing_def)

lemma typed_text: "documented_typing ty \<Longrightarrow> typed ty TextInput t = Some (JStr t)"
  by (simp add: documented_typing_def)

text \<open>
  A number field is a number to its form when its text is one, as \<open>Number\<close> reads it; what it
  makes of other texts is left open. The values of a form by field name, and the selection whose menu is open.\<close>

record filling =
  field_vals :: "string \<Rightarrow> jsval"
  open_menu :: "string option"

fun xpath_of :: "selector \<Rightarrow> string" where
  "xpath_of (XpathSelector name x) = x"

text \<open>Name and kind of the field that a selector finds.\<close>

definition field_at :: "widgets \<Rightarrow> form_view \<Rightarrow> selector \<Rightarrow> (string \<times> field_kind) option" where
  "field_at wd view s =
     map_option (\<lambda>f. (fl_name f, fl_kind f))
       (List.find (\<lambda>f. case fl_id f of None \<Rightarrow> False | Some i \<Rightarrow> by_id (field_tag wd (fl_kind f), i) = xpath_of s)
         (fv_fields view))"

definition set_field :: "string \<Rightarrow> jsval \<Rightarrow> filling \<Rightarrow> filling" where
  "set_field name x st = st\<lparr>field_vals := (field_vals st)(name := x)\<rparr>"

text \<open>
  Typing sets the value of a field; a click on a checkbox turns it over, one on a selection
  opens its menu, and one on an option of the open menu chooses it.
\<close>

fun form_event :: "typing \<Rightarrow> widgets \<Rightarrow> form_view \<Rightarrow> page_event \<Rightarrow> filling \<Rightarrow> filling" where
  "form_event ty wd view (Input s t) st =
     (case field_at wd view s of
        Some (name, kind) \<Rightarrow> set_field name (typed ty kind t) st
      | None \<Rightarrow> st)"
| "form_event ty wd view (Click s) st =
     (case field_at wd view s of
        Some (name, kind) \<Rightarrow>
          (case kind of
             SelectInput opts \<Rightarrow> st\<lparr>open_menu := Some name\<rparr>
           | CheckboxInput \<Rightarrow> set_field name (Some (JBool (field_vals st name \<noteq> Some (JBool True)))) st
           | _ \<Rightarrow> st)
      | None \<Rightarrow> st)"
| "form_event ty wd view (ClickHandle h) st =
     (case open_menu st of
        Some name \<Rightarrow> (set_field name (Some (JStr (chosen ty h))) st)\<lparr>open_menu := None\<rparr>
      | None \<Rightarrow> st)"
| "form_event ty wd view _ st = st"

definition fill :: "typing \<Rightarrow> widgets \<Rightarrow> form_view \<Rightarrow> page_event list \<Rightarrow> (string \<Rightarrow> jsval) \<Rightarrow> string \<Rightarrow> jsval" where
  "fill ty wd view w v = field_vals (fold (form_event ty wd view) w \<lparr>field_vals = v, open_menu = None\<rparr>)"

subsection \<open>The money forms\<close>

fun field_text :: "jsval \<Rightarrow> string" where
  "field_text (Some (JStr s)) = s"
| "field_text _ = []"

definition transfer_of :: "(string \<Rightarrow> jsval) \<Rightarrow> transfer_values" where
  "transfer_of v =
     \<lparr>tv_amount = v ''amount'', tv_cardholderName = field_text (v ''cardholderName''),
      tv_address = field_text (v ''address''), tv_email = field_text (v ''email''),
      tv_cardNumber = field_text (v ''cardNumber''), tv_cardType = field_text (v ''cardType''),
      tv_agreementCheck = (v ''agreementCheck'' = Some (JBool True))\<rparr>"

definition deposit_of :: "(string \<Rightarrow> jsval) \<Rightarrow> deposit_values" where
  "deposit_of v = transfer_values.extend (transfer_of v) \<lparr>tv_cvv = field_text (v ''cvv'')\<rparr>"

definition transfer_fields :: "'z transfer_values_scheme \<Rightarrow> string \<Rightarrow> jsval" where
  "transfer_fields d =
     (\<lambda>_. None)(''amount'' := tv_amount d, ''cardholderName'' := Some (JStr (tv_cardholderName d)),
       ''address'' := Some (JStr (tv_address d)), ''email'' := Some (JStr (tv_email d)),
       ''cardNumber'' := Some (JStr (tv_cardNumber d)), ''cardType'' := Some (JStr (tv_cardType d)),
       ''agreementCheck'' := Some (JBool (tv_agreementCheck d)))"

definition deposit_fields :: "deposit_values \<Rightarrow> string \<Rightarrow> jsval" where
  "deposit_fields d = (transfer_fields d)(''cvv'' := Some (JStr (tv_cvv d)))"

text \<open>The option that a handle found by its label denotes.\<close>

definition faithful_menu :: "browser \<Rightarrow> typing \<Rightarrow> (string \<Rightarrow> selector) \<Rightarrow> (string \<times> string) list \<Rightarrow> bool" where
  "faithful_menu b ty item opts \<longleftrightarrow>
     (\<forall>k label h. b_handle b k (item label) = Inr h \<longrightarrow> (\<exists>l. (chosen ty h, l) \<in> set opts \<and> js_includes l label))"

fun provider_id :: "card_provider \<Rightarrow> string" where
  "provider_id visaDebit = ''visaDebit''"
| "provider_id visaCredit = ''visaCredit''"
| "provider_id mastercard = ''mastercard''"
| "provider_id americanExpress = ''americanExpress''"

lemma faithful_provider:
  assumes "faithful_menu b ty item card_options" "b_handle b k (item (CREDIT_CARD_MAPPING c)) = Inr h"
  shows "chosen ty h = provider_id c"
proof -
  obtain l where "(chosen ty h, l) \<in> set card_options" "js_includes l (CREDIT_CARD_MAPPING c)"
    using assms unfolding faithful_menu_def by blast
  then show ?thesis
    by (cases c) (auto simp: card_options_def js_includes_def sublist_by_prefix)
qed

lemma act_bind_returned: "act_bind m f l = (Inr y, l') \<longleftrightarrow> (\<exists>x k. m l = (Inr x, k) \<and> f x k = (Inr y, l'))"
  by (simp add: act_simps split: prod.splits sum.splits)

lemma act_then_returned: "act_then m n l = (Inr y, l') \<longleftrightarrow> (\<exists>x k. m l = (Inr x, k) \<and> n k = (Inr y, l'))"
  by (simp add: act_bind_returned)

lemma pa_do_returned: "pa_do b v l = (Inr x, l') \<longleftrightarrow> b_fails b l v = None \<and> l' = l @ [v]"
  by (auto simp: pa_do_def split: option.splits)

lemma getHandle_returned: "getHandle b s l = (Inr h, l') \<longleftrightarrow> b_handle b l s = Inr h \<and> l' = l"
  by (auto simp: getHandle_def pa_read_def)

lemma getProperty_returned: "getProperty b s n l = (Inr t, l') \<longleftrightarrow> b_property b l s n = Inr t \<and> l' = l"
  by (auto simp: getProperty_def pa_read_def)

lemmas returned = act_bind_returned act_then_returned pa_do_returned getHandle_returned getProperty_returned

lemma deposit_types:
  assumes "Loadgen_Page.deposit b u v l = (Inr y, l')"
  shows "\<exists>h k. b_handle b k (depositPage_cardType_provider (CREDIT_CARD_MAPPING (credit_card_provider u))) = Inr h
    \<and> l' = l @ money_form u v h [ShortDelay, Input depositPage_cardCvv (credit_card_cvv u), StandardDelay]"
  using assms unfolding Loadgen_Page.deposit_def fillUserDepositData_def selectCardProvider_def
  by (auto simp: returned money_form_def)

lemma withdraw_types:
  assumes "Loadgen_Page.withdraw b u v l = (Inr y, l')"
  shows "\<exists>h k. b_handle b k (depositPage_cardType_provider (CREDIT_CARD_MAPPING (credit_card_provider u))) = Inr h
    \<and> l' = l @ money_form u v h [StandardDelay]"
  using assms unfolding Loadgen_Page.withdraw_def fillUserWithdrawData_def selectCardProvider_def
  by (auto simp: returned money_form_def)

text \<open>The fields that the selectors of the money forms find.\<close>

definition transfer_view :: "form_view \<Rightarrow> bool" where
  "transfer_view view \<longleftrightarrow> view = DepositForm_view \<or> view = WithdrawForm_view"

lemma money_fields:
  assumes "documented_tags wd" "transfer_view view"
  shows "field_at wd view depositPage_amount = Some (''amount'', NumberInput)"
    "field_at wd view depositPage_cardholderName = Some (''cardholderName'', TextInput)"
    "field_at wd view depositPage_address = Some (''address'', TextInput)"
    "field_at wd view depositPage_email = Some (''email'', TextInput)"
    "field_at wd view depositPage_cardNumber = Some (''cardNumber'', TextInput)"
    "field_at wd view depositPage_cardType = Some (''cardType'', SelectInput card_options)"
    "field_at wd view depositPage_acceptTerms = Some (''agreementCheck'', CheckboxInput)"
    "field_at wd view depositPage_submit = None"
  using assms unfolding transfer_view_def
  by (auto simp: field_at_def documented_tags_def DepositForm_view_def WithdrawForm_view_def by_id_def
      depositPage_amount_def depositPage_cardholderName_def depositPage_address_def depositPage_email_def
      depositPage_cardNumber_def depositPage_cardType_def depositPage_acceptTerms_def depositPage_submit_def)

lemma cvv_field:
  "documented_tags wd \<Longrightarrow> field_at wd DepositForm_view depositPage_cardCvv = Some (''cvv'', TextInput)"
  by (simp add: field_at_def documented_tags_def DepositForm_view_def by_id_def depositPage_cardCvv_def)

definition filled_transfer :: "typing \<Rightarrow> lg_user \<Rightarrow> rat \<Rightarrow> nat \<Rightarrow> (string \<Rightarrow> jsval) \<Rightarrow> string \<Rightarrow> jsval" where
  "filled_transfer ty u x h v =
     v(''amount'' := Some (JNum (Fin x)), ''cardholderName'' := Some (JStr (fullName u)),
       ''address'' := Some (JStr (address u)), ''email'' := Some (JStr (email u)),
       ''cardNumber'' := Some (JStr (credit_card_number u)), ''cardType'' := Some (JStr (chosen ty h)),
       ''agreementCheck'' := Some (JBool (v ''agreementCheck'' \<noteq> Some (JBool True))))"

lemma fill_withdraw:
  assumes "documented_tags wd" "documented_typing ty" "is_double x"
  shows "fill ty wd WithdrawForm_view (money_form u (Fin x) h [StandardDelay]) v = filled_transfer ty u x h v"
  using money_fields [OF assms(1), of WithdrawForm_view] typed_number [OF assms(2,3)] typed_text [OF assms(2)]
  by (simp add: fill_def money_form_def set_field_def transfer_view_def filled_transfer_def fun_upd_twist del: num_str.simps)

lemma fill_deposit:
  assumes "documented_tags wd" "documented_typing ty" "is_double x"
  shows "fill ty wd DepositForm_view
      (money_form u (Fin x) h [ShortDelay, Input depositPage_cardCvv (credit_card_cvv u), StandardDelay]) v
    = (filled_transfer ty u x h v)(''cvv'' := Some (JStr (credit_card_cvv u)))"
  using money_fields [OF assms(1), of DepositForm_view] typed_number [OF assms(2,3)] typed_text [OF assms(2)]
    cvv_field [OF assms(1)]
  by (simp add: fill_def money_form_def set_field_def transfer_view_def filled_transfer_def fun_upd_twist del: num_str.simps)

text \<open>Data of a user of the load generator that the forms accept.\<close>

definition acceptable_user :: "text_checks \<Rightarrow> lg_user \<Rightarrow> bool" where
  "acceptable_user lib u \<longleftrightarrow>
     address u \<noteq> [] \<and> is_email lib (email u) \<and> credit_card_number u \<noteq> [] \<and> isCreditCard lib (credit_card_number u)
     \<and> cvvRegex (credit_card_cvv u)"

definition user_withdrawal :: "string \<Rightarrow> lg_user \<Rightarrow> rat \<Rightarrow> WithdrawRequest" where
  "user_withdrawal userId u x =
     \<lparr>wr_accountId = js_Number userId, wr_amount = Fin x, wr_name = fullName u, wr_address = address u,
      wr_email = email u, wr_cardNumber = credit_card_number u, wr_cardType = provider_id (credit_card_provider u)\<rparr>"

definition user_deposit :: "string \<Rightarrow> lg_user \<Rightarrow> rat \<Rightarrow> DepositRequest" where
  "user_deposit userId u x = WithdrawRequest.extend (user_withdrawal userId u x) \<lparr>wr_cvv = credit_card_cvv u\<rparr>"

lemma provider_id_nonempty: "provider_id c \<noteq> []"
  by (cases c) simp_all

lemma filled_deposit_accepted:
  assumes "acceptable_user lib u" "0 < x" "chosen ty h = provider_id (credit_card_provider u)"
  defines "d \<equiv> deposit_of ((filled_transfer ty u x h (deposit_fields DepositForm_defaults))(''cvv'' := Some (JStr (credit_card_cvv u))))"
  shows "DepositForm_resolver lib d = Some d" "DepositForm_request userId d = user_deposit userId u x"
  using assms provider_id_nonempty
  by (auto simp: d_def DepositForm_resolver_def DepositForm_issues_def transfer_issues_Nil deposit_of_def
      transfer_of_def transfer_values.defs filled_transfer_def deposit_fields_def transfer_fields_def DepositForm_defaults_def acceptable_user_def
      fullName_def cvvRegex_def DepositForm_request_def accepted_amount_def user_deposit_def user_withdrawal_def WithdrawRequest.defs)

lemma filled_withdrawal_accepted:
  assumes "acceptable_user lib u" "0 < x" "chosen ty h = provider_id (credit_card_provider u)"
  defines "d \<equiv> transfer_of (filled_transfer ty u x h (transfer_fields WithdrawForm_defaults))"
  shows "WithdrawForm_resolver lib d = Some d" "WithdrawForm_request userId d = user_withdrawal userId u x"
  using assms provider_id_nonempty
  by (auto simp: d_def WithdrawForm_resolver_def transfer_issues_Nil
      transfer_of_def filled_transfer_def transfer_fields_def WithdrawForm_defaults_def acceptable_user_def
      fullName_def WithdrawForm_request_def accepted_amount_def user_withdrawal_def)

text \<open>
  C11: what a visit deposits and withdraws is what the services are asked for. When the helper of
  the load generator has run to its end on a page that shows the form, the form accepts what was
  typed and chosen, and its submit sends a request with the amount of the visit, to the last bit,
  and the name, card and address of its user, for the account of whoever is logged in.
\<close>

theorem visit_money_requests:
  assumes "documented_tags wd" "documented_typing ty"
    and menu: "faithful_menu b ty depositPage_cardType_provider card_options"
    and "acceptable_user lib u" "is_double x" "0 < x" "agent_ok w"
    and dep: "Loadgen_Page.deposit b u (Fin x) l = (Inr (), l1)"
    and wit: "Loadgen_Page.withdraw b u (Fin x) k = (Inr (), k1)"
  shows "(\<exists>word d. l1 = l @ word
     \<and> d = deposit_of (fill ty wd DepositForm_view word (deposit_fields DepositForm_defaults))
     \<and> Request (deposit_request w (user_deposit i u x))
         \<in> set (snd (DepositForm_submit lib w qc events i \<lparr>vals = d, status = st, cache = c\<rparr> sent)))
   \<and> (\<exists>word d. k1 = k @ word
     \<and> d = transfer_of (fill ty wd WithdrawForm_view word (transfer_fields WithdrawForm_defaults))
     \<and> Request (withdraw_request w (user_withdrawal i u x))
         \<in> set (snd (WithdrawForm_submit lib w qc events i \<lparr>vals = d, status = st, cache = c\<rparr> sent)))"
proof
  from deposit_types [OF dep] obtain h k where h: "b_handle b k (depositPage_cardType_provider (CREDIT_CARD_MAPPING (credit_card_provider u))) = Inr h"
    "l1 = l @ money_form u (Fin x) h [ShortDelay, Input depositPage_cardCvv (credit_card_cvv u), StandardDelay]" by blast
  note accepted = filled_deposit_accepted [OF assms(4,6) faithful_provider [OF menu h(1)]]
  note runs = submit_log [OF deposit_form.runs, where resolver = "DepositForm_resolver lib"]
  show "\<exists>word d. l1 = l @ word
     \<and> d = deposit_of (fill ty wd DepositForm_view word (deposit_fields DepositForm_defaults))
     \<and> Request (deposit_request w (user_deposit i u x))
         \<in> set (snd (DepositForm_submit lib w qc events i \<lparr>vals = d, status = st, cache = c\<rparr> sent))"
    using h(2) accepted deposit_call.requested [OF \<open>agent_ok w\<close>]
    by (simp add: fill_deposit [OF assms(1,2,5)] DepositForm_submit_def runs)
next
  from withdraw_types [OF wit] obtain h m where h: "b_handle b m (depositPage_cardType_provider (CREDIT_CARD_MAPPING (credit_card_provider u))) = Inr h"
    "k1 = k @ money_form u (Fin x) h [StandardDelay]" by blast
  note accepted = filled_withdrawal_accepted [OF assms(4,6) faithful_provider [OF menu h(1)]]
  note runs = submit_log [OF withdraw_form.runs, where resolver = "WithdrawForm_resolver lib"]
  show "\<exists>word d. k1 = k @ word
     \<and> d = transfer_of (fill ty wd WithdrawForm_view word (transfer_fields WithdrawForm_defaults))
     \<and> Request (withdraw_request w (user_withdrawal i u x))
         \<in> set (snd (WithdrawForm_submit lib w qc events i \<lparr>vals = d, status = st, cache = c\<rparr> sent))"
    using h(2) accepted withdraw_call.requested [OF \<open>agent_ok w\<close>]
    by (simp add: fill_withdraw [OF assms(1,2,5)] WithdrawForm_submit_def runs)
qed

text \<open>The first user of \<open>resources/users.json\<close>, and a page with the menu of card types.\<close>

definition james_norton :: lg_user where
  "james_norton =
     \<lparr>first_name = ''James'', last_name = ''Norton'', username = ''james_norton'', email = ''james.norton@yahoo.com'',
      password = ''pass_james_123'', user_agent = ''Mozilla/5.0 (compatible; MSIE 7.0; Windows NT 6.2; Trident/3.1)'',
      ip4 = ''53.150.32.160'', address = ''Kochweg 4 01510 Kronach'', credit_card_number = ''2293562484488276'',
      credit_card_cvv = ''661'', credit_card_provider = mastercard,
      visitor_id = ''1648628500705OM0N1CEU0VKPA9PVLT2ON2UURJK75DJ0''\<rparr>"

definition menu_browser :: browser where
  "menu_browser = (sample_browser (\<lambda>_. False))
     \<lparr>b_handle := (\<lambda>l s. if s = depositPage_cardType_provider ''Mastercard'' then Inr 2 else Inl NetworkError)\<rparr>"

definition sample_typing :: typing where
  "sample_typing =
     \<lparr>typed = (\<lambda>k t. case k of NumberInput \<Rightarrow> Some (JNum (js_Number t)) | _ \<Rightarrow> Some (JStr t)),
      chosen = (\<lambda>h. ''mastercard'')\<rparr>"

lemma sample_typing_documented: "documented_typing sample_typing"
  by (simp add: documented_typing_def sample_typing_def)

lemma sample_widgets_documented: "documented_tags sample_widgets"
  by (simp add: documented_tags_def sample_widgets_def)

lemma menu_browser_faithful: "faithful_menu menu_browser sample_typing depositPage_cardType_provider card_options"
proof -
  have "label = ''Mastercard''" if "depositPage_cardType_provider label = depositPage_cardType_provider ''Mastercard''" for label
    using that unfolding depositPage_cardType_provider_def selector.inject same_append_eq append_same_eq by simp
  then show ?thesis
    by (auto simp: faithful_menu_def menu_browser_def sample_typing_def card_options_def js_includes_def split: if_splits)
qed

lemma james_norton_acceptable: "acceptable_user sample_checks james_norton"
  by (simp add: acceptable_user_def sample_checks_def james_norton_def) code_simp

theorem visit_money_requests_witness:
  "\<exists>word d. d = deposit_of (fill sample_typing sample_widgets DepositForm_view word (deposit_fields DepositForm_defaults))
     \<and> Request (deposit_request quiet_window (user_deposit ''7'' james_norton 250))
         \<in> set (snd (DepositForm_submit sample_checks quiet_window map_client [Untyped] ''7''
              \<lparr>vals = d, status = useStatusDisplay, cache = sample_cache\<rparr> []))"
proof -
  have run: "Loadgen_Page.deposit menu_browser james_norton (Fin 250) [] =
      (Inr (), money_form james_norton (Fin 250) 2 [ShortDelay, Input depositPage_cardCvv ''661'', StandardDelay])"
    "Loadgen_Page.withdraw menu_browser james_norton (Fin 250) [] =
      (Inr (), money_form james_norton (Fin 250) 2 [StandardDelay])"
    by (simp_all add: Loadgen_Page.deposit_def fillUserDepositData_def Loadgen_Page.withdraw_def fillUserWithdrawData_def
        selectCardProvider_def act_simps pa_do_def getHandle_def pa_read_def menu_browser_def sample_browser_def
        money_form_def james_norton_def)
  have "agent_ok quiet_window" by (simp add: agent_ok_def quiet_window_def)
  from visit_money_requests [OF sample_widgets_documented sample_typing_documented menu_browser_faithful
      james_norton_acceptable _ _ this run, of "''7''" map_client "[Untyped]" useStatusDisplay sample_cache "[]"]
  show ?thesis using is_double_of_int [of 250] by simp blast
qed

end
