(* ===== verification/Frontend_Tests.thy ===== *)
theory Frontend_Tests
  imports Visit_Forms Frontend_Pages
begin

section \<open>The test suite of the frontend\<close>

text \<open>
  The tests of \<open>frontend/src/test/forms\<close> and \<open>test/contexts\<close>, run on the model: each is a
  predicate that performs the actions of the test on the fields of a form and checks what the test
  expects. A test finds fields by role and accessible name, which must be unambiguous, and texts by
  patterns. How typing becomes a value and which texts are addresses or card numbers is the
  libraries', as in the other theories.
\<close>

subsection \<open>Queries\<close>

text \<open>The regular expressions of the tests, all of them with the flag \<open>i\<close>.\<close>

datatype text_pattern =
    Has string      \<comment> \<open>\<open>/s/i\<close>\<close>
  | Exactly string  \<comment> \<open>\<open>/^s$/i\<close>\<close>
  | Starts string   \<comment> \<open>\<open>/^s/i\<close>\<close>
  | Ends string     \<comment> \<open>\<open>/s$/i\<close>\<close>

fun matches :: "text_pattern \<Rightarrow> string \<Rightarrow> bool" where
  "matches (Has p) t = js_includes (to_lower t) p"
| "matches (Exactly p) t = (to_lower t = p)"
| "matches (Starts p) t = prefix p (to_lower t)"
| "matches (Ends p) t = suffix p (to_lower t)"

datatype role = Textbox | Spinbutton | Combobox | Checkbox | Labelled

fun has_role :: "role \<Rightarrow> field_kind \<Rightarrow> bool" where
  "has_role Textbox k = (k = TextInput)"
| "has_role Spinbutton k = (k = NumberInput \<or> k = ReadOnlyNumber)"
| "has_role Combobox k = (case k of SelectInput _ \<Rightarrow> True | _ \<Rightarrow> False)"
| "has_role Checkbox k = (k = CheckboxInput)"
| "has_role Labelled k = True"

text \<open>\<open>getByRole\<close>, \<open>getByLabelText\<close> and \<open>getByText\<close> throw unless there is exactly one match.\<close>

fun the_only :: "'a list \<Rightarrow> 'a option" where
  "the_only [x] = Some x"
| "the_only _ = None"

definition get_field :: "form_view \<Rightarrow> role \<Rightarrow> text_pattern \<Rightarrow> (string \<times> field_kind) option" where
  "get_field view r p =
     map_option (\<lambda>f. (fl_name f, fl_kind f))
       (the_only (filter (\<lambda>f. has_role r (fl_kind f) \<and> matches p (fl_label f)) (fv_fields view)))"

definition get_button :: "form_view \<Rightarrow> text_pattern \<Rightarrow> form_button option" where
  "get_button view p = the_only (filter (\<lambda>b. matches p (bt_label b)) (fv_buttons view))"

subsection \<open>Actions\<close>

datatype user_action =
    TypeIn role text_pattern string           \<comment> \<open>\<open>user.type\<close>: after what is there\<close>
  | SetInput role text_pattern string         \<comment> \<open>\<open>fireEvent.input\<close>: instead of what is there\<close>
  | Choose role text_pattern text_pattern     \<comment> \<open>a click on a selection and one on an option\<close>
  | Tick role text_pattern                    \<comment> \<open>a click on a checkbox\<close>
  | Press text_pattern                        \<comment> \<open>a click on the submit button\<close>

fun shown_text :: "jsval \<Rightarrow> string" where
  "shown_text (Some (JStr s)) = s"
| "shown_text (Some (JNum n)) = num_str n"
| "shown_text _ = []"

fun act_on :: "typing \<Rightarrow> form_view \<Rightarrow> user_action \<Rightarrow> (string \<Rightarrow> jsval) \<Rightarrow> (string \<Rightarrow> jsval) option" where
  "act_on ty view (TypeIn r p t) v =
     map_option (\<lambda>(n, k). v(n := typed ty k (shown_text (v n) @ t))) (get_field view r p)"
| "act_on ty view (SetInput r p t) v =
     map_option (\<lambda>(n, k). v(n := typed ty k t)) (get_field view r p)"
| "act_on ty view (Choose r p q) v =
     Option.bind (get_field view r p) (\<lambda>(n, k).
       case k of
         SelectInput opts \<Rightarrow> map_option (\<lambda>i. v(n := Some (JStr (fst i)))) (the_only (filter (\<lambda>i. matches q (snd i)) opts))
       | _ \<Rightarrow> None)"
| "act_on ty view (Tick r p) v =
     map_option (\<lambda>(n, k). v(n := Some (JBool (v n \<noteq> Some (JBool True))))) (get_field view r p)"
| "act_on ty view (Press p) v =
     Option.bind (get_button view p) (\<lambda>b. if bt_submit b then Some v else None)"

fun perform :: "typing \<Rightarrow> form_view \<Rightarrow> user_action list \<Rightarrow> (string \<Rightarrow> jsval) \<Rightarrow> (string \<Rightarrow> jsval) option" where
  "perform ty view [] v = Some v"
| "perform ty view (a # actions) v = Option.bind (act_on ty view a v) (perform ty view actions)"

subsection \<open>What a refused form shows\<close>

text \<open>The form library shows the first issue of each field.\<close>

definition shown_issues :: "issue list \<Rightarrow> string list" where
  "shown_issues is = map snd (foldl (\<lambda>acc i. if fst i \<in> fst ` set acc then acc else acc @ [i]) [] is)"

definition form_texts :: "form_view \<Rightarrow> string list \<Rightarrow> string list" where
  "form_texts view errors =
     map fl_label (fv_fields view) @ map bt_label (fv_buttons view)
     @ (case fv_note view of None \<Rightarrow> [] | Some n \<Rightarrow> [n]) @ errors"

text \<open>After the actions of a test the form is refused and shows as many texts of each pattern.\<close>

definition refused_with ::
  "typing \<Rightarrow> form_view \<Rightarrow> ((string \<Rightarrow> jsval) \<Rightarrow> issue list) \<Rightarrow> (string \<Rightarrow> jsval) \<Rightarrow> user_action list \<Rightarrow> (text_pattern \<times> nat) list \<Rightarrow> bool" where
  "refused_with ty view schema defaults actions expected \<longleftrightarrow>
     (case perform ty view actions defaults of
        None \<Rightarrow> False
      | Some v \<Rightarrow> schema v \<noteq> []
          \<and> list_all (\<lambda>(p, n). length (filter (matches p) (form_texts view (shown_issues (schema v)))) = n) expected)"

text \<open>After the actions of a test the handler is called with the expected data.\<close>

definition submits :: "typing \<Rightarrow> form_view \<Rightarrow> ((string \<Rightarrow> jsval) \<Rightarrow> 'r option) \<Rightarrow> (string \<Rightarrow> jsval) \<Rightarrow> user_action list \<Rightarrow> 'r \<Rightarrow> bool" where
  "submits ty view request defaults actions expected \<longleftrightarrow>
     Option.bind (perform ty view actions defaults) request = Some expected"

subsection \<open>forms/DepositForm.test.tsx\<close>

text \<open>What the tests of the two money forms have in common.\<close>

definition transfer_actions :: "user_action list" where
  "transfer_actions =
     [TypeIn Spinbutton (Has ''amount'') ''1000'', TypeIn Textbox (Has ''cardholder name'') ''testName'',
      TypeIn Textbox (Has ''address'') ''test address'', TypeIn Textbox (Has ''email'') ''email@test.com'',
      TypeIn Textbox (Has ''card number'') ''2293562484488276'',
      Choose Combobox (Has ''card type'') (Has ''mastercard'')]"

definition DepositForm_issues_at :: "text_checks \<Rightarrow> (string \<Rightarrow> jsval) \<Rightarrow> issue list" where
  "DepositForm_issues_at lib v = DepositForm_issues lib (deposit_of v)"

definition DepositForm_calls_handler :: "text_checks \<Rightarrow> typing \<Rightarrow> bool" where
  "DepositForm_calls_handler lib ty \<longleftrightarrow>
     submits ty DepositForm_view (\<lambda>v. map_option (DepositForm_request ''1'') (DepositForm_resolver lib (deposit_of v)))
       (deposit_fields DepositForm_defaults)
       (transfer_actions @ [TypeIn Textbox (Has ''cvv'') ''111'', Tick Checkbox (Has ''agree to terms and conditions''), Press (Has ''deposit'')])
       \<lparr>wr_accountId = js_int 1, wr_amount = js_int 1000, wr_name = ''testName'', wr_address = ''test address'',
        wr_email = ''email@test.com'', wr_cardNumber = ''2293562484488276'', wr_cardType = ''mastercard'', wr_cvv = ''111''\<rparr>"

definition DepositForm_refuses :: "text_checks \<Rightarrow> typing \<Rightarrow> user_action list \<Rightarrow> (text_pattern \<times> nat) list \<Rightarrow> bool" where
  "DepositForm_refuses lib ty actions expected \<longleftrightarrow>
     refused_with ty DepositForm_view (DepositForm_issues_at lib) (deposit_fields DepositForm_defaults)
       (actions @ [Press (Has ''deposit'')]) expected"

definition DepositForm_empty_displays_errors :: "text_checks \<Rightarrow> typing \<Rightarrow> bool" where
  "DepositForm_empty_displays_errors lib ty \<longleftrightarrow>
     DepositForm_refuses lib ty []
       [(Has ''required'', 5), (Has ''must set card type'', 1), (Has ''must agree to terms and conditions'', 1),
        (Has ''amount must be greater than 0'', 1)]"

definition DepositForm_negative_amount :: "text_checks \<Rightarrow> typing \<Rightarrow> bool" where
  "DepositForm_negative_amount lib ty \<longleftrightarrow>
     DepositForm_refuses lib ty [SetInput Spinbutton (Has ''amount'') ''-1000''] [(Has ''amount must be greater than 0'', 1)]"

definition DepositForm_invalid_email :: "text_checks \<Rightarrow> typing \<Rightarrow> bool" where
  "DepositForm_invalid_email lib ty \<longleftrightarrow>
     DepositForm_refuses lib ty [TypeIn Textbox (Has ''email'') ''invalid email''] [(Has ''invalid email'', 1)]"

definition DepositForm_invalid_card :: "text_checks \<Rightarrow> typing \<Rightarrow> bool" where
  "DepositForm_invalid_card lib ty \<longleftrightarrow>
     DepositForm_refuses lib ty [TypeIn Textbox (Has ''card number'') ''1111111111111111''] [(Has ''invalid credit card number'', 1)]"

definition DepositForm_invalid_cvv :: "text_checks \<Rightarrow> typing \<Rightarrow> bool" where
  "DepositForm_invalid_cvv lib ty \<longleftrightarrow>
     DepositForm_refuses lib ty [TypeIn Textbox (Has ''cvv'') ''1''] [(Has ''invalid cvv'', 1)]"

subsection \<open>forms/WithdrawForm.test.tsx\<close>

definition WithdrawForm_submits_values :: "text_checks \<Rightarrow> typing \<Rightarrow> bool" where
  "WithdrawForm_submits_values lib ty \<longleftrightarrow>
     submits ty WithdrawForm_view (\<lambda>v. map_option (WithdrawForm_request ''1'') (WithdrawForm_resolver lib (transfer_of v)))
       (transfer_fields WithdrawForm_defaults)
       (transfer_actions @ [Tick Checkbox (Has ''agree to terms and conditions''), Press (Has ''withdraw'')])
       \<lparr>wr_accountId = js_int 1, wr_amount = js_int 1000, wr_name = ''testName'', wr_address = ''test address'',
        wr_email = ''email@test.com'', wr_cardNumber = ''2293562484488276'', wr_cardType = ''mastercard''\<rparr>"

definition WithdrawForm_refuses :: "text_checks \<Rightarrow> typing \<Rightarrow> user_action list \<Rightarrow> (text_pattern \<times> nat) list \<Rightarrow> bool" where
  "WithdrawForm_refuses lib ty actions expected \<longleftrightarrow>
     refused_with ty WithdrawForm_view (\<lambda>v. transfer_issues lib (transfer_of v)) (transfer_fields WithdrawForm_defaults)
       (actions @ [Press (Has ''withdraw'')]) expected"

definition WithdrawForm_empty_displays_errors :: "text_checks \<Rightarrow> typing \<Rightarrow> bool" where
  "WithdrawForm_empty_displays_errors lib ty \<longleftrightarrow>
     WithdrawForm_refuses lib ty []
       [(Has ''required'', 4), (Has ''must set card type'', 1), (Has ''must agree to terms and conditions'', 1),
        (Has ''amount must be greater than 0'', 1)]"

definition WithdrawForm_negative_amount :: "text_checks \<Rightarrow> typing \<Rightarrow> bool" where
  "WithdrawForm_negative_amount lib ty \<longleftrightarrow>
     WithdrawForm_refuses lib ty [SetInput Spinbutton (Has ''amount'') ''-1000''] [(Has ''amount must be greater than 0'', 1)]"

definition WithdrawForm_invalid_email :: "text_checks \<Rightarrow> typing \<Rightarrow> bool" where
  "WithdrawForm_invalid_email lib ty \<longleftrightarrow>
     WithdrawForm_refuses lib ty [TypeIn Textbox (Has ''email'') ''invalid email''] [(Has ''invalid email'', 1)]"

definition WithdrawForm_invalid_card :: "text_checks \<Rightarrow> typing \<Rightarrow> bool" where
  "WithdrawForm_invalid_card lib ty \<longleftrightarrow>
     WithdrawForm_refuses lib ty [TypeIn Textbox (Has ''card number'') ''1111111111111111''] [(Has ''invalid credit card number'', 1)]"

subsection \<open>forms/SignupForm.test.tsx\<close>

definition signup_of :: "(string \<Rightarrow> jsval) \<Rightarrow> signup_values" where
  "signup_of v =
     \<lparr>sv_request = \<lparr>sg_firstName = field_text (v ''firstName''), sg_lastName = field_text (v ''lastName''),
        sg_login = field_text (v ''login''), sg_email = field_text (v ''email''), sg_address = field_text (v ''address''),
        sg_password = field_text (v ''password'')\<rparr>, sv_repeatPassword = field_text (v ''repeatPassword'')\<rparr>"

definition no_texts :: "string \<Rightarrow> jsval" where
  "no_texts = (\<lambda>_. Some (JStr []))"

definition SignupForm_submits_values :: "text_checks \<Rightarrow> typing \<Rightarrow> bool" where
  "SignupForm_submits_values lib ty \<longleftrightarrow>
     submits ty SignupForm_view (\<lambda>v. map_option sv_request (SignupForm_resolver lib (signup_of v))) no_texts
       [TypeIn Textbox (Has ''first name'') ''firstName'', TypeIn Textbox (Has ''last name'') ''lastName'',
        TypeIn Textbox (Has ''login'') ''login'', TypeIn Textbox (Has ''email'') ''email@test.com'',
        TypeIn Textbox (Has ''address'') ''test address 12/34'', TypeIn Labelled (Exactly ''password'') ''testPassword'',
        TypeIn Labelled (Has ''repeat password'') ''testPassword'', Press (Has [])]
       \<lparr>sg_firstName = ''firstName'', sg_lastName = ''lastName'', sg_login = ''login'', sg_email = ''email@test.com'',
        sg_address = ''test address 12/34'', sg_password = ''testPassword''\<rparr>"

definition SignupForm_refuses :: "text_checks \<Rightarrow> typing \<Rightarrow> user_action list \<Rightarrow> (text_pattern \<times> nat) list \<Rightarrow> bool" where
  "SignupForm_refuses lib ty actions expected \<longleftrightarrow>
     refused_with ty SignupForm_view (\<lambda>v. SignupForm_issues lib (signup_of v)) no_texts (actions @ [Press (Has [])]) expected"

definition SignupForm_empty_displays_errors :: "text_checks \<Rightarrow> typing \<Rightarrow> bool" where
  "SignupForm_empty_displays_errors lib ty \<longleftrightarrow> SignupForm_refuses lib ty [] [(Has ''required'', 6)]"

definition SignupForm_invalid_email :: "text_checks \<Rightarrow> typing \<Rightarrow> bool" where
  "SignupForm_invalid_email lib ty \<longleftrightarrow>
     SignupForm_refuses lib ty [TypeIn Textbox (Has ''email'') ''invalid email''] [(Has ''invalid email'', 1)]"

definition SignupForm_passwords_differ :: "text_checks \<Rightarrow> typing \<Rightarrow> bool" where
  "SignupForm_passwords_differ lib ty \<longleftrightarrow>
     SignupForm_refuses lib ty
       [TypeIn Labelled (Exactly ''password'') ''first password'', TypeIn Labelled (Has ''repeat password'') ''second password'']
       [(Has ''passwords have to match'', 1)]"

subsection \<open>forms/LoginForm.test.tsx\<close>

definition login_of :: "(string \<Rightarrow> jsval) \<Rightarrow> login_values" where
  "login_of v = \<lparr>lv_login = field_text (v ''login''), lv_password = field_text (v ''password'')\<rparr>"

definition login_actions :: "user_action list" where
  "login_actions = [TypeIn Textbox (Has ''login'') ''testUser'', TypeIn Labelled (Has ''password'') ''testPassword'', Press (Has [])]"

definition LoginForm_empty_displays_errors :: "typing \<Rightarrow> bool" where
  "LoginForm_empty_displays_errors ty \<longleftrightarrow>
     refused_with ty LoginForm_view (\<lambda>v. LoginForm_issues (login_of v)) no_texts [Press (Has [])] [(Has ''required'', 2)]"

definition LoginForm_submits_values :: "typing \<Rightarrow> bool" where
  "LoginForm_submits_values ty \<longleftrightarrow>
     submits ty LoginForm_view
       (\<lambda>v. if LoginForm_issues (login_of v) = [] then Some (lv_login (login_of v), lv_password (login_of v)) else None)
       no_texts login_actions (''testUser'', ''testPassword'')"

text \<open>
  The alerts after a login that the handler refused with an error, \<open>fail\<close> in the tests, and after
  one more edit.
\<close>

definition LoginForm_after ::
  "typing \<Rightarrow> (json \<Rightarrow> 's \<Rightarrow> 's) \<Rightarrow> window \<Rightarrow> 's \<Rightarrow> fe_event list \<Rightarrow> (login_values, 's) form option" where
  "LoginForm_after ty setUserId w session l =
     map_option (\<lambda>v. fst (LoginForm_submit setUserId w \<lparr>vals = login_of v, status = useStatusDisplay, cache = session\<rparr> l))
       (perform ty LoginForm_view login_actions no_texts)"

definition LoginForm_displays_error :: "string \<Rightarrow> typing \<Rightarrow> (json \<Rightarrow> 's \<Rightarrow> 's) \<Rightarrow> window \<Rightarrow> 's \<Rightarrow> fe_event list \<Rightarrow> bool" where
  "LoginForm_displays_error msg ty setUserId w session l \<longleftrightarrow>
     map_option (StatusDisplay o status) (LoginForm_after ty setUserId w session l) = Some [(ErrorAlert, Msg (JStr msg))]"

definition LoginForm_typing_removes_error :: "typing \<Rightarrow> (json \<Rightarrow> 's \<Rightarrow> 's) \<Rightarrow> window \<Rightarrow> 's \<Rightarrow> fe_event list \<Rightarrow> bool" where
  "LoginForm_typing_removes_error ty setUserId w session l \<longleftrightarrow>
     map_option (StatusDisplay o status o watch_all Change) (LoginForm_after ty setUserId w session l) = Some []"

subsection \<open>forms/DefaultLoginForm.test.tsx\<close>

definition mockUsers :: "preset_user list" where
  "mockUsers =
     [\<lparr>pu_id = ''1'', pu_firstName = ''first'', pu_lastName = ''user''\<rparr>,
      \<lparr>pu_id = ''2'', pu_firstName = ''second'', pu_lastName = ''user''\<rparr>,
      \<lparr>pu_id = ''3'', pu_firstName = ''third'', pu_lastName = ''user''\<rparr>]"

definition users_json :: "preset_user list \<Rightarrow> json list" where
  "users_json users =
     map (\<lambda>u. JObj [(''id'', JStr (pu_id u)), (''firstName'', JStr (pu_firstName u)), (''lastName'', JStr (pu_lastName u))]) users"

text \<open>The form is rendered anew for every action: its button names the user that is selected.\<close>

definition DefaultLoginForm_perform :: "typing \<Rightarrow> preset_user list \<Rightarrow> user_action list \<Rightarrow> (string \<Rightarrow> jsval) \<Rightarrow> (string \<Rightarrow> jsval) option" where
  "DefaultLoginForm_perform ty users actions v =
     foldl (\<lambda>s a. Option.bind s (\<lambda>v. act_on ty (DefaultLoginForm_view users (field_text (v ''userId''))) a v)) (Some v) actions"

definition DefaultLoginForm_returns :: "typing \<Rightarrow> user_action list \<Rightarrow> string \<Rightarrow> bool" where
  "DefaultLoginForm_returns ty actions expected \<longleftrightarrow>
     (case DefaultLoginForm_default (users_json mockUsers) of
        Inl e \<Rightarrow> False
      | Inr i \<Rightarrow> map_option (\<lambda>v. v ''userId'') (DefaultLoginForm_perform ty mockUsers actions (\<lambda>_. i)) = Some (Some (JStr expected)))"

definition DefaultLoginForm_chosen_user :: "typing \<Rightarrow> bool" where
  "DefaultLoginForm_chosen_user ty \<longleftrightarrow>
     DefaultLoginForm_returns ty [Choose Combobox (Starts ''user'') (Has ''second user''), Press (Has ''log in as'')] ''2''"

definition DefaultLoginForm_first_user :: "typing \<Rightarrow> bool" where
  "DefaultLoginForm_first_user ty \<longleftrightarrow> DefaultLoginForm_returns ty [Press (Has ''log in as'')] ''1''"

subsection \<open>contexts/AuthContext.test.tsx and contexts/ThemeContext.test.tsx\<close>

definition ContextTestComponent :: "json \<Rightarrow> string" where
  "ContextTestComponent userId =
     (if isLoggedIn userId then ''user is set to ['' @ js_String userId @ '']'' else ''user is null'')"

text \<open>The text after clicks whose handlers end in the given events, from the given user on.\<close>

definition AuthContext_shows :: "json \<Rightarrow> auth_event list \<Rightarrow> text_pattern \<Rightarrow> bool" where
  "AuthContext_shows initialId clicks expected \<longleftrightarrow>
     matches expected (ContextTestComponent (fold (auth_step localStore_set) clicks initialId))"

definition AuthContext_tests :: bool where
  "AuthContext_tests \<longleftrightarrow>
     AuthContext_shows JNull [] (Has ''user is null'')
     \<and> AuthContext_shows (JStr ''1'') [] (Has ''user is set'')
     \<and> AuthContext_shows JNull [LoginReply (Inr (Some (JObj [(''id'', JStr ''1'')])))] (Has ''user is set to [1]'')
     \<and> AuthContext_shows JNull [LoginReply (Inr (Some (JObj [(''error'', JStr ''error'')])))] (Has ''user is null'')
     \<and> AuthContext_shows (JStr ''1'') [LogoutReply (Inr (Some (JObj [(''message'', JStr ''logged out'')])))] (Has ''user is null'')
     \<and> AuthContext_shows JNull [DefaultLogin ''1''] (Has ''user is set to [1]'')"

definition ThemeTestComponent :: "theme_mode \<Rightarrow> string" where
  "ThemeTestComponent mode = (if isDarkTheme mode then ''theme is dark'' else ''theme is light'')"

definition ThemeContext_tests :: bool where
  "ThemeContext_tests \<longleftrightarrow>
     matches (Has ''theme is light'') (ThemeTestComponent light)
     \<and> matches (Has ''theme is light'') (ThemeTestComponent (toggleTheme dark))
     \<and> matches (Has ''theme is dark'') (ThemeTestComponent (toggleTheme (toggleTheme dark)))"

subsection \<open>The forms pass\<close>

text \<open>What the libraries say of the texts of the tests.\<close>

definition documented_checks :: "text_checks \<Rightarrow> bool" where
  "documented_checks lib \<longleftrightarrow>
     is_email lib ''email@test.com'' \<and> \<not> is_email lib ''invalid email'' \<and> \<not> is_email lib []
     \<and> isCreditCard lib ''2293562484488276'' \<and> \<not> isCreditCard lib ''1111111111111111'' \<and> \<not> isCreditCard lib []"

lemma lower_capitals:
  "lower_char (CHR ''A'') = CHR ''a''"
  "lower_char (CHR ''B'') = CHR ''b''"
  "lower_char (CHR ''C'') = CHR ''c''"
  "lower_char (CHR ''D'') = CHR ''d''"
  "lower_char (CHR ''E'') = CHR ''e''"
  "lower_char (CHR ''F'') = CHR ''f''"
  "lower_char (CHR ''I'') = CHR ''i''"
  "lower_char (CHR ''L'') = CHR ''l''"
  "lower_char (CHR ''M'') = CHR ''m''"
  "lower_char (CHR ''O'') = CHR ''o''"
  "lower_char (CHR ''P'') = CHR ''p''"
  "lower_char (CHR ''R'') = CHR ''r''"
  "lower_char (CHR ''S'') = CHR ''s''"
  "lower_char (CHR ''U'') = CHR ''u''"
  "lower_char (CHR ''V'') = CHR ''v''"
  "lower_char (CHR ''W'') = CHR ''w''"
  by code_simp+

lemma lower_small: "\<not> (65 \<le> (of_char c :: nat) \<and> (of_char c :: nat) \<le> 90) \<Longrightarrow> lower_char c = c"
  by (auto simp: lower_char_def Let_def)

lemma lowered:
  "to_lower ''Amount'' = ''amount''"
  "to_lower ''Cardholder name'' = ''cardholder name''"
  "to_lower ''Address'' = ''address''"
  "to_lower ''Email'' = ''email''"
  "to_lower ''Card number'' = ''card number''"
  "to_lower ''Card type'' = ''card type''"
  "to_lower ''CVV'' = ''cvv''"
  "to_lower ''Agree to terms and conditions *'' = ''agree to terms and conditions *''"
  "to_lower ''Deposit'' = ''deposit''"
  "to_lower ''Withdraw'' = ''withdraw''"
  "to_lower ''Autofill'' = ''autofill''"
  "to_lower ''* Required field'' = ''* required field''"
  "to_lower ''Visa Debit'' = ''visa debit''"
  "to_lower ''Visa Credit'' = ''visa credit''"
  "to_lower ''Mastercard'' = ''mastercard''"
  "to_lower ''American Express'' = ''american express''"
  "to_lower ''Amount is required'' = ''amount is required''"
  "to_lower ''Amount must be greater than 0'' = ''amount must be greater than 0''"
  "to_lower ''Cardholder name is required'' = ''cardholder name is required''"
  "to_lower ''Address is required'' = ''address is required''"
  "to_lower ''Invalid email'' = ''invalid email''"
  "to_lower ''Card number is required'' = ''card number is required''"
  "to_lower ''Invalid credit card number'' = ''invalid credit card number''"
  "to_lower ''Must set card type'' = ''must set card type''"
  "to_lower ''Must agree to terms and conditions'' = ''must agree to terms and conditions''"
  "to_lower ''CVV is required'' = ''cvv is required''"
  "to_lower ''Invalid CVV'' = ''invalid cvv''"
  "to_lower ''Login'' = ''login''"
  "to_lower ''Password'' = ''password''"
  "to_lower ''Login is required'' = ''login is required''"
  "to_lower ''Password is required'' = ''password is required''"
  "to_lower ''First name'' = ''first name''"
  "to_lower ''Last name'' = ''last name''"
  "to_lower ''Repeat password'' = ''repeat password''"
  "to_lower ''Sign up'' = ''sign up''"
  "to_lower ''First name is required'' = ''first name is required''"
  "to_lower ''Last name is required'' = ''last name is required''"
  "to_lower ''Passwords have to match'' = ''passwords have to match''"
  by (simp_all add: to_lower_def lower_capitals lower_small)

lemmas query_simps = get_field_def get_button_def form_views card_options_def js_includes_def lowered sublist_code

lemma deposit_queries:
  "get_field DepositForm_view Spinbutton (Has ''amount'') = Some (''amount'', NumberInput)"
  "get_field DepositForm_view Textbox (Has ''cardholder name'') = Some (''cardholderName'', TextInput)"
  "get_field DepositForm_view Textbox (Has ''address'') = Some (''address'', TextInput)"
  "get_field DepositForm_view Textbox (Has ''email'') = Some (''email'', TextInput)"
  "get_field DepositForm_view Textbox (Has ''card number'') = Some (''cardNumber'', TextInput)"
  "get_field DepositForm_view Combobox (Has ''card type'') = Some (''cardType'', SelectInput card_options)"
  "get_field DepositForm_view Textbox (Has ''cvv'') = Some (''cvv'', TextInput)"
  "get_field DepositForm_view Checkbox (Has ''agree to terms and conditions'') = Some (''agreementCheck'', CheckboxInput)"
  "map_option bt_submit (get_button DepositForm_view (Has ''deposit'')) = Some True"
  by (simp_all add: query_simps)

lemma withdraw_queries:
  "get_field WithdrawForm_view Spinbutton (Has ''amount'') = Some (''amount'', NumberInput)"
  "get_field WithdrawForm_view Textbox (Has ''cardholder name'') = Some (''cardholderName'', TextInput)"
  "get_field WithdrawForm_view Textbox (Has ''address'') = Some (''address'', TextInput)"
  "get_field WithdrawForm_view Textbox (Has ''email'') = Some (''email'', TextInput)"
  "get_field WithdrawForm_view Textbox (Has ''card number'') = Some (''cardNumber'', TextInput)"
  "get_field WithdrawForm_view Combobox (Has ''card type'') = Some (''cardType'', SelectInput card_options)"
  "get_field WithdrawForm_view Checkbox (Has ''agree to terms and conditions'') = Some (''agreementCheck'', CheckboxInput)"
  "map_option bt_submit (get_button WithdrawForm_view (Has ''withdraw'')) = Some True"
  by (simp_all add: query_simps)

lemma signup_queries:
  "get_field SignupForm_view Textbox (Has ''first name'') = Some (''firstName'', TextInput)"
  "get_field SignupForm_view Textbox (Has ''last name'') = Some (''lastName'', TextInput)"
  "get_field SignupForm_view Textbox (Has ''login'') = Some (''login'', TextInput)"
  "get_field SignupForm_view Textbox (Has ''email'') = Some (''email'', TextInput)"
  "get_field SignupForm_view Textbox (Has ''address'') = Some (''address'', TextInput)"
  "get_field SignupForm_view Labelled (Exactly ''password'') = Some (''password'', PasswordInput)"
  "get_field SignupForm_view Labelled (Has ''repeat password'') = Some (''repeatPassword'', PasswordInput)"
  "map_option bt_submit (get_button SignupForm_view (Has [])) = Some True"
  by (simp_all add: query_simps)

lemma login_queries:
  "get_field LoginForm_view Textbox (Has ''login'') = Some (''login'', TextInput)"
  "get_field LoginForm_view Labelled (Has ''password'') = Some (''password'', PasswordInput)"
  "map_option bt_submit (get_button LoginForm_view (Has [])) = Some True"
  by (simp_all add: query_simps)

text \<open>What is typed into the fields of the tests.\<close>

lemma typed_digits:
  assumes "documented_typing ty" "all_digits t" "digits_val t \<le> 2 ^ 53"
  shows "typed ty NumberInput t = Some (JNum (js_int (int (digits_val t))))"
  using assms to_js_of_int [of "int (digits_val t)"]
  by (simp add: documented_typing_def js_Number_digits)

lemma typed_thousand: "documented_typing ty \<Longrightarrow> typed ty NumberInput (num_str (Fin 0) @ ''1000'') = Some (JNum (js_int 1000))"
proof -
  have "int_str 0 @ ''1000'' = ''01000''" "all_digits ''01000''" "digits_val ''01000'' = 1000" by code_simp+
  then show "documented_typing ty \<Longrightarrow> typed ty NumberInput (num_str (Fin 0) @ ''1000'') = Some (JNum (js_int 1000))"
    using num_str_int [of 0] typed_digits [of ty "''01000''"] by (simp del: num_str.simps)
qed

lemma typed_negative: "documented_typing ty \<Longrightarrow> typed ty NumberInput ''-1000'' = Some (JNum (js_int (-1000)))"
proof -
  have "int_str (-1000) = ''-1000''" by code_simp
  then have "num_str (Fin (-1000)) = ''-1000''" using num_str_int [of "-1000"] by (simp del: num_str.simps)
  moreover have "is_double (-1000)" using is_double_of_int [of "-1000"] by simp
  ultimately show "documented_typing ty \<Longrightarrow> typed ty NumberInput ''-1000'' = Some (JNum (js_int (-1000)))"
    using typed_number [of ty "-1000"] by simp
qed

lemma typed_password: "documented_typing ty \<Longrightarrow> typed ty PasswordInput t = Some (JStr t)"
  by (simp add: documented_typing_def)

lemma int_str_one: "int_str 1 = ''1''"
  by code_simp

lemma press: "map_option bt_submit (get_button view p) = Some True \<Longrightarrow> act_on ty view (Press p) v = Some v"
  by auto

lemmas perform_simps = typed_thousand typed_negative typed_text typed_password press
  deposit_queries withdraw_queries signup_queries login_queries transfer_actions_def login_actions_def
  deposit_fields_def transfer_fields_def DepositForm_defaults_def WithdrawForm_defaults_def no_texts_def

lemmas values_simps = deposit_of_def transfer_of_def transfer_values.defs signup_of_def login_of_def documented_checks_def

lemma mastercard_option: "the_only (filter (\<lambda>i. matches (Has ''mastercard'') (snd i)) card_options) = Some (''mastercard'', ''Mastercard'')"
  by (simp add: query_simps)

lemma submitsI: "perform ty view actions defaults = Some v \<Longrightarrow> request v = Some r \<Longrightarrow> submits ty view request defaults actions r"
  by (simp add: submits_def)

lemma cvv_texts: "\<not> cvvRegex []" "cvvRegex ''111''" "\<not> cvvRegex ''1''"
  by (simp_all add: cvvRegex_def is_digit_def)

lemma account_one: "js_Number ''1'' = js_int 1"
  using js_Number_int_str [of 1] by (simp add: int_str_one)

lemma DepositForm_calls_handler_holds:
  assumes "documented_checks lib" "documented_typing ty"
  shows "DepositForm_calls_handler lib ty"
  unfolding DepositForm_calls_handler_def
proof (rule submitsI)
  show "perform ty DepositForm_view
      (transfer_actions @ [TypeIn Textbox (Has ''cvv'') ''111'', Tick Checkbox (Has ''agree to terms and conditions''), Press (Has ''deposit'')])
      (deposit_fields DepositForm_defaults)
    = Some (deposit_fields \<lparr>tv_amount = Some (JNum (js_int 1000)), tv_cardholderName = ''testName'', tv_address = ''test address'',
        tv_email = ''email@test.com'', tv_cardNumber = ''2293562484488276'', tv_cardType = ''mastercard'', tv_agreementCheck = True,
        tv_cvv = ''111''\<rparr>)"
    using assms(2) by (simp add: perform_simps mastercard_option fun_eq_iff del: num_str.simps act_on.simps(5) matches.simps)
qed (use assms(1) in \<open>simp add: DepositForm_resolver_def DepositForm_issues_def transfer_issues_Nil values_simps
    DepositForm_request_def accepted_amount_def cvv_texts account_one deposit_fields_def transfer_fields_def\<close>)

lemma WithdrawForm_submits_values_holds:
  assumes "documented_checks lib" "documented_typing ty"
  shows "WithdrawForm_submits_values lib ty"
  unfolding WithdrawForm_submits_values_def
proof (rule submitsI)
  show "perform ty WithdrawForm_view
      (transfer_actions @ [Tick Checkbox (Has ''agree to terms and conditions''), Press (Has ''withdraw'')])
      (transfer_fields WithdrawForm_defaults)
    = Some (transfer_fields \<lparr>tv_amount = Some (JNum (js_int 1000)), tv_cardholderName = ''testName'', tv_address = ''test address'',
        tv_email = ''email@test.com'', tv_cardNumber = ''2293562484488276'', tv_cardType = ''mastercard'', tv_agreementCheck = True\<rparr>)"
    using assms(2) by (simp add: perform_simps mastercard_option fun_eq_iff del: num_str.simps act_on.simps(5) matches.simps)
qed (use assms(1) in \<open>simp add: WithdrawForm_resolver_def transfer_issues_Nil values_simps
    WithdrawForm_request_def accepted_amount_def account_one transfer_fields_def\<close>)

lemma SignupForm_submits_values_holds:
  assumes "documented_checks lib" "documented_typing ty"
  shows "SignupForm_submits_values lib ty"
  using assms unfolding SignupForm_submits_values_def submits_def
  by (simp add: perform_simps SignupForm_resolver_def SignupForm_issues_def values_simps
      del: act_on.simps(5) matches.simps)

lemma LoginForm_submits_values_holds:
  assumes "documented_typing ty"
  shows "LoginForm_submits_values ty"
  using assms unfolding LoginForm_submits_values_def submits_def
  by (simp add: perform_simps LoginForm_issues_def values_simps del: act_on.simps(5) matches.simps)

text \<open>What the refused forms show.\<close>

lemmas issue_simps = shown_issues_def check_def positive_issues_def nonempty_issues_def

lemma refused_withI:
  assumes "map_option (shown_issues o schema) (perform ty view actions defaults) = Some (m # ms)"
    "list_all (\<lambda>(p, n). length (filter (matches p) (form_texts view (m # ms))) = n) expected"
  shows "refused_with ty view schema defaults actions expected"
  using assms by (auto simp: refused_with_def shown_issues_def)

lemmas refusal_simps = perform_simps values_simps issue_simps cvv_texts DepositForm_issues_at_def DepositForm_issues_def
  transfer_issues_def SignupForm_issues_def LoginForm_issues_def

lemma DepositForm_empty_displays_errors_holds: "documented_checks lib \<Longrightarrow> documented_typing ty \<Longrightarrow> DepositForm_empty_displays_errors lib ty"
  unfolding DepositForm_empty_displays_errors_def DepositForm_refuses_def
  by (rule refused_withI [where m = "''Amount must be greater than 0''" and ms = "[''Cardholder name is required'', ''Address is required'', ''Invalid email'', ''Card number is required'',
      ''Must set card type'', ''Must agree to terms and conditions'', ''CVV is required'']"],
      simp add: refusal_simps del: num_str.simps act_on.simps(5) matches.simps) (simp add: form_texts_def query_simps)

lemma DepositForm_negative_amount_holds: "documented_checks lib \<Longrightarrow> documented_typing ty \<Longrightarrow> DepositForm_negative_amount lib ty"
  unfolding DepositForm_negative_amount_def DepositForm_refuses_def
  by (rule refused_withI [where m = "''Amount must be greater than 0''" and ms = "[''Cardholder name is required'', ''Address is required'', ''Invalid email'', ''Card number is required'',
      ''Must set card type'', ''Must agree to terms and conditions'', ''CVV is required'']"],
      simp add: refusal_simps del: num_str.simps act_on.simps(5) matches.simps) (simp add: form_texts_def query_simps)

lemma DepositForm_invalid_email_holds: "documented_checks lib \<Longrightarrow> documented_typing ty \<Longrightarrow> DepositForm_invalid_email lib ty"
  unfolding DepositForm_invalid_email_def DepositForm_refuses_def
  by (rule refused_withI [where m = "''Amount must be greater than 0''" and ms = "[''Cardholder name is required'', ''Address is required'', ''Invalid email'', ''Card number is required'',
      ''Must set card type'', ''Must agree to terms and conditions'', ''CVV is required'']"],
      simp add: refusal_simps del: num_str.simps act_on.simps(5) matches.simps) (simp add: form_texts_def query_simps)

lemma DepositForm_invalid_card_holds: "documented_checks lib \<Longrightarrow> documented_typing ty \<Longrightarrow> DepositForm_invalid_card lib ty"
  unfolding DepositForm_invalid_card_def DepositForm_refuses_def
  by (rule refused_withI [where m = "''Amount must be greater than 0''" and ms = "[''Cardholder name is required'', ''Address is required'', ''Invalid email'', ''Invalid credit card number'',
      ''Must set card type'', ''Must agree to terms and conditions'', ''CVV is required'']"],
      simp add: refusal_simps del: num_str.simps act_on.simps(5) matches.simps) (simp add: form_texts_def query_simps)

lemma DepositForm_invalid_cvv_holds: "documented_checks lib \<Longrightarrow> documented_typing ty \<Longrightarrow> DepositForm_invalid_cvv lib ty"
  unfolding DepositForm_invalid_cvv_def DepositForm_refuses_def
  by (rule refused_withI [where m = "''Amount must be greater than 0''" and ms = "[''Cardholder name is required'', ''Address is required'', ''Invalid email'', ''Card number is required'',
      ''Must set card type'', ''Must agree to terms and conditions'', ''Invalid CVV'']"],
      simp add: refusal_simps del: num_str.simps act_on.simps(5) matches.simps) (simp add: form_texts_def query_simps)

lemma WithdrawForm_empty_displays_errors_holds: "documented_checks lib \<Longrightarrow> documented_typing ty \<Longrightarrow> WithdrawForm_empty_displays_errors lib ty"
  unfolding WithdrawForm_empty_displays_errors_def WithdrawForm_refuses_def
  by (rule refused_withI [where m = "''Amount must be greater than 0''" and ms = "[''Cardholder name is required'', ''Address is required'', ''Invalid email'', ''Card number is required'',
      ''Must set card type'', ''Must agree to terms and conditions'']"],
      simp add: refusal_simps del: num_str.simps act_on.simps(5) matches.simps) (simp add: form_texts_def query_simps)

lemma WithdrawForm_negative_amount_holds: "documented_checks lib \<Longrightarrow> documented_typing ty \<Longrightarrow> WithdrawForm_negative_amount lib ty"
  unfolding WithdrawForm_negative_amount_def WithdrawForm_refuses_def
  by (rule refused_withI [where m = "''Amount must be greater than 0''" and ms = "[''Cardholder name is required'', ''Address is required'', ''Invalid email'', ''Card number is required'',
      ''Must set card type'', ''Must agree to terms and conditions'']"],
      simp add: refusal_simps del: num_str.simps act_on.simps(5) matches.simps) (simp add: form_texts_def query_simps)

lemma WithdrawForm_invalid_email_holds: "documented_checks lib \<Longrightarrow> documented_typing ty \<Longrightarrow> WithdrawForm_invalid_email lib ty"
  unfolding WithdrawForm_invalid_email_def WithdrawForm_refuses_def
  by (rule refused_withI [where m = "''Amount must be greater than 0''" and ms = "[''Cardholder name is required'', ''Address is required'', ''Invalid email'', ''Card number is required'',
      ''Must set card type'', ''Must agree to terms and conditions'']"],
      simp add: refusal_simps del: num_str.simps act_on.simps(5) matches.simps) (simp add: form_texts_def query_simps)

lemma WithdrawForm_invalid_card_holds: "documented_checks lib \<Longrightarrow> documented_typing ty \<Longrightarrow> WithdrawForm_invalid_card lib ty"
  unfolding WithdrawForm_invalid_card_def WithdrawForm_refuses_def
  by (rule refused_withI [where m = "''Amount must be greater than 0''" and ms = "[''Cardholder name is required'', ''Address is required'', ''Invalid email'', ''Invalid credit card number'',
      ''Must set card type'', ''Must agree to terms and conditions'']"],
      simp add: refusal_simps del: num_str.simps act_on.simps(5) matches.simps) (simp add: form_texts_def query_simps)

lemma SignupForm_empty_displays_errors_holds: "documented_checks lib \<Longrightarrow> documented_typing ty \<Longrightarrow> SignupForm_empty_displays_errors lib ty"
  unfolding SignupForm_empty_displays_errors_def SignupForm_refuses_def
  by (rule refused_withI [where m = "''First name is required''" and ms = "[''Last name is required'', ''Login is required'', ''Invalid email'', ''Address is required'',
      ''Password is required'', ''Password is required'']"],
      simp add: refusal_simps del: num_str.simps act_on.simps(5) matches.simps) (simp add: form_texts_def query_simps)

lemma SignupForm_invalid_email_holds: "documented_checks lib \<Longrightarrow> documented_typing ty \<Longrightarrow> SignupForm_invalid_email lib ty"
  unfolding SignupForm_invalid_email_def SignupForm_refuses_def
  by (rule refused_withI [where m = "''First name is required''" and ms = "[''Last name is required'', ''Login is required'', ''Invalid email'', ''Address is required'',
      ''Password is required'', ''Password is required'']"],
      simp add: refusal_simps del: num_str.simps act_on.simps(5) matches.simps) (simp add: form_texts_def query_simps)

lemma SignupForm_passwords_differ_holds: "documented_checks lib \<Longrightarrow> documented_typing ty \<Longrightarrow> SignupForm_passwords_differ lib ty"
  unfolding SignupForm_passwords_differ_def SignupForm_refuses_def
  by (rule refused_withI [where m = "''First name is required''" and ms = "[''Last name is required'', ''Login is required'', ''Invalid email'', ''Address is required'',
      ''Passwords have to match'']"],
      simp add: refusal_simps del: num_str.simps act_on.simps(5) matches.simps) (simp add: form_texts_def query_simps)

lemma LoginForm_empty_displays_errors_holds: "documented_typing ty \<Longrightarrow> LoginForm_empty_displays_errors ty"
  unfolding LoginForm_empty_displays_errors_def
  by (rule refused_withI [where m = "''Login is required''" and ms = "[''Password is required'']"],
      simp add: refusal_simps del: act_on.simps(5) matches.simps) (simp add: form_texts_def query_simps)

lemma LoginForm_errors_hold:
  assumes "documented_typing ty" "login w ''testUser'' ''testPassword'' l = (Inr (Some (error_result msg)), l')" "msg \<noteq> []"
  shows "LoginForm_displays_error msg ty setUserId w session l" "LoginForm_typing_removes_error ty setUserId w session l"
  using assms
  by (simp_all add: LoginForm_displays_error_def LoginForm_typing_removes_error_def LoginForm_after_def perform_simps values_simps
      LoginForm_submit_def LoginForm_issues_def AuthProvider_login_def error_result_def js_prop_def attempt_def throw_error_def
      act_simps form_defs status_defs js_obj_def map_filter_simps Let_def del: act_on.simps(5) matches.simps)

lemma DefaultLoginForm_users_hold: "DefaultLoginForm_chosen_user ty" "DefaultLoginForm_first_user ty"
  by (simp_all add: DefaultLoginForm_chosen_user_def DefaultLoginForm_first_user_def DefaultLoginForm_returns_def
      DefaultLoginForm_perform_def DefaultLoginForm_default_def users_json_def mockUsers_def DefaultLoginForm_view_def
      DefaultLoginForm_label_def DefaultLoginForm_options_def get_field_def get_button_def js_prop_def js_includes_def sublist_code
      to_lower_def lower_capitals lower_small)

lemma context_tests_hold: "AuthContext_tests" "ThemeContext_tests"
  by code_simp+

text \<open>All tests of a file at once.\<close>

definition DepositForm_tests :: "text_checks \<Rightarrow> typing \<Rightarrow> bool" where
  "DepositForm_tests lib ty \<longleftrightarrow>
     DepositForm_calls_handler lib ty \<and> DepositForm_empty_displays_errors lib ty \<and> DepositForm_negative_amount lib ty
     \<and> DepositForm_invalid_email lib ty \<and> DepositForm_invalid_card lib ty \<and> DepositForm_invalid_cvv lib ty"

definition WithdrawForm_tests :: "text_checks \<Rightarrow> typing \<Rightarrow> bool" where
  "WithdrawForm_tests lib ty \<longleftrightarrow>
     WithdrawForm_submits_values lib ty \<and> WithdrawForm_empty_displays_errors lib ty \<and> WithdrawForm_negative_amount lib ty
     \<and> WithdrawForm_invalid_email lib ty \<and> WithdrawForm_invalid_card lib ty"

definition SignupForm_tests :: "text_checks \<Rightarrow> typing \<Rightarrow> bool" where
  "SignupForm_tests lib ty \<longleftrightarrow>
     SignupForm_submits_values lib ty \<and> SignupForm_empty_displays_errors lib ty \<and> SignupForm_invalid_email lib ty
     \<and> SignupForm_passwords_differ lib ty"

definition LoginForm_tests :: "string \<Rightarrow> typing \<Rightarrow> (json \<Rightarrow> 's \<Rightarrow> 's) \<Rightarrow> window \<Rightarrow> 's \<Rightarrow> fe_event list \<Rightarrow> bool" where
  "LoginForm_tests msg ty setUserId w session l \<longleftrightarrow>
     LoginForm_empty_displays_errors ty \<and> LoginForm_submits_values ty
     \<and> LoginForm_displays_error msg ty setUserId w session l \<and> LoginForm_typing_removes_error ty setUserId w session l"

definition DefaultLoginForm_tests :: "typing \<Rightarrow> bool" where
  "DefaultLoginForm_tests ty \<longleftrightarrow>
     DefaultLoginForm_disabled (users_json []) \<and> DefaultLoginForm_chosen_user ty \<and> DefaultLoginForm_first_user ty"

text \<open>All of them hold, whatever the parts they leave to the libraries.\<close>

lemma form_tests_hold:
  assumes "documented_checks lib" "documented_typing ty"
    and "login w ''testUser'' ''testPassword'' l = (Inr (Some (error_result msg)), l')" "msg \<noteq> []"
  shows "DepositForm_tests lib ty \<and> WithdrawForm_tests lib ty \<and> SignupForm_tests lib ty
    \<and> LoginForm_tests msg ty setUserId w session l \<and> DefaultLoginForm_tests ty \<and> AuthContext_tests \<and> ThemeContext_tests"
  using assms
  by (simp add: DepositForm_tests_def WithdrawForm_tests_def SignupForm_tests_def LoginForm_tests_def DefaultLoginForm_tests_def
      DepositForm_calls_handler_holds DepositForm_empty_displays_errors_holds DepositForm_negative_amount_holds
      DepositForm_invalid_email_holds DepositForm_invalid_card_holds DepositForm_invalid_cvv_holds
      WithdrawForm_submits_values_holds WithdrawForm_empty_displays_errors_holds WithdrawForm_negative_amount_holds
      WithdrawForm_invalid_email_holds WithdrawForm_invalid_card_holds
      SignupForm_submits_values_holds SignupForm_empty_displays_errors_holds SignupForm_invalid_email_holds
      SignupForm_passwords_differ_holds LoginForm_empty_displays_errors_holds LoginForm_submits_values_holds
      LoginForm_errors_hold DefaultLoginForm_users_hold DefaultLoginForm_disabled_def users_json_def context_tests_hold)

end
