(* ===== verification/Frontend_Views.thy ===== *)
theory Frontend_Views
  imports Frontend_Pages Frontend_Charts
begin

section \<open>Frontend: what the components put on the page\<close>

text \<open>
  The elements that the charts, the flags, the version dialog, the instrument cards, the error page
  and the small parts of the header hand to the component library, as trees: the tag, the properties
  that depend on data or lead somewhere, and the children. Layout elements (stacks, boxes, grids) and
  styling are left out.
\<close>

subsection \<open>Elements\<close>

datatype attr_val = AStr string | ANum jsnum | ABool bool | AColor palette_color

datatype mark = Elem string "(string \<times> attr_val) list" "mark list" | Txt string

fun texts :: "mark \<Rightarrow> string list" where
  "texts (Txt s) = [s]"
| "texts (Elem t as ks) = concat (map texts ks)"

text \<open>The elements with a tag, and a property of an element.\<close>

fun elements :: "string \<Rightarrow> mark \<Rightarrow> mark list" where
  "elements tag (Txt s) = []"
| "elements tag (Elem t as ks) = (if t = tag then [Elem t as ks] else []) @ concat (map (elements tag) ks)"

fun attr :: "string \<Rightarrow> mark \<Rightarrow> attr_val option" where
  "attr a (Txt s) = None"
| "attr a (Elem t as ks) = map_of as a"

definition typography :: "string \<Rightarrow> mark" where
  "typography s = Elem ''Typography'' [] [Txt s]"

subsection \<open>InstrumentPriceChart\<close>

text \<open>\<open>Number.prototype.toFixed\<close>: the nearest decimal, the larger one of two.\<close>

definition fixed_digits :: "nat \<Rightarrow> rat \<Rightarrow> string" where
  "fixed_digits f x =
     (let d = nat_str (nat \<lfloor>x * 10 ^ f + 1 / 2\<rfloor>) in replicate (f + 1 - length d) (CHR ''0'') @ d)"

fun to_fixed :: "nat \<Rightarrow> jsnum \<Rightarrow> string" where
  "to_fixed f (Fin x) =
     (if 10 ^ 21 \<le> \<bar>x\<bar> then num_str (Fin x)
      else let d = fixed_digits f \<bar>x\<bar>; k = length d - f
           in (if x < 0 then ''-'' else []) @ take k d @ (if f = 0 then [] else CHR ''.'' # drop k d))"
| "to_fixed f n = num_str n"

record rectangle =
  rc_key :: string
  rc_width :: jsnum
  rc_height :: jsnum
  rc_x :: jsnum
  rc_y :: jsnum
  rc_fill :: palette_color

definition CustomBar ::
  "string \<Rightarrow> jsnum \<Rightarrow> jsnum \<Rightarrow> jsnum \<Rightarrow> jsnum \<Rightarrow> jsnum \<times> jsnum \<Rightarrow> palette_color \<Rightarrow> palette_color \<Rightarrow> rectangle" where
  "CustomBar date width height x y r increasingColor decreasingColor =
     \<lparr>rc_key = ''rectangle'' @ date, rc_width = width, rc_height = height, rc_x = x, rc_y = y,
      rc_fill = (if js_lt (snd r) (fst r) then decreasingColor else increasingColor)\<rparr>"

text \<open>The hovered entries of a chart, as the chart library passes them to a tooltip.\<close>

record 'r hover =
  hv_active :: bool
  hv_payload :: "'r list option"
  hv_label :: string

definition PriceChart_tooltip :: "price_bar hover \<Rightarrow> mark option" where
  "PriceChart_tooltip h =
     (case hv_payload h of
        Some (p # ps) \<Rightarrow>
          if hv_active h
          then Some (Elem ''Box'' []
             [typography (hv_label h),
              typography (''open: '' @ num_str (fst (openClosePriceRange p)) @ ''; close: ''
                @ num_str (snd (openClosePriceRange p)) @ '' ''),
              typography (''low: '' @ num_str (fst (lowHighPriceRange p)) @ ''; high: ''
                @ num_str (snd (lowHighPriceRange p)))])
          else None
      | _ \<Rightarrow> None)"

text \<open>
  The chart: its data, the axes with the range and the ticks of the vertical one, the two bars of a
  candle with their shapes, and the range of the brush.
\<close>

definition InstrumentPriceChart ::
  "intl \<Rightarrow> (string \<Rightarrow> jsnum) \<Rightarrow> price list \<Rightarrow> price_bar list \<times> mark" where
  "InstrumentPriceChart f getTime prices =
     (let data = priceData f getTime prices; domain = chart_domain prices; shown = brush data
      in (data, Elem ''BarChart'' []
        [Elem ''XAxis'' [(''dataKey'', AStr ''date''), (''xAxisId'', ANum (Fin 0))] [],
         Elem ''XAxis'' [(''dataKey'', AStr ''date''), (''xAxisId'', ANum (Fin 1)), (''hide'', ABool True)] [],
         Elem ''YAxis'' [(''type'', AStr ''number''), (''min'', ANum (fst domain)), (''max'', ANum (snd domain)),
           (''allowDataOverflow'', ABool False)] [],
         Elem ''Tooltip'' [] [],
         Elem ''Bar'' [(''dataKey'', AStr ''lowHighPriceRange''), (''barSize'', ANum (Fin 1)), (''xAxisId'', ANum (Fin 0)),
           (''increasingColor'', AColor SuccessMain), (''decreasingColor'', AColor ErrorMain)] [],
         Elem ''Bar'' [(''dataKey'', AStr ''openClosePriceRange''), (''xAxisId'', ANum (Fin 1)), (''minPointSize'', ANum (Fin 1)),
           (''increasingColor'', AColor SuccessMain), (''decreasingColor'', AColor ErrorMain)] [],
         Elem ''CartesianGrid'' [] [],
         Elem ''Brush'' [(''dataKey'', AStr ''date''), (''startIndex'', ANum (js_int (fst shown))),
           (''endIndex'', ANum (js_int (snd shown)))] []]))"

definition PriceChart_tick :: "jsnum \<Rightarrow> string" where
  "PriceChart_tick tick = to_fixed 3 tick"

subsection \<open>InstrumentsChart\<close>

definition InstrumentsChart_tooltip :: "intl \<Rightarrow> (string \<times> string \<times> jsnum \<times> jsnum) hover \<Rightarrow> mark option" where
  "InstrumentsChart_tooltip f h =
     (case hv_payload h of
        Some ((name, code, amount, totalValue) # ps) \<Rightarrow>
          if hv_active h
          then Some (Elem ''Box'' []
             [typography name, typography (''Amount: '' @ num_str amount),
              typography (''Total value: '' @ formatCurrency f totalValue)])
          else None
      | _ \<Rightarrow> None)"

definition InstrumentsChart_mark :: "instrument_row list \<Rightarrow> (string \<times> string \<times> jsnum \<times> jsnum) list \<times> mark" where
  "InstrumentsChart_mark instruments =
     (InstrumentsChart instruments,
      Elem ''BarChart'' []
        [Elem ''XAxis'' [(''dataKey'', AStr ''code''), (''interval'', ANum (Fin 0))] [],
         Elem ''YAxis'' [(''yAxisId'', AStr ''left''), (''dataKey'', AStr ''amount'')]
           [Elem ''Label'' [(''value'', AStr ''Amount'')] []],
         Elem ''YAxis'' [(''yAxisId'', AStr ''right''), (''dataKey'', AStr ''totalValue''), (''unit'', AStr ''$'')]
           [Elem ''Label'' [(''value'', AStr ''Total value'')] []],
         Elem ''CartesianGrid'' [] [],
         Elem ''Tooltip'' [] [],
         Elem ''Legend'' [(''iconType'', AStr ''square'')] [],
         Elem ''Bar'' [(''dataKey'', AStr ''amount''), (''name'', AStr ''Amount''), (''fill'', AColor PrimaryMain),
           (''yAxisId'', AStr ''left'')] [],
         Elem ''Bar'' [(''dataKey'', AStr ''totalValue''), (''name'', AStr ''Total value''), (''fill'', AColor SuccessMain),
           (''yAxisId'', AStr ''right'')] []])"

subsection \<open>TransactionsPieChart\<close>

record label_props =
  lp_cx :: "jsnum option"
  lp_cy :: "jsnum option"
  lp_midAngle :: "jsnum option"
  lp_innerRadius :: "jsnum option"
  lp_outerRadius :: "jsnum option"
  lp_percent :: "jsnum option"

definition RADIAN :: jsnum where
  "RADIAN = js_div (to_js (3141592653589793 / 10 ^ 15)) (Fin 180)"

fun js_round :: "jsnum \<Rightarrow> jsnum" where
  "js_round (Fin x) = js_int \<lfloor>x + 1 / 2\<rfloor>"
| "js_round n = n"

text \<open>\<open>Math.cos\<close> and \<open>Math.sin\<close> are not specified to the last bit: parameters.\<close>

definition CustomLabel ::
  "(jsnum \<Rightarrow> jsnum) \<Rightarrow> (jsnum \<Rightarrow> jsnum) \<Rightarrow> label_props \<Rightarrow> mark option" where
  "CustomLabel js_cos js_sin p =
     (case (lp_cx p, lp_cy p, lp_midAngle p, lp_innerRadius p, lp_outerRadius p, lp_percent p) of
        (Some cx, Some cy, Some midAngle, Some innerRadius, Some outerRadius, Some percent) \<Rightarrow>
          let radius = js_add innerRadius (js_mul (js_sub outerRadius innerRadius) (to_js (1/2)));
              angle = js_mul (js_neg midAngle) RADIAN;
              x = js_add cx (js_mul radius (js_cos angle));
              y = js_add cy (js_mul radius (js_sin angle))
          in Some (Elem ''text'' [(''x'', ANum x), (''y'', ANum y), (''fill'', AStr ''white''),
               (''textAnchor'', AStr (if js_lt cx x then ''start'' else ''end'')), (''dominantBaseline'', AStr ''central'')]
               [Txt (num_str (js_round (js_mul percent (Fin 100))) @ ''%'')])
      | _ \<Rightarrow> None)"

definition TransactionsPieChart_mark :: "(string \<times> nat) list \<Rightarrow> mark" where
  "TransactionsPieChart_mark data =
     Elem ''PieChart'' []
       [Elem ''Legend'' [(''verticalAlign'', AStr ''bottom''), (''align'', AStr ''center''), (''iconType'', AStr ''square'')]
          (map (\<lambda>(name, value). typography name) data),
        Elem ''Pie'' [(''dataKey'', AStr ''value''), (''nameKey'', AStr ''name''), (''fill'', AStr ''#8884d8''), (''labelLine'', ABool False)]
          (map (\<lambda>(index, name, value, color).
             Elem ''Cell'' ((''key'', AStr (''cell-'' @ nat_str index)) # (case color of None \<Rightarrow> [] | Some c \<Rightarrow> [(''fill'', AColor c)])) [])
            (enumerate 0 (TransactionsPieChart data)))]"

subsection \<open>Feature flags\<close>

text \<open>The item of a flag; it throws when the display name does.\<close>

definition FeatureFlagItem_mark ::
  "window \<Rightarrow> bool option \<Rightarrow> bool \<Rightarrow> bool \<Rightarrow> feature_flag_data \<Rightarrow> js_exn + mark" where
  "FeatureFlagItem_mark w management isPending expanded flag =
     attempt (displayName (ff_name flag)) (\<lambda>title. Inr
       (Elem ''Accordion'' [(''expanded'', ABool expanded)]
         [Elem ''AccordionSummary'' []
            [typography title,
             Elem ''Chip'' [(''label'', AStr (if ff_isModifiable flag then ''modifiable'' else ''non-modifiable'')),
               (''color'', AStr (if ff_isModifiable flag then ''info'' else ''warning'')), (''variant'', AStr ''outlined'')] [],
             Elem ''Chip'' [(''label'', AStr (if ff_enabled flag then ''enabled'' else ''disabled'')),
               (''color'', AStr (if ff_enabled flag then ''success'' else ''error'')), (''variant'', AStr ''outlined'')] []],
          Elem ''AccordionDetails'' []
            [Elem ''Typography'' [] [typography ''Flag id:'', Txt '' '', Txt (ff_id flag)],
             Elem ''Typography'' [] [typography ''Description:'', Txt '' '',
               Txt (nullish (ff_description flag) ''There is no description for this flag currently.'')],
             Elem ''Typography'' [] [Txt (''CURL to '' @ (if ff_enabled flag then ''disable'' else ''enable'') @ '' the feature flag:'')],
             typography (getFeatureFlagCurl w (ff_id flag) (\<not> ff_enabled flag)),
             Elem ''IconButton'' [] [Elem ''ContentCopyIcon'' [] []],
             Elem ''Tooltip'' [(''title'', AStr ''Managing flags on frontend has been disabled in this environment''),
               (''disableHoverListener'', ABool (modifyDisabled flag management))]
               [Elem ''Button'' [(''loading'', ABool isPending), (''variant'', AStr ''outlined''),
                 (''color'', AStr (if ff_enabled flag then ''error'' else ''success'')),
                 (''disabled'', ABool (modifyDisabled flag management))]
                 [Txt (if ff_enabled flag then ''Disable'' else ''Enable'')]]]]))"

text \<open>The list: the item of every flag, and the snackbar with the feedback.\<close>

definition severity_name :: "severity \<Rightarrow> string" where
  "severity_name v = (case v of ErrorAlert \<Rightarrow> ''error'' | SuccessAlert \<Rightarrow> ''success'')"

definition FeatureFlagList_mark ::
  "window \<Rightarrow> bool option \<Rightarrow> (feature_flag_data \<Rightarrow> bool) \<Rightarrow> flag_list \<Rightarrow> feature_flag_data list \<Rightarrow> js_exn + mark" where
  "FeatureFlagList_mark w management isPending s flags =
     attempt (all_rows (\<lambda>flag. FeatureFlagItem_mark w management (isPending flag) (item_expanded s flag) flag) flags) (\<lambda>items. Inr
       (Elem ''Box'' [] (items @
         [Elem ''Snackbar'' [(''open'', ABool (fb_visible s)), (''autoHideDuration'', ANum (Fin 5000))]
            [Elem ''Alert'' [(''severity'', AStr (severity_name (fb_variant s))), (''variant'', AStr ''filled'')] [Txt (fb_msg s)]]])))"

definition FeatureFlags_mark ::
  "window \<Rightarrow> bool option \<Rightarrow> (feature_flag_data \<Rightarrow> bool) \<Rightarrow> bool \<Rightarrow> flag_list \<Rightarrow> feature_flag_data list option \<Rightarrow> js_exn + mark" where
  "FeatureFlags_mark w management isPending refreshing s flags =
     attempt (FeatureFlagList_mark w management isPending s (nullish flags [])) (\<lambda>list. Inr
       (Elem ''FeatureFlags'' []
         ([Elem ''Card'' [] [typography (''Feature flags (or problem patterns) are used to enable or disable specific problem ''
             @ ''simulation in EasyTrade application. Each feature flag (problem pattern) comes with its own description of what ''
             @ ''parts of the application are affected and what symptoms should be expected.'')]]
          @ (if management_alert management
             then [Elem ''Alert'' [(''severity'', AStr ''info'')]
                     [Txt ''The feature flag modification via UI has been disabled.'']] else [])
          @ [Elem ''IconButton'' [] [Elem ''ReplayIcon'' [] []], list,
             Elem ''Backdrop'' [(''open'', ABool refreshing)] [Elem ''CircularProgress'' [] []]])))"

subsection \<open>Versions\<close>

definition prop_text :: "jsval \<Rightarrow> mark list" where
  "prop_text v = (case v of Some (JStr s) \<Rightarrow> [Txt s] | Some (JNum n) \<Rightarrow> [Txt (num_str n)] | _ \<Rightarrow> [])"

definition VersionDialog :: "bool \<Rightarrow> jsval \<Rightarrow> js_exn + mark" where
  "VersionDialog isOpen serviceVersion =
     attempt (js_prop serviceVersion ''buildVersion'') (\<lambda>v.
     attempt (js_prop serviceVersion ''buildDate'') (\<lambda>d.
     attempt (js_prop serviceVersion ''buildCommit'') (\<lambda>c. Inr
       (Elem ''Dialog'' [(''open'', ABool isOpen)]
         [Elem ''DialogTitle'' [] [Txt ''EasyTrade''],
          Elem ''List'' []
            [Elem ''ListItemText'' [(''primary'', AStr ''Version'')] (prop_text v),
             Elem ''ListItemText'' [(''primary'', AStr ''Build date'')] (prop_text d),
             Elem ''ListItemText'' [(''primary'', AStr ''Build commit'')] (prop_text c)],
          Elem ''DialogActions'' []
            [Elem ''Button'' [(''variant'', AStr ''outlined''), (''to'', AStr ''/version'')] [Txt ''More''],
             Elem ''Button'' [(''variant'', AStr ''outlined'')] [Txt ''Close'']]]))))"

text \<open>\<open>VersionInfo\<close>: the dialog is open after a click on the icon until one of its buttons or its background is clicked.\<close>

datatype version_click = BuildIcon | CloseDialog

fun VersionInfo_step :: "version_click \<Rightarrow> bool \<Rightarrow> bool" where
  "VersionInfo_step BuildIcon modalOpen = True"
| "VersionInfo_step CloseDialog modalOpen = False"

definition VersionInfo_mark :: "json \<Rightarrow> bool \<Rightarrow> js_exn + mark" where
  "VersionInfo_mark build modalOpen =
     (case getFrontendVersion build of
        VersionSuccess _ data \<Rightarrow>
          attempt (VersionDialog modalOpen data) (\<lambda>dialog. Inr
            (Elem ''VersionInfo'' [] [Elem ''IconButton'' [] [Elem ''Build'' [] []], dialog]))
      | VersionError _ _ \<Rightarrow> Inl TypeError)"

definition version_cell_mark :: "version_cell \<Rightarrow> mark" where
  "version_cell_mark c =
     Elem ''TableCell'' [] (case c of
        Plain v \<Rightarrow> prop_text v
      | Warning v \<Rightarrow> [Elem ''Alert'' [(''severity'', AStr ''warning'')] (prop_text v)])"

definition version_row_mark :: "version_row \<Rightarrow> mark" where
  "version_row_mark r =
     (case r of
        ErrorRow name msg \<Rightarrow> Elem ''TableRow'' []
          [Elem ''TableCell'' [] [Txt name],
           Elem ''TableCell'' [(''colSpan'', ANum (Fin 3))] [Elem ''Alert'' [(''severity'', AStr ''error'')] [Txt msg]]]
      | DataRow name v d c \<Rightarrow> Elem ''TableRow'' []
          [Elem ''TableCell'' [] [Txt name], version_cell_mark v, version_cell_mark d, version_cell_mark c])"

definition VersionsTable_mark :: "json \<Rightarrow> service_version list \<Rightarrow> js_exn + mark" where
  "VersionsTable_mark build versions =
     attempt (VersionsTable build versions) (\<lambda>rows. Inr
       (Elem ''Table'' []
         [Elem ''TableHead'' [] [Elem ''TableRow'' []
            (map (\<lambda>h. Elem ''TableCell'' [] [Txt h]) [''Service'', ''Version'', ''Build date'', ''Build commit''])],
          Elem ''TableBody'' [] (map version_row_mark rows)]))"

subsection \<open>Instruments\<close>

definition PriceDisplay_mark :: "intl \<Rightarrow> price \<Rightarrow> mark" where
  "PriceDisplay_mark f p =
     (let (color, close, percent) = PriceDisplay f p
      in Elem ''PriceDisplay'' []
        [Elem ''Typography'' [(''id'', AStr ''instrumentPrice''), (''color'', AColor color)] [Txt close],
         Elem ''Typography'' [(''color'', AColor color)] [Txt percent]])"

definition InstrumentHeader :: "intl \<Rightarrow> instrument_row \<Rightarrow> mark" where
  "InstrumentHeader f i =
     Elem ''InstrumentHeader'' []
       [Elem ''Typography'' [(''id'', AStr ''instrumentName'')] [Txt (i_name i)], PriceDisplay_mark f (i_price i)]"

text \<open>\<open>toLocaleString("en-US")\<close> of the amount is a parameter.\<close>

definition InstrumentCard :: "intl \<Rightarrow> (jsnum \<Rightarrow> string) \<Rightarrow> instrument_row \<Rightarrow> mark" where
  "InstrumentCard f toLocaleString i =
     Elem ''Card'' [(''className'', AStr (InstrumentCard_class i))]
       [Elem ''CardActionArea'' [(''to'', AStr (InstrumentCard_link i))]
          [Elem ''CardHeader'' [(''title'', AStr (i_code i)), (''subheader'', AStr (i_name i))] [],
           Elem ''CardContent'' [] [PriceDisplay_mark f (i_price i), typography (toLocaleString (i_amount i))]]]"

subsection \<open>Error page and header\<close>

text \<open>\<open>JSON.stringify(error)\<close> of what was thrown is a parameter.\<close>

definition ErrorPage :: "(js_exn \<Rightarrow> string) \<Rightarrow> js_exn \<Rightarrow> mark" where
  "ErrorPage stringify e =
     Elem ''Card'' [] [typography ''Oops! There was an error!'', typography (stringify e)]"

definition ThemeSwitcher_mark :: "theme_mode \<Rightarrow> mark" where
  "ThemeSwitcher_mark mode = Elem ''IconButton'' [] [Elem (if isDarkTheme mode then ''DarkMode'' else ''LightMode'') [] []]"

definition Logo_mark :: mark where
  "Logo_mark = Elem ''Link'' [(''to'', AStr ''/'')] [Txt ''EasyTrade'']"

definition FeatureFlagIcon_mark :: "feature_flag_data list option \<Rightarrow> mark" where
  "FeatureFlagIcon_mark flags =
     Elem ''IconButton'' [(''to'', AStr FeatureFlag_link)]
       [Elem ''Badge'' [(''badgeContent'', ANum (js_int (int (enabledFlagCount flags)))), (''color'', AStr ''secondary'')]
          [Elem ''FlagIcon'' [] []]]"

subsection \<open>The page of the flags\<close>

text \<open>A name that cannot be displayed, and the item of one that can.\<close>

definition nameless :: "feature_flag_data \<Rightarrow> bool" where
  "nameless flag \<longleftrightarrow> [] \<in> set (split_on (CHR 0x5F) (ff_name flag))"

lemma item_renders:
  "if nameless flag then FeatureFlagItem_mark w management p x flag = Inl TypeError
   else \<exists>m. FeatureFlagItem_mark w management p x flag = Inr m \<and> elements ''Accordion'' m = [m]
     \<and> attr ''expanded'' m = Some (ABool x)
     \<and> map (attr ''disabled'') (elements ''Button'' m) = [Some (ABool (modifyDisabled flag management))]
     \<and> elements ''Alert'' m = []"
  by (simp add: FeatureFlagItem_mark_def nameless_def displayName_def title_of_ok typography_def)

lemma all_rows_fail: "(\<And>x. x \<in> set xs \<Longrightarrow> f x = Inl e \<or> (\<exists>y. f x = Inr y)) \<Longrightarrow> x \<in> set xs \<Longrightarrow> f x = Inl e \<Longrightarrow> all_rows f xs = Inl e"
proof (induction xs)
  case (Cons a xs)
  show ?case
  proof (cases "f a")
    case (Inl e')
    then show ?thesis using Cons.prems(1) [of a] by simp
  next
    case (Inr y)
    then have "x \<in> set xs" using Cons.prems(2,3) by auto
    then show ?thesis using Cons Inr by simp
  qed
qed simp

lemma expanded_once:
  "distinct (map ff_name flags) \<Longrightarrow> length (filter (item_expanded s) flags) \<le> 1"
proof (induction flags)
  case (Cons a flags)
  then show ?case
    by (auto simp: item_expanded_def filter_empty_conv image_iff)
qed simp

text \<open>
  C23: the page of the feature flags throws exactly when the name of a flag has an empty part between
  underscores. Otherwise it shows every flag, in order; the button of a flag is disabled exactly
  when the flag may not be modified or managing is off or not known yet, which an alert says; and at
  most one flag is unfolded as long as no two have the same name, whatever was clicked before.
\<close>

theorem flags_page_renders:
  "if list_ex nameless flags then FeatureFlags_mark w management isPending refreshing s (Some flags) = Inl TypeError
   else \<exists>page. FeatureFlags_mark w management isPending refreshing s (Some flags) = Inr page
     \<and> map (attr ''expanded'') (elements ''Accordion'' page) = map (\<lambda>flag. Some (ABool (item_expanded s flag))) flags
     \<and> map (attr ''disabled'') (elements ''Button'' page) = map (\<lambda>flag. Some (ABool (modifyDisabled flag management))) flags
     \<and> (length (filter (\<lambda>a. attr ''severity'' a = Some (AStr ''info'')) (elements ''Alert'' page)) = (if management = Some True then 0 else 1))
     \<and> (distinct (map ff_name flags) \<longrightarrow>
          length (filter (\<lambda>a. attr ''expanded'' a = Some (ABool True)) (elements ''Accordion'' page)) \<le> 1)"
proof (cases "list_ex nameless flags")
  case True
  then obtain flag where "flag \<in> set flags" "nameless flag" by (auto simp: list_ex_iff)
  then have "all_rows (\<lambda>flag. FeatureFlagItem_mark w management (isPending flag) (item_expanded s flag) flag) flags = Inl TypeError"
    using item_renders by (intro all_rows_fail [of flags _ _ flag]) metis+
  with True show ?thesis by (simp add: FeatureFlags_mark_def FeatureFlagList_mark_def)
next
  case False
  let ?f = "\<lambda>flag. FeatureFlagItem_mark w management (isPending flag) (item_expanded s flag) flag"
  have item: "?f flag = Inr (projr (?f flag)) \<and> elements ''Accordion'' (projr (?f flag)) = [projr (?f flag)]
      \<and> attr ''expanded'' (projr (?f flag)) = Some (ABool (item_expanded s flag))
      \<and> map (attr ''disabled'') (elements ''Button'' (projr (?f flag))) = [Some (ABool (modifyDisabled flag management))]
      \<and> elements ''Alert'' (projr (?f flag)) = []" if "flag \<in> set flags" for flag
    using item_renders [of flag w management "isPending flag" "item_expanded s flag"] that False
    by (auto simp: list_ex_iff)
  define ys where "ys = map (\<lambda>flag. projr (?f flag)) flags"
  have rows: "all_rows ?f flags = Inr ys"
    unfolding ys_def using item by (intro all_rows_map) blast
  have sub: "concat (map (elements ''Accordion'') ys) = ys"
    "map (attr ''disabled'') (concat (map (elements ''Button'') ys))
      = map (\<lambda>flag. Some (ABool (modifyDisabled flag management))) flags"
    "concat (map (elements ''Alert'') ys) = []"
    unfolding ys_def using item by (induction flags) auto
  have ex: "map (attr ''expanded'') ys = map (\<lambda>flag. Some (ABool (item_expanded s flag))) flags"
    using item by (simp add: ys_def)
  have "length (filter (\<lambda>a. attr ''expanded'' a = Some (ABool True)) ys) = length (filter (item_expanded s) flags)"
    unfolding ys_def using item by (induction flags) auto
  moreover have "nullish management False \<longleftrightarrow> management = Some True"
    by (cases management) auto
  moreover have "concat (map (elements t) (xs @ zs)) = concat (map (elements t) xs) @ concat (map (elements t) zs)" for t xs zs
    by simp
  ultimately show ?thesis
    using False rows sub ex expanded_once [of flags s]
    by (simp del: map_eq_conv concat_eq_Nil_conv add: FeatureFlags_mark_def FeatureFlagList_mark_def typography_def
        management_alert_def severity_name_def split: severity.splits)
qed

definition sample_window :: window where
  "sample_window = \<lparr>w_origin = ''http://easytrade:80'', w_dynatrace = None, w_dtrum = None, w_net = \<lambda>_ _. Inl TypeError,
     w_xmlParse = \<lambda>_. Inl TypeError, w_xmlBuild = \<lambda>_. []\<rparr>"

definition sample_flag :: "string \<Rightarrow> feature_flag_data" where
  "sample_flag name = \<lparr>ff_id = name, ff_name = name, ff_description = None, ff_enabled = False, ff_isModifiable = True\<rparr>"

theorem flags_page_renders_witness:
  "\<exists>page. FeatureFlags_mark sample_window (Some True) (\<lambda>_. False) False flag_list_init
       (Some [sample_flag ''ergo_aggregator_slowdown'', sample_flag ''db_not_responding'']) = Inr page
     \<and> length (filter (\<lambda>a. attr ''expanded'' a = Some (ABool True)) (elements ''Accordion'' page)) \<le> 1"
  using flags_page_renders [where flags = "[sample_flag ''ergo_aggregator_slowdown'', sample_flag ''db_not_responding'']"
      and w = sample_window and management = "Some True" and isPending = "\<lambda>_. False" and refreshing = False
      and s = flag_list_init]
  by (simp add: sample_flag_def nameless_def) auto

end
