(* ===== verification/Frontend_Tables.thy ===== *)
theory Frontend_Tables
  imports Frontend_Views
begin

section \<open>Frontend: the two tables as grids\<close>

text \<open>
  \<open>InstrumentsTable.tsx\<close> and \<open>TransactionsTable.tsx\<close> as the grids they describe: columns with a
  title, a type and what a cell shows of a row, a toolbar, and the rows of the first page. Sorting,
  filtering and turning pages are the library's. \<open>toLocaleString\<close>, by which the library shows a number
  of a column without a formatter, is a parameter.
\<close>

subsection \<open>Columns and rows\<close>

datatype column_type = StringColumn | NumberColumn | DateTimeColumn | SelectColumn "string list"

record 'r grid_column =
  gc_field :: string
  gc_header :: string
  gc_type :: column_type
  gc_cell :: "'r \<Rightarrow> js_exn + mark list"

definition text_cell :: "('r \<Rightarrow> string) \<Rightarrow> 'r \<Rightarrow> js_exn + mark list" where
  "text_cell text r = Inr [Txt (text r)]"

definition grid_row :: "'r grid_column list \<Rightarrow> 'r \<Rightarrow> js_exn + mark" where
  "grid_row columns r =
     attempt (all_rows (\<lambda>c. gc_cell c r) columns) (\<lambda>cells. Inr (Elem ''row'' [] (map (Elem ''gridcell'' []) cells)))"

definition header_row :: "'r grid_column list \<Rightarrow> mark" where
  "header_row columns = Elem ''row'' [] (map (\<lambda>c. Elem ''columnheader'' [] [Txt (gc_header c)]) columns)"

definition DataGrid :: "mark \<Rightarrow> 'r grid_column list \<Rightarrow> nat \<Rightarrow> 'r list \<Rightarrow> js_exn + mark" where
  "DataGrid toolbar columns pageSize rows =
     attempt (all_rows (grid_row columns) (take pageSize rows)) (\<lambda>page. Inr
       (Elem ''DataGrid'' [] (toolbar # header_row columns # page)))"

definition CustomToolbar :: "string \<Rightarrow> mark" where
  "CustomToolbar title =
     Elem ''Stack'' []
       [typography title,
        Elem ''GridToolbarContainer'' []
          [Elem ''GridToolbarColumnsButton'' [] [], Elem ''GridToolbarFilterButton'' [] [], Elem ''GridToolbarQuickFilter'' [] []]]"

subsection \<open>InstrumentsTable\<close>

definition InstrumentsTable_columns :: "(jsnum \<Rightarrow> string) \<Rightarrow> (jsnum \<Rightarrow> string) \<Rightarrow> instrument_row grid_column list" where
  "InstrumentsTable_columns priceFormatter toLocale =
     [\<lparr>gc_field = ''code'', gc_header = ''Code'', gc_type = StringColumn, gc_cell = text_cell i_code\<rparr>,
      \<lparr>gc_field = ''name'', gc_header = ''Name'', gc_type = StringColumn, gc_cell = text_cell i_name\<rparr>,
      \<lparr>gc_field = ''amount'', gc_header = ''Amount'', gc_type = NumberColumn, gc_cell = text_cell (\<lambda>i. toLocale (i_amount i))\<rparr>,
      \<lparr>gc_field = ''price'', gc_header = ''Current price'', gc_type = NumberColumn,
        gc_cell = text_cell (\<lambda>i. priceFormatter (p_close (i_price i)))\<rparr>,
      \<lparr>gc_field = ''totalValue'', gc_header = ''Total value'', gc_type = NumberColumn,
        gc_cell = text_cell (\<lambda>i. priceFormatter (js_mul (i_amount i) (p_close (i_price i))))\<rparr>]"

text \<open>The footer is hidden, so that the page keeps the hundred rows that the library begins with.\<close>

definition InstrumentsTable_grid :: "intl \<Rightarrow> (jsnum \<Rightarrow> string) \<Rightarrow> instrument_row list \<Rightarrow> js_exn + mark" where
  "InstrumentsTable_grid f toLocale instruments =
     DataGrid (CustomToolbar ''Owned assets'') (InstrumentsTable_columns (formatCurrency f) toLocale) 100
       (filter (\<lambda>i. js_lt (Fin 0) (i_amount i)) instruments)"

subsection \<open>TransactionsTable\<close>

definition status_color :: "string \<Rightarrow> string" where
  "status_color s = (if s = ''ACTIVE'' then ''info'' else if s = ''SUCCESS'' then ''success'' else ''error'')"

definition icon_name :: "status_icon \<Rightarrow> string" where
  "icon_name icon = (case icon of Autorenew \<Rightarrow> ''AutorenewIcon'' | CheckMark \<Rightarrow> ''CheckIcon'' | Cross \<Rightarrow> ''CloseIcon'')"

definition status_renderCell :: "string \<Rightarrow> mark list" where
  "status_renderCell s =
     [Elem (icon_name (fst (status_cell s))) [(''color'', AStr (status_color s))] [],
      Elem ''Typography'' [(''color'', AStr (status_color s @ ''.main''))] [Txt (snd (status_cell s))]]"

definition TransactionsTable_columns ::
  "(jsnum \<Rightarrow> string) \<Rightarrow> (jsnum \<Rightarrow> js_exn + string) \<Rightarrow> (string \<Rightarrow> jsnum) \<Rightarrow> (jsnum \<Rightarrow> string) \<Rightarrow> transaction grid_column list" where
  "TransactionsTable_columns priceFormatter formatEnd getTime toLocale =
     [\<lparr>gc_field = ''actionType'', gc_header = ''Buy/Sell'', gc_type = SelectColumn [''BUY'', ''SELL''],
        gc_cell = text_cell t_actionType\<rparr>,
      \<lparr>gc_field = ''status'', gc_header = ''Status'', gc_type = SelectColumn [''ACTIVE'', ''SUCCESS'', ''FAIL''],
        gc_cell = (\<lambda>t. Inr (status_renderCell (t_status t)))\<rparr>,
      \<lparr>gc_field = ''instrumentName'', gc_header = ''Instrument'', gc_type = StringColumn, gc_cell = text_cell t_instrumentName\<rparr>,
      \<lparr>gc_field = ''amount'', gc_header = ''Amount'', gc_type = NumberColumn, gc_cell = text_cell (\<lambda>t. toLocale (t_amount t))\<rparr>,
      \<lparr>gc_field = ''price'', gc_header = ''Price'', gc_type = NumberColumn, gc_cell = text_cell (\<lambda>t. priceFormatter (t_price t))\<rparr>,
      \<lparr>gc_field = ''total'', gc_header = ''Total'', gc_type = NumberColumn,
        gc_cell = text_cell (\<lambda>t. priceFormatter (js_mul (t_amount t) (t_price t)))\<rparr>,
      \<lparr>gc_field = ''endTime'', gc_header = ''End time'', gc_type = DateTimeColumn,
        gc_cell = (\<lambda>t. attempt (formatEnd (getTime (t_endTime t))) (\<lambda>s. Inr [Txt s]))\<rparr>]"

text \<open>The first page has five rows; ten and twenty-five can be chosen.\<close>

definition TransactionsTable_grid ::
  "intl \<Rightarrow> (string \<Rightarrow> jsnum) \<Rightarrow> jsnum \<Rightarrow> (jsnum \<Rightarrow> string) \<Rightarrow> instrument_row list \<Rightarrow> transaction list \<Rightarrow> js_exn + mark" where
  "TransactionsTable_grid f getTime now toLocale instruments transactions =
     DataGrid (CustomToolbar ''Transactions'') (TransactionsTable_columns (formatCurrency f) (formatDate f now) getTime toLocale) 5
       (TransactionsTable instruments transactions)"

subsection \<open>The cells\<close>

text \<open>What the cells of a row show is what the columns of \<open>Frontend_Charts\<close> say.\<close>

lemma instrument_row_cells:
  "grid_row (InstrumentsTable_columns (formatCurrency f) toLocale) i = Inr (Elem ''row'' []
     (map (\<lambda>s. Elem ''gridcell'' [] [Txt s])
        [i_code i, i_name i, toLocale (i_amount i), formatCurrency f (p_close (i_price i)), formatCurrency f (total_value i)]))"
  by (simp add: grid_row_def InstrumentsTable_columns_def text_cell_def total_value_def)

lemma transaction_row_cells:
  assumes "transaction_columns f getTime now t = c" and "tc_endTime c = Inr s"
  shows "grid_row (TransactionsTable_columns (formatCurrency f) (formatDate f now) getTime toLocale) t = Inr (Elem ''row'' []
     (map (Elem ''gridcell'' [])
        [[Txt (tc_actionType c)], status_renderCell (t_status t), [Txt (tc_instrument c)], [Txt (toLocale (tc_amount c))],
         [Txt (tc_price c)], [Txt (tc_total c)], [Txt s]]))"
  using assms by (auto simp: grid_row_def TransactionsTable_columns_def text_cell_def transaction_columns_def)

lemma status_renderCell_text: "concat (map texts (status_renderCell s)) = [s]"
  by (simp add: status_renderCell_def status_cell_def)

text \<open>The grid of the instruments shows exactly those that are owned, up to the page.\<close>

lemma InstrumentsTable_grid_rows:
  "InstrumentsTable_grid f toLocale instruments = Inr (Elem ''DataGrid'' []
     (CustomToolbar ''Owned assets'' # header_row (InstrumentsTable_columns (formatCurrency f) toLocale)
      # map (\<lambda>i. projr (grid_row (InstrumentsTable_columns (formatCurrency f) toLocale) i))
          (take 100 (filter (\<lambda>i. js_lt (Fin 0) (i_amount i)) instruments))))"
  using all_rows_map [where f = "grid_row (InstrumentsTable_columns (formatCurrency f) toLocale)"
      and g = "\<lambda>i. projr (grid_row (InstrumentsTable_columns (formatCurrency f) toLocale) i)"
      and xs = "take 100 (filter (\<lambda>i. js_lt (Fin 0) (i_amount i)) instruments)"]
  by (simp add: InstrumentsTable_grid_def DataGrid_def instrument_row_cells)

end
