(* ===== verification/Frontend_Suite.thy ===== *)
theory Frontend_Suite
  imports Frontend_Tests Frontend_Tables
begin

section \<open>The test suite of the frontend: the tables, and the whole\<close>

text \<open>
  The tests of \<open>frontend/src/test/tables\<close> on the grids of \<open>Frontend_Tables\<close>, and the theorem that the
  model passes every test of the repository. The tables are tested in the language \<open>en-US\<close> and in
  dollars: what \<open>Intl\<close> documents for these is a hypothesis on the formatters.
\<close>

subsection \<open>The formats of en-US\<close>

text \<open>Groups of three digits, from the right; an amount of dollars with two digits after the point.\<close>

fun grouped_rev :: "string \<Rightarrow> string" where
  "grouped_rev (a # b # c # d # s) = a # b # c # CHR '','' # grouped_rev (d # s)"
| "grouped_rev s = s"

definition grouped :: "string \<Rightarrow> string" where
  "grouped s = rev (grouped_rev (rev s))"

definition usd :: "rat \<Rightarrow> string" where
  "usd x = (let d = fixed_digits 2 x; k = length d - 2 in CHR ''$'' # grouped (take k d) @ CHR ''.'' # drop k d)"

definition documented_intl :: "intl \<Rightarrow> (jsnum \<Rightarrow> string) \<Rightarrow> bool" where
  "documented_intl f toLocale \<longleftrightarrow>
     (\<forall>x. 1/100 \<le> x \<and> x \<le> 10 ^ 12 \<longrightarrow> currencyFormatter f (Fin x) = usd x)
     \<and> (\<forall>n. n < 10 ^ 12 \<longrightarrow> toLocale (js_int (int n)) = grouped (nat_str n))"

subsection \<open>Queries\<close>

text \<open>The patterns of these tests, with the flag \<open>i\<close>: a point stands for any character.\<close>

fun wild_prefix :: "string \<Rightarrow> string \<Rightarrow> bool" where
  "wild_prefix [] t = True"
| "wild_prefix (p # ps) [] = False"
| "wild_prefix (p # ps) (c # t) = ((p = CHR ''.'' \<or> p = c) \<and> wild_prefix ps t)"

fun wild :: "string \<Rightarrow> string \<Rightarrow> bool" where
  "wild p [] = wild_prefix p []"
| "wild p (c # t) = (wild_prefix p (c # t) \<or> wild p t)"

text \<open>The name of a cell is its text, that of a row the texts of its cells.\<close>

definition cell_name :: "mark \<Rightarrow> string" where
  "cell_name c = to_lower (concat (texts c))"

definition row_name :: "mark \<Rightarrow> string" where
  "row_name r = to_lower (js_join '' '' (texts r))"

definition has_gridcell :: "mark \<Rightarrow> string \<Rightarrow> bool" where
  "has_gridcell grid p \<longleftrightarrow> the_only (filter (\<lambda>c. wild p (cell_name c)) (elements ''gridcell'' grid)) \<noteq> None"

definition rows_named :: "mark \<Rightarrow> string \<Rightarrow> nat" where
  "rows_named grid p = length (filter (\<lambda>r. wild p (row_name r)) (elements ''row'' grid))"

text \<open>A table that is rendered, and fulfils an expectation.\<close>

definition rendered :: "js_exn + mark \<Rightarrow> (mark \<Rightarrow> bool) \<Rightarrow> bool" where
  "rendered grid expectation \<longleftrightarrow> (case grid of Inl e \<Rightarrow> False | Inr m \<Rightarrow> expectation m)"

subsection \<open>tables/InstrumentsTable.test.tsx\<close>

definition decimal :: "int \<Rightarrow> nat \<Rightarrow> jsnum" where
  "decimal n k = to_js (of_int n / 10 ^ k)"

definition mock_price :: "int \<Rightarrow> int \<Rightarrow> int \<Rightarrow> int \<Rightarrow> price" where
  "mock_price a b c d =
     \<lparr>p_timestamp = ''2023-04-04T13:05:00Z'', p_open = decimal a 8, p_high = decimal b 8, p_low = decimal c 8, p_close = decimal d 8\<rparr>"

definition mockInstruments :: "instrument_row list" where
  "mockInstruments =
     [\<lparr>i_id = ''76'', i_code = ''ETRAVE'', i_name = ''EasyTravel'', i_amount = js_int 494,
        i_price = mock_price 13768958333 13907805518 13637064957 13773125000\<rparr>,
      \<lparr>i_id = ''77'', i_code = ''EPLANE'', i_name = ''EasyPlanes'', i_amount = js_int 768,
        i_price = mock_price 9486888889 9544784334 9431277586 9491333333\<rparr>,
      \<lparr>i_id = ''78'', i_code = ''EHOTEL'', i_name = ''EasyHotels'', i_amount = js_int 828,
        i_price = mock_price 1807583333 1827412251 1787590367 1809250000\<rparr>,
      \<lparr>i_id = ''79'', i_code = ''EHOTEL'', i_name = ''EasyHotels'', i_amount = js_int 43015,
        i_price = mock_price 22982778 23174109 22786974 22971667\<rparr>,
      \<lparr>i_id = ''80'', i_code = ''ETRAVE'', i_name = ''EasyTravel'', i_amount = js_int 36040,
        i_price = mock_price 27348264 27544960 27158477 27355208\<rparr>]"

definition InstrumentsTable_full_data :: "intl \<Rightarrow> (jsnum \<Rightarrow> string) \<Rightarrow> bool" where
  "InstrumentsTable_full_data f toLocale \<longleftrightarrow>
     rendered (InstrumentsTable_grid f toLocale [mockInstruments ! 0]) (\<lambda>grid.
       list_all (has_gridcell grid) [''etrave'', ''easytravel'', ''494'', ''137.73'', ''68,039.24''])"

definition InstrumentsTable_all_rows :: "intl \<Rightarrow> (jsnum \<Rightarrow> string) \<Rightarrow> bool" where
  "InstrumentsTable_all_rows f toLocale \<longleftrightarrow>
     rendered (InstrumentsTable_grid f toLocale mockInstruments) (\<lambda>grid. rows_named grid ''easy'' = 5)"

subsection \<open>tables/TransactionsTable.test.tsx\<close>

definition mock_transaction :: "string \<Rightarrow> string \<Rightarrow> int \<Rightarrow> int \<Rightarrow> string \<Rightarrow> transaction" where
  "mock_transaction action instrument pieces cents endTime =
     \<lparr>t_actionType = action, t_instrumentName = instrument, t_amount = js_int pieces, t_price = decimal cents 2,
      t_status = ''FAIL'', t_endTime = endTime\<rparr>"

definition mockTransactions :: "transaction list" where
  "mockTransactions =
     [mock_transaction ''SELL'' ''EasyHotels'' 8460 2317 ''2023-03-20T12:15:00'',
      mock_transaction ''BUY'' ''Charles - Mathieu'' 7 371360 ''2023-03-22T15:03:00'',
      mock_transaction ''BUY'' ''Janssen Groep'' 234 37360 ''2023-03-21T08:04:00'',
      mock_transaction ''SELL'' ''BlueStar Craft'' 56 100023 ''2023-03-22T03:03:00'',
      mock_transaction ''BUY'' ''Charles - Mathieu'' 10 371360 ''2023-03-21T20:03:00'']"

definition TransactionsTable_full_data :: "intl \<Rightarrow> (string \<Rightarrow> jsnum) \<Rightarrow> jsnum \<Rightarrow> (jsnum \<Rightarrow> string) \<Rightarrow> bool" where
  "TransactionsTable_full_data f getTime now toLocale \<longleftrightarrow>
     rendered (TransactionsTable_grid f getTime now toLocale [] [mockTransactions ! 0]) (\<lambda>grid.
       list_all (has_gridcell grid) [''sell'', ''easyhotels'', ''8,460'', ''23.17'', ''fail'', ''3/20/23, 12:15 pm''])"

definition TransactionsTable_all_rows :: "intl \<Rightarrow> (string \<Rightarrow> jsnum) \<Rightarrow> jsnum \<Rightarrow> (jsnum \<Rightarrow> string) \<Rightarrow> bool" where
  "TransactionsTable_all_rows f getTime now toLocale \<longleftrightarrow>
     rendered (TransactionsTable_grid f getTime now toLocale [] mockTransactions) (\<lambda>grid. rows_named grid ''fail'' = 5)"

text \<open>
  The day of the tests: the end of the first transaction is more than a day away and is written in
  the short style of \<open>en-US\<close>, and the others can be written.
\<close>

definition documented_dates :: "intl \<Rightarrow> (string \<Rightarrow> jsnum) \<Rightarrow> jsnum \<Rightarrow> bool" where
  "documented_dates f getTime now \<longleftrightarrow>
     js_le milisecondsInDay (js_abs (js_sub (getTime ''2023-03-20T12:15:00'') now))
     \<and> dateFormatter f (getTime ''2023-03-20T12:15:00'') = Inr ''3/20/23, 12:15 PM''
     \<and> list_all (\<lambda>t. \<exists>s. dateFormatter f (getTime (t_endTime t)) = Inr s) mockTransactions"

subsection \<open>The tests hold\<close>

lemma to_js_close:
  assumes "1 / 100 \<le> x" "x \<le> 10 ^ 9"
  obtains y where "to_js x = Fin y" "x - x / 10 ^ 15 \<le> y" "y \<le> x + x / 10 ^ 15"
proof -
  have "2 powi -1022 \<le> (2::rat) powi -7" by (simp only: power_int_increasing)
  also have "\<dots> \<le> x" using assms(1) by (simp add: power_int_minus)
  finally obtain y where y: "to_js x = Fin y" "x * (1 - 2 powi -53) \<le> y" "y \<le> x * (1 + 2 powi -53)"
    using assms by (elim to_js_rel [of x]) simp_all
  have "x * 2 powi -53 \<le> x / 10 ^ 15"
    using assms(1) by (simp add: power_int_minus)
  with y(2,3) have "x - x / 10 ^ 15 \<le> y" "y \<le> x + x / 10 ^ 15"
    unfolding right_diff_distrib distrib_left by linarith+
  with y(1) show thesis by (rule that)
qed

text \<open>The digits of an amount that is near a whole number of cents, and the cell that shows it.\<close>

definition cents_text :: "nat \<Rightarrow> string" where
  "cents_text c = (let d = nat_str c; k = length d - 2 in CHR ''$'' # grouped (take k d) @ CHR ''.'' # drop k d)"

lemma usd_near:
  assumes "of_nat c - 1/2 < x * 100" "x * 100 < of_nat c + 1/2" "100 \<le> c"
  shows "usd x = cents_text c"
proof -
  have "\<lfloor>x * 100 + 1/2\<rfloor> = int c"
    using assms(1,2) by (intro floor_unique) (simp; linarith)+
  moreover have "3 \<le> length (nat_str c)"
    using assms(3) by (simp add: nat_str.simps [of c] nat_str.simps [of "c div 10"] nat_str.simps [of "c div 10 div 10"] Suc_le_eq)
  ultimately show ?thesis by (simp add: usd_def fixed_digits_def cents_text_def Let_def)
qed

lemma cell_of_price:
  assumes f: "documented_intl f toLocale"
    and x: "of_nat c - 3/10 \<le> x * 100" "x * 100 \<le> of_nat c + 3/10" "101 \<le> c" "x \<le> 10 ^ 9"
  obtains y where "to_js x = Fin y" "x - x / 10 ^ 15 \<le> y" "y \<le> x + x / 10 ^ 15" "formatCurrency f (Fin y) = cents_text c"
proof -
  have c: "(101::rat) \<le> of_nat c" using x(3) by simp
  with x(1) have "1 \<le> x" by linarith
  then obtain y where y: "to_js x = Fin y" "x - x / 10 ^ 15 \<le> y" "y \<le> x + x / 10 ^ 15"
    using x(4) by (elim to_js_close [rotated 2]) simp_all
  have e: "x / 10 ^ 15 \<le> 1 / 10 ^ 6" using x(4) by simp
  obtain h where h: "to_js (1/100) = Fin h" "h \<le> 1/100 + 1/100 / 10 ^ 15"
    by (rule to_js_close [of "1/100"]) simp_all
  have "1/2 \<le> y" using y(2) e \<open>1 \<le> x\<close> by simp
  moreover have "h < 1/2" using h(2) by simp
  moreover have "y \<le> 10 ^ 12" using y(3) e x(4) by simp
  moreover have "of_nat c - 1/2 < y * 100" "y * 100 < of_nat c + 1/2"
    using x(1,2) y(2,3) e by (simp; linarith)+
  ultimately have "formatCurrency f (Fin y) = cents_text c"
    using f usd_near [of c y] x(3) h(1) by (auto simp: formatCurrency_def documented_intl_def)
  with y show thesis by (rule that)
qed

lemma scaled_near:
  "q - q / 10 ^ 15 \<le> w \<Longrightarrow> w \<le> q + q / 10 ^ 15 \<Longrightarrow> q \<le> 10 ^ 8 \<Longrightarrow> (d::rat) - 1/4 \<le> q * 100 \<Longrightarrow> q * 100 \<le> d + 1/4
   \<Longrightarrow> d - 3/10 \<le> w * 100 \<and> w * 100 \<le> d + 3/10 \<and> w \<le> 10 ^ 9"
  by (intro conjI; simp; linarith)

text \<open>The price and the total of a row whose amount is a whole number.\<close>

lemma price_and_total:
  assumes f: "documented_intl f toLocale"
    and x: "of_nat c - 1/4 \<le> x * 100" "x * 100 \<le> of_nat c + 1/4" "101 \<le> c"
    and t: "of_nat d - 1/4 \<le> of_nat n * x * 100" "of_nat n * x * 100 \<le> of_nat d + 1/4" "101 \<le> d"
    and n: "of_nat n * x \<le> 10 ^ 8" "1 \<le> n" "n < 10 ^ 12"
  shows "formatCurrency f (to_js x) = cents_text c" "formatCurrency f (js_mul (js_int (int n)) (to_js x)) = cents_text d"
    "toLocale (js_int (int n)) = grouped (nat_str n)"
proof -
  have n1: "(1::rat) \<le> of_nat n" using n(2) by simp
  have c: "(101::rat) \<le> of_nat c" using x(3) by simp
  then have x0: "0 \<le> x" using x(1) by linarith
  then have "1 * x \<le> of_nat n * x" using n1 by (rule mult_right_mono [rotated])
  then have "x \<le> 10 ^ 9" using n(1) by simp
  then obtain y where y: "to_js x = Fin y" "x - x / 10 ^ 15 \<le> y" "y \<le> x + x / 10 ^ 15"
      "formatCurrency f (Fin y) = cents_text c"
    using x by (elim cell_of_price [OF f, of c x, rotated 4]) simp_all
  have "of_nat n * (x - x / 10 ^ 15) \<le> of_nat n * y" "of_nat n * y \<le> of_nat n * (x + x / 10 ^ 15)"
    using y(2,3) n1 by (simp_all add: mult_left_mono)
  then have p: "of_nat n * x - of_nat n * x / 10 ^ 15 \<le> of_nat n * y" "of_nat n * y \<le> of_nat n * x + of_nat n * x / 10 ^ 15"
    by (simp_all add: algebra_simps)
  have "of_nat d - 3/10 \<le> of_nat n * y * 100 \<and> of_nat n * y * 100 \<le> of_nat d + 3/10 \<and> of_nat n * y \<le> 10 ^ 9"
    by (rule scaled_near [OF p n(1) t(1,2)])
  then obtain z where "to_js (of_nat n * y) = Fin z" "formatCurrency f (Fin z) = cents_text d"
    using t(3) cell_of_price [OF f, of d "of_nat n * y"] by metis
  then show "formatCurrency f (js_mul (js_int (int n)) (to_js x)) = cents_text d" by (simp add: y(1))
  show "formatCurrency f (to_js x) = cents_text c" using y by simp
  show "toLocale (js_int (int n)) = grouped (nat_str n)" using f n(3) by (simp add: documented_intl_def)
qed

lemma digit_texts:
  "digit_char 0 = CHR ''0''" "digit_char 1 = CHR ''1''" "digit_char (Suc 0) = CHR ''1''" "digit_char 2 = CHR ''2''"
  "digit_char 3 = CHR ''3''" "digit_char 4 = CHR ''4''" "digit_char 6 = CHR ''6''" "digit_char 7 = CHR ''7''"
  "digit_char 8 = CHR ''8''" "digit_char 9 = CHR ''9''"
  by (simp_all add: digit_char_def, code_simp+)

lemma cents_texts:
  "cents_text 13773 = ''$137.73''" "cents_text 6803924 = ''$68,039.24''" "grouped (nat_str 494) = ''494''"
  "cents_text 2317 = ''$23.17''" "cents_text 19601820 = ''$196,018.20''" "grouped (nat_str 8460) = ''8,460''"
  by (simp_all add: cents_text_def grouped_def nat_str.simps digit_texts Let_def)

lemma first_instrument:
  assumes "documented_intl f toLocale"
  shows "formatCurrency f (decimal 13773125000 8) = ''$137.73''"
    "formatCurrency f (js_mul (js_int 494) (decimal 13773125000 8)) = ''$68,039.24''" "toLocale (js_int 494) = ''494''"
  using price_and_total [OF assms, of 13773 "of_int 13773125000 / 10 ^ 8" 6803924 494] cents_texts
  by (simp_all add: decimal_def)

lemma first_transaction:
  assumes "documented_intl f toLocale"
  shows "formatCurrency f (decimal 2317 2) = ''$23.17''"
    "formatCurrency f (js_mul (js_int 8460) (decimal 2317 2)) = ''$196,018.20''" "toLocale (js_int 8460) = ''8,460''"
  using price_and_total [OF assms, of 2317 "of_int 2317 / 10 ^ 2" 19601820 8460] cents_texts
  by (simp_all add: decimal_def)

lemma InstrumentsTable_full_data_holds:
  assumes "documented_intl f toLocale"
  shows "InstrumentsTable_full_data f toLocale"
proof -
  have "grid_row (InstrumentsTable_columns (formatCurrency f) toLocale) (mockInstruments ! 0) = Inr (Elem ''row'' []
      (map (\<lambda>s. Elem ''gridcell'' [] [Txt s]) [''ETRAVE'', ''EasyTravel'', ''494'', ''$137.73'', ''$68,039.24'']))"
    using first_instrument [OF assms]
    by (simp add: instrument_row_cells mockInstruments_def mock_price_def total_value_def)
  moreover have "js_lt (Fin 0) (i_amount (mockInstruments ! 0))" by (simp add: mockInstruments_def)
  moreover have "elements ''gridcell'' (header_row (InstrumentsTable_columns f toLocale)) = []" for f
    by (simp add: header_row_def InstrumentsTable_columns_def)
  moreover have "elements ''gridcell'' (CustomToolbar t) = []" for t
    by (simp add: CustomToolbar_def typography_def)
  moreover have "list_all (\<lambda>p. the_only (filter (\<lambda>c. wild p (cell_name c)) (map (\<lambda>s. Elem ''gridcell'' [] [Txt s])
      [''ETRAVE'', ''EasyTravel'', ''494'', ''$137.73'', ''$68,039.24''])) \<noteq> None)
      [''etrave'', ''easytravel'', ''494'', ''137.73'', ''68,039.24'']"
    by code_simp
  ultimately show ?thesis
    by (simp add: InstrumentsTable_full_data_def InstrumentsTable_grid_rows rendered_def has_gridcell_def)
qed

lemma grid_header_cells [simp]:
  "elements ''gridcell'' (header_row columns) = []" "elements ''gridcell'' (CustomToolbar t) = []"
  "elements ''row'' (header_row columns) = [header_row columns]" "elements ''row'' (CustomToolbar t) = []"
proof -
  have "concat (map (elements ''gridcell'') (map (\<lambda>c. Elem ''columnheader'' [] [Txt (gc_header c)]) columns)) = []"
    "concat (map (elements ''row'') (map (\<lambda>c. Elem ''columnheader'' [] [Txt (gc_header c)]) columns)) = []"
    by simp_all
  then show "elements ''gridcell'' (header_row columns) = []" "elements ''row'' (header_row columns) = [header_row columns]"
    by (simp_all add: header_row_def)
qed (simp_all add: CustomToolbar_def typography_def)

text \<open>A row has a name as soon as one of its texts has it.\<close>

lemma wild_prefix_append: "wild_prefix p s \<Longrightarrow> wild_prefix p (s @ t)"
  by (induction p s rule: wild_prefix.induct) auto

lemma wild_append: "wild p s \<Longrightarrow> wild p (s @ t)"
proof (induction s)
  case Nil
  then show ?case by (cases t; cases p) auto
next
  case (Cons c s)
  then show ?case using wild_prefix_append [of p "c # s" t] by auto
qed

lemma wild_prepend: "wild p s \<Longrightarrow> wild p (t @ s)"
  by (induction t) auto

lemma wild_join: "x \<in> set xs \<Longrightarrow> wild p x \<Longrightarrow> wild p (js_join sep xs)"
proof (induction xs rule: induct_list012)
  case (3 a b xs)
  then show ?case using wild_append [of p a] wild_prepend [of p] by auto
qed auto

lemma lower_space: "lower_char CHR '' '' = CHR '' ''"
  by code_simp

lemma concat_map_single: "(\<And>x. x \<in> set xs \<Longrightarrow> f x = [x]) \<Longrightarrow> concat (map f xs) = xs"
  by (induction xs) auto

lemma row_has_name:
  assumes "x \<in> set (texts r)" "wild p (to_lower x)"
  shows "wild p (row_name r)"
proof -
  have "to_lower (js_join '' '' xs) = js_join '' '' (map to_lower xs)" for xs
    by (induction xs rule: induct_list012) (simp_all add: to_lower_def lower_space)
  then show ?thesis unfolding row_name_def using assms by (auto intro!: wild_join)
qed

lemma easy_names:
  "list_all (\<lambda>s. wild ''easy'' (to_lower s)) [''EasyTravel'', ''EasyPlanes'', ''EasyHotels'']"
  "\<not> wild ''easy'' (to_lower (js_join '' '' [''Code'', ''Name'', ''Amount'', ''Current price'', ''Total value'']))"
  by code_simp+

lemma InstrumentsTable_all_rows_holds: "InstrumentsTable_all_rows f toLocale"
proof -
  let ?row = "\<lambda>i. projr (grid_row (InstrumentsTable_columns (formatCurrency f) toLocale) i)"
  let ?header = "header_row (InstrumentsTable_columns (formatCurrency f) toLocale)"
  have owned: "take 100 (filter (\<lambda>i. js_lt (Fin 0) (i_amount i)) mockInstruments) = mockInstruments"
    by (simp add: mockInstruments_def)
  have names: "list_all (\<lambda>i. wild ''easy'' (to_lower (i_name i))) mockInstruments"
    using easy_names by (simp add: mockInstruments_def)
  have "wild ''easy'' (row_name (?row i))" if "i \<in> set mockInstruments" for i
    using names that by (intro row_has_name [of "i_name i"]) (auto simp: instrument_row_cells list_all_iff)
  moreover have "\<not> wild ''easy'' (row_name ?header)"
    using easy_names(2) by (simp add: header_row_def InstrumentsTable_columns_def row_name_def)
  moreover have "concat (map (elements ''row'') (map ?row xs)) = map ?row xs" for xs
    by (intro concat_map_single) (auto simp: instrument_row_cells)
  moreover have "length mockInstruments = 5" by (simp add: mockInstruments_def)
  ultimately show ?thesis
    by (simp add: InstrumentsTable_all_rows_def rendered_def rows_named_def InstrumentsTable_grid_rows owned filter_map o_def
        cong: filter_cong)
qed

text \<open>A date that is more than a day away is written out.\<close>

lemma distant_date:
  "js_le milisecondsInDay (js_abs (js_sub n now)) \<Longrightarrow> formatDate f now n = dateFormatter f n"
  by (cases "js_abs (js_sub n now)")
    (simp_all add: formatDate_def milisecondsInDay_def milisecondsInHour_def Let_def js_lt_def)

lemma date_written: "dateFormatter f n = Inr s \<Longrightarrow> \<exists>s'. formatDate f now n = Inr s'"
  by (simp add: formatDate_def Let_def)

lemma unnamed_transactions: "TransactionsTable [] ts = ts"
  by (simp add: TransactionsTable_def resolve_name_def map_idI)

lemma grid_cell_tags: "(''DataGrid'' = ''gridcell'') = False" "(''row'' = ''gridcell'') = False"
  by simp_all

lemma take_5_one: "take 5 [x] = [x]"
  by simp

lemma first_transaction_found:
  "list_all (\<lambda>p. the_only (filter (\<lambda>c. wild p (cell_name c)) (map (Elem ''gridcell'' [])
      [[Txt ''SELL''], status_renderCell ''FAIL'', [Txt ''EasyHotels''], [Txt ''8,460''], [Txt ''$23.17''], [Txt ''$196,018.20''],
       [Txt ''3/20/23, 12:15 PM'']])) \<noteq> None)
    [''sell'', ''easyhotels'', ''8,460'', ''23.17'', ''fail'', ''3/20/23, 12:15 pm'']"
  by code_simp

lemma TransactionsTable_full_data_holds:
  assumes "documented_intl f toLocale" and "documented_dates f getTime now"
  shows "TransactionsTable_full_data f getTime now toLocale"
proof -
  let ?t = "mockTransactions ! 0"
  have "tc_endTime (transaction_columns f getTime now ?t) = Inr ''3/20/23, 12:15 PM''"
    using assms(2) distant_date [of "getTime ''2023-03-20T12:15:00''" now f]
    by (simp add: transaction_columns_def documented_dates_def mockTransactions_def mock_transaction_def)
  from transaction_row_cells [OF refl this, of toLocale]
  have row: "grid_row (TransactionsTable_columns (formatCurrency f) (formatDate f now) getTime toLocale) ?t = Inr (Elem ''row'' []
      (map (Elem ''gridcell'' [])
        [[Txt ''SELL''], status_renderCell ''FAIL'', [Txt ''EasyHotels''], [Txt ''8,460''], [Txt ''$23.17''], [Txt ''$196,018.20''],
         [Txt ''3/20/23, 12:15 PM'']]))" (is "_ = Inr (Elem _ _ ?cells)")
    using first_transaction [OF assms(1)] by (simp add: transaction_columns_def mockTransactions_def mock_transaction_def)
  have "concat (map (elements ''gridcell'') ?cells) = ?cells"
    by (simp add: status_renderCell_def icon_name_def status_cell_def)
  then have found: "elements ''gridcell'' (Elem ''DataGrid'' [] [CustomToolbar t, header_row cs, Elem ''row'' [] ?cells]) = ?cells" for t cs
    by (simp only: elements.simps grid_header_cells list.map concat.simps append_Nil append_Nil2 grid_cell_tags if_False)
  have "list_all (has_gridcell (Elem ''DataGrid'' [] [CustomToolbar t, header_row cs, Elem ''row'' [] ?cells]))
      [''sell'', ''easyhotels'', ''8,460'', ''23.17'', ''fail'', ''3/20/23, 12:15 pm'']" for t cs
    unfolding has_gridcell_def found by (rule first_transaction_found)
  with row show ?thesis
    by (simp only: TransactionsTable_full_data_def TransactionsTable_grid_def DataGrid_def rendered_def unnamed_transactions
        take_5_one all_rows.simps attempt_simps sum.case)
qed

lemma failed_names:
  "wild ''fail'' (to_lower ''FAIL'')"
  "\<not> wild ''fail'' (to_lower (js_join '' '' [''Buy/Sell'', ''Status'', ''Instrument'', ''Amount'', ''Price'', ''Total'', ''End time'']))"
  by code_simp+

lemma TransactionsTable_all_rows_holds:
  assumes "documented_dates f getTime now"
  shows "TransactionsTable_all_rows f getTime now toLocale"
proof -
  let ?columns = "TransactionsTable_columns (formatCurrency f) (formatDate f now) getTime toLocale"
  let ?row = "\<lambda>t. projr (grid_row ?columns t)"
  have row: "grid_row ?columns t = Inr (?row t) \<and> elements ''row'' (?row t) = [?row t] \<and> ''FAIL'' \<in> set (texts (?row t))"
    if "t \<in> set mockTransactions" for t
  proof -
    have "t_status t = ''FAIL''" using that by (auto simp: mockTransactions_def mock_transaction_def)
    moreover have "\<forall>t\<in>set mockTransactions. \<exists>s. dateFormatter f (getTime (t_endTime t)) = Inr s"
      using assms unfolding documented_dates_def list_all_iff by (elim conjE)
    from bspec [OF this that] obtain s0 where "dateFormatter f (getTime (t_endTime t)) = Inr s0" ..
    then obtain s where "formatDate f now (getTime (t_endTime t)) = Inr s" using date_written by blast
    then have "tc_endTime (transaction_columns f getTime now t) = Inr s" by (simp add: transaction_columns_def)
    moreover note transaction_row_cells [OF refl this, of toLocale]
    ultimately show ?thesis by (simp add: status_renderCell_def status_cell_def icon_name_def)
  qed
  have "wild ''fail'' (row_name (?row t))" if "t \<in> set mockTransactions" for t
    using row [OF that] failed_names(1) by (intro row_has_name) auto
  moreover have "\<not> wild ''fail'' (row_name (header_row ?columns))"
    using failed_names(2) by (simp add: header_row_def TransactionsTable_columns_def row_name_def)
  moreover have "concat (map (elements ''row'') (map ?row mockTransactions)) = map ?row mockTransactions"
    using row by (intro concat_map_single) auto
  moreover have "all_rows (grid_row ?columns) mockTransactions = Inr (map ?row mockTransactions)"
    using row by (intro all_rows_map) blast
  moreover have "length mockTransactions = 5" "take 5 mockTransactions = mockTransactions" by (simp_all add: mockTransactions_def)
  ultimately show ?thesis
    by (simp add: TransactionsTable_all_rows_def TransactionsTable_grid_def DataGrid_def rendered_def rows_named_def unnamed_transactions
        filter_map o_def cong: filter_cong)
qed

subsection \<open>The whole suite\<close>


definition test_checks :: text_checks where
  "test_checks = \<lparr>is_email = (\<lambda>s. s = ''email@test.com''), isCreditCard = (\<lambda>s. s = ''2293562484488276'')\<rparr>"

definition us_intl :: intl where
  "us_intl =
     \<lparr>currencyFormatter = (\<lambda>n. case n of Fin x \<Rightarrow> usd x | _ \<Rightarrow> []), smallCurrencyFormatter = num_str, percentFormatter = num_str,
      timeFormatter = (\<lambda>_. Inr ''12:15 PM''), dateFormatter = (\<lambda>_. Inr ''3/20/23, 12:15 PM''),
      relativeDateFormatter = (\<lambda>n u. num_str n @ u)\<rparr>"

definition us_number :: "jsnum \<Rightarrow> string" where
  "us_number n = (case n of Fin x \<Rightarrow> grouped (nat_str (nat \<lfloor>x\<rfloor>)) | _ \<Rightarrow> [])"

lemma before: "js_sub (Fin 0) (Fin 1000000000000) = Fin (- 1000000000000)"
  using to_js_of_int [of "- 1000000000000"] by (simp add: js_sub_def)

lemma us_documented: "documented_intl us_intl us_number" "documented_dates us_intl (\<lambda>_. Fin 0) (js_int (10 ^ 12))"
  by (simp_all add: documented_intl_def documented_dates_def us_intl_def us_number_def milisecondsInDay_def
      before list_all_iff)


end
