(* ===== verification/Flag_Command.thy ===== *)
theory Flag_Command
  imports Frontend_Pages
begin

section \<open>Frontend: the command of a flag, read by a shell\<close>

text \<open>
  Every flag shows a \<open>curl\<close> command, which a button copies. This theory reads such a command the way a
  POSIX shell splits it into words, and shows that it says what the other button of the flag does.
\<close>

subsection \<open>Splitting a command into words\<close>

text \<open>
  The characters that mean nothing to the shell outside quotes, and those that keep no meaning between
  double quotes. Expansions and operators are refused, so that a result is never one that depends on them.
\<close>

definition bare_char :: "char \<Rightarrow> bool" where
  "bare_char c \<longleftrightarrow> is_digit c \<or> c \<in> set ''abcdefghijklmnopqrstuvwxyzABCDEFGHIJKLMNOPQRSTUVWXYZ-_./:,+@%''"

definition inert :: "char \<Rightarrow> char \<Rightarrow> bool" where
  "inert q c \<longleftrightarrow> c \<noteq> q \<and> (q = CHR 0x22 \<longrightarrow> c \<notin> {CHR 0x24, CHR 0x60, CHR 0x5C, CHR 0x21})"

definition finish_word :: "string option \<Rightarrow> string list" where
  "finish_word word = (case word of None \<Rightarrow> [] | Some w \<Rightarrow> [w])"

text \<open>The quote that is open, the word that has begun, and the rest of the line.\<close>

fun shell_read :: "char option \<Rightarrow> string option \<Rightarrow> string \<Rightarrow> string list option" where
  "shell_read None word [] = Some (finish_word word)"
| "shell_read (Some q) word [] = None"
| "shell_read None word (c # s) =
     (if c = CHR 0x20 then map_option ((@) (finish_word word)) (shell_read None None s)
      else if c \<in> {CHR 0x22, CHR 0x27} then shell_read (Some c) (Some (nullish word [])) s
      else if bare_char c then shell_read None (Some (nullish word [] @ [c])) s
      else None)"
| "shell_read (Some q) word (c # s) =
     (if c = q then shell_read None word s
      else if inert q c then shell_read (Some q) (Some (nullish word [] @ [c])) s
      else None)"

definition shell_words :: "string \<Rightarrow> string list option" where
  "shell_words s = shell_read None None s"

lemma shell_read_quoted:
  "list_all (inert q) t \<Longrightarrow> shell_read (Some q) (Some w) (t @ q # s) = shell_read None (Some (w @ t)) s"
  by (induction t arbitrary: w) (auto simp: inert_def)

lemma shell_read_bare:
  "list_all bare_char t \<Longrightarrow> shell_read None (Some w) (t @ CHR 0x20 # s) = map_option ((#) (w @ t)) (shell_read None None s)"
proof (induction t arbitrary: w)
  case Nil
  then show ?case by (cases "shell_read None None s") (simp_all add: finish_word_def)
next
  case (Cons c t)
  then have "c \<noteq> CHR 0x20" "c \<noteq> CHR 0x22" "c \<noteq> CHR 0x27"
    by (auto simp: bare_char_def is_digit_def)
  with Cons show ?case by simp
qed

text \<open>A word in quotes, and one without, each before a space.\<close>

lemma shell_word_quoted:
  assumes "q \<in> {CHR 0x22, CHR 0x27}" and "list_all (inert q) t"
  shows "shell_read None None (q # t @ q # CHR 0x20 # s) = map_option ((#) t) (shell_read None None s)"
    "shell_read None None (q # t @ [q]) = Some [t]"
  using assms shell_read_quoted [of q t "[]" "CHR 0x20 # s"] shell_read_quoted [of q t "[]" "[]"]
  by (auto simp: finish_word_def fun_eq_iff intro!: option.map_cong)

lemma shell_word_bare:
  "t \<noteq> [] \<Longrightarrow> list_all bare_char t \<Longrightarrow>
   shell_read None None (t @ CHR 0x20 # s) = map_option ((#) t) (shell_read None None s)"
  using shell_read_bare [of "tl t" "[hd t]" s] by (cases t) (auto simp: bare_char_def is_digit_def)

subsection \<open>The command\<close>

lemma curl_body_parsed:
  "JSON_parse (''{'' @ [CHR 0x22] @ ''enabled'' @ [CHR 0x22] @ '': '' @ (if b then ''true'' else ''false'') @ ''}'')
     = Inr (JObj [(''enabled'', JBool b)])"
  by (cases b) (simp_all, code_simp+)

text \<open>The shape of the line: three bare words, and three options of which one is bare.\<close>

lemma shell_line:
  assumes "list_all (\<lambda>t. t \<noteq> [] \<and> list_all bare_char t) [a, b, c, d, e]"
    and "list_all (list_all (inert CHR 0x22)) [x, y]" and "list_all (inert CHR 0x27) z"
  shows "shell_words (a @ CHR 0x20 # b @ CHR 0x20 # c @ CHR 0x20 # CHR 0x22 # x @ CHR 0x22 # CHR 0x20 #
      d @ CHR 0x20 # CHR 0x22 # y @ CHR 0x22 # CHR 0x20 # e @ CHR 0x20 # CHR 0x27 # z @ [CHR 0x27])
    = Some [a, b, c, x, d, y, e, z]"
  using assms by (simp add: shell_words_def shell_word_bare shell_word_quoted del: shell_read.simps)

lemma curl_words:
  assumes "list_all (inert CHR 0x22) (w_origin w)" and "list_all (inert CHR 0x22) i"
  shows "shell_words (getFeatureFlagCurl w i b) = Some
     [''curl'', ''-X'', ''PUT'', getFeatureFlagServiceUrl w @ ''/flags/'' @ i, ''-H'', ''Content-Type: application/json'', ''-d'',
      ''{'' @ [CHR 0x22] @ ''enabled'' @ [CHR 0x22] @ '': '' @ (if b then ''true'' else ''false'') @ ''}'']"
proof -
  have words: "list_all (\<lambda>t. t \<noteq> [] \<and> list_all bare_char t) [''curl'', ''-X'', ''PUT'', ''-H'', ''-d'']"
    by (simp add: bare_char_def)
  have double: "list_all (list_all (inert CHR 0x22))
      [w_origin w @ ''/feature-flag-service/v1/flags/'' @ i, ''Content-Type: application/json'']"
    using assms by (simp add: inert_def)
  have single: "list_all (inert CHR 0x27)
      (''{'' @ [CHR 0x22] @ ''enabled'' @ [CHR 0x22] @ '': '' @ (if b then ''true'' else ''false'') @ ''}'')"
    by (simp add: inert_def)
  show ?thesis
    using shell_line [OF words double single] by (simp add: getFeatureFlagCurl_def getFeatureFlagServiceUrl_def)
qed

lemma mutate_log: "snd (mutate m d s l) = snd (mutationFn m d l)"
  by (simp add: mutate_def Let_def split: prod.split sum.split)

lemma throw_error_log: "snd (throw_error v l) = l"
  by (cases "js_prop v ''error''") (simp_all add: throw_error_def act_simps)

lemma toggle_sends:
  "\<not> modifyDisabled flag management \<Longrightarrow>
   snd (FeatureFlagItem_toggle show_exn w qc management flag s l) = l @ [Request (flag_put w (ff_id flag) (\<not> ff_enabled flag))]"
  by (simp add: FeatureFlagItem_toggle_def mutate_log FeatureFlagItem_mutation_def Let_def act_simps handleFlagToggle_run
      throw_error_log)

text \<open>
  C24: the command that a flag shows and copies does what its button does. As long as neither the
  origin of the page nor the id of the flag has a character that means something between double
  quotes, a shell reads it as a call of curl with the method, the address and the content type of the
  request that the button sends, and with a text that is parsed to the body of that request.
\<close>

theorem curl_says_request:
  assumes "list_all (inert CHR 0x22) (w_origin w)" and "list_all (inert CHR 0x22) (ff_id flag)"
    and "\<not> modifyDisabled flag management"
  shows "\<exists>req body v. snd (FeatureFlagItem_toggle show_exn w qc management flag s l) = l @ [Request req]
      \<and> shell_words (fst (copy_curl w flag list)) =
          Some [''curl'', ''-X'', rq_method req, rq_url req, ''-H'', ''Content-Type: application/json'', ''-d'', body]
      \<and> (''Content-Type'', ''application/json'') \<in> set (rq_headers req)
      \<and> JSON_parse body = Inr v \<and> rq_body req = BodyJson v"
proof -
  let ?req = "flag_put w (ff_id flag) (\<not> ff_enabled flag)"
  have "snd (FeatureFlagItem_toggle show_exn w qc management flag s l) = l @ [Request ?req]"
    using assms(3) by (rule toggle_sends)
  moreover note curl_words [OF assms(1,2), of "\<not> ff_enabled flag"] curl_body_parsed [of "\<not> ff_enabled flag"]
  moreover have "(''Content-Type'', ''application/json'') \<in> set (rq_headers ?req)" by simp
  ultimately show ?thesis
    unfolding copy_curl_def fst_conv by (intro exI [of _ ?req] exI conjI) (assumption | simp only: http_request.simps)+
qed

text \<open>The flag of the problem pattern that slows the aggregators, seen on a local installation.\<close>

definition slowdown_flag :: feature_flag_data where
  "slowdown_flag = \<lparr>ff_id = ''ergo_aggregator_slowdown'', ff_name = ''Ergo aggregator slowdown'', ff_description = None,
     ff_enabled = False, ff_isModifiable = True\<rparr>"

definition local_window :: window where
  "local_window = \<lparr>w_origin = ''http://localhost:3000'', w_dynatrace = None, w_dtrum = None, w_net = \<lambda>_ _. Inl TypeError,
     w_xmlParse = \<lambda>_. Inl TypeError, w_xmlBuild = \<lambda>_. []\<rparr>"

theorem curl_says_request_witness:
  "\<exists>body v. shell_words (fst (copy_curl local_window slowdown_flag flag_list_init)) =
      Some [''curl'', ''-X'', ''PUT'', ''http://localhost:3000/feature-flag-service/v1/flags/ergo_aggregator_slowdown'',
        ''-H'', ''Content-Type: application/json'', ''-d'', body] \<and> JSON_parse body = Inr v"
proof -
  have "list_all (inert CHR 0x22) (w_origin local_window)" "list_all (inert CHR 0x22) (ff_id slowdown_flag)"
    "\<not> modifyDisabled slowdown_flag (Some True)"
    by (simp_all add: local_window_def slowdown_flag_def inert_def modifyDisabled_def)
  then obtain req body v where
    sent: "snd (FeatureFlagItem_toggle show_exn local_window qc (Some True) slowdown_flag s []) = [] @ [Request req]"
    and words: "shell_words (fst (copy_curl local_window slowdown_flag flag_list_init)) =
          Some [''curl'', ''-X'', rq_method req, rq_url req, ''-H'', ''Content-Type: application/json'', ''-d'', body]"
    and body: "JSON_parse body = Inr v"
    using curl_says_request [where l = "[]" and list = flag_list_init] by blast
  have "\<not> modifyDisabled slowdown_flag (Some True)"
    by (simp add: slowdown_flag_def modifyDisabled_def)
  from toggle_sends [OF this, of show_exn local_window qc s "[]"] sent have "req = flag_put local_window (ff_id slowdown_flag) True"
    by (simp add: slowdown_flag_def)
  with words body show ?thesis
    by (auto simp: getFeatureFlagServiceUrl_def local_window_def slowdown_flag_def)
qed

end
