(* ===== verification/Validation_Workflow.thy ===== *)
theory Validation_Workflow
  imports Js_Dynamic Js_JsonText
begin

section \<open>Validation workflows\<close>

text \<open>
  The scripts of \<open>monaco/easytrade-validation/workflows/\<close>: one triggers a validation, one
  collects the results of its tasks into a business event, one prepares the notification. The
  platform's clients are a parameter; the log is the calls to them.
\<close>

subsection \<open>The platform\<close>

record task_result =
  tr_name :: jsval
  tr_result :: jsval
  tr_validationUrl :: jsval

record event_data =
  ed_jobId :: jsval
  ed_jobProvider :: jsval
  ed_application :: jsval
  ed_timeframe :: jsval
  ed_context :: jsval

record result_bizevent =
  rb_type :: string
  rb_provider :: jsval
  rb_jobId :: jsval
  rb_application :: jsval
  rb_timeframeMinutes :: jsval
  rb_result :: jsval
  rb_details :: "task_result list"
  rb_context :: jsval

datatype wf_event =
    GetExecution string
  | GetTaskResult string string
  | IngestResult result_bizevent
  | IngestTrigger json

record platform =
  pf_getExecution :: "string \<Rightarrow> js_exn + jsval"
  pf_getTaskExecutionResult :: "string \<Rightarrow> string \<Rightarrow> js_exn + jsval"
  pf_ingest :: "wf_event \<Rightarrow> js_exn + unit"

definition platform_call :: "wf_event \<Rightarrow> js_exn + 'a \<Rightarrow> (wf_event, 'a) act" where
  "platform_call ev r = act_then (act_emit ev) (act_of r)"

subsection \<open>Members of an object\<close>

text \<open>
  \<open>k in o\<close> and \<open>o[k]\<close> also find what an object inherits: the members of \<open>Object.prototype\<close>. They
  are functions, or for \<open>__proto__\<close> an object; each is given by its text, which comparing converts it to.
\<close>

datatype 'a member = Own 'a | Inherited string

definition object_prototype :: "(string \<times> string) list" where
  "object_prototype =
     map (\<lambda>n. (n, ''function '' @ n @ ''() { [native code] }''))
       [''toString'', ''toLocaleString'', ''valueOf'', ''hasOwnProperty'', ''isPrototypeOf'',
        ''propertyIsEnumerable'', ''__defineGetter__'', ''__defineSetter__'', ''__lookupGetter__'',
        ''__lookupSetter__'']
     @ [(''constructor'', ''function Object() { [native code] }''), (''__proto__'', ''[object Object]'')]"

definition js_member :: "(string \<times> 'a) list \<Rightarrow> string \<Rightarrow> 'a member option" where
  "js_member kvs k =
     (case map_of kvs k of Some v \<Rightarrow> Some (Own v) | None \<Rightarrow> map_option Inherited (map_of object_prototype k))"

text \<open>The key a value is converted to.\<close>

definition prop_key :: "jsval \<Rightarrow> string" where
  "prop_key v = (case v of None \<Rightarrow> ''undefined'' | Some j \<Rightarrow> js_String j)"

fun str_lt :: "string \<Rightarrow> string \<Rightarrow> bool" where
  "str_lt [] t \<longleftrightarrow> t \<noteq> []"
| "str_lt (c # s) [] \<longleftrightarrow> False"
| "str_lt (c # s) (d # t) \<longleftrightarrow> (of_char c :: nat) < of_char d \<or> c = d \<and> str_lt s t"

text \<open>
  \<open>a < b\<close> on members that are numbers: two texts are compared as texts; a text of the list above is not
  a number, and neither is \<open>undefined\<close>.
\<close>

fun member_lt :: "nat member option \<Rightarrow> nat member option \<Rightarrow> bool" where
  "member_lt (Some (Own a)) (Some (Own b)) \<longleftrightarrow> a < b"
| "member_lt (Some (Inherited s)) (Some (Inherited t)) \<longleftrightarrow> str_lt s t"
| "member_lt _ _ \<longleftrightarrow> False"

subsection \<open>run-validation\<close>

definition validationTasks :: "string list" where
  "validationTasks = [''bizevents_validation'', ''loadgen_visits_validation'', ''bizevents_frontend_validation'']"

definition resultMapping :: "(string \<times> nat) list" where
  "resultMapping = [(''error'', 0), (''fail'', 1), (''warning'', 2), (''pass'', 3)]"

definition resultMapper :: "jsval \<Rightarrow> jsval" where
  "resultMapper result =
     (if js_member resultMapping (prop_key result) \<noteq> None then result else Some (JStr ''error''))"

definition worse :: "jsval \<Rightarrow> jsval \<Rightarrow> jsval" where
  "worse acc cur =
     (if member_lt (js_member resultMapping (prop_key acc)) (js_member resultMapping (prop_key cur))
      then acc else cur)"

definition getFinalResult :: "jsval list \<Rightarrow> jsval" where
  "getFinalResult results = foldl worse (Some (JStr ''pass'')) (map resultMapper results)"

definition getBizeventBody :: "event_data \<Rightarrow> task_result list \<Rightarrow> result_bizevent" where
  "getBizeventBody eventData taskResults =
     \<lparr>rb_type = ''demoability.validation.result'', rb_provider = ed_jobProvider eventData,
      rb_jobId = ed_jobId eventData, rb_application = ed_application eventData,
      rb_timeframeMinutes = ed_timeframe eventData, rb_result = getFinalResult (map tr_result taskResults),
      rb_details = map (\<lambda>t. t\<lparr>tr_result := resultMapper (tr_result t)\<rparr>) taskResults,
      rb_context = ed_context eventData\<rparr>"

text \<open>\<open>execution.params?.event\<close>\<close>

definition execution_event :: "jsval \<Rightarrow> js_exn + jsval" where
  "execution_event execution =
     attempt (js_prop execution ''params'') (\<lambda>params.
       if params = None \<or> params = Some JNull then Inr None else js_prop params ''event'')"

definition read_event_data :: "jsval \<Rightarrow> js_exn + event_data" where
  "read_event_data event =
     attempt (js_prop event ''tags.job.id'') (\<lambda>j.
     attempt (js_prop event ''event.provider'') (\<lambda>p.
     attempt (js_prop event ''tags.application'') (\<lambda>a.
     attempt (js_prop event ''srg.variable.timeframe'') (\<lambda>t.
     attempt (js_prop event ''context'') (\<lambda>c.
       Inr \<lparr>ed_jobId = j, ed_jobProvider = p, ed_application = a, ed_timeframe = t, ed_context = c\<rparr>)))))"

definition getExecutionContext :: "platform \<Rightarrow> string \<Rightarrow> (wf_event, event_data) act" where
  "getExecutionContext pf executionId =
     act_bind (platform_call (GetExecution executionId) (pf_getExecution pf executionId)) (\<lambda>execution.
       act_of (attempt (execution_event execution) read_event_data))"

definition read_task_result :: "jsval \<Rightarrow> js_exn + task_result" where
  "read_task_result result =
     attempt (js_prop result ''guardian_name'') (\<lambda>n.
     attempt (js_prop result ''validation_status'') (\<lambda>s.
     attempt (js_prop result ''validation_url'') (\<lambda>u.
       Inr \<lparr>tr_name = n, tr_result = s, tr_validationUrl = u\<rparr>)))"

definition getTaskExecutionResult :: "platform \<Rightarrow> string \<Rightarrow> string \<Rightarrow> (wf_event, task_result) act" where
  "getTaskExecutionResult pf executionId taskName =
     act_bind (platform_call (GetTaskResult executionId taskName) (pf_getTaskExecutionResult pf executionId taskName))
       (\<lambda>result. act_of (read_task_result result))"

text \<open>
  \<open>Promise.all\<close>: every call is made, also when one fails; the first failure in the order of the
  tasks stands for the first in time.
\<close>

fun promise_all :: "('a \<Rightarrow> ('ev, 'b) act) \<Rightarrow> 'a list \<Rightarrow> ('ev, 'b list) act" where
  "promise_all f [] l = (Inr [], l)"
| "promise_all f (x # xs) l =
     (let (r, l1) = f x l; (rs, l2) = promise_all f xs l1
      in (attempt r (\<lambda>y. attempt rs (\<lambda>ys. Inr (y # ys))), l2))"

definition ingestBizevent :: "platform \<Rightarrow> result_bizevent \<Rightarrow> (wf_event, unit) act" where
  "ingestBizevent pf body = platform_call (IngestResult body) (pf_ingest pf (IngestResult body))"

definition run_validation :: "platform \<Rightarrow> string \<Rightarrow> (wf_event, unit) act" where
  "run_validation pf execution_id =
     act_bind (getExecutionContext pf execution_id) (\<lambda>ctx.
     act_bind (promise_all (getTaskExecutionResult pf execution_id) validationTasks) (\<lambda>taskResults.
       ingestBizevent pf (getBizeventBody ctx taskResults)))"

subsection \<open>send-test-notification\<close>

definition resultIcons :: "(string \<times> string) list" where
  "resultIcons = [(''error'', ''failed''), (''fail'', ''failed''), (''warning'', ''warning''), (''pass'', ''passed'')]"

record notification_data =
  nd_result :: jsval
  nd_details :: json
  nd_context :: jsval

record result_detail =
  rd_rest :: "(string \<times> jsval) list"
  rd_result :: jsval
  rd_resultIcon :: "string member option"

record notification =
  nt_tenantUrl :: string
  nt_tenantId :: string
  nt_result :: jsval
  nt_resultIcon :: "string member option"
  nt_sendFailNotification :: json
  nt_details :: "result_detail list"

text \<open>\<open>JSON.parse(v)\<close> converts its argument to a string.\<close>

definition js_JSON_parse :: "jsval \<Rightarrow> js_exn + json" where
  "js_JSON_parse v = JSON_parse (prop_key v)"

definition getEventData :: "platform \<Rightarrow> string \<Rightarrow> (wf_event, notification_data) act" where
  "getEventData pf executionId =
     act_bind (platform_call (GetExecution executionId) (pf_getExecution pf executionId)) (\<lambda>execution.
       act_of
         (attempt (execution_event execution) (\<lambda>event.
          let ctx = (case attempt (js_prop event ''context'') js_JSON_parse of Inl _ \<Rightarrow> None | Inr c \<Rightarrow> Some c) in
          attempt (js_prop event ''result'') (\<lambda>result.
          attempt (attempt (js_prop event ''details'') js_JSON_parse) (\<lambda>details.
            Inr \<lparr>nd_result = result, nd_details = details, nd_context = ctx\<rparr>)))))"

text \<open>\<open>{ result, ...rest }\<close>: texts and arrays have their indices as keys.\<close>

definition indexed :: "'a list \<Rightarrow> (string \<times> 'a) list" where
  "indexed xs = map (\<lambda>(i, x). (nat_str i, x)) (List.enumerate 0 xs)"

definition rest_entries :: "json \<Rightarrow> (string \<times> jsval) list" where
  "rest_entries d =
     (case d of
        JStr t \<Rightarrow> map (\<lambda>(k, c). (k, Some (JStr [c]))) (indexed t)
      | JArr xs \<Rightarrow> map (\<lambda>(k, x). (k, Some x)) (indexed xs)
      | _ \<Rightarrow> js_rest (Some d) [''result''])"

definition notify_detail :: "json \<Rightarrow> js_exn + result_detail" where
  "notify_detail d =
     attempt (js_prop (Some d) ''result'') (\<lambda>result.
       Inr \<lparr>rd_rest = rest_entries d, rd_result = result, rd_resultIcon = js_member resultIcons (prop_key result)\<rparr>)"

fun notify_details :: "json list \<Rightarrow> js_exn + result_detail list" where
  "notify_details [] = Inr []"
| "notify_details (d # ds) =
     attempt (notify_detail d) (\<lambda>r. attempt (notify_details ds) (\<lambda>rs. Inr (r # rs)))"

text \<open>\<open>context?.enableChannelNotification ?? false\<close>\<close>

definition channel_enabled :: "jsval \<Rightarrow> js_exn + json" where
  "channel_enabled ctx =
     attempt (if ctx = None \<or> ctx = Some JNull then Inr None else js_prop ctx ''enableChannelNotification'') (\<lambda>v.
       Inr (case v of None \<Rightarrow> JBool False | Some JNull \<Rightarrow> JBool False | Some x \<Rightarrow> x))"

definition sendFailNotification :: "notification_data \<Rightarrow> js_exn + json" where
  "sendFailNotification eventData =
     (if nd_result eventData \<noteq> Some (JStr ''pass'') then channel_enabled (nd_context eventData)
      else Inr (JBool False))"

definition build_notification :: "string \<Rightarrow> string \<Rightarrow> notification_data \<Rightarrow> js_exn + notification" where
  "build_notification tenantId environmentUrl eventData =
     attempt (sendFailNotification eventData) (\<lambda>send.
     attempt (case nd_details eventData of JArr ds \<Rightarrow> notify_details ds | _ \<Rightarrow> Inl TypeError) (\<lambda>details.
       Inr \<lparr>nt_tenantUrl = environmentUrl, nt_tenantId = tenantId, nt_result = nd_result eventData,
            nt_resultIcon = js_member resultIcons (prop_key (nd_result eventData)),
            nt_sendFailNotification = send, nt_details = details\<rparr>))"

definition send_test_notification ::
  "platform \<Rightarrow> string \<Rightarrow> string \<Rightarrow> string \<Rightarrow> (wf_event, notification) act" where
  "send_test_notification pf tenantId environmentUrl execution_id =
     act_bind (getEventData pf execution_id) (\<lambda>eventData.
       act_of (build_notification tenantId environmentUrl eventData))"

subsection \<open>trigger-validation\<close>

text \<open>\<open>crypto.randomUUID\<close> is a parameter; the promise of \<open>ingest\<close> is not awaited, so its failure is not seen.\<close>

definition trigger_body :: "string \<Rightarrow> json" where
  "trigger_body jobId =
     JObj [(''timeframe.from'', JStr ''now-1h''), (''timeframe.to'', JStr ''now''),
           (''srg.variable.timeframe'', JNum (Fin 60)), (''tags.job.id'', JStr jobId),
           (''tags.application'', JStr ''easytrade-k8s''), (''event.provider'', JStr ''workflows.cron''),
           (''event.type'', JStr ''demoability.validation.trigger''),
           (''context'', JObj [(''enableChannelNotification'', JBool True), (''enableMetricIngestion'', JBool True)])]"

definition trigger_validation :: "string \<Rightarrow> (wf_event, unit) act" where
  "trigger_validation randomUUID = act_emit (IngestTrigger (trigger_body randomUUID))"

subsection \<open>Properties\<close>

text \<open>How bad a result is: what is not a known result counts as an error.\<close>

definition result_rank :: "jsval \<Rightarrow> nat" where
  "result_rank r = (case map_of resultMapping (prop_key r) of Some n \<Rightarrow> n | None \<Rightarrow> 0)"

abbreviation inherited_name :: "jsval \<Rightarrow> bool" where
  "inherited_name r \<equiv> map_of object_prototype (prop_key r) \<noteq> None"

lemma prop_key_str [simp]: "prop_key (Some (JStr t)) = t"
  by (simp add: prop_key_def)

lemma resultMapper_own:
  "\<not> inherited_name r \<Longrightarrow> map_of resultMapping (prop_key (resultMapper r)) = Some (result_rank r)"
  by (auto simp: resultMapper_def js_member_def result_rank_def resultMapping_def split: option.splits)

lemma worse_own:
  assumes "map_of resultMapping (prop_key a) = Some m" "map_of resultMapping (prop_key b) = Some n"
  shows "map_of resultMapping (prop_key (worse a b)) = Some (min m n)"
  using assms by (simp add: worse_def js_member_def min_def)

lemma foldl_worse:
  assumes "map_of resultMapping (prop_key a) = Some m" "\<And>r. r \<in> set rs \<Longrightarrow> \<not> inherited_name r"
  shows "map_of resultMapping (prop_key (foldl worse a (map resultMapper rs)))
    = Some (Min (insert m (result_rank ` set rs)))"
  using assms
proof (induction rs arbitrary: a m)
  case (Cons r rs)
  have "map_of resultMapping (prop_key (worse a (resultMapper r))) = Some (min m (result_rank r))"
    using Cons.prems resultMapper_own [of r] by (intro worse_own) auto
  from Cons.IH [OF this] Cons.prems(2) show ?case
    by (cases "rs = []") (simp_all add: min.assoc min.left_commute insert_commute)
qed simp

text \<open>
  C15: unless a task reports the name of a member that every object inherits, the final result
  is a known one and the worst of all: an error or an unknown result beats a failure, that a
  warning, and the validation passes exactly when every task did.
\<close>

theorem validation_worst_result:
  assumes "\<And>r. r \<in> set results \<Longrightarrow> map_of object_prototype (prop_key r) = None"
  shows "map_of resultMapping (prop_key (getFinalResult results)) = Some (Min (insert 3 (result_rank ` set results)))
     \<and> (prop_key (getFinalResult results) = ''pass'' \<longleftrightarrow> (\<forall>r\<in>set results. prop_key r = ''pass''))"
proof -
  have worst: "map_of resultMapping (prop_key (getFinalResult results))
      = Some (Min (insert 3 (result_rank ` set results)))"
    unfolding getFinalResult_def using assms by (intro foldl_worse) (auto simp: resultMapping_def)
  have pass_iff: "map_of resultMapping k = Some 3 \<longleftrightarrow> k = ''pass''" for k
    by (auto simp: resultMapping_def split: if_splits)
  have rank3: "3 \<le> result_rank r \<longleftrightarrow> prop_key r = ''pass''" for r
    by (auto simp: result_rank_def resultMapping_def)
  have "prop_key (getFinalResult results) = ''pass'' \<longleftrightarrow> 3 \<le> Min (insert 3 (result_rank ` set results))"
  proof -
    have "Min (insert 3 (result_rank ` set results)) \<le> 3" by simp
    with worst show ?thesis
      by (simp only: pass_iff [symmetric] option.inject) linarith
  qed
  also have "\<dots> \<longleftrightarrow> (\<forall>r\<in>set results. prop_key r = ''pass'')"
    by (simp add: rank3)
  finally show ?thesis using worst by blast
qed

theorem validation_worst_result_witness:
  "(let results = [Some (JStr ''warning''), Some (JStr ''fail''), Some (JStr ''pass'')] in
    map_of resultMapping (prop_key (getFinalResult results)) = Some (Min (insert 3 (result_rank ` set results)))
     \<and> (prop_key (getFinalResult results) = ''pass'' \<longleftrightarrow> (\<forall>r\<in>set results. prop_key r = ''pass'')))"
  unfolding Let_def by (rule validation_worst_result) (auto simp: object_prototype_def)

text \<open>A result named like an inherited member is taken as known, and wipes out the failures before it.\<close>

lemma inherited_result_passes:
  "getFinalResult [Some (JStr ''fail''), Some (JStr ''toString''), Some (JStr ''pass'')] = Some (JStr ''pass'')"
  by (simp add: getFinalResult_def resultMapper_def worse_def js_member_def resultMapping_def object_prototype_def)

lemma getTaskExecutionResult_run:
  "getTaskExecutionResult pf i t l =
     (attempt (pf_getTaskExecutionResult pf i t) read_task_result, l @ [GetTaskResult i t])"
  by (simp add: getTaskExecutionResult_def platform_call_def act_simps attempt_def split: sum.splits)

fun all_inr :: "(js_exn + 'a) list \<Rightarrow> js_exn + 'a list" where
  "all_inr [] = Inr []"
| "all_inr (r # rs) = attempt r (\<lambda>y. attempt (all_inr rs) (\<lambda>ys. Inr (y # ys)))"

lemma promise_all_run:
  "(\<And>x l. f x l = (g x, l @ [ev x])) \<Longrightarrow> promise_all f xs l = (all_inr (map g xs), l @ map ev xs)"
  by (induction xs arbitrary: l) (simp_all add: Let_def)

text \<open>
  C40: a run reads its execution and asks for every task once, in order. Only when all of
  them could be read does it send the result, once and last: the tasks in their order, each result a known
  one or ``error'', and the final result over them.
\<close>

theorem validation_reported_once:
  "(case (attempt (pf_getExecution pf i) (\<lambda>x. attempt (execution_event x) read_event_data),
          all_inr (map (\<lambda>t. attempt (pf_getTaskExecutionResult pf i t) read_task_result) validationTasks)) of
      (Inr ctx, Inr ts) \<Rightarrow>
        run_validation pf i l = (pf_ingest pf (IngestResult (getBizeventBody ctx ts)),
          l @ GetExecution i # map (GetTaskResult i) validationTasks @ [IngestResult (getBizeventBody ctx ts)])
    | (Inr ctx, Inl e) \<Rightarrow> run_validation pf i l = (Inl e, l @ GetExecution i # map (GetTaskResult i) validationTasks)
    | (Inl e, _) \<Rightarrow> run_validation pf i l = (Inl e, l @ [GetExecution i]))"
proof -
  have ctx: "getExecutionContext pf i l =
      (attempt (pf_getExecution pf i) (\<lambda>x. attempt (execution_event x) read_event_data), l @ [GetExecution i])"
    for l by (simp add: getExecutionContext_def platform_call_def act_simps attempt_def split: sum.splits)
  note tasks = promise_all_run [of "getTaskExecutionResult pf i", OF getTaskExecutionResult_run]
  show ?thesis
    by (simp add: run_validation_def act_bind_apply ctx tasks ingestBizevent_def platform_call_def act_emit_apply
        act_of_apply split: sum.splits)
qed

end
