(* ===== verification/Visit_Trades.thy ===== *)
theory Visit_Trades
  imports Visit_Forms
begin

section \<open>The load generator in the trade forms\<close>

text \<open>
  What the visits trade: the prices, balances and amounts they read off the page, what they
  compute from them, and what the trade forms then ask the services for.
\<close>

subsection \<open>Typing and reading\<close>

lemma trade_fields:
  assumes "documented_tags wd" "view \<in> {QuickBuyForm_view, QuickSellForm_view, BuyForm_view, SellForm_view}"
  shows "field_at wd view instrumentPage_amountInput = Some (''amount'', NumberInput)"
    "field_at wd view instrumentPage_submitButton = None"
  using assms
  by (auto simp: field_at_def documented_tags_def form_views by_id_def instrumentPage_amountInput_def
      instrumentPage_submitButton_def)

lemma long_fields:
  assumes "documented_tags wd" "view \<in> {BuyForm_view, SellForm_view}"
  shows "field_at wd view instrumentPage_priceInput = Some (''price'', NumberInput)"
    "field_at wd view instrumentPage_timeInput = Some (''time'', NumberInput)"
  using assms
  by (auto simp: field_at_def documented_tags_def form_views by_id_def instrumentPage_priceInput_def
      instrumentPage_timeInput_def)

lemma fill_trade:
  assumes "documented_tags wd" "documented_typing ty" "is_double a"
    "view \<in> {QuickBuyForm_view, QuickSellForm_view, BuyForm_view, SellForm_view}"
  shows "fill ty wd view (trade_trace (Fin a)) v = v(''amount'' := Some (JNum (Fin a)))"
  using trade_fields [OF assms(1,4)] typed_number [OF assms(2,3)]
  by (simp add: fill_def trade_trace_def set_field_def del: num_str.simps)

lemma fill_schedule:
  assumes "documented_tags wd" "documented_typing ty" "is_double a" "is_double p" "is_double d"
    "view \<in> {BuyForm_view, SellForm_view}"
  shows "fill ty wd view (schedule_trace (Fin p) (Fin d) (Fin a)) v
    = v(''amount'' := Some (JNum (Fin a)), ''price'' := Some (JNum (Fin p)), ''time'' := Some (JNum (Fin d)))"
proof -
  have "view \<in> {QuickBuyForm_view, QuickSellForm_view, BuyForm_view, SellForm_view}" using assms(6) by blast
  from trade_fields [OF assms(1) this] long_fields [OF assms(1,6)] show ?thesis
    using typed_number [OF assms(2)] assms(3-5)
    by (simp add: fill_def schedule_trace_def set_field_def del: num_str.simps)
qed

text \<open>The number in a read-only field, as its \<open>value\<close> property.\<close>

definition shows_value :: "browser \<Rightarrow> selector \<Rightarrow> jsnum \<Rightarrow> bool" where
  "shows_value b s a \<longleftrightarrow> (\<forall>k t. b_property b k s ''value'' = Inr t \<longrightarrow> t = num_str a)"

lemma reads_price:
  "getInstrumentPrice b l = (Inr x, l') \<Longrightarrow> shows_value b instrumentPage_priceInput a \<Longrightarrow> js_double a \<Longrightarrow> x = a"
  using js_parseFloat_num_str [of a] by (auto simp: getInstrumentPrice_def returned act_return_apply shows_value_def)

lemma reads_balance:
  "getCurrentBalance b l = (Inr x, l') \<Longrightarrow> shows_value b common_currentBalance a \<Longrightarrow> js_double a \<Longrightarrow> x = a"
  using js_parseFloat_num_str [of a] by (auto simp: getCurrentBalance_def returned act_return_apply shows_value_def)

lemma reads_owned:
  "getInstrumentPossessedAmount b l = (Inr x, l') \<Longrightarrow> shows_value b instrumentPage_possessedAmount (js_int (int n))
    \<Longrightarrow> n \<le> 2 ^ 53 \<Longrightarrow> x = js_int (int n)"
  using js_parseInt_nat_str [of n] num_str_int [of "int n"] to_js_of_int [of "int n"]
  by (auto simp: getInstrumentPossessedAmount_def returned act_return_apply shows_value_def int_str_def simp del: num_str.simps)

lemma trade_types: "trade b a l = (Inr y, l') \<Longrightarrow> l' = l @ trade_trace a"
  by (auto simp: trade_def trade_trace_def returned)

lemma schedule_types: "scheduleTransaction b p d a l = (Inr y, l') \<Longrightarrow> l' = l @ schedule_trace p d a"
  by (auto simp: scheduleTransaction_def schedule_trace_def returned)

text \<open>Every visit ends in the same way, and what it did before stays in the log.\<close>

definition leave :: "browser \<Rightarrow> unit page_act" where
  "leave b = act_then (gotoCreditCardPage b) (act_then (Loadgen_Page.logout b) (pa_do b EndDtSession))"

lemma leave_extends: "leave b l = (Inr y, l') \<Longrightarrow> \<exists>post. l' = l @ post"
  using traces_returned [OF page_nav_traces(3), of b] traces_returned [OF logout_traces, of b]
  by (fastforce simp: leave_def returned)

lemma quick_buy_run:
  assumes "run_DepositAndBuy f r b v l = (Inr (), l')"
    "shows_value b instrumentPage_priceInput a" "js_double a"
  shows "\<exists>pre post. l' = pre @ trade_trace (js_floor (f (js_int 1) (js_div (dab_depositValue v) a))) @ post"
proof -
  from assms(1) obtain p k1 k2 k3 k4 where
    r: "getInstrumentPrice b k1 = (Inr p, k2)"
    "trade b (js_floor (f (js_int 1) (js_div (dab_depositValue v) p))) k3 = (Inr (), k4)" "leave b k4 = (Inr (), l')"
    unfolding run_DepositAndBuy_def leave_def by (auto simp: act_then_returned act_bind_returned Let_def)
  then show ?thesis
    using reads_price [OF r(1) assms(2,3)] trade_types [OF r(2)] leave_extends [OF r(3)] by auto
qed

lemma long_buy_run:
  assumes "run_DepositAndLongBuy f r b v l = (Inr (), l')"
    "shows_value b instrumentPage_priceInput a" "js_double a"
    "shows_value b common_currentBalance bal" "js_double bal"
  shows "\<exists>pre post. let res = dlb_buyCalculator v f
       \<lparr>bo_balance = bal, bo_askPrice = a, bo_maxCost = dlb_depositValue v\<rparr>
     in l' = pre @ schedule_trace (tr_price res) (dlb_transactionDuration v) (tr_amount res) @ post"
proof -
  from assms(1) obtain x p k1 k2 k3 k4 k5 k6 where
    r: "getCurrentBalance b k1 = (Inr x, k2)" "getInstrumentPrice b k3 = (Inr p, k4)"
    "let res = dlb_buyCalculator v f \<lparr>bo_balance = x, bo_askPrice = p, bo_maxCost = dlb_depositValue v\<rparr>
     in scheduleTransaction b (tr_price res) (dlb_transactionDuration v) (tr_amount res) k5 = (Inr (), k6)"
    "leave b k6 = (Inr (), l')"
    unfolding run_DepositAndLongBuy_def leave_def by (auto simp: act_then_returned act_bind_returned Let_def)
  then show ?thesis
    using reads_balance [OF r(1) assms(4,5)] reads_price [OF r(2) assms(2,3)] schedule_types leave_extends [OF r(4)]
    by (fastforce simp: Let_def)
qed

lemma long_sell_run:
  assumes "run_LongSell f r b v l = (Inr (), l')"
    "shows_value b instrumentPage_priceInput a" "js_double a"
    "shows_value b instrumentPage_possessedAmount (js_int (int n))" "n \<le> 2 ^ 53"
  shows "\<exists>pre post. let res = ls_sellCalculator v f
       \<lparr>so_askPrice = a, so_ownedAmount = js_int (int n), so_ratio = ls_sellRatio v\<rparr>
     in l' = pre @ schedule_trace (tr_price res) (ls_transactionDuration v) (tr_amount res) @ post"
proof -
  from assms(1) obtain m p k1 k2 k3 k4 k5 k6 where
    r: "getInstrumentPossessedAmount b k1 = (Inr m, k2)" "getInstrumentPrice b k3 = (Inr p, k4)"
    "let res = ls_sellCalculator v f \<lparr>so_askPrice = p, so_ownedAmount = m, so_ratio = ls_sellRatio v\<rparr>
     in scheduleTransaction b (tr_price res) (ls_transactionDuration v) (tr_amount res) k5 = (Inr (), k6)"
    "leave b k6 = (Inr (), l')"
    unfolding run_LongSell_def leave_def by (auto simp: act_then_returned act_bind_returned Let_def)
  then show ?thesis
    using reads_owned [OF r(1) assms(4,5)] reads_price [OF r(2) assms(2,3)] schedule_types leave_extends [OF r(4)]
    by (fastforce simp: Let_def)
qed

lemma quick_sell_run:
  assumes "run_SellAndWithdraw f r b v l = (Inr (), l')"
    "shows_value b instrumentPage_priceInput a" "js_double a"
    "shows_value b instrumentPage_possessedAmount (js_int (int n))" "n \<le> 2 ^ 53"
  shows "\<exists>pre go k mid post. let sold = js_floor (f (js_int 1) (js_mul (js_int (int n)) (saw_sellRatio v)));
       earned = js_max (saw_withdrawMinValue v) (js_mul a sold)
     in l' = pre @ trade_trace sold @ go @ mid @ post
        \<and> Loadgen_Page.withdraw b (saw_user v) earned k = (Inr (), k @ mid)"
proof -
  from assms(1) obtain m p k1 k2 k3 k4 k5 k6 k7 x y where
    r: "getInstrumentPossessedAmount b k1 = (Inr m, k2)" "getInstrumentPrice b k2 = (Inr p, k3)"
    "trade b (js_floor (f (js_int 1) (js_mul m (saw_sellRatio v)))) k4 = (Inr (), k5)"
    "gotoWithdrawPage b k5 = (Inr x, k6)"
    "Loadgen_Page.withdraw b (saw_user v)
       (js_max (saw_withdrawMinValue v) (js_mul p (js_floor (f (js_int 1) (js_mul m (saw_sellRatio v)))))) k6 = (Inr y, k7)"
    "leave b k7 = (Inr (), l')"
    unfolding run_SellAndWithdraw_def leave_def by (auto simp: act_then_returned act_bind_returned Let_def)
  obtain go where "k6 = k5 @ go" using traces_returned [OF page_nav_traces(2) r(4)] by blast
  moreover obtain mid where "k7 = k6 @ mid" using withdraw_types [OF r(5)] by blast
  moreover obtain post where "l' = k7 @ post" using leave_extends [OF r(6)] by blast
  ultimately show ?thesis
    using r(5) reads_owned [OF r(1) assms(4,5)] reads_price [OF r(2) assms(2,3)] trade_types [OF r(3)]
    by (intro exI [of _ k4] exI [of _ go] exI [of _ k6] exI [of _ mid] exI [of _ post]) (simp add: Let_def)
qed

subsection \<open>What the trade forms make of it\<close>

lemma to_js_between:
  assumes "0 \<le> x" "x \<le> b" "is_double b"
  obtains y where "to_js x = Fin y" "0 \<le> y" "y \<le> b"
proof -
  have "js_le (to_js x) (Fin b)" "js_le (Fin 0) (to_js x)"
    using assms to_js_le_double to_js_ge_double [of 0 x] by simp_all
  then show thesis using that by (cases "to_js x") auto
qed

lemma quick_buy_accepts:
  assumes "vals s = QuickBuyForm_values i (Some (Fin bal))" "close_price i = Fin p" "0 < p" "0 < n"
    "n * p \<le> bal" "is_double bal"
  shows "QuickBuyForm_resolver (vals (quick_setAmount i (Some (JNum (Fin n))) s)) = Some (Fin n)"
proof -
  have "0 \<le> n * p" using assms(3,4) by simp
  then obtain t where t: "to_js (n * p) = Fin t" "t \<le> bal" by (rule to_js_between [OF _ assms(5,6)])
  then show ?thesis
    using assms(1-4) by (simp add: quick_setAmount_def watch_change_def Let_def QuickBuyForm_values_def with_status_def
        QuickBuyForm_resolver_def QuickBuyForm_issues_def)
qed

lemma quick_sell_accepts:
  assumes "vals s = QuickSellForm_values i" "close_price i = Fin p" "amount_owned i = Fin own" "0 < p" "0 < n" "n \<le> own"
    "\<bar>n * p\<bar> \<le> 2 ^ 1023"
  shows "QuickSellForm_resolver (vals (quick_setAmount i (Some (JNum (Fin n))) s)) = Some (Fin n)"
proof -
  obtain t where "to_js (n * p) = Fin t" by (rule to_js_finite [OF assms(7)])
  then show ?thesis
    using assms(1-6) by (simp add: quick_setAmount_def watch_change_def Let_def QuickSellForm_values_def with_status_def
        QuickSellForm_resolver_def QuickSellForm_issues_def)
qed

definition long_of :: "(string \<Rightarrow> jsval) \<Rightarrow> long_values" where
  "long_of v = LongForm_total \<lparr>long_amount = v ''amount'', long_price = v ''price'', long_time = v ''time'', long_total = None\<rparr>"

lemma long_accepts:
  assumes "v ''amount'' = Some (JNum (Fin n))" "v ''price'' = Some (JNum (Fin p))" "v ''time'' = Some (JNum (Fin d))"
    "0 < n" "0 < p" "1 \<le> d" "d \<le> 24" "\<bar>n * p\<bar> \<le> 2 ^ 1023"
  shows "LongForm_resolver (long_of v) = Some (Fin n, Fin p, Fin d)"
proof -
  obtain t where "to_js (n * p) = Fin t" by (rule to_js_finite [OF assms(8)])
  then show ?thesis
    using assms(1-7) by (simp add: long_of_def LongForm_total_def Let_def LongForm_resolver_def LongForm_issues_def
        zod_coerce_number_def time_issues_def)
qed

subsection \<open>What the calculators offer\<close>

text \<open>A trade that the long forms accept.\<close>

definition tradable :: "trade_result \<Rightarrow> bool" where
  "tradable res \<longleftrightarrow> (\<exists>p n. res = \<lparr>tr_price = Fin p, tr_amount = js_int n\<rparr> \<and> is_double p \<and> 0 < p
     \<and> 1 \<le> n \<and> n \<le> 2 ^ 53 \<and> of_int n * p \<le> 2 ^ 1023)"

lemma tradableI:
  assumes "res = \<lparr>tr_price = Fin p, tr_amount = js_int n\<rparr>" "js_double (tr_price res)" "0 < p" "p \<le> 10 ^ 14" "1 \<le> n" "n \<le> 2 ^ 53"
  shows "tradable res"
proof -
  have "(of_int n :: rat) \<le> 2 ^ 53" using assms(6) by (metis of_int_le_iff of_int_numeral of_int_power)
  then have "of_int n * p \<le> 2 ^ 53 * 10 ^ 14" using assms(3-5) by (intro mult_mono) auto
  also have "\<dots> \<le> 2 ^ 1023" by simp
  finally show ?thesis using assms by (auto simp: tradable_def)
qed

lemma pieces_bounded:
  fixes p :: rat
  assumes "of_int n * p \<le> m * (1 + 1 / 10 ^ 6)" "1 / 1100 \<le> p" "m \<le> 10 ^ 12" "1 \<le> n"
  shows "n \<le> 2 ^ 53"
proof -
  have "of_int n * (1 / 1100) \<le> of_int n * p" using assms(2,4) by (intro mult_left_mono) auto
  also have "\<dots> \<le> 10 ^ 12 * (1 + 1 / 10 ^ 6)" using assms(1,3) by simp
  finally have "(of_int n :: rat) \<le> of_int (2 ^ 53)" by simp
  then show ?thesis by (simp only: of_int_le_iff)
qed

lemma calculators_double:
  "js_double (tr_price (successBuyCalculator f o'))" "js_double (tr_price (timeoutBuyCalculator f o'))"
  "js_double (tr_price (errorBuyCalculator f o'))" "js_double (tr_price (successSellCalculator f s'))"
  "js_double (tr_price (timeoutSellCalculator f s'))" "js_double (tr_price (errorSellCalculator f s'))"
  by (simp_all add: successBuyCalculator_def timeoutBuyCalculator_def errorBuyCalculator_def
      successSellCalculator_def timeoutSellCalculator_def errorSellCalculator_def Let_def)

lemma buys_tradable:
  assumes f: "random_between f" and a: "1 / 10 \<le> a" "a \<le> 10 ^ 10" and m: "6 / 5 * a \<le> m" "m \<le> 10 ^ 12"
    and bal: "0 \<le> bal" "bal \<le> 10 ^ 12" and calc: "calc \<in> {successBuyCalculator, timeoutBuyCalculator, errorBuyCalculator}"
  shows "tradable (calc f \<lparr>bo_balance = Fin bal, bo_askPrice = Fin a, bo_maxCost = Fin m\<rparr>)"
proof -
  let ?o = "\<lparr>bo_balance = Fin bal, bo_askPrice = Fin a, bo_maxCost = Fin m\<rparr>"
  from calc consider "calc = successBuyCalculator" | "calc = timeoutBuyCalculator" | "calc = errorBuyCalculator" by blast
  then show ?thesis
  proof cases
    case 1
    obtain p n where r: "successBuyCalculator f ?o = \<lparr>tr_price = Fin p, tr_amount = js_int n\<rparr>"
      "a < p" "p \<le> 6 / 5 * a" "1 \<le> n" "of_int n * p \<le> m * (1 + 1 / 10 ^ 6)"
      using success_buy_bounds [OF f _ a(2) m, of "Fin bal"] a(1) by auto
    have "n \<le> 2 ^ 53" by (rule pieces_bounded [OF r(5) _ m(2) r(4)]) (use r(2) a(1) in linarith)
    then show ?thesis unfolding 1 using r a by (intro tradableI [OF r(1) calculators_double(1)]) auto
  next
    case 2
    obtain p n where r: "timeoutBuyCalculator f ?o = \<lparr>tr_price = Fin p, tr_amount = js_int n\<rparr>"
      "a / 101 < p" "p < a / 50" "1 \<le> n" "of_int n * p \<le> m * (1 + 1 / 10 ^ 6)"
      using timeout_buy [OF f a(1) _ m(2), of "Fin bal"] a(1) m(1) by auto
    have "n \<le> 2 ^ 53" by (rule pieces_bounded [OF r(5) _ m(2) r(4)]) (use r(2) a(1) in linarith)
    then show ?thesis unfolding 2 using r a by (intro tradableI [OF r(1) calculators_double(2)]) auto
  next
    case 3
    have "1 / 100 \<le> max bal a" "max bal a \<le> 10 ^ 12" using a bal by auto
    from error_buy_bounds [OF this, of f "Fin m"] obtain p where
      r: "errorBuyCalculator f ?o = \<lparr>tr_price = Fin p, tr_amount = js_int 7\<rparr>" "0 < p" "p \<le> max bal a" by blast
    have "p \<le> 10 ^ 14" using r(3) a(2) bal(2) by auto
    then show ?thesis unfolding 3 using r(2) by (intro tradableI [OF r(1) calculators_double(3)]) auto
  qed
qed

lemma sales_tradable:
  assumes f: "random_between f" and a: "1 / 10 \<le> a" "a \<le> 10 ^ 10" and n: "1 \<le> n" "n \<le> 10 ^ 14"
    and share: "js_mul (js_int n) r = Fin y" "1 \<le> y" "y \<le> of_int n"
    and calc: "calc \<in> {successSellCalculator, timeoutSellCalculator, errorSellCalculator}"
  shows "tradable (calc f \<lparr>so_askPrice = Fin a, so_ownedAmount = js_int n, so_ratio = r\<rparr>)"
proof -
  let ?o = "\<lparr>so_askPrice = Fin a, so_ownedAmount = js_int n, so_ratio = r\<rparr>"
  have a': "1 / 100 \<le> a" using a(1) by linarith
  from calc consider "calc = successSellCalculator" | "calc = timeoutSellCalculator" | "calc = errorSellCalculator" by blast
  then show ?thesis
  proof cases
    case 1
    obtain p k where r: "successSellCalculator f ?o = \<lparr>tr_price = Fin p, tr_amount = js_int k\<rparr>"
      "0 < p" "p < a" "1 \<le> k" "of_int k \<le> y"
      using success_sell_bounds [OF f a' a(2) share(1,2)] by blast
    have "(of_int k :: rat) \<le> of_int n" using r(5) share(3) by linarith
    then show ?thesis unfolding 1 using r a n by (intro tradableI [OF r(1) calculators_double(4)]) auto
  next
    case 2
    obtain p k where r: "timeoutSellCalculator f ?o = \<lparr>tr_price = Fin p, tr_amount = js_int k\<rparr>"
      "50 * a < p" "p \<le> 101 * a" "1 \<le> k" "of_int k \<le> y"
      using timeout_sell [OF f a' a(2) share(1,2)] by blast
    have "(of_int k :: rat) \<le> of_int n" using r(5) share(3) by linarith
    then show ?thesis unfolding 2 using r a n by (intro tradableI [OF r(1) calculators_double(5)]) auto
  next
    case 3
    obtain p where r: "errorSellCalculator f ?o = \<lparr>tr_price = Fin p, tr_amount = js_int (10 * n)\<rparr>" "0 < p" "p < a"
      using error_sell [OF a' a(2) n] by blast
    then show ?thesis unfolding 3 using a n by (intro tradableI [OF r(1) calculators_double(6)]) auto
  qed
qed

text \<open>What the submits of accepted data send.\<close>

lemma trade_logs:
  "QuickBuyForm_resolver (vals s) = Some a
    \<Longrightarrow> snd (QuickBuyForm_submit w qc ev u i bal s k) = snd (quickBuyHandler w u i a k)"
  "QuickSellForm_resolver (vals s) = Some a
    \<Longrightarrow> snd (QuickSellForm_submit w qc ev u i s k) = snd (quickSellHandler w u i a k)"
  by (simp_all add: QuickBuyForm_submit_def QuickSellForm_submit_def submit_log [OF quick_buy_form.runs]
      submit_log [OF quick_sell_form.runs])

lemma long_logs:
  assumes "LongForm_resolver (vals s) = Some (a, p, t)"
  shows "snd (BuyForm_submit w qc ev u i s k) = snd (buyHandler w u i a p t k)"
    "snd (SellForm_submit w qc ev u i s k) = snd (sellHandler w u i a p t k)"
  using assms by (simp_all add: BuyForm_submit_def SellForm_submit_def submit_log [OF long_buy_form.runs]
      submit_log [OF long_sell_form.runs])

lemma long_requests:
  "Request (post_json (getBrokerServiceUrl w @ ''/trade/long/buy'') (long_body u (instr_id i) a p t)) \<in> set (snd (buyHandler w u i a p t k))"
  "Request (post_json (getBrokerServiceUrl w @ ''/trade/long/sell'') (long_body u (instr_id i) a p t)) \<in> set (snd (sellHandler w u i a p t k))"
  by (simp_all add: buyHandler_def buy_def sellHandler_def sell_def act_simps TransactionBackend_buy_def
      TransactionBackend_sell_def call_void_run split: option.splits)

text \<open>A tradable offer that is typed into a long form is accepted as it is.\<close>

lemma tradable_accepted:
  assumes "tradable res" "documented_tags wd" "documented_typing ty" "is_double d" "1 \<le> d" "d \<le> 24"
    "view \<in> {BuyForm_view, SellForm_view}"
  obtains p n where "res = \<lparr>tr_price = Fin p, tr_amount = js_int n\<rparr>" "0 < p" "1 \<le> n"
    "LongForm_resolver (long_of (fill ty wd view (schedule_trace (Fin p) (Fin d) (js_int n)) e)) = Some (js_int n, Fin p, Fin d)"
proof -
  obtain p n where r: "res = \<lparr>tr_price = Fin p, tr_amount = js_int n\<rparr>" "is_double p" "0 < p" "1 \<le> n" "n \<le> 2 ^ 53"
    "of_int n * p \<le> 2 ^ 1023"
    using assms(1) by (auto simp: tradable_def)
  have n: "is_double (of_int n)" using r(4,5) by (intro is_double_of_int) auto
  have "0 < (of_int n :: rat)" using r(4) by simp
  moreover from this have "\<bar>of_int n * p\<bar> \<le> 2 ^ 1023" using r(3,6) by (simp add: abs_mult)
  ultimately have "LongForm_resolver (long_of (fill ty wd view (schedule_trace (Fin p) (Fin d) (js_int n)) e)) = Some (js_int n, Fin p, Fin d)"
    using r(3) assms(5,6) unfolding fill_schedule [OF assms(2,3) n r(2) assms(4,7)]
    by (intro long_accepts) (simp_all del: of_int_eq_iff)
  then show thesis by (rule that [OF r(1,3,4)])
qed

subsection \<open>Sample visits\<close>

text \<open>A page with an instrument at 100, a balance of 5000 and 40 pieces owned.\<close>

definition trade_browser :: browser where
  "trade_browser = (sample_browser (\<lambda>_. False))
     \<lparr>b_property := (\<lambda>l s n. Inr (num_str (if s = common_currentBalance then Fin 5000
        else if s = instrumentPage_possessedAmount then Fin 40 else Fin 100)))\<rparr>"

lemma trade_browser_cooperative: "cooperative trade_browser"
  by (auto simp: cooperative_def trade_browser_def sample_browser_def)

lemma trade_browser_shows:
  "shows_value trade_browser instrumentPage_priceInput (Fin 100)"
  "shows_value trade_browser common_currentBalance (Fin 5000)"
  "shows_value trade_browser instrumentPage_possessedAmount (js_int (int 40))"
  by (simp_all add: shows_value_def trade_browser_def instrumentPage_priceInput_def common_currentBalance_def
      instrumentPage_possessedAmount_def del: num_str.simps)

lemma trade_browser_runs: "\<exists>l'. run f r trade_browser v [] = (Inr (), l')"
  using returnsD [OF run_returns_visit [OF trade_browser_cooperative], of f r v "[]"] by auto

lemma lower_random: "random_between (\<lambda>x y. x)"
  by (simp add: random_between_def)

definition sample_url :: url where
  "sample_url = \<lparr>url_href = ''http://easytrade/'', url_hostname = ''easytrade''\<rparr>"

definition sample_instrument :: instrument where
  "sample_instrument = \<lparr>instr_id = ''3'', close_price = Fin 100, amount_owned = js_int (int 40)\<rparr>"

lemma small_doubles: "is_double 100" "is_double 5000" "is_double 12"
  using is_double_of_int [of 100] is_double_of_int [of 5000] is_double_of_int [of 12] by simp_all

lemma quiet_ok: "agent_ok quiet_window"
  by (simp add: agent_ok_def quiet_window_def)

definition quick_form :: "quick_values \<Rightarrow> (quick_values, map_cache) form" where
  "quick_form v = \<lparr>vals = v, status = useStatusDisplay, cache = sample_cache\<rparr>"

subsection \<open>Properties\<close>

text \<open>
  C12: a visit that deposits and buys has its purchase sent. It reads the price off the page and
  computes how many pieces its deposit affords; as long as the balance exceeds the deposit by a
  millionth, which covers the rounding of the division, what it types passes the check of the form
  against the balance, and the submit asks to buy exactly that many pieces.
\<close>

theorem quick_buy_visit_sent:
  assumes lib: "documented_tags wd" "documented_typing ty" and f: "random_between f" and w: "agent_ok w"
    and i: "close_price i = Fin p" "is_double p" "1 / 100 \<le> p" "shows_value b instrumentPage_priceInput (Fin p)"
    and v: "run_DepositAndBuy f r b v l = (Inr (), l')" "dab_depositValue v = Fin m" "p \<le> m" "m \<le> 10 ^ 12"
    and bal: "m * (1 + 1 / 10 ^ 6) \<le> bal" "is_double bal" "vals s = QuickBuyForm_values i (Some (Fin bal))"
  shows "\<exists>pre n post. l' = pre @ trade_trace (js_int n) @ post \<and> 1 \<le> n
     \<and> Request (quick_request w ''/trade/buy'' (u, instr_id i, js_int n))
         \<in> set (snd (QuickBuyForm_submit w qc events u i (Some (Fin bal))
               (quick_setAmount i (fill ty wd QuickBuyForm_view (trade_trace (js_int n)) e ''amount'') s) sent))"
proof -
  have p: "0 < p" "1 / 10 ^ 4 \<le> p" "1 / 1100 \<le> p" using i(3) by simp_all
  obtain n where n: "js_floor (f (js_int 1) (js_div (Fin m) (Fin p))) = js_int n" "1 \<le> n" "of_int n * p \<le> m * (1 + 1 / 10 ^ 6)"
    by (rule buy_amount [OF f p(2) v(3,4)])
  have "n \<le> 2 ^ 53" by (rule pieces_bounded [OF n(3) p(3) v(4) n(2)])
  then have nd: "is_double (of_int n)" using n(2) by (intro is_double_of_int) auto
  obtain pre post where l: "l' = pre @ trade_trace (js_int n) @ post"
    using quick_buy_run [OF v(1) i(4)] i(2) n(1) v(2) by auto
  have "QuickBuyForm_resolver (vals (quick_setAmount i (Some (JNum (js_int n))) s)) = Some (js_int n)"
    using n(2) order_trans [OF n(3) bal(1)] by (intro quick_buy_accepts [OF bal(3) i(1) p(1) _ _ bal(2)]) auto
  from trade_logs(1) [OF this] show ?thesis
    using l n(2) buy_call.requested [OF w, of "(u, instr_id i, js_int n)"]
    by (intro exI conjI) (auto simp: fill_trade [OF lib nd] quickBuyHandler_def)
qed

theorem quick_buy_visit_sent_witness:
  "\<exists>n. 1 \<le> n
     \<and> Request (quick_request quiet_window ''/trade/buy'' (''7'', ''3'', js_int n))
         \<in> set (snd (QuickBuyForm_submit quiet_window map_client [Untyped] ''7'' sample_instrument (Some (Fin 5000))
               (quick_setAmount sample_instrument (fill sample_typing sample_widgets QuickBuyForm_view (trade_trace (js_int n)) (\<lambda>_. None) ''amount'')
                  (quick_form (QuickBuyForm_values sample_instrument (Some (Fin 5000))))) []))"
proof -
  define v where "v = \<lparr>dab_visitName = deposit_and_buy_success, dab_url = sample_url, dab_user = james_norton, dab_depositValue = Fin 1000\<rparr>"
  obtain l' where l: "run_DepositAndBuy (\<lambda>x y. x) 0 trade_browser v [] = (Inr (), l')"
    using trade_browser_runs [of "\<lambda>x y. x" 0 "V_DepositAndBuy v"] by auto
  have i: "close_price sample_instrument = Fin 100" "instr_id sample_instrument = ''3''" "dab_depositValue v = Fin 1000"
    by (simp_all add: sample_instrument_def v_def)
  have "vals (quick_form (QuickBuyForm_values sample_instrument (Some (Fin 5000)))) = QuickBuyForm_values sample_instrument (Some (Fin 5000))"
    by (simp add: quick_form_def)
  from quick_buy_visit_sent [OF sample_widgets_documented sample_typing_documented lower_random quiet_ok i(1) small_doubles(1) _
      trade_browser_shows(1) l i(3) _ _ _ small_doubles(2) this, where u = "''7''" and e = "\<lambda>_. None" and qc = map_client and events = "[Untyped]" and sent = "[]"] i(2)
  show ?thesis by fastforce
qed

text \<open>
  C19: a visit that sells a share of what is owned, of at least one piece, has its sale sent: it
  reads the owned amount off the page, and what it types is at most that amount and passes the
  check of the form. What it then withdraws is the greater of its minimum and its earnings.
\<close>

theorem quick_sell_visit_sent:
  assumes lib: "documented_tags wd" "documented_typing ty" and f: "random_between f" and w: "agent_ok w"
    and i: "close_price i = Fin p" "is_double p" "0 < p" "p \<le> 10 ^ 10" "shows_value b instrumentPage_priceInput (Fin p)"
    and own: "shows_value b instrumentPage_possessedAmount (js_int (int own))" "amount_owned i = js_int (int own)" "own \<le> 2 ^ 53"
    and v: "run_SellAndWithdraw f r b v l = (Inr (), l')" "saw_sellRatio v = Fin q" "q \<le> 1"
      "js_mul (js_int (int own)) (Fin q) = Fin y" "1 \<le> y" "vals s = QuickSellForm_values i"
  shows "\<exists>pre n go k mid post. l' = pre @ trade_trace (js_int n) @ go @ mid @ post \<and> 1 \<le> n \<and> n \<le> int own
     \<and> Request (quick_request w ''/trade/sell'' (u, instr_id i, js_int n))
         \<in> set (snd (QuickSellForm_submit w qc events u i
               (quick_setAmount i (fill ty wd QuickSellForm_view (trade_trace (js_int n)) e ''amount'') s) sent))
     \<and> Loadgen_Page.withdraw b (saw_user v) (js_max (saw_withdrawMinValue v) (js_mul (Fin p) (js_int n))) k
         = (Inr (), k @ mid)"
proof -
  have od: "is_double (of_int (int own))" using own(3) by (intro is_double_of_int) simp
  have "of_int (int own) * q \<le> of_int (int own)" using v(3) mult_left_mono [of q 1 "of_nat own"] by simp
  then have yo: "y \<le> of_int (int own)" using to_js_le_double [OF od, of "of_int (int own) * q"] v(4) by simp
  obtain n where n: "js_floor (f (js_int 1) (js_mul (js_int (int own)) (Fin q))) = js_int n" "1 \<le> n" "of_int n \<le> y"
    using sell_amount [OF f v(4,5)] by blast
  have no: "n \<le> int own" using order_trans [OF n(3) yo] by (simp only: of_int_le_iff)
  then have n53: "n \<le> 2 ^ 53" using own(3) by (metis of_nat_le_iff of_nat_numeral of_nat_power order_trans)
  then have nd: "is_double (of_int n)" using n(2) by (intro is_double_of_int) auto
  obtain pre go k mid post where k: "l' = pre @ trade_trace (js_int n) @ go @ mid @ post"
    "Loadgen_Page.withdraw b (saw_user v) (js_max (saw_withdrawMinValue v) (js_mul (Fin p) (js_int n))) k = (Inr (), k @ mid)"
    using quick_sell_run [OF v(1) i(5) _ own(1,3)] i(2) n(1) v(2) by (auto simp: Let_def)
  have "(of_int n :: rat) \<le> 2 ^ 53" using n53 by (metis of_int_le_iff of_int_numeral of_int_power)
  then have "of_int n * p \<le> 2 ^ 53 * 10 ^ 10" using i(3,4) by (intro mult_mono) auto
  then have "\<bar>of_int n * p\<bar> \<le> 2 ^ 1023" using n(2) i(3) by (simp add: abs_mult)
  then have "QuickSellForm_resolver (vals (quick_setAmount i (Some (JNum (js_int n))) s)) = Some (js_int n)"
    using n(2) no by (intro quick_sell_accepts [OF v(6) i(1) own(2) i(3)]) auto
  from trade_logs(2) [OF this] show ?thesis
    using k n(2) no sell_call.requested [OF w, of "(u, instr_id i, js_int n)"]
    by (intro exI conjI) (auto simp: fill_trade [OF lib nd] quickSellHandler_def)
qed

theorem quick_sell_visit_sent_witness:
  "\<exists>n. 1 \<le> n \<and> n \<le> 40
     \<and> Request (quick_request quiet_window ''/trade/sell'' (''7'', ''3'', js_int n))
         \<in> set (snd (QuickSellForm_submit quiet_window map_client [Untyped] ''7'' sample_instrument
               (quick_setAmount sample_instrument (fill sample_typing sample_widgets QuickSellForm_view (trade_trace (js_int n)) (\<lambda>_. None) ''amount'')
                  (quick_form (QuickSellForm_values sample_instrument))) []))"
proof -
  define v where "v = \<lparr>saw_visitName = sell_and_withdraw_success, saw_url = sample_url, saw_user = james_norton,
    saw_sellRatio = Fin 1, saw_withdrawMinValue = Fin 1\<rparr>"
  obtain l' where l: "run_SellAndWithdraw (\<lambda>x y. x) 0 trade_browser v [] = (Inr (), l')"
    using trade_browser_runs [of "\<lambda>x y. x" 0 "V_SellAndWithdraw v"] by auto
  have i: "close_price sample_instrument = Fin 100" "instr_id sample_instrument = ''3''" "saw_sellRatio v = Fin 1"
    "amount_owned sample_instrument = js_int (int 40)" by (simp_all add: sample_instrument_def v_def)
  have y: "js_mul (js_int (int 40)) (Fin 1) = Fin 40" using to_js_of_int [of 40] by simp
  have "vals (quick_form (QuickSellForm_values sample_instrument)) = QuickSellForm_values sample_instrument"
    by (simp add: quick_form_def)
  from quick_sell_visit_sent [OF sample_widgets_documented sample_typing_documented lower_random quiet_ok i(1) small_doubles(1) _ _
      trade_browser_shows(1,3) i(4) _ l i(3) _ y _ this, where u = "''7''" and e = "\<lambda>_. None" and qc = map_client and events = "[Untyped]" and sent = "[]"] i(2)
  show ?thesis by fastforce
qed

text \<open>
  C13: the scheduled purchases of the load generator are always sent, those that are meant to time
  out or to fail too: whichever calculator a visit has, the price and amount it computes from the
  price and the balance that it reads off the page are accepted by the long form, and the submit
  sends exactly them and the duration of the visit. A failing purchase is left to the services
  to refuse.
\<close>

theorem long_buy_visit_sent:
  assumes lib: "documented_tags wd" "documented_typing ty" and f: "random_between f"
    and a: "shows_value b instrumentPage_priceInput (Fin a)" "is_double a" "1 / 10 \<le> a" "a \<le> 10 ^ 10"
    and bal: "shows_value b common_currentBalance (Fin bal)" "is_double bal" "0 \<le> bal" "bal \<le> 10 ^ 12"
    and v: "run_DepositAndLongBuy f r b v l = (Inr (), l')"
      "dlb_buyCalculator v \<in> {successBuyCalculator, timeoutBuyCalculator, errorBuyCalculator}"
      "dlb_depositValue v = Fin m" "6 / 5 * a \<le> m" "m \<le> 10 ^ 12"
      "dlb_transactionDuration v = Fin d" "is_double d" "1 \<le> d" "d \<le> 24"
  shows "\<exists>pre p n post. l' = pre @ schedule_trace (Fin p) (Fin d) (js_int n) @ post \<and> 0 < p \<and> 1 \<le> n
     \<and> Request (post_json (getBrokerServiceUrl w @ ''/trade/long/buy'') (long_body u (instr_id i) (js_int n) (Fin p) (Fin d)))
         \<in> set (snd (BuyForm_submit w qc events u i
              \<lparr>vals = long_of (fill ty wd BuyForm_view (schedule_trace (Fin p) (Fin d) (js_int n)) e), status = st, cache = c\<rparr> sent))"
proof -
  obtain pre post where run: "let res = dlb_buyCalculator v f \<lparr>bo_balance = Fin bal, bo_askPrice = Fin a, bo_maxCost = Fin m\<rparr>
     in l' = pre @ schedule_trace (tr_price res) (Fin d) (tr_amount res) @ post"
    using long_buy_run [OF v(1) a(1) _ bal(1)] a(2) v(3,6) bal(2) by auto
  note t = buys_tradable [OF f a(3,4) v(4,5) bal(3,4) v(2)]
  obtain p n where "dlb_buyCalculator v f \<lparr>bo_balance = Fin bal, bo_askPrice = Fin a, bo_maxCost = Fin m\<rparr>
       = \<lparr>tr_price = Fin p, tr_amount = js_int n\<rparr>" "0 < p" "1 \<le> n"
    "LongForm_resolver (long_of (fill ty wd BuyForm_view (schedule_trace (Fin p) (Fin d) (js_int n)) e)) = Some (js_int n, Fin p, Fin d)"
    using tradable_accepted [OF t lib v(7-9), of BuyForm_view e] by blast
  with run show ?thesis
    by (intro exI [of _ pre] exI [of _ p] exI [of _ n] exI [of _ post]) (simp add: long_logs(1) long_requests)
qed

theorem long_buy_visit_sent_witness:
  "\<exists>p n. 0 < p \<and> 1 \<le> n
     \<and> Request (post_json (getBrokerServiceUrl quiet_window @ ''/trade/long/buy'') (long_body ''7'' (instr_id sample_instrument) (js_int n) (Fin p) (Fin 12)))
         \<in> set (snd (BuyForm_submit quiet_window map_client [Untyped] ''7'' sample_instrument
              \<lparr>vals = long_of (fill sample_typing sample_widgets BuyForm_view (schedule_trace (Fin p) (Fin 12) (js_int n)) (\<lambda>_. None)),
               status = useStatusDisplay, cache = sample_cache\<rparr> []))"
proof -
  define v where "v = \<lparr>dlb_visitName = deposit_and_long_buy_timeout, dlb_buyCalculator = timeoutBuyCalculator, dlb_url = sample_url,
    dlb_user = james_norton, dlb_depositValue = Fin 1000, dlb_transactionDuration = Fin 12\<rparr>"
  obtain l' where l: "run_DepositAndLongBuy (\<lambda>x y. x) 0 trade_browser v [] = (Inr (), l')"
    using trade_browser_runs [of "\<lambda>x y. x" 0 "V_DepositAndLongBuy v"] by auto
  have v: "dlb_buyCalculator v \<in> {successBuyCalculator, timeoutBuyCalculator, errorBuyCalculator}"
    "dlb_depositValue v = Fin 1000" "dlb_transactionDuration v = Fin 12" by (simp_all add: v_def)
  have n: "(1 :: rat) / 10 \<le> 100" "(100 :: rat) \<le> 10 ^ 10" "(0 :: rat) \<le> 5000" "(5000 :: rat) \<le> 10 ^ 12"
    "6 / 5 * (100 :: rat) \<le> 1000" "(1000 :: rat) \<le> 10 ^ 12" "(1 :: rat) \<le> 12" "(12 :: rat) \<le> 24" by simp_all
  from long_buy_visit_sent [OF sample_widgets_documented sample_typing_documented lower_random trade_browser_shows(1) small_doubles(1)
      n(1,2) trade_browser_shows(2) small_doubles(2) n(3,4) l v(1,2) n(5,6) v(3) small_doubles(3) n(7,8),
      where w = quiet_window and u = "''7''" and i = sample_instrument and e = "\<lambda>_. None" and qc = map_client
        and events = "[Untyped]" and st = useStatusDisplay and c = sample_cache and sent = "[]"]
  show ?thesis by blast
qed

text \<open>
  C18: so are the scheduled sales, of a share of at least one piece or of more than is owned.
\<close>

theorem long_sell_visit_sent:
  assumes lib: "documented_tags wd" "documented_typing ty" and f: "random_between f"
    and a: "shows_value b instrumentPage_priceInput (Fin a)" "is_double a" "1 / 10 \<le> a" "a \<le> 10 ^ 10"
    and own: "shows_value b instrumentPage_possessedAmount (js_int (int own))" "1 \<le> own" "own \<le> 10 ^ 14"
    and v: "run_LongSell f r b v l = (Inr (), l')"
      "ls_sellCalculator v \<in> {successSellCalculator, timeoutSellCalculator, errorSellCalculator}"
      "js_mul (js_int (int own)) (ls_sellRatio v) = Fin y" "1 \<le> y" "y \<le> of_int (int own)"
      "ls_transactionDuration v = Fin d" "is_double d" "1 \<le> d" "d \<le> 24"
  shows "\<exists>pre p n post. l' = pre @ schedule_trace (Fin p) (Fin d) (js_int n) @ post \<and> 0 < p \<and> 1 \<le> n
     \<and> Request (post_json (getBrokerServiceUrl w @ ''/trade/long/sell'') (long_body u (instr_id i) (js_int n) (Fin p) (Fin d)))
         \<in> set (snd (SellForm_submit w qc events u i
              \<lparr>vals = long_of (fill ty wd SellForm_view (schedule_trace (Fin p) (Fin d) (js_int n)) e), status = st, cache = c\<rparr> sent))"
proof -
  have n: "own \<le> 2 ^ 53" "1 \<le> int own" "int own \<le> 10 ^ 14" using own(2,3) by simp_all
  obtain pre post where run: "let res = ls_sellCalculator v f
       \<lparr>so_askPrice = Fin a, so_ownedAmount = js_int (int own), so_ratio = ls_sellRatio v\<rparr>
     in l' = pre @ schedule_trace (tr_price res) (Fin d) (tr_amount res) @ post"
    using long_sell_run [OF v(1) a(1) _ own(1) n(1)] a(2) v(6) by auto
  note t = sales_tradable [OF f a(3,4) n(2,3) v(3-5) v(2)]
  obtain p n where "ls_sellCalculator v f \<lparr>so_askPrice = Fin a, so_ownedAmount = js_int (int own), so_ratio = ls_sellRatio v\<rparr>
       = \<lparr>tr_price = Fin p, tr_amount = js_int n\<rparr>" "0 < p" "1 \<le> n"
    "LongForm_resolver (long_of (fill ty wd SellForm_view (schedule_trace (Fin p) (Fin d) (js_int n)) e)) = Some (js_int n, Fin p, Fin d)"
    using tradable_accepted [OF t lib v(7-9), of SellForm_view e] by blast
  with run show ?thesis
    by (intro exI [of _ pre] exI [of _ p] exI [of _ n] exI [of _ post]) (simp add: long_logs(2) long_requests)
qed

theorem long_sell_visit_sent_witness:
  "\<exists>p n. 0 < p \<and> 1 \<le> n
     \<and> Request (post_json (getBrokerServiceUrl quiet_window @ ''/trade/long/sell'') (long_body ''7'' (instr_id sample_instrument) (js_int n) (Fin p) (Fin 12)))
         \<in> set (snd (SellForm_submit quiet_window map_client [Untyped] ''7'' sample_instrument
              \<lparr>vals = long_of (fill sample_typing sample_widgets SellForm_view (schedule_trace (Fin p) (Fin 12) (js_int n)) (\<lambda>_. None)),
               status = useStatusDisplay, cache = sample_cache\<rparr> []))"
proof -
  define v where "v = \<lparr>ls_visitName = long_sell_error, ls_sellCalculator = errorSellCalculator, ls_url = sample_url,
    ls_user = james_norton, ls_sellRatio = Fin 1, ls_transactionDuration = Fin 12\<rparr>"
  obtain l' where l: "run_LongSell (\<lambda>x y. x) 0 trade_browser v [] = (Inr (), l')"
    using trade_browser_runs [of "\<lambda>x y. x" 0 "V_LongSell v"] by auto
  have v: "ls_sellCalculator v \<in> {successSellCalculator, timeoutSellCalculator, errorSellCalculator}"
    "js_mul (js_int (int 40)) (ls_sellRatio v) = Fin 40" "ls_transactionDuration v = Fin 12"
    using to_js_of_int [of 40] by (simp_all add: v_def)
  have n: "(1 :: rat) / 10 \<le> 100" "(100 :: rat) \<le> 10 ^ 10" "1 \<le> (40 :: nat)" "(40 :: nat) \<le> 10 ^ 14"
    "(1 :: rat) \<le> 40" "(40 :: rat) \<le> of_int (int 40)" "(1 :: rat) \<le> 12" "(12 :: rat) \<le> 24" by simp_all
  from long_sell_visit_sent [OF sample_widgets_documented sample_typing_documented lower_random trade_browser_shows(1) small_doubles(1)
      n(1,2) trade_browser_shows(3) n(3,4) l v(1,2) n(5,6) v(3) small_doubles(3) n(7,8),
      where w = quiet_window and u = "''7''" and i = sample_instrument and e = "\<lambda>_. None" and qc = map_client
        and events = "[Untyped]" and st = useStatusDisplay and c = sample_cache and sent = "[]"]
  show ?thesis by blast
qed

end
