(* ===== verification/Spec2Isabelle.thy ===== *)
theory Spec2Isabelle
  imports Offer_Service Loadgen_Config Frontend_Charts Frontend_Pages Frontend_Components Frontend_Mocks
    Frontend_Suite Flag_Command Validation_Workflow Visit_Trades
begin

text \<open>
  A model of the TypeScript parts of EasyTrade, a demo trading platform: the offer service
  (\<open>easytrade/src/offerservice\<close>), the load generator (\<open>easytrade/src/loadgen\<close>), the web frontend
  (\<open>easytrade/src/frontend\<close>) and the validation workflows (\<open>easytrade/monaco/easytrade-validation\<close>).

  The parts and how they interact. The offer service answers \<open>GET /api/offers/:platform\<close> and
  \<open>POST /api/signup\<close> from the broker, manager and login services; the slowdown problem pattern delays it
  for two of the five platforms while a feature flag is on. The frontend calls the services through its
  back-end classes, reports business events to the Dynatrace agent, keeps a session and a query cache, and
  guards its pages. The load generator drives the frontend in a browser. The workflows collect the results
  of the guardians that watch the events of both into one result.

  Conventions. Asynchronous code is an action: a function from the log of observable events so far
  (requests, business events, clicks, timers) to a value or an exception and the longer log (\<open>Js_Prelude\<close>,
  trace languages in \<open>Js_Traces\<close>). The network, the browser, the Dynatrace agent, the XML, form, query and widget
  libraries and random numbers are parameters; what the code relies on is a named hypothesis. Numbers are
  doubles: \<open>Js_Number\<close> has rationals rounded to nearest, even on ties, with infinities and NaN.
  \<open>Js_Text\<close>, \<open>Js_Json\<close>, \<open>Js_JsonText\<close> and \<open>Js_Dynamic\<close> hold strings, JSON and its parser, number printing
  and the reading of values of unknown shape; \<open>Js_Printing\<close> proves that \<open>Number\<close> and \<open>parseFloat\<close> read back
  every double from its printed form.

  Offer service. \<open>Offer_Utils\<close>: \<open>utils.ts\<close>, the sample without repetition and the XML printer, which a parser
  reads back. \<open>Offer_Slowdown\<close>: \<open>openfeature.ts\<close>, \<open>middleware/slowdown.ts\<close>; the state is a record, a run is a list of
  requests; an invariant, a refinement of the documented pattern, and the stability of the selection.
  \<open>Offer_Service\<close>: \<open>config.ts\<close>, \<open>controllers/\<close>, \<open>middleware/index.ts\<close>, \<open>app.ts\<close>, \<open>logger.ts\<close>; which answer each request gets.

  Load generator. \<open>Loadgen_Page\<close>: \<open>selectors.ts\<close>, \<open>helpers/\<close>. \<open>Loadgen_Calc\<close>: the price and amount calculators of
  \<open>visits/\<close>, with bounds in double arithmetic. \<open>Loadgen_Visits\<close>: the five visits; a completed visit is a whole
  session, an interrupted one a prefix of it, and on a browser where nothing fails every visit completes.
  \<open>Loadgen_Config\<close>: \<open>config/\<close>, \<open>provider/\<close> and \<open>main.ts\<close>.

  Frontend. \<open>Frontend_Http\<close>: \<open>env/\<close>, \<open>api/backend/\<close>, \<open>api/bizEvents.ts\<close>. \<open>Frontend_Api\<close>: the other functions of \<open>api/\<close>.
  \<open>Frontend_Calls\<close>: the protocol of the four money operations as one interface, and that no handler rejects.
  \<open>Frontend_Session\<close>: \<open>contexts/AuthContext/\<close>, one set of handlers over two stores. \<open>Frontend_Routes\<close>: \<open>router.tsx\<close> and
  \<open>layouts/\<close>; two steps of fuel are enough for any navigation, except for the empty user id, for which no
  fuel is. \<open>Frontend_Queries\<close>: \<open>contexts/QueryContext/\<close> over any query client that keeps the laws of the
  library, with a map as an instance; no user sees cached data of another. \<open>Frontend_Status\<close>: \<open>useStatusDisplay\<close>,
  mutations, and the contract of a form over its handler as a locale, instantiated by the trade forms of
  \<open>Frontend_Trades\<close> and the account forms of \<open>Frontend_Forms\<close>. \<open>Frontend_Fields\<close>: the fields and buttons of the
  forms. \<open>Frontend_Charts\<close>: formatters, tables and charts. \<open>Frontend_Pages\<close>: feature flags, versions, order
  timeline, navigation, header. \<open>Frontend_Components\<close>: the tree of elements that each route renders, with the
  contexts its hooks need. \<open>Frontend_Mocks\<close>: \<open>mockFunc.ts\<close> and \<open>mockData.ts\<close>, which keep the interface of the handlers.
  \<open>Frontend_Views\<close>: what the charts, the flags, the version dialog, the cards, the error page and the header put on
  the page, as trees of elements. \<open>Flag_Command\<close>: a reader of shell words, by which the command a flag shows is
  the request its button sends. \<open>Frontend_Tables\<close>: the columns and grids of the two tables. \<open>Frontend_Tests\<close> and
  \<open>Frontend_Suite\<close>: the tests of the frontend, as predicates that the model is proved to satisfy.

  Workflows. \<open>Validation_Workflow\<close>: the three scripts of \<open>workflows/\<close>; the final result is the worst one.

  The load generator on the frontend. \<open>Visit_Pages\<close>: the elements the visits act on exist on the pages.
  \<open>Visit_Forms\<close>: what the forms hold after a visit has typed and chosen, and that the money forms then ask
  the services for the amount, user and card of the visit. \<open>Visit_Trades\<close>: from the prices, balances and amounts
  on the page over the calculators and the trade forms to the requests: every trade a visit makes is sent,
  those meant to time out or to fail too.

  Interfaces. The locales state what a client relies on: the handlers of a store (\<open>Frontend_Session\<close>), a money
  operation (\<open>Frontend_Calls\<close>), the body of a visit (\<open>Loadgen_Visits\<close>), a form and its handler
  (\<open>Frontend_Status\<close>). Each is interpreted on the definitions of the model that provide it.

  Bounds and fuel. The JSON parser has fuel \<open>3 n + 1\<close> for a text of length \<open>n\<close>, and is proved to read back
  the strings that are printed; number printing tries at most 17 digits, which are proved to identify every double;
  \<open>settle\<close> takes the number of redirects to follow. All other recursion is structural.

  Not modelled: the services in C\#, Java, Go and C++, the database and the deployment, which are not
  TypeScript and lie behind the network parameter; the mounting of the frontend (\<open>main.tsx\<close>);
  layout, styling, and what the chart and grid libraries draw.
  Concurrency is modelled where the code has it only as far as its results show it: calls of one
  \<open>Promise.all\<close> run in the order in which they are started. Characters are those of a \<open>char list\<close>, so case
  mapping and code points beyond Latin-1 are not covered.
\<close>

end
